(* ===== verification/Prelude.thy ===== *)
theory Prelude
  imports Main "HOL-Library.Word" "HOL-Library.Monad_Syntax" "HOL-Library.Multiset"
begin

text \<open>
  Shared vocabulary of the development.

  \<^item> Rust's machine integers: data fields are words of their width; \<open>usize\<close> is a natural
    number with the bound \<open>2 ^ 64\<close> of the supported 64-bit targets written out, so that
    every addition, subtraction and multiplication of the source is one of the checked, saturating
    or wrapping operations below.
  \<^item> A panic (failed assertion, arithmetic overflow under overflow checks, out of range index,
    \<open>unwrap\<close> of the wrong variant) is \<open>None\<close> of the option monad. Rust's
    \<open>Option\<close> is also the option type; a panicking function that returns an
    \<open>Option\<close> has type \<open>'a option option\<close>, the outer layer being the panic.
  \<^item> Rust's \<open>Result\<close> is the datatype \<open>result\<close>.
  \<^item> Slices are lists; sub-slicing returns \<open>None\<close> exactly where Rust's
    \<open>get(a..b)\<close> does.
  \<^item> Little-endian integer layouts, and the interface \<open>wire_codec\<close> which the
    components use for every fixed-width field read from or written to a byte buffer.
\<close>

section \<open>Types\<close>

type_synonym u8 = "8 word"
type_synonym u16 = "16 word"
type_synonym u32 = "32 word"
type_synonym u64 = "64 word"
type_synonym usize = nat
type_synonym bytes = "8 word list"

datatype ('a, 'e) result = Ok 'a | Err 'e

type_synonym ('a, 'e) panicking = "('a, 'e) result option"

section \<open>Collections\<close>

named_theorems usize_defs \<open>definitions of the checked operations on usize\<close>
named_theorems codec_simps \<open>lengths and round trips of the fixed-width layouts\<close>

section \<open>Results\<close>

fun is_ok :: "('a, 'e) result \<Rightarrow> bool" where
  "is_ok (Ok _) = True"
| "is_ok (Err _) = False"

fun map_ok :: "('a \<Rightarrow> 'b) \<Rightarrow> ('a, 'e) result \<Rightarrow> ('b, 'e) result" where
  "map_ok f (Ok a) = Ok (f a)"
| "map_ok f (Err e) = Err e"

fun map_err :: "('e \<Rightarrow> 'f) \<Rightarrow> ('a, 'e) result \<Rightarrow> ('a, 'f) result" where
  "map_err f (Ok a) = Ok a"
| "map_err f (Err e) = Err (f e)"

fun and_then :: "('a, 'e) result \<Rightarrow> ('a \<Rightarrow> ('b, 'e) result) \<Rightarrow> ('b, 'e) result" where
  "and_then (Ok a) f = f a"
| "and_then (Err e) f = Err e"

fun ok_or :: "'e \<Rightarrow> 'a option \<Rightarrow> ('a, 'e) result" where
  "ok_or e (Some a) = Ok a"
| "ok_or e None = Err e"

section \<open>usize arithmetic and assertions\<close>

definition usize_limit :: nat where
  "usize_limit = 18446744073709551616"

definition uadd :: "usize \<Rightarrow> usize \<Rightarrow> usize option" where
  [usize_defs]: "uadd a b = (if a + b < usize_limit then Some (a + b) else None)"

definition usub :: "usize \<Rightarrow> usize \<Rightarrow> usize option" where
  [usize_defs]: "usub a b = (if b \<le> a then Some (a - b) else None)"

definition umul :: "usize \<Rightarrow> usize \<Rightarrow> usize option" where
  [usize_defs]: "umul a b = (if a * b < usize_limit then Some (a * b) else None)"

definition saturating_add :: "usize \<Rightarrow> usize \<Rightarrow> usize" where
  "saturating_add a b = min (a + b) (usize_limit - 1)"

definition saturating_mul :: "usize \<Rightarrow> usize \<Rightarrow> usize" where
  "saturating_mul a b = min (a * b) (usize_limit - 1)"

definition require :: "bool \<Rightarrow> unit option" where
  "require P = (if P then Some () else None)"

section \<open>Slices\<close>

definition get_at :: "'a list \<Rightarrow> nat \<Rightarrow> 'a option" where
  "get_at xs i = (if i < length xs then Some (xs ! i) else None)"

definition get_range :: "'a list \<Rightarrow> nat \<Rightarrow> nat \<Rightarrow> 'a list option" where
  "get_range xs a b = (if a \<le> b \<and> b \<le> length xs then Some (take (b - a) (drop a xs)) else None)"

text \<open>\<open>Iterator::position\<close>: the index of the first element with the property.\<close>

fun position :: "('a \<Rightarrow> bool) \<Rightarrow> 'a list \<Rightarrow> nat option" where
  "position P [] = None"
| "position P (x # xs) = (if P x then Some 0 else map_option Suc (position P xs))"

text \<open>Overwrite the elements from \<open>off\<close> on by \<open>ys\<close>: the effect of
  \<open>copy_from_slice\<close>/\<open>ptr::copy\<close> into a buffer that has room for them.\<close>

definition overwrite :: "'a list \<Rightarrow> nat \<Rightarrow> 'a list \<Rightarrow> 'a list" where
  "overwrite xs off ys = take off xs @ ys @ drop (off + length ys) xs"

section \<open>Raw memory\<close>

text \<open>Memory reached through raw pointers is a function from addresses to bytes.\<close>

definition mem_write :: "(nat \<Rightarrow> u8) \<Rightarrow> nat \<Rightarrow> bytes \<Rightarrow> nat \<Rightarrow> u8" where
  "mem_write m a bs = (\<lambda>x. if a \<le> x \<and> x < a + length bs then bs ! (x - a) else m x)"

definition mem_read :: "(nat \<Rightarrow> u8) \<Rightarrow> nat \<Rightarrow> nat \<Rightarrow> bytes" where
  "mem_read m a n = map (\<lambda>i. m (a + i)) [0..<n]"

section \<open>Little-endian layouts\<close>

primrec le_bytes :: "nat \<Rightarrow> nat \<Rightarrow> bytes" where
  "le_bytes 0 v = []"
| "le_bytes (Suc n) v = word_of_nat v # le_bytes n (v div 256)"

primrec le_nat :: "bytes \<Rightarrow> nat" where
  "le_nat [] = 0"
| "le_nat (b # bs) = unat b + 256 * le_nat bs"

definition u16_to_le :: "u16 \<Rightarrow> bytes" where
  "u16_to_le v = le_bytes 2 (unat v)"

definition u16_from_le :: "bytes \<Rightarrow> u16" where
  "u16_from_le bs = word_of_nat (le_nat bs)"

definition u32_to_le :: "u32 \<Rightarrow> bytes" where
  "u32_to_le v = le_bytes 4 (unat v)"

definition u32_from_le :: "bytes \<Rightarrow> u32" where
  "u32_from_le bs = word_of_nat (le_nat bs)"

definition u64_to_le :: "u64 \<Rightarrow> bytes" where
  "u64_to_le v = le_bytes 8 (unat v)"

definition u64_from_le :: "bytes \<Rightarrow> u64" where
  "u64_from_le bs = word_of_nat (le_nat bs)"

definition read_field :: "nat \<Rightarrow> (bytes \<Rightarrow> 'a) \<Rightarrow> nat \<Rightarrow> bytes \<Rightarrow> 'a" where
  "read_field w dec off buf = dec (take w (drop off buf))"

section \<open>Lemmas: results, arithmetic, assertions\<close>

lemma require_bind [simp]: "(require P \<bind> f) = (if P then f () else None)"
  by (simp add: require_def)

lemma require_eq_Some [simp]: "require P = Some u \<longleftrightarrow> P"
  by (simp add: require_def)

lemma uadd_eq_Some [simp]: "uadd a b = Some c \<longleftrightarrow> c = a + b \<and> a + b < usize_limit"
  by (auto simp: uadd_def)

lemma usub_eq_Some [simp]: "usub a b = Some c \<longleftrightarrow> c = a - b \<and> b \<le> a"
  by (auto simp: usub_def)

lemma umul_eq_Some [simp]: "umul a b = Some c \<longleftrightarrow> c = a * b \<and> a * b < usize_limit"
  by (auto simp: umul_def)

lemma usub_eq_None [simp]: "usub a b = None \<longleftrightarrow> a < b"
  by (auto simp: usub_def)

lemma saturating_add_le:
  "m < usize_limit - 1 \<Longrightarrow> saturating_add a b \<le> m \<longleftrightarrow> a + b \<le> m"
  by (auto simp: saturating_add_def min_def)

lemma saturating_mul_le:
  "m < usize_limit - 1 \<Longrightarrow> saturating_mul a b \<le> m \<longleftrightarrow> a * b \<le> m"
  by (auto simp: saturating_mul_def min_def)

lemma result_cases_ok: "is_ok r \<longleftrightarrow> (\<exists>a. r = Ok a)"
  by (cases r) auto

section \<open>Lemmas: slices\<close>

lemma get_at_eq_Some [simp]: "get_at xs i = Some x \<longleftrightarrow> i < length xs \<and> x = xs ! i"
  by (auto simp: get_at_def)

lemma get_at_eq_None [simp]: "get_at xs i = None \<longleftrightarrow> length xs \<le> i"
  by (auto simp: get_at_def)

lemma get_range_eq_Some [simp]:
  "get_range xs a b = Some ys \<longleftrightarrow> a \<le> b \<and> b \<le> length xs \<and> ys = take (b - a) (drop a xs)"
  by (auto simp: get_range_def)

lemma get_range_eq_None [simp]:
  "get_range xs a b = None \<longleftrightarrow> \<not> (a \<le> b \<and> b \<le> length xs)"
  by (auto simp: get_range_def)

lemma position_Some_iff:
  "position P xs = Some i \<longleftrightarrow> i < length xs \<and> P (xs ! i) \<and> (\<forall>j < i. \<not> P (xs ! j))"
proof (induction xs arbitrary: i)
  case (Cons x xs)
  then show ?case by (cases i) (auto simp: All_less_Suc2)
qed simp

lemma position_less: "position P xs = Some i \<Longrightarrow> i < length xs"
  by (simp add: position_Some_iff)

lemma position_None_iff: "position P xs = None \<longleftrightarrow> (\<forall>x \<in> set xs. \<not> P x)"
  by (induction xs) auto

lemma position_append:
  "position P (xs @ ys) =
    (case position P xs of Some i \<Rightarrow> Some i | None \<Rightarrow> map_option ((+) (length xs)) (position P ys))"
  by (induction xs) (auto simp: option.map_comp o_def option.case_eq_if map_option_case split: option.splits)

lemma length_overwrite [simp]:
  "off + length ys \<le> length xs \<Longrightarrow> length (overwrite xs off ys) = length xs"
  by (simp add: overwrite_def)

lemma take_overwrite_same:
  "off + length ys \<le> length xs \<Longrightarrow> take (length ys) (drop off (overwrite xs off ys)) = ys"
  by (simp add: overwrite_def)

lemma overwrite_before:
  "off + length ys \<le> length xs \<Longrightarrow> n \<le> off \<Longrightarrow> take n (overwrite xs off ys) = take n xs"
  by (simp add: overwrite_def min_def)

lemma overwrite_after:
  "off + length ys \<le> length xs \<Longrightarrow> off + length ys \<le> n \<Longrightarrow> drop n (overwrite xs off ys) = drop n xs"
  by (simp add: overwrite_def)

lemma window_overwrite_other:
  assumes "off + length ys \<le> length xs" and "p + w \<le> off \<or> off + length ys \<le> p"
  shows "take w (drop p (overwrite xs off ys)) = take w (drop p xs)"
proof (cases "off + length ys \<le> p")
  case True
  then show ?thesis using assms by (simp add: overwrite_after)
next
  case False
  with assms have "take (p + w) (overwrite xs off ys) = take (p + w) xs"
    by (simp add: overwrite_before)
  then show ?thesis by (simp add: take_drop add.commute)
qed

lemma overwrite_same:
  assumes "off + w \<le> length xs"
  shows "overwrite xs off (take w (drop off xs)) = xs"
proof -
  have "take off xs @ take w (drop off xs) @ drop (off + w) xs = xs"
    by (metis append_take_drop_id drop_drop add.commute)
  then show ?thesis using assms by (simp add: overwrite_def min_def)
qed

section \<open>Lemmas: raw memory\<close>

lemma length_mem_read [simp]: "length (mem_read m a n) = n"
  by (simp add: mem_read_def)

lemma mem_read_write_same: "mem_read (mem_write m a bs) a (length bs) = bs"
  by (auto simp: mem_read_def mem_write_def intro: nth_equalityI)

lemma mem_read_cong: "(\<And>i. i < n \<Longrightarrow> m (a + i) = m' (a + i)) \<Longrightarrow> mem_read m a n = mem_read m' a n"
  by (simp add: mem_read_def)

text \<open>A byte string is stored at an address.\<close>

definition holds :: "(nat \<Rightarrow> u8) \<Rightarrow> nat \<Rightarrow> bytes \<Rightarrow> bool" where
  "holds m a bs \<longleftrightarrow> mem_read m a (length bs) = bs"

lemma mem_read_append: "mem_read m a (n + k) = mem_read m a n @ mem_read m (a + n) k"
proof -
  have "map (\<lambda>i. m (a + i)) [n..<n + k] = map (\<lambda>i. m (a + n + i)) [0..<k]"
    by (rule nth_equalityI) (simp_all add: add.assoc)
  then show ?thesis by (simp add: mem_read_def upt_add_eq_append [of 0 n k, simplified])
qed

lemma holds_append [simp]: "holds m a (bs @ cs) \<longleftrightarrow> holds m a bs \<and> holds m (a + length bs) cs"
  by (simp add: holds_def mem_read_append)

lemma holds_Nil [simp]: "holds m a []"
  by (simp add: holds_def mem_read_def)

lemma holds_write: "holds (mem_write m a bs) a bs"
  by (simp add: holds_def mem_read_write_same)

lemma holds_read: "holds m a bs \<Longrightarrow> length bs = n \<Longrightarrow> mem_read m a n = bs"
  by (auto simp: holds_def)

section \<open>Lemmas: little-endian layouts\<close>

lemma length_le_bytes [simp, codec_simps]: "length (le_bytes n v) = n"
  by (induction n arbitrary: v) simp_all

lemma unat_u8: "unat (b :: u8) < 256"
  using unsigned_less [of b] by simp

lemma u8_256: "(256 :: u8) = 0"
  by simp

lemma le_nat_bound: "le_nat bs < 256 ^ length bs"
proof (induction bs)
  case (Cons b bs)
  have "unat b < 256" by (rule unat_u8)
  with Cons.IH have "unat b + 256 * le_nat bs < 256 * Suc (le_nat bs)" by simp
  also have "\<dots> \<le> 256 * 256 ^ length bs" using Cons.IH by simp
  finally show ?case by simp
qed simp

lemma le_nat_le_bytes [codec_simps]: "le_nat (le_bytes n v) = v mod 256 ^ n"
proof (induction n arbitrary: v)
  case (Suc n)
  have "v mod 256 ^ Suc n = v mod 256 + 256 * (v div 256 mod 256 ^ n)"
    by (simp add: mod_mult2_eq)
  then show ?case by (simp add: Suc.IH unat_of_nat)
qed simp

lemma le_bytes_le_nat [codec_simps]: "le_bytes (length bs) (le_nat bs) = bs"
proof (induction bs)
  case (Cons b bs)
  have b: "unat b < 256" by (rule unat_u8)
  have "word_of_nat (unat b + 256 * le_nat bs) = b"
    by (simp add: u8_256)
  moreover have "(unat b + 256 * le_nat bs) div 256 = le_nat bs" using b by simp
  ultimately show ?case by (simp add: Cons.IH)
qed simp

section \<open>The interface of a fixed-width field\<close>

text \<open>A fixed-width field: what a reader of the field relies on when some other part of the program
  wrote it. \<open>exact_codec\<close> adds that the layout has no padding, so that rewriting a decoded
  field restores the original bytes.\<close>

locale wire_codec =
  fixes width :: nat and encode :: "'a \<Rightarrow> bytes" and decode :: "bytes \<Rightarrow> 'a"
  assumes encode_length: "length (encode x) = width"
    and decode_encode: "decode (encode x) = x"
begin

lemma read_overwritten:
  assumes "off + width \<le> length buf"
  shows "read_field width decode off (overwrite buf off (encode x)) = x"
  using assms take_overwrite_same [of off "encode x" buf]
  by (simp add: read_field_def encode_length decode_encode)

lemma read_overwritten_other:
  assumes "off + width \<le> length buf"
    and "p + w \<le> off \<or> off + width \<le> p"
  shows "read_field w dec p (overwrite buf off (encode x)) = read_field w dec p buf"
  using assms by (simp add: read_field_def window_overwrite_other encode_length)

lemma read_appended: "read_field width decode (length pre) (pre @ encode x @ post) = x"
  by (simp add: read_field_def encode_length decode_encode)

lemma encode_inject: "encode x = encode y \<longleftrightarrow> x = y"
  using decode_encode by metis

end

locale exact_codec = wire_codec +
  assumes encode_decode: "length bs = width \<Longrightarrow> encode (decode bs) = bs"
begin

lemma decode_inject:
  "length a = width \<Longrightarrow> length b = width \<Longrightarrow> decode a = decode b \<longleftrightarrow> a = b"
  using encode_decode by metis

lemma overwrite_read_back:
  assumes "off + width \<le> length buf"
  shows "overwrite buf off (encode (read_field width decode off buf)) = buf"
  using assms by (simp add: read_field_def encode_decode overwrite_same)

end

interpretation u16c: exact_codec 2 u16_to_le u16_from_le
proof unfold_locales
  fix v :: u16 and bs :: bytes
  have "unat v < 65536" using unsigned_less [of v] by simp
  then show "u16_from_le (u16_to_le v) = v"
    by (simp add: u16_from_le_def u16_to_le_def codec_simps)
  assume "length bs = 2"
  then show "u16_to_le (u16_from_le bs) = bs"
    using le_nat_bound [of bs] le_bytes_le_nat [of bs]
    by (simp add: u16_from_le_def u16_to_le_def unat_of_nat)
qed (simp add: u16_to_le_def codec_simps)

interpretation u32c: exact_codec 4 u32_to_le u32_from_le
proof unfold_locales
  fix v :: u32 and bs :: bytes
  have "unat v < 4294967296" using unsigned_less [of v] by simp
  then show "u32_from_le (u32_to_le v) = v"
    by (simp add: u32_from_le_def u32_to_le_def codec_simps)
  assume "length bs = 4"
  then show "u32_to_le (u32_from_le bs) = bs"
    using le_nat_bound [of bs] le_bytes_le_nat [of bs]
    by (simp add: u32_from_le_def u32_to_le_def unat_of_nat)
qed (simp add: u32_to_le_def codec_simps)

interpretation u64c: exact_codec 8 u64_to_le u64_from_le
proof unfold_locales
  fix v :: u64 and bs :: bytes
  have "unat v < 18446744073709551616" using unsigned_less [of v] by simp
  then show "u64_from_le (u64_to_le v) = v"
    by (simp add: u64_from_le_def u64_to_le_def codec_simps)
  assume "length bs = 8"
  then show "u64_to_le (u64_from_le bs) = bs"
    using le_nat_bound [of bs] le_bytes_le_nat [of bs]
    by (simp add: u64_from_le_def u64_to_le_def unat_of_nat)
qed (simp add: u64_to_le_def codec_simps)

text \<open>The bytes of the encodings one by one.\<close>

lemma u16_to_le_cases:
  obtains a b where "u16_to_le v = [a, b]" "u16_from_le [a, b] = v"
proof -
  have "length (u16_to_le v) = Suc (Suc 0)" by (simp add: u16c.encode_length)
  then obtain a b where "u16_to_le v = [a, b]" by (auto simp: length_Suc_conv)
  then show thesis using that u16c.decode_encode [of v] by simp
qed

lemma u32_to_le_cases:
  obtains a b c d where "u32_to_le v = [a, b, c, d]" "u32_from_le [a, b, c, d] = v"
proof -
  have "length (u32_to_le v) = Suc (Suc (Suc (Suc 0)))" by (simp add: u32c.encode_length)
  then obtain a b c d where "u32_to_le v = [a, b, c, d]" by (auto simp: length_Suc_conv)
  then show thesis using that u32c.decode_encode [of v] by simp
qed

end
