(* ===== verification/Iterators.thy ===== *)
theory Iterators
  imports Prelude
begin

text \<open>
  Rust's \<open>Iterator\<close> as an interface. Several components hand out iterators (memory map
  entries, path components, characters of a string, device path nodes and instances, event log
  entries, digests); each models \<open>next\<close> as a state-passing function that may panic, and
  interprets the locale below on it. \<open>collect_iter\<close> is what a \<open>for\<close> loop or
  \<open>collect\<close> does with an iterator: call \<open>next\<close> until it returns \<open>None\<close>.
  It is a partial function, so the locale's lemma that it returns the remaining items is a
  termination result for every loop over such an iterator.
\<close>

section \<open>Draining an iterator\<close>

partial_function (option) collect_iter :: "('s \<Rightarrow> ('a option \<times> 's) option) \<Rightarrow> 's \<Rightarrow> 'a list option" where
  [code]: "collect_iter nxt s = do {
     r \<leftarrow> nxt s;
     case fst r of
       None \<Rightarrow> Some []
     | Some x \<Rightarrow> do {
         xs \<leftarrow> collect_iter nxt (snd r);
         Some (x # xs)
       }
   }"

text \<open>A \<open>for\<close> loop whose body may \<open>return\<close> from the enclosing function.\<close>

datatype ('r, 'st) flow = Return 'r | Continue 'st

partial_function (option) for_iter ::
  "('s \<Rightarrow> ('a option \<times> 's) option) \<Rightarrow> ('a \<Rightarrow> 'st \<Rightarrow> ('r, 'st) flow option) \<Rightarrow> 's \<Rightarrow> 'st \<Rightarrow> ('r, 'st) flow option"
where
  [code]: "for_iter nxt body s st = do {
     r \<leftarrow> nxt s;
     case fst r of
       None \<Rightarrow> Some (Continue st)
     | Some x \<Rightarrow> do {
         f \<leftarrow> body x st;
         case f of
           Return v \<Rightarrow> Some (Return v)
         | Continue st' \<Rightarrow> for_iter nxt body (snd r) st'
       }
   }"

text \<open>The same loop over a list, the reference the loop over an iterator is related to.\<close>

fun for_list :: "('a \<Rightarrow> 'st \<Rightarrow> ('r, 'st) flow option) \<Rightarrow> 'a list \<Rightarrow> 'st \<Rightarrow> ('r, 'st) flow option" where
  "for_list body [] st = Some (Continue st)"
| "for_list body (x # xs) st = do {
     f \<leftarrow> body x st;
     case f of
       Return v \<Rightarrow> Some (Return v)
     | Continue st' \<Rightarrow> for_list body xs st'
   }"

section \<open>The contract of an iterator\<close>

locale rust_iterator =
  fixes nxt :: "'s \<Rightarrow> ('a option \<times> 's) option"
    and remaining :: "'s \<Rightarrow> 'a list"
    and valid :: "'s \<Rightarrow> bool"
  assumes next_none: "valid s \<Longrightarrow> remaining s = [] \<Longrightarrow>
      \<exists>s'. nxt s = Some (None, s') \<and> valid s' \<and> remaining s' = []"
    and next_some: "valid s \<Longrightarrow> remaining s = x # xs \<Longrightarrow>
      \<exists>s'. nxt s = Some (Some x, s') \<and> valid s' \<and> remaining s' = xs"
begin

lemma no_panic: "valid s \<Longrightarrow> nxt s \<noteq> None"
  using next_none next_some by (cases "remaining s") fastforce+

lemma next_valid: "valid s \<Longrightarrow> nxt s = Some (r, s') \<Longrightarrow> valid s'"
  using next_none [of s] next_some [of s] by (cases "remaining s") auto

lemma next_remaining: "valid s \<Longrightarrow> nxt s = Some (r, s') \<Longrightarrow> remaining s' = tl (remaining s)"
  using next_none [of s] next_some [of s] by (cases "remaining s") auto

lemma next_item:
  "valid s \<Longrightarrow> nxt s = Some (r, s') \<Longrightarrow> r = (if remaining s = [] then None else Some (hd (remaining s)))"
  using next_none [of s] next_some [of s] by (cases "remaining s") auto

lemma collect: "valid s \<Longrightarrow> collect_iter nxt s = Some (remaining s)"
proof (induction "remaining s" arbitrary: s)
  case Nil
  then obtain s' where "nxt s = Some (None, s')" using next_none by metis
  then show ?case using Nil by (simp add: collect_iter.simps [of nxt s])
next
  case (Cons x xs)
  then obtain s' where "nxt s = Some (Some x, s')" "valid s'" "remaining s' = xs"
    using next_some by metis
  then show ?case using Cons by (simp add: collect_iter.simps [of nxt s])
qed

lemma for_loop: "valid s \<Longrightarrow> for_iter nxt body s st = for_list body (remaining s) st"
proof (induction "remaining s" arbitrary: s st)
  case Nil
  then obtain s' where "nxt s = Some (None, s')" using next_none by metis
  then show ?case using Nil(1) [symmetric] by (simp add: for_iter.simps [of nxt body s])
next
  case (Cons x xs)
  then obtain s' where s': "nxt s = Some (Some x, s')" "valid s'" "remaining s' = xs"
    using next_some by metis
  have "for_iter nxt body s' = for_list body xs" using Cons.hyps(1) s' by (intro ext) blast
  then show ?case using Cons.hyps(2) [symmetric] s'(1) by (simp add: for_iter.simps [of nxt body s])
qed

end

text \<open>An iterator that also reports an exact size hint.\<close>

locale sized_iterator = rust_iterator +
  fixes hint :: "'s \<Rightarrow> (usize \<times> usize option) option"
  assumes hint_exact: "valid s \<Longrightarrow> hint s = Some (length (remaining s), Some (length (remaining s)))"
begin

lemma hint_after_next:
  assumes "valid s" and "nxt s = Some (Some x, s')"
  shows "\<exists>n. hint s = Some (Suc n, Some (Suc n)) \<and> hint s' = Some (n, Some n)"
proof -
  have "remaining s \<noteq> []" using next_item [OF assms] by auto
  then show ?thesis using hint_exact [OF assms(1)] hint_exact [OF next_valid [OF assms]]
      next_remaining [OF assms] by (cases "remaining s") auto
qed

end

end
