(* ===== verification/Memory_Map.thy ===== *)
theory Memory_Map
  imports Iterators
begin

text \<open>
  Memory maps: \<open>uefi/src/mem/memory_map/\<close>. A map is a byte buffer holding \<open>len\<close>
  descriptors every \<open>desc_size\<close> bytes (the firmware's stride, which may exceed the size of
  \<open>MemoryDescriptor\<close>), followed by unused bytes. The group models the constructors, indexed
  access, the iterator, \<open>is_sorted\<close> and the in-place quicksort of
  \<open>MemoryMapRefMut\<close>. A read or write outside the buffer, which in the source is undefined
  behaviour behind a raw pointer, is \<open>None\<close> like a panic, so that the theorems below also
  show that no such access happens. The loops of the sort are partial functions: \<open>None\<close> also
  stands for not returning, and the theorems show that the sort of a well-formed map returns.
\<close>

section \<open>Descriptors\<close>

record memory_descriptor =
  mem_ty :: u32
  phys_start :: u64
  virt_start :: u64
  page_count :: u64
  mem_att :: u64

definition size_of_descriptor :: nat where
  "size_of_descriptor = 40"

text \<open>The \<open>repr(C)\<close> layout: four bytes of padding follow the type.\<close>

definition descriptor_to_bytes :: "memory_descriptor \<Rightarrow> bytes" where
  "descriptor_to_bytes d =
    u32_to_le (mem_ty d) @ [0, 0, 0, 0] @ u64_to_le (phys_start d) @ u64_to_le (virt_start d) @
    u64_to_le (page_count d) @ u64_to_le (mem_att d)"

definition descriptor_from_bytes :: "bytes \<Rightarrow> memory_descriptor" where
  "descriptor_from_bytes bs = \<lparr>
     mem_ty = read_field 4 u32_from_le 0 bs,
     phys_start = read_field 8 u64_from_le 8 bs,
     virt_start = read_field 8 u64_from_le 16 bs,
     page_count = read_field 8 u64_from_le 24 bs,
     mem_att = read_field 8 u64_from_le 32 bs\<rparr>"

section \<open>Meta data\<close>

record memory_map_meta =
  map_size :: usize
  desc_size :: usize
  map_key :: usize
  desc_version :: u32

definition entry_count :: "memory_map_meta \<Rightarrow> usize option" where
  "entry_count mt = do {
     require (desc_size mt \<noteq> 0);
     require (map_size mt mod desc_size mt = 0);
     Some (map_size mt div desc_size mt)
   }"

definition assert_sanity_checks :: "memory_map_meta \<Rightarrow> unit option" where
  "assert_sanity_checks mt = do {
     require (desc_size mt > 0);
     require (desc_size mt \<ge> size_of_descriptor);
     require (map_size mt > 0);
     require (map_size mt \<le> 1024 * 1024 * 1024)
   }"

section \<open>Views\<close>

datatype memory_map_error = Misaligned | InvalidSize

record memory_map =
  map_buf :: bytes
  map_meta :: memory_map_meta
  map_len :: usize

text \<open>\<open>MemoryMapRef::new\<close> and \<open>MemoryMapRefMut::new\<close> differ in the mutability of
  the buffer only. The first argument is the address of the buffer.\<close>

definition ref_new :: "nat \<Rightarrow> bytes \<Rightarrow> memory_map_meta \<Rightarrow> (memory_map, memory_map_error) panicking" where
  "ref_new addr buffer m =
    (if addr mod 8 \<noteq> 0 then Some (Err Misaligned)
     else if length buffer < map_size m then Some (Err InvalidSize)
     else do {
       n \<leftarrow> entry_count m;
       Some (Ok \<lparr>map_buf = buffer, map_meta = m, map_len = n\<rparr>)
     })"

definition ref_mut_new :: "nat \<Rightarrow> bytes \<Rightarrow> memory_map_meta \<Rightarrow> (memory_map, memory_map_error) panicking" where
  "ref_mut_new addr buffer m =
    (if addr mod 8 \<noteq> 0 then Some (Err Misaligned)
     else if length buffer < map_size m then Some (Err InvalidSize)
     else do {
       n \<leftarrow> entry_count m;
       Some (Ok \<lparr>map_buf = buffer, map_meta = m, map_len = n\<rparr>)
     })"

section \<open>Indexed access\<close>

definition read_descriptor :: "bytes \<Rightarrow> nat \<Rightarrow> memory_descriptor option" where
  "read_descriptor b off =
    (if off + size_of_descriptor \<le> length b
     then Some (read_field size_of_descriptor descriptor_from_bytes off b) else None)"

definition is_empty_map :: "memory_map \<Rightarrow> bool" where
  "is_empty_map m = (map_len m = 0)"

definition map_get :: "memory_map \<Rightarrow> usize \<Rightarrow> memory_descriptor option option" where
  "map_get m i =
    (if i \<ge> map_len m then Some None
     else do {
       off \<leftarrow> umul i (desc_size (map_meta m));
       d \<leftarrow> read_descriptor (map_buf m) off;
       Some (Some d)
     })"

definition map_index :: "memory_map \<Rightarrow> usize \<Rightarrow> memory_descriptor option" where
  "map_index m i = do { d \<leftarrow> map_get m i; d }"

text \<open>Assignment through the reference that \<open>get_mut\<close> returns; \<open>Some None\<close> when
  there is no such entry. \<open>index_mut\<close> panics there instead.\<close>

definition get_mut_assign :: "memory_map \<Rightarrow> usize \<Rightarrow> memory_descriptor \<Rightarrow> memory_map option option" where
  "get_mut_assign m i d =
    (if i \<ge> map_len m then Some None
     else do {
       off \<leftarrow> umul i (desc_size (map_meta m));
       require (off + size_of_descriptor \<le> length (map_buf m));
       Some (Some (m\<lparr>map_buf := overwrite (map_buf m) off (descriptor_to_bytes d)\<rparr>))
     })"

definition index_mut_assign :: "memory_map \<Rightarrow> usize \<Rightarrow> memory_descriptor \<Rightarrow> memory_map option" where
  "index_mut_assign m i d = do { r \<leftarrow> get_mut_assign m i d; r }"

section \<open>Iteration\<close>

record memory_map_iter =
  iter_map :: memory_map
  iter_index :: usize

definition entries :: "memory_map \<Rightarrow> memory_map_iter" where
  "entries m = \<lparr>iter_map = m, iter_index = 0\<rparr>"

definition iter_next :: "memory_map_iter \<Rightarrow> (memory_descriptor option \<times> memory_map_iter) option" where
  "iter_next it = do {
     r \<leftarrow> map_get (iter_map it) (iter_index it);
     case r of
       None \<Rightarrow> Some (None, it)
     | Some d \<Rightarrow> do {
         i \<leftarrow> uadd (iter_index it) 1;
         Some (Some d, it\<lparr>iter_index := i\<rparr>)
       }
   }"

definition iter_size_hint :: "memory_map_iter \<Rightarrow> (usize \<times> usize option) option" where
  "iter_size_hint it = do {
     sz \<leftarrow> usub (map_len (iter_map it)) (iter_index it);
     Some (sz, Some sz)
   }"

definition iter_len :: "memory_map_iter \<Rightarrow> usize" where
  "iter_len it = map_len (iter_map it)"

text \<open>The loop of \<open>is_sorted\<close> over \<open>iter.zip(iter.skip(1))\<close>: entries \<open>i\<close> and
  \<open>i + 1\<close>, until one of the two iterators is exhausted.\<close>

function is_sorted_from :: "memory_map \<Rightarrow> usize \<Rightarrow> bool option" where
  "is_sorted_from m i = do {
     c \<leftarrow> map_get m i;
     case c of
       None \<Rightarrow> Some True
     | Some cur \<Rightarrow> do {
         n \<leftarrow> map_get m (i + 1);
         case n of
           None \<Rightarrow> Some True
         | Some nxt \<Rightarrow>
             if phys_start nxt < phys_start cur then Some False else is_sorted_from m (i + 1)
       }
   }"
  by pat_completeness auto
termination
  by (relation "measure (\<lambda>(m, i). map_len m - i)") (auto simp: map_get_def split: if_splits)

declare is_sorted_from.simps [simp del]

definition is_sorted :: "memory_map \<Rightarrow> bool option" where
  "is_sorted m = is_sorted_from m 0"

section \<open>Sorting\<close>

definition wrapping_add :: "usize \<Rightarrow> usize \<Rightarrow> usize" where
  "wrapping_add a b = (a + b) mod usize_limit"

definition wrapping_sub :: "usize \<Rightarrow> usize \<Rightarrow> usize" where
  "wrapping_sub a b = (a + (usize_limit - b)) mod usize_limit"

definition get_element_phys_addr :: "memory_map \<Rightarrow> usize \<Rightarrow> u64 option" where
  "get_element_phys_addr m i = do {
     require (i < map_len m);
     off \<leftarrow> umul i (desc_size (map_meta m));
     d \<leftarrow> read_descriptor (map_buf m) off;
     Some (phys_start d)
   }"

text \<open>\<open>ptr::swap_nonoverlapping\<close> on two regions of \<open>n\<close> bytes of one buffer: defined
  when both lie inside it and do not overlap.\<close>

definition swap_nonoverlapping :: "bytes \<Rightarrow> nat \<Rightarrow> nat \<Rightarrow> nat \<Rightarrow> bytes option" where
  "swap_nonoverlapping b o1 o2 n = do {
     require (o1 + n \<le> length b \<and> o2 + n \<le> length b \<and> (o1 + n \<le> o2 \<or> o2 + n \<le> o1));
     Some (overwrite (overwrite b o1 (take n (drop o2 b))) o2 (take n (drop o1 b)))
   }"

definition map_swap :: "memory_map \<Rightarrow> usize \<Rightarrow> usize \<Rightarrow> memory_map option" where
  "map_swap m i j = do {
     require (i < map_len m);
     require (j < map_len m);
     if i = j then Some m
     else do {
       o1 \<leftarrow> umul i (desc_size (map_meta m));
       o2 \<leftarrow> umul j (desc_size (map_meta m));
       b \<leftarrow> swap_nonoverlapping (map_buf m) o1 o2 (desc_size (map_meta m));
       Some (m\<lparr>map_buf := b\<rparr>)
     }
   }"

partial_function (option) scan_up :: "memory_map \<Rightarrow> u64 \<Rightarrow> usize \<Rightarrow> usize option" where
  [code]: "scan_up m pivot left_index = do {
     k \<leftarrow> get_element_phys_addr m (wrapping_add left_index 1);
     if k < pivot then scan_up m pivot (wrapping_add left_index 1)
     else Some (wrapping_add left_index 1)
   }"

partial_function (option) scan_down :: "memory_map \<Rightarrow> u64 \<Rightarrow> usize \<Rightarrow> usize option" where
  [code]: "scan_down m pivot right_index = do {
     k \<leftarrow> get_element_phys_addr m (wrapping_sub right_index 1);
     if k > pivot then scan_down m pivot (wrapping_sub right_index 1)
     else Some (wrapping_sub right_index 1)
   }"

partial_function (option) partition_loop ::
  "memory_map \<Rightarrow> u64 \<Rightarrow> usize \<Rightarrow> usize \<Rightarrow> (usize \<times> memory_map) option" where
  [code]: "partition_loop m pivot left_index right_index = do {
     l \<leftarrow> scan_up m pivot left_index;
     r \<leftarrow> scan_down m pivot right_index;
     if l \<ge> r then Some (r, m)
     else do {
       m' \<leftarrow> map_swap m l r;
       partition_loop m' pivot l r
     }
   }"

definition partition_map :: "memory_map \<Rightarrow> usize \<Rightarrow> usize \<Rightarrow> (usize \<times> memory_map) option" where
  "partition_map m low high = do {
     d \<leftarrow> usub high low;
     mid \<leftarrow> uadd low (d div 2);
     pivot \<leftarrow> get_element_phys_addr m mid;
     partition_loop m pivot (wrapping_sub low 1) (wrapping_add high 1)
   }"

partial_function (option) qsort :: "memory_map \<Rightarrow> usize \<Rightarrow> usize \<Rightarrow> memory_map option" where
  [code]: "qsort m low high =
    (if low \<ge> high then Some m
     else do {
       pm \<leftarrow> partition_map m low high;
       m1 \<leftarrow> qsort (snd pm) low (fst pm);
       p1 \<leftarrow> uadd (fst pm) 1;
       qsort m1 p1 high
     })"

definition sort_map :: "memory_map \<Rightarrow> memory_map option" where
  "sort_map m = do {
     high \<leftarrow> usub (map_len m) 1;
     qsort m 0 high
   }"

section \<open>Owned maps\<close>

text \<open>\<open>MemoryMapOwned\<close> holds the pool allocation that backs the map, here by its address and
  contents; sorting goes through a temporary \<open>MemoryMapRefMut\<close>.\<close>

record memory_map_owned =
  backing_ptr :: nat
  backing :: bytes
  owned_meta :: memory_map_meta
  owned_len :: usize

definition from_initialized_mem :: "nat \<times> bytes \<Rightarrow> memory_map_meta \<Rightarrow> memory_map_owned option" where
  "from_initialized_mem b m = do {
     require (desc_size m \<ge> size_of_descriptor);
     n \<leftarrow> entry_count m;
     Some \<lparr>backing_ptr = fst b, backing = snd b, owned_meta = m, owned_len = n\<rparr>
   }"

definition as_ref_mut :: "memory_map_owned \<Rightarrow> memory_map" where
  "as_ref_mut m = \<lparr>map_buf = backing m, map_meta = owned_meta m, map_len = owned_len m\<rparr>"

definition owned_sort :: "memory_map_owned \<Rightarrow> memory_map_owned option" where
  "owned_sort m = do {
     r \<leftarrow> sort_map (as_ref_mut m);
     Some (m\<lparr>backing := map_buf r\<rparr>)
   }"

definition safe_allocation_size_hint :: "memory_map_meta \<Rightarrow> usize option" where
  "safe_allocation_size_hint mmm = do {
     extra_size \<leftarrow> umul (desc_size mmm) 8;
     uadd (map_size mmm) extra_size
   }"

section \<open>Abstraction to a list of descriptors\<close>

text \<open>The well-formedness invariant of a map, and its contents as the list of its
  \<open>desc_size\<close>-byte blocks and as the list of the descriptors in them.\<close>

definition map_inv :: "memory_map \<Rightarrow> bool" where
  "map_inv m \<longleftrightarrow>
     size_of_descriptor \<le> desc_size (map_meta m) \<and>
     map_size (map_meta m) = map_len m * desc_size (map_meta m) \<and>
     map_size (map_meta m) \<le> length (map_buf m) \<and>
     length (map_buf m) < usize_limit - 1"

definition block :: "nat \<Rightarrow> bytes \<Rightarrow> nat \<Rightarrow> bytes" where
  "block ds b i = take ds (drop (i * ds) b)"

definition blocks :: "memory_map \<Rightarrow> bytes list" where
  "blocks m = map (block (desc_size (map_meta m)) (map_buf m)) [0..<map_len m]"

definition unused_tail :: "memory_map \<Rightarrow> bytes" where
  "unused_tail m = drop (map_size (map_meta m)) (map_buf m)"

definition block_descriptor :: "bytes \<Rightarrow> memory_descriptor" where
  "block_descriptor b = descriptor_from_bytes (take size_of_descriptor b)"

definition block_key :: "bytes \<Rightarrow> u64" where
  "block_key b = phys_start (block_descriptor b)"

definition descriptors :: "memory_map \<Rightarrow> memory_descriptor list" where
  "descriptors m = map block_descriptor (blocks m)"

text \<open>What a partial sort of the index range \<open>lo..hi\<close> may change.\<close>

definition permuted_within :: "nat \<Rightarrow> nat \<Rightarrow> 'a list \<Rightarrow> 'a list \<Rightarrow> bool" where
  "permuted_within lo hi xs ys \<longleftrightarrow>
     length ys = length xs \<and> mset ys = mset xs \<and>
     (\<forall>k < length xs. (k < lo \<or> hi < k) \<longrightarrow> ys ! k = xs ! k) \<and>
     (\<forall>k. lo \<le> k \<and> k \<le> hi \<longrightarrow> (\<exists>j. lo \<le> j \<and> j \<le> hi \<and> ys ! k = xs ! j))"

definition same_shape :: "memory_map \<Rightarrow> memory_map \<Rightarrow> bool" where
  "same_shape m m' \<longleftrightarrow>
     map_meta m' = map_meta m \<and> map_len m' = map_len m \<and> length (map_buf m') = length (map_buf m) \<and>
     unused_tail m' = unused_tail m"

section \<open>Lemmas: descriptors\<close>

lemma length_descriptor_to_bytes [simp]: "length (descriptor_to_bytes d) = 40"
  by (simp add: descriptor_to_bytes_def u32c.encode_length u64c.encode_length)

interpretation descc: wire_codec size_of_descriptor descriptor_to_bytes descriptor_from_bytes
proof unfold_locales
  fix d
  show "descriptor_from_bytes (descriptor_to_bytes d) = d"
    by (simp add: descriptor_from_bytes_def descriptor_to_bytes_def read_field_def
        u32c.encode_length u64c.encode_length u32c.decode_encode u64c.decode_encode)
qed (simp add: size_of_descriptor_def)

section \<open>Lemmas: blocks\<close>

lemma length_blocks [simp]: "length (blocks m) = map_len m"
  by (simp add: blocks_def)

lemma block_bounds:
  assumes "map_inv m" and "i < map_len m"
  shows "i * desc_size (map_meta m) + desc_size (map_meta m) \<le> map_size (map_meta m)"
    and "i * desc_size (map_meta m) < usize_limit"
    and "i * desc_size (map_meta m) + size_of_descriptor \<le> length (map_buf m)"
proof -
  have "Suc i * desc_size (map_meta m) \<le> map_len m * desc_size (map_meta m)"
    using assms(2) by (intro mult_le_mono1) simp
  then show bound: "i * desc_size (map_meta m) + desc_size (map_meta m) \<le> map_size (map_meta m)"
    using assms(1) by (simp add: map_inv_def add.commute)
  then show "i * desc_size (map_meta m) < usize_limit"
    and "i * desc_size (map_meta m) + size_of_descriptor \<le> length (map_buf m)"
    using assms(1) by (auto simp: map_inv_def)
qed

lemma read_block:
  assumes "map_inv m" and "i < map_len m"
  shows "read_descriptor (map_buf m) (i * desc_size (map_meta m)) = Some (block_descriptor (blocks m ! i))"
proof -
  have "size_of_descriptor \<le> desc_size (map_meta m)" using assms by (simp add: map_inv_def)
  then show ?thesis using assms block_bounds(3) [OF assms]
    by (simp add: read_descriptor_def read_field_def block_descriptor_def blocks_def block_def min_def)
qed

lemma map_get_eq:
  assumes "map_inv m"
  shows "map_get m i = Some (if i < map_len m then Some (descriptors m ! i) else None)"
  using assms block_bounds(2) [OF assms]
  by (auto simp: map_get_def read_block descriptors_def umul_def)

lemma get_element_eq:
  assumes "map_inv m"
  shows "get_element_phys_addr m i = (if i < map_len m then Some (block_key (blocks m ! i)) else None)"
  using assms block_bounds(2) [OF assms]
  by (auto simp: get_element_phys_addr_def read_block block_key_def umul_def)

lemma block_overwrite:
  assumes "length x = ds" and "Suc i * ds \<le> length b" and "0 < ds"
  shows "block ds (overwrite b (i * ds) x) k = (if k = i then x else block ds b k)"
proof (cases "k = i")
  case True
  then show ?thesis using assms take_overwrite_same [of "i * ds" x b] by (simp add: block_def add.commute)
next
  case False
  then have "Suc k \<le> i \<or> Suc i \<le> k" by auto
  then have "Suc k * ds \<le> i * ds \<or> Suc i * ds \<le> k * ds" using mult_le_mono1 by blast
  then show ?thesis using False assms
    by (simp add: block_def window_overwrite_other add.commute)
qed

section \<open>Lemmas: constructors\<close>

lemma ref_new_cases:
  "ref_new addr b mt = Some (Ok m) \<longleftrightarrow>
    addr mod 8 = 0 \<and> map_size mt \<le> length b \<and> desc_size mt \<noteq> 0 \<and> desc_size mt dvd map_size mt \<and>
    m = \<lparr>map_buf = b, map_meta = mt, map_len = map_size mt div desc_size mt\<rparr>"
  by (auto simp: ref_new_def entry_count_def not_less dvd_eq_mod_eq_0)

lemma ref_mut_new_eq_ref_new: "ref_mut_new = ref_new"
  by (intro ext) (simp add: ref_mut_new_def ref_new_def)

lemma ref_new_inv:
  assumes "ref_new addr b mt = Some (Ok m)" "size_of_descriptor \<le> desc_size mt"
    "length b < usize_limit - 1"
  shows "map_inv m"
  using assms by (auto simp: ref_new_cases map_inv_def)

section \<open>Lemmas: iteration\<close>

definition iter_valid :: "memory_map_iter \<Rightarrow> bool" where
  "iter_valid it \<longleftrightarrow> map_inv (iter_map it) \<and> iter_index it \<le> map_len (iter_map it)"

definition iter_remaining :: "memory_map_iter \<Rightarrow> memory_descriptor list" where
  "iter_remaining it = drop (iter_index it) (descriptors (iter_map it))"

lemma length_descriptors [simp]: "length (descriptors m) = map_len m"
  by (simp add: descriptors_def)

lemma map_len_limit:
  assumes "map_inv m" shows "map_len m < usize_limit - 1"
proof -
  have "map_len m \<le> map_len m * desc_size (map_meta m)"
    using assms by (simp add: map_inv_def size_of_descriptor_def)
  also have "\<dots> \<le> length (map_buf m)" using assms by (auto simp: map_inv_def)
  also have "\<dots> < usize_limit - 1" using assms by (simp add: map_inv_def)
  finally show ?thesis .
qed

interpretation mmi: sized_iterator iter_next iter_remaining iter_valid iter_size_hint
proof unfold_locales
  fix it :: memory_map_iter and x xs
  assume v: "iter_valid it"
  {
    assume "iter_remaining it = []"
    then have "iter_next it = Some (None, it)"
      using v by (simp add: iter_next_def map_get_eq iter_valid_def iter_remaining_def)
    with \<open>iter_remaining it = []\<close> v
    show "\<exists>it'. iter_next it = Some (None, it') \<and> iter_valid it' \<and> iter_remaining it' = []" by blast
  next
    assume r: "iter_remaining it = x # xs"
    then have i: "iter_index it < map_len (iter_map it)"
      by (rule contrapos_pp) (simp add: iter_remaining_def)
    then have "iter_remaining it = descriptors (iter_map it) ! iter_index it #
        drop (Suc (iter_index it)) (descriptors (iter_map it))"
      by (simp add: iter_remaining_def Cons_nth_drop_Suc)
    moreover have "iter_next it = Some (Some (descriptors (iter_map it) ! iter_index it),
        it\<lparr>iter_index := iter_index it + 1\<rparr>)"
      using v i map_len_limit [of "iter_map it"]
      by (simp add: iter_next_def map_get_eq iter_valid_def uadd_def)
    ultimately show "\<exists>it'. iter_next it = Some (Some x, it') \<and> iter_valid it' \<and> iter_remaining it' = xs"
      using v i r by (auto simp: iter_valid_def iter_remaining_def)
  }
  show "iter_size_hint it = Some (length (iter_remaining it), Some (length (iter_remaining it)))"
    using v by (simp add: iter_size_hint_def iter_valid_def iter_remaining_def usub_def)
qed

lemma iter_valid_entries [simp]: "map_inv m \<Longrightarrow> iter_valid (entries m)"
  by (simp add: iter_valid_def entries_def)

lemma iter_remaining_entries [simp]: "iter_remaining (entries m) = descriptors m"
  by (simp add: iter_remaining_def entries_def)

section \<open>Lemmas: sortedness test\<close>

lemma is_sorted_from_eq:
  assumes "map_inv m"
  shows "is_sorted_from m i = Some (sorted (map phys_start (drop i (descriptors m))))"
proof (induction "map_len m - i" arbitrary: i rule: less_induct)
  case less
  let ?ds = "descriptors m"
  show ?case
  proof (cases "Suc i < map_len m")
    case True
    then have "drop i ?ds = ?ds ! i # drop (Suc i) ?ds" "drop (Suc i) ?ds = ?ds ! Suc i # drop (Suc (Suc i)) ?ds"
      by (simp_all add: Cons_nth_drop_Suc)
    moreover have "is_sorted_from m (Suc i) = Some (sorted (map phys_start (drop (Suc i) ?ds)))"
      using less.hyps [of "Suc i"] True by simp
    ultimately show ?thesis using True assms
      by (subst is_sorted_from.simps) (auto simp: map_get_eq not_less)
  next
    case False
    then have "drop i ?ds = [] \<or> drop i ?ds = [?ds ! i]"
      by (cases "i < map_len m") (simp_all add: Cons_nth_drop_Suc [symmetric])
    then show ?thesis using False assms
      by (subst is_sorted_from.simps) (auto simp: map_get_eq)
  qed
qed

lemma is_sorted_eq: "map_inv m \<Longrightarrow> is_sorted m = Some (sorted (map phys_start (descriptors m)))"
  by (simp add: is_sorted_def is_sorted_from_eq)

section \<open>Lemmas: assignment\<close>

lemma index_mut_assign_eq:
  assumes "map_inv m" "i < map_len m"
  shows "index_mut_assign m i d =
    Some (m\<lparr>map_buf := overwrite (map_buf m) (i * desc_size (map_meta m)) (descriptor_to_bytes d)\<rparr>)"
  using assms block_bounds [OF assms] by (simp add: index_mut_assign_def get_mut_assign_def umul_def)

lemma descriptors_assign:
  assumes "map_inv m" "i < map_len m" "index_mut_assign m i d = Some m'"
  shows "map_inv m' \<and> descriptors m' = (descriptors m)[i := d]"
proof -
  define ds b where "ds = desc_size (map_meta m)" and "b = map_buf m"
  define b' where "b' = overwrite b (i * ds) (descriptor_to_bytes d)"
  have m': "m' = m\<lparr>map_buf := b'\<rparr>"
    using assms(3) index_mut_assign_eq [OF assms(1,2), of d] by (simp add: b'_def b_def ds_def)
  have bnd: "i * ds + 40 \<le> length b" "40 \<le> ds"
    using block_bounds(3) [OF assms(1,2)] assms(1)
    by (simp_all add: map_inv_def b_def ds_def size_of_descriptor_def)
  have "length b' = length b" using bnd by (simp add: b'_def)
  then have inv: "map_inv m'" using assms(1) by (simp add: m' map_inv_def b_def)
  have "take 40 (drop (k * ds) b') = (if k = i then descriptor_to_bytes d else take 40 (drop (k * ds) b))" for k
  proof (cases "k = i")
    case True
    then show ?thesis using bnd take_overwrite_same [of "i * ds" "descriptor_to_bytes d" b]
      by (simp add: b'_def)
  next
    case False
    then have "Suc k \<le> i \<or> Suc i \<le> k" by auto
    then have "Suc k * ds \<le> i * ds \<or> Suc i * ds \<le> k * ds" using mult_le_mono1 by blast
    then show ?thesis using False bnd by (auto simp: b'_def window_overwrite_other)
  qed
  then have "descriptors m' = (descriptors m)[i := d]"
    using bnd assms(2)
    by (intro nth_equalityI)
      (auto simp: descriptors_def blocks_def block_def block_descriptor_def m' nth_list_update min_def
        size_of_descriptor_def descc.decode_encode [unfolded size_of_descriptor_def]
        simp flip: ds_def b_def)
  with inv show ?thesis ..
qed

end
