(* ===== verification/Memory_Map_Sort.thy ===== *)
theory Memory_Map_Sort
  imports Memory_Map
begin

text \<open>
  Correctness of the memory map's quicksort: the swap of two descriptors exchanges two blocks and
  touches nothing else, the two scanning loops stop inside the range, the Hoare partition returns a
  split point strictly below the upper bound, and the recursion sorts the blocks by physical start
  address. All of it is stated on the list of blocks (\<open>blocks\<close>), to which the byte-level
  definitions of \<open>Memory_Map\<close> are related by \<open>get_element_eq\<close> and
  \<open>map_swap_blocks\<close>.
\<close>

abbreviation mkey :: "memory_map \<Rightarrow> nat \<Rightarrow> u64" where
  "mkey m k \<equiv> block_key (blocks m ! k)"

section \<open>Permutations of an index range\<close>

lemma permuted_within_refl [simp, intro]: "permuted_within lo hi xs xs"
  by (auto simp: permuted_within_def)

lemma permuted_within_trans:
  assumes "permuted_within lo hi xs ys" and "permuted_within lo hi ys zs"
  shows "permuted_within lo hi xs zs"
proof -
  have "\<exists>j. lo \<le> j \<and> j \<le> hi \<and> zs ! k = xs ! j" if k: "lo \<le> k" "k \<le> hi" for k
  proof -
    obtain j where "lo \<le> j" "j \<le> hi" "zs ! k = ys ! j"
      using assms(2) k unfolding permuted_within_def by meson
    then show ?thesis using assms(1) by (auto simp: permuted_within_def)
  qed
  then show ?thesis using assms by (auto simp: permuted_within_def)
qed

lemma permuted_within_mono:
  assumes "permuted_within lo hi xs ys" and "lo' \<le> lo" and "hi \<le> hi'" and "hi' < length xs"
  shows "permuted_within lo' hi' xs ys"
proof -
  have "\<exists>j. lo' \<le> j \<and> j \<le> hi' \<and> ys ! k = xs ! j" if k: "lo' \<le> k" "k \<le> hi'" for k
  proof (cases "lo \<le> k \<and> k \<le> hi")
    case True
    then obtain j where "lo \<le> j" "j \<le> hi" "ys ! k = xs ! j"
      using assms(1) by (auto simp: permuted_within_def)
    then show ?thesis using assms(2,3) by (intro exI [of _ j]) simp
  next
    case False
    then have "ys ! k = xs ! k" using assms k by (auto simp: permuted_within_def)
    then show ?thesis using k by blast
  qed
  then show ?thesis using assms by (auto simp: permuted_within_def)
qed

lemma permuted_within_swap:
  assumes "lo \<le> i" "i \<le> hi" "lo \<le> j" "j \<le> hi" "hi < length xs"
  shows "permuted_within lo hi xs (xs[i := xs ! j, j := xs ! i])"
proof -
  have "\<exists>l. lo \<le> l \<and> l \<le> hi \<and> xs[i := xs ! j, j := xs ! i] ! k = xs ! l"
    if "lo \<le> k" "k \<le> hi" for k
    using assms that by (cases "k = i"; cases "k = j") (auto simp: nth_list_update)
  moreover have "mset (xs[i := xs ! j, j := xs ! i]) = mset xs"
    using assms by (intro mset_swap) simp_all
  ultimately show ?thesis using assms by (auto simp: permuted_within_def)
qed

lemma permuted_within_all:
  assumes "permuted_within lo hi xs ys" and "\<forall>k. lo \<le> k \<and> k \<le> hi \<longrightarrow> P (xs ! k)"
    and "lo \<le> k" and "k \<le> hi"
  shows "P (ys ! k)"
  using assms by (auto simp: permuted_within_def)

section \<open>Shape\<close>

lemma same_shape_refl [simp, intro]: "same_shape m m"
  by (simp add: same_shape_def)

lemma same_shape_trans: "same_shape a b \<Longrightarrow> same_shape b c \<Longrightarrow> same_shape a c"
  by (simp add: same_shape_def)

lemma same_shape_inv: "same_shape m m' \<Longrightarrow> map_inv m \<Longrightarrow> map_inv m'"
  by (simp add: same_shape_def map_inv_def)

lemma same_shape_len: "same_shape m m' \<Longrightarrow> map_len m' = map_len m"
  by (simp add: same_shape_def)

section \<open>Swapping\<close>

lemma map_swap_blocks:
  assumes inv: "map_inv m" and i: "i < map_len m" and j: "j < map_len m"
  obtains m' where "map_swap m i j = Some m'" "same_shape m m'"
    "blocks m' = (blocks m)[i := blocks m ! j, j := blocks m ! i]"
proof (cases "i = j")
  case True
  then show ?thesis using that [of m] i by (simp add: map_swap_def)
next
  case False
  define ds b where "ds = desc_size (map_meta m)" and "b = map_buf m"
  define b' where "b' = overwrite (overwrite b (i * ds) (block ds b j)) (j * ds) (block ds b i)"
  have ds: "0 < ds" using inv by (simp add: map_inv_def ds_def size_of_descriptor_def)
  have bnd: "Suc i * ds \<le> length b" "Suc j * ds \<le> length b"
      "Suc i * ds \<le> map_size (map_meta m)" "Suc j * ds \<le> map_size (map_meta m)"
    using block_bounds(1) [OF inv i] block_bounds(1) [OF inv j] inv
    by (simp_all add: ds_def b_def map_inv_def add.commute)
  have lens: "length (block ds b i) = ds" "length (block ds b j) = ds"
    using bnd by (simp_all add: block_def)
  have "Suc i \<le> j \<or> Suc j \<le> i" using False by auto
  then have apart: "Suc i * ds \<le> j * ds \<or> Suc j * ds \<le> i * ds" using mult_le_mono1 by blast
  have swap: "map_swap m i j = Some (m\<lparr>map_buf := b'\<rparr>)"
    using False i j bnd apart block_bounds(2) [OF inv i] block_bounds(2) [OF inv j]
    by (simp add: map_swap_def swap_nonoverlapping_def b'_def block_def b_def ds_def add.commute umul_def)
  have len': "length b' = length b" using bnd lens by (simp add: b'_def add.commute)
  have tail: "drop (map_size (map_meta m)) b' = drop (map_size (map_meta m)) b"
    using bnd lens by (simp add: b'_def overwrite_after add.commute)
  have blk: "block ds b' k = (if k = j then block ds b i else if k = i then block ds b j else block ds b k)" for k
    using bnd lens ds by (simp add: b'_def block_overwrite add.commute)
  have "blocks (m\<lparr>map_buf := b'\<rparr>) = (blocks m)[i := blocks m ! j, j := blocks m ! i]"
    using i j False
    by (intro nth_equalityI) (auto simp: blocks_def blk nth_list_update simp flip: ds_def b_def)
  with swap len' tail show ?thesis
    by (intro that [of "m\<lparr>map_buf := b'\<rparr>"]) (simp_all add: same_shape_def unused_tail_def b_def)
qed

section \<open>The scanning loops\<close>

lemma wrapping_add_1: "n + 1 < usize_limit \<Longrightarrow> wrapping_add n 1 = n + 1"
  by (simp add: wrapping_add_def)

lemma wrapping_sub_1: "0 < n \<Longrightarrow> n < usize_limit \<Longrightarrow> wrapping_sub n 1 = n - 1"
  by (cases n) (simp_all add: wrapping_sub_def usize_limit_def)

lemma wrapping_sub_add_1: "n < usize_limit \<Longrightarrow> wrapping_add (wrapping_sub n 1) 1 = n"
  by (cases n) (simp_all add: wrapping_sub_def wrapping_add_def usize_limit_def)

lemma scan_up_stops:
  assumes inv: "map_inv m" and "wrapping_add l 1 \<le> u" "u < map_len m" "pivot \<le> mkey m u"
  shows "\<exists>i. scan_up m pivot l = Some i \<and> wrapping_add l 1 \<le> i \<and> i \<le> u \<and> pivot \<le> mkey m i \<and>
           (\<forall>k. wrapping_add l 1 \<le> k \<and> k < i \<longrightarrow> mkey m k < pivot)"
  using assms(2-)
proof (induction "u - wrapping_add l 1" arbitrary: l)
  case 0
  then have "wrapping_add l 1 = u" by simp
  then show ?case using 0 inv by (auto simp: scan_up.simps [of m pivot l] get_element_eq not_less)
next
  case (Suc d)
  let ?L = "wrapping_add l 1"
  have next_l: "wrapping_add ?L 1 = ?L + 1"
    using Suc.prems Suc.hyps map_len_limit [OF inv] by (intro wrapping_add_1) simp
  show ?case
  proof (cases "mkey m ?L < pivot")
    case True
    have "d = u - wrapping_add ?L 1" "wrapping_add ?L 1 \<le> u" using Suc.hyps(2) next_l by simp_all
    from Suc.hyps(1) [OF this Suc.prems(2,3)] obtain i where
      i: "scan_up m pivot ?L = Some i" "?L + 1 \<le> i" "i \<le> u" "pivot \<le> mkey m i"
         "\<forall>k. ?L + 1 \<le> k \<and> k < i \<longrightarrow> mkey m k < pivot" unfolding next_l by blast
    have "\<forall>k. ?L \<le> k \<and> k < i \<longrightarrow> mkey m k < pivot"
      using i(5) True by (metis Suc_eq_plus1 Suc_leI le_neq_implies_less)
    then show ?thesis using i True Suc.prems inv
      by (auto simp: scan_up.simps [of m pivot l] get_element_eq)
  next
    case False
    then show ?thesis using Suc.prems inv
      by (auto simp: scan_up.simps [of m pivot l] get_element_eq not_less)
  qed
qed

lemma scan_down_stops:
  assumes inv: "map_inv m" and "d \<le> wrapping_sub r 1" "wrapping_sub r 1 < map_len m" "mkey m d \<le> pivot"
  shows "\<exists>j. scan_down m pivot r = Some j \<and> d \<le> j \<and> j \<le> wrapping_sub r 1 \<and> mkey m j \<le> pivot \<and>
           (\<forall>k. j < k \<and> k \<le> wrapping_sub r 1 \<longrightarrow> pivot < mkey m k)"
  using assms(2-)
proof (induction "wrapping_sub r 1 - d" arbitrary: r)
  case 0
  then have "wrapping_sub r 1 = d" by simp
  then show ?case using 0 inv by (auto simp: scan_down.simps [of m pivot r] get_element_eq not_less)
next
  case (Suc n)
  let ?R = "wrapping_sub r 1"
  have next_r: "wrapping_sub ?R 1 = ?R - 1"
    using Suc.prems Suc.hyps map_len_limit [OF inv] by (intro wrapping_sub_1) simp_all
  show ?case
  proof (cases "pivot < mkey m ?R")
    case True
    have "n = wrapping_sub ?R 1 - d" "d \<le> wrapping_sub ?R 1" "wrapping_sub ?R 1 < map_len m"
      using Suc.hyps(2) Suc.prems next_r by simp_all
    from Suc.hyps(1) [OF this Suc.prems(3)] obtain j where
      j: "scan_down m pivot ?R = Some j" "d \<le> j" "j \<le> ?R - 1" "mkey m j \<le> pivot"
         "\<forall>k. j < k \<and> k \<le> ?R - 1 \<longrightarrow> pivot < mkey m k" unfolding next_r by blast
    have "\<forall>k. j < k \<and> k \<le> ?R \<longrightarrow> pivot < mkey m k"
      using j(5) True by (metis Suc_pred' le_neq_implies_less less_Suc_eq_le not_less_zero bot_nat_0.not_eq_extremum)
    then show ?thesis using j True Suc.prems inv
      by (auto simp: scan_down.simps [of m pivot r] get_element_eq)
  next
    case False
    then show ?thesis using Suc.prems inv
      by (auto simp: scan_down.simps [of m pivot r] get_element_eq not_less)
  qed
qed

section \<open>The partition\<close>

text \<open>The invariant of the partition loop, on the next index \<open>L\<close> the upward scan looks at
  and the next index \<open>R\<close> the downward scan looks at.\<close>

definition part_inv :: "nat \<Rightarrow> nat \<Rightarrow> u64 \<Rightarrow> memory_map \<Rightarrow> nat \<Rightarrow> nat \<Rightarrow> bool" where
  "part_inv low high pivot m L R \<longleftrightarrow>
     map_inv m \<and> high < map_len m \<and> low \<le> L \<and> R \<le> high \<and>
     (\<exists>u. L \<le> u \<and> u \<le> high \<and> pivot \<le> mkey m u \<and> (R < high \<or> u < high)) \<and>
     (\<exists>d. low \<le> d \<and> d \<le> R \<and> mkey m d \<le> pivot) \<and>
     (\<forall>k. low \<le> k \<and> k < L \<longrightarrow> mkey m k \<le> pivot) \<and>
     (\<forall>k. R < k \<and> k \<le> high \<longrightarrow> pivot \<le> mkey m k)"

definition part_post :: "nat \<Rightarrow> nat \<Rightarrow> u64 \<Rightarrow> memory_map \<Rightarrow> nat \<Rightarrow> memory_map \<Rightarrow> bool" where
  "part_post low high pivot m p m' \<longleftrightarrow>
     same_shape m m' \<and> permuted_within low high (blocks m) (blocks m') \<and> low \<le> p \<and> p < high \<and>
     (\<forall>k. low \<le> k \<and> k \<le> p \<longrightarrow> mkey m' k \<le> pivot) \<and>
     (\<forall>k. p < k \<and> k \<le> high \<longrightarrow> pivot \<le> mkey m' k)"

lemma part_post_trans:
  assumes "same_shape m m'" "permuted_within low high (blocks m) (blocks m')"
    and "part_post low high pivot m' p m''"
  shows "part_post low high pivot m p m''"
  using assms by (auto simp: part_post_def intro: same_shape_trans permuted_within_trans)

lemma part_inv_swap:
  assumes inv: "part_inv low high pivot m L R" and "L \<le> l" "l < r" "r \<le> R"
    and "pivot \<le> mkey m l" "mkey m r \<le> pivot"
    and "\<forall>k. L \<le> k \<and> k < l \<longrightarrow> mkey m k < pivot" "\<forall>k. r < k \<and> k \<le> R \<longrightarrow> pivot < mkey m k"
    and m': "same_shape m m'" "blocks m' = (blocks m)[l := blocks m ! r, r := blocks m ! l]"
  shows "part_inv low high pivot m' (l + 1) (r - 1)"
proof -
  have hi: "R \<le> high" "high < map_len m" "low \<le> L" using inv by (simp_all add: part_inv_def)
  have key: "mkey m' k = (if k = r then mkey m l else if k = l then mkey m r else mkey m k)"
    if "k \<le> high" for k
    using that assms(2-4) hi by (simp add: m'(2) nth_list_update)
  have "map_inv m'" "high < map_len m'"
    using inv same_shape_inv [OF m'(1)] same_shape_len [OF m'(1)] by (simp_all add: part_inv_def)
  moreover have "\<exists>u. l + 1 \<le> u \<and> u \<le> high \<and> pivot \<le> mkey m' u \<and> (r - 1 < high \<or> u < high)"
    using assms(2-5) hi key [of r] by (intro exI [of _ r]) auto
  moreover have "\<exists>d. low \<le> d \<and> d \<le> r - 1 \<and> mkey m' d \<le> pivot"
    using assms(2-6) hi key [of l] by (intro exI [of _ l]) simp
  moreover have "mkey m' k \<le> pivot" if "low \<le> k" "k < l + 1" for k
  proof (cases "k = l \<or> L \<le> k")
    case True
    then show ?thesis using that assms(2-7) hi key [of k] by (auto simp: less_imp_le)
  next
    case False
    then show ?thesis using that assms(2-4) inv hi key [of k] by (simp add: part_inv_def)
  qed
  moreover have "pivot \<le> mkey m' k" if "r - 1 < k" "k \<le> high" for k
  proof (cases "k = r \<or> k \<le> R")
    case True
    then show ?thesis using that assms(2-8) hi key [of k] by (auto simp: less_imp_le)
  next
    case False
    then show ?thesis using that assms(2-4) inv hi key [of k] by (simp add: part_inv_def)
  qed
  ultimately show ?thesis using assms(2-4) hi by (auto simp: part_inv_def)
qed

lemma partition_loop_correct:
  assumes "part_inv low high pivot m (wrapping_add l 1) (wrapping_sub r 1)"
  shows "\<exists>p m'. partition_loop m pivot l r = Some (p, m') \<and> part_post low high pivot m p m'"
  using assms
proof (induction "high + 1 - wrapping_add l 1" arbitrary: m l r rule: less_induct)
  case less
  let ?L = "wrapping_add l 1" and ?R = "wrapping_sub r 1"
  note inv = less.prems
  have mi: "map_inv m" and len: "high < map_len m" "low \<le> ?L" "?R \<le> high"
    using inv by (simp_all add: part_inv_def)
  obtain u d where u: "?L \<le> u" "u \<le> high" "pivot \<le> mkey m u" "?R < high \<or> u < high"
    and d: "low \<le> d" "d \<le> ?R" "mkey m d \<le> pivot"
    using inv by (auto simp: part_inv_def)
  obtain i where i: "scan_up m pivot l = Some i" "?L \<le> i" "i \<le> u" "pivot \<le> mkey m i"
      "\<forall>k. ?L \<le> k \<and> k < i \<longrightarrow> mkey m k < pivot"
    using scan_up_stops [OF mi u(1) _ u(3)] u(2) len by auto
  obtain j where j: "scan_down m pivot r = Some j" "d \<le> j" "j \<le> ?R" "mkey m j \<le> pivot"
      "\<forall>k. j < k \<and> k \<le> ?R \<longrightarrow> pivot < mkey m k"
    using scan_down_stops [OF mi d(2) _ d(3)] len by auto
  show ?case
  proof (cases "j \<le> i")
    case True
    have "mkey m k \<le> pivot" if "low \<le> k" "k \<le> j" for k
      using that True i(5) j(4) inv by (cases "k = j"; cases "k < ?L") (auto simp: part_inv_def less_imp_le)
    moreover have "pivot \<le> mkey m k" if "j < k" "k \<le> high" for k
      using that j(5) inv by (cases "k \<le> ?R") (auto simp: part_inv_def less_imp_le)
    moreover have "low \<le> j" "j < high" using d j u i True len by auto
    ultimately have "part_post low high pivot m j m" by (simp add: part_post_def)
    then show ?thesis using True i(1) j(1) by (simp add: partition_loop.simps [of m pivot l r])
  next
    case False
    obtain m' where m': "map_swap m i j = Some m'" "same_shape m m'"
        "blocks m' = (blocks m)[i := blocks m ! j, j := blocks m ! i]"
      using map_swap_blocks [OF mi, of i j] i(3) u(2) j(3) len by auto
    have "i + 1 < usize_limit" "0 < j" "j < usize_limit"
      using False i(3) u(2) j(3) len map_len_limit [OF mi] by auto
    then have wr: "wrapping_add i 1 = i + 1" "wrapping_sub j 1 = j - 1"
      by (simp_all only: wrapping_add_1 wrapping_sub_1)
    have inv': "part_inv low high pivot m' (wrapping_add i 1) (wrapping_sub j 1)"
      unfolding wr using part_inv_swap [OF inv i(2) _ j(3) i(4) j(4) i(5) j(5) m'(2,3)] False by simp
    have "high + 1 - wrapping_add i 1 < high + 1 - ?L" unfolding wr using i(2,3) u(2) by simp
    from less.hyps [OF this inv'] obtain p m'' where
      rec: "partition_loop m' pivot i j = Some (p, m'')" "part_post low high pivot m' p m''" by auto
    have "permuted_within low high (blocks m) (blocks m')"
      unfolding m'(3) using i(2,3) u(2) j(2,3) d len by (intro permuted_within_swap) auto
    with rec(2) m'(2) have "part_post low high pivot m p m''" by (rule part_post_trans [rotated 2])
    then show ?thesis using False i(1) j(1) m'(1) rec(1)
      by (simp add: partition_loop.simps [of m pivot l r])
  qed
qed

lemma partition_map_correct:
  assumes inv: "map_inv m" and "low < high" "high < map_len m"
  shows "\<exists>pivot p m'. partition_map m low high = Some (p, m') \<and> part_post low high pivot m p m'"
proof -
  define mid where "mid = low + (high - low) div 2"
  have mid: "low \<le> mid" "mid < high" using assms by (auto simp: mid_def)
  have lim: "map_len m < usize_limit - 1" by (rule map_len_limit [OF inv])
  have L: "wrapping_add (wrapping_sub low 1) 1 = low"
    using assms lim by (intro wrapping_sub_add_1) simp
  have "wrapping_add high 1 = high + 1" using assms lim by (intro wrapping_add_1) simp
  then have R: "wrapping_sub (wrapping_add high 1) 1 = high"
    using assms lim wrapping_sub_1 [of "high + 1"] by simp
  have "part_inv low high (mkey m mid) m (wrapping_add (wrapping_sub low 1) 1)
          (wrapping_sub (wrapping_add high 1) 1)"
    unfolding L R part_inv_def using assms mid by auto
  note loop = partition_loop_correct [OF this]
  have "mid < usize_limit" using assms mid lim by simp
  then have "partition_map m low high =
      partition_loop m (mkey m mid) (wrapping_sub low 1) (wrapping_add high 1)"
    using assms mid by (simp add: partition_map_def get_element_eq uadd_def usub_def flip: mid_def)
  with loop show ?thesis by auto
qed

section \<open>The recursion\<close>

definition sorted_between :: "nat \<Rightarrow> nat \<Rightarrow> memory_map \<Rightarrow> bool" where
  "sorted_between low high m \<longleftrightarrow> (\<forall>a b. low \<le> a \<and> a < b \<and> b \<le> high \<longrightarrow> mkey m a \<le> mkey m b)"

lemma permuted_within_outside:
  "permuted_within lo hi xs ys \<Longrightarrow> k < length xs \<Longrightarrow> k < lo \<or> hi < k \<Longrightarrow> ys ! k = xs ! k"
  by (auto simp: permuted_within_def)

lemma sorted_between_merge:
  assumes post: "part_post low high pivot m p m1"
    and left: "permuted_within low p (blocks m1) (blocks m2)" "sorted_between low p m2"
    and right: "permuted_within (p + 1) high (blocks m2) (blocks m3)" "sorted_between (p + 1) high m3"
    and len: "high < map_len m1" "map_len m2 = map_len m1"
  shows "sorted_between low high m3"
proof -
  have keep_left: "mkey m3 k = mkey m2 k" if "k \<le> p" for k
    using permuted_within_outside [OF right(1), of k] that len post by (simp add: part_post_def)
  have keep_right: "mkey m2 k = mkey m1 k" if "p < k" "k \<le> high" for k
    using permuted_within_outside [OF left(1), of k] that len by simp
  have low_le: "mkey m3 k \<le> pivot" if "low \<le> k" "k \<le> p" for k
    using permuted_within_all [OF left(1), of "\<lambda>b. block_key b \<le> pivot"] that post
    by (simp add: keep_left part_post_def)
  have high_ge: "pivot \<le> mkey m3 k" if "p < k" "k \<le> high" for k
    using permuted_within_all [OF right(1), of "\<lambda>b. pivot \<le> block_key b"] that post
    by (simp add: keep_right part_post_def)
  have "mkey m3 a \<le> mkey m3 b" if ab: "low \<le> a" "a < b" "b \<le> high" for a b
  proof -
    consider "b \<le> p" | "a \<le> p" "p < b" | "p < a" by linarith
    then show ?thesis
    proof cases
      case 1
      then show ?thesis using ab left(2) by (simp add: keep_left sorted_between_def)
    next
      case 2
      then show ?thesis using ab low_le [of a] high_ge [of b] by simp
    next
      case 3
      then show ?thesis using ab right(2) by (simp add: sorted_between_def)
    qed
  qed
  then show ?thesis by (simp add: sorted_between_def)
qed

lemma qsort_correct:
  assumes "map_inv m" and "high < map_len m"
  shows "\<exists>m'. qsort m low high = Some m' \<and> same_shape m m' \<and>
    permuted_within low high (blocks m) (blocks m') \<and> sorted_between low high m'"
  using assms
proof (induction "high - low" arbitrary: m low high rule: less_induct)
  case less
  show ?case
  proof (cases "low < high")
    case False
    then show ?thesis using less.prems by (auto simp: qsort.simps [of m low high] sorted_between_def)
  next
    case True
    obtain pivot p m1 where p: "partition_map m low high = Some (p, m1)" "part_post low high pivot m p m1"
      using partition_map_correct [OF less.prems(1) True less.prems(2)] by blast
    then have pb: "low \<le> p" "p < high" and s1: "same_shape m m1"
      and pm1: "permuted_within low high (blocks m) (blocks m1)" by (simp_all add: part_post_def)
    have smaller: "p - low < high - low" "high - (p + 1) < high - low" using pb by auto
    have m1: "map_inv m1" "map_len m1 = map_len m"
      using s1 less.prems by (auto intro: same_shape_inv simp: same_shape_len)
    obtain m2 where m2: "qsort m1 low p = Some m2" "same_shape m1 m2"
        "permuted_within low p (blocks m1) (blocks m2)" "sorted_between low p m2"
      using less.hyps [OF smaller(1), of m1] pb m1 less.prems by auto
    have m2': "map_inv m2" "map_len m2 = map_len m1"
      using m2(2) m1 by (auto intro: same_shape_inv simp: same_shape_len)
    obtain m3 where m3: "qsort m2 (p + 1) high = Some m3" "same_shape m2 m3"
        "permuted_within (p + 1) high (blocks m2) (blocks m3)" "sorted_between (p + 1) high m3"
      using less.hyps [OF smaller(2), of m2] pb m1 m2' less.prems by auto
    have lens: "high < length (blocks m1)" "high < length (blocks m2)"
      using less.prems m1 m2' by simp_all
    have "permuted_within low high (blocks m1) (blocks m2)"
      "permuted_within low high (blocks m2) (blocks m3)"
      using permuted_within_mono [OF m2(3) _ _ lens(1)] permuted_within_mono [OF m3(3) _ _ lens(2)] pb
      by simp_all
    then have "permuted_within low high (blocks m) (blocks m3)"
      using pm1 by (blast intro: permuted_within_trans)
    moreover have "sorted_between low high m3"
      using sorted_between_merge [OF p(2) m2(3,4) m3(3,4)] less.prems m1 m2' by simp
    moreover have "same_shape m m3" using s1 m2(2) m3(2) by (blast intro: same_shape_trans)
    moreover have "qsort m low high = Some m3"
      using True p(1) m2(1) m3(1) pb less.prems map_len_limit [OF less.prems(1)]
      by (simp add: qsort.simps [of m low high] uadd_def)
    ultimately show ?thesis by blast
  qed
qed

lemma sorted_between_sorted:
  "sorted_between 0 (map_len m - 1) m \<Longrightarrow> sorted (map block_key (blocks m))"
  by (auto simp: sorted_between_def sorted_iff_nth_mono_less)

lemma sort_map_correct:
  assumes "map_inv m" and "0 < map_len m"
  obtains m' where "sort_map m = Some m'" "same_shape m m'" "mset (blocks m') = mset (blocks m)"
    "sorted (map block_key (blocks m'))"
proof -
  obtain m' where "qsort m 0 (map_len m - 1) = Some m'" "same_shape m m'"
    "permuted_within 0 (map_len m - 1) (blocks m) (blocks m')" "sorted_between 0 (map_len m - 1) m'"
    using qsort_correct [OF assms(1), of "map_len m - 1" 0] assms(2) by auto
  then show ?thesis using assms
    by (intro that [of m'])
      (auto simp: sort_map_def usub_def permuted_within_def same_shape_len intro!: sorted_between_sorted)
qed

section \<open>Properties\<close>

text \<open>A small unsorted map with a firmware stride of 48 bytes, eight bytes more than the descriptor,
  and 16 unused bytes at the end of the buffer; the witnesses below are about it.\<close>

definition sample_descriptor :: "u64 \<Rightarrow> memory_descriptor" where
  "sample_descriptor a = \<lparr>mem_ty = 7, phys_start = a, virt_start = a, page_count = 1, mem_att = 8\<rparr>"

definition sample_meta :: memory_map_meta where
  "sample_meta = \<lparr>map_size = 144, desc_size = 48, map_key = 1, desc_version = 1\<rparr>"

definition sample_buffer :: bytes where
  "sample_buffer =
    descriptor_to_bytes (sample_descriptor 0x3000) @ replicate 8 1 @
    descriptor_to_bytes (sample_descriptor 0x2000) @ replicate 8 2 @
    descriptor_to_bytes (sample_descriptor 0x1000) @ replicate 8 3 @ replicate 16 255"

definition sample_map :: memory_map where
  "sample_map = \<lparr>map_buf = sample_buffer, map_meta = sample_meta, map_len = 3\<rparr>"

lemma length_sample_buffer: "length sample_buffer = 160"
  by (simp add: sample_buffer_def)

lemma sample_map_inv: "map_inv sample_map" "0 < map_len sample_map"
  by (simp_all add: map_inv_def sample_map_def sample_meta_def length_sample_buffer size_of_descriptor_def
      usize_limit_def)

lemma sample_map_new: "ref_mut_new 0x1000 sample_buffer sample_meta = Some (Ok sample_map)"
  by (simp add: ref_mut_new_eq_ref_new ref_new_cases sample_map_def sample_meta_def length_sample_buffer)

lemma iter_next_index:
  assumes "iter_next it = Some (Some d, it')"
  shows "0 < iter_index it'"
proof -
  obtain r where "map_get (iter_map it) (iter_index it) = Some r"
    using assms by (cases "map_get (iter_map it) (iter_index it)") (simp_all add: iter_next_def)
  then show ?thesis using assms
    by (cases r) (auto simp: iter_next_def uadd_def split: if_splits)
qed

lemma descriptors_keys: "map phys_start (descriptors m) = map block_key (blocks m)"
  by (simp add: descriptors_def block_key_def)

text \<open>C1: sorting a well-formed, non-empty memory map in place returns (no assertion, overflow or
  out-of-bounds access is reached and the loops and the recursion end), leaves a map whose entries are
  in ascending order of physical start address, which is what \<open>is_sorted\<close> then reports, is a
  permutation of the whole \<open>desc_size\<close>-byte entries, and changes neither the meta data nor the
  unused bytes behind the last entry.\<close>

theorem sort_map_sorts:
  assumes "map_inv m" and "0 < map_len m"
  shows "\<exists>m'. sort_map m = Some m' \<and> map_inv m' \<and>
    sorted (map phys_start (descriptors m')) \<and> is_sorted m' = Some True \<and>
    mset (blocks m') = mset (blocks m) \<and>
    map_meta m' = map_meta m \<and> map_len m' = map_len m \<and> unused_tail m' = unused_tail m"
proof -
  obtain m' where m': "sort_map m = Some m'" "same_shape m m'" "mset (blocks m') = mset (blocks m)"
    "sorted (map block_key (blocks m'))"
    using sort_map_correct [OF assms] .
  then show ?thesis using assms same_shape_inv [OF m'(2)]
    by (intro exI [of _ m']) (simp add: descriptors_keys is_sorted_eq same_shape_def)
qed

theorem sort_map_sorts_witness:
  "\<exists>m'. sort_map sample_map = Some m' \<and> is_sorted m' = Some True \<and>
    mset (blocks m') = mset (blocks sample_map) \<and> unused_tail m' = replicate 16 255"
proof -
  have "unused_tail sample_map = replicate 16 255"
    by (simp add: unused_tail_def sample_map_def sample_meta_def sample_buffer_def)
  then show ?thesis using sort_map_sorts [OF sample_map_inv] by auto
qed

text \<open>C14: a memory map constructed by \<open>MemoryMapRef::new\<close> or
  \<open>MemoryMapRefMut::new\<close> from a buffer of a size Rust allows (at most
  \<open>isize::MAX\<close>) and a stride that is at least the descriptor size satisfies the
  well-formedness invariant, so every \<open>get\<close> stays inside the buffer: it returns the
  descriptor stored at \<open>index * desc_size\<close> below the entry count and \<open>None\<close> at and
  above it, and a \<open>for\<close> loop over \<open>entries\<close> ends and yields exactly those.\<close>

theorem memory_map_access:
  assumes "ref_mut_new addr b mt = Some (Ok m)" and "size_of_descriptor \<le> desc_size mt"
    and "length b \<le> 9223372036854775807"
  shows "map_inv m \<and> map_len m = map_size mt div desc_size mt \<and>
    (\<forall>i. map_get m i = Some (if i < map_len m
       then Some (descriptor_from_bytes (take 40 (drop (i * desc_size mt) b))) else None)) \<and>
    collect_iter iter_next (entries m) = Some (map (\<lambda>i. descriptor_from_bytes (take 40 (drop (i * desc_size mt) b)))
       [0..<map_len m])"
proof -
  have new: "ref_new addr b mt = Some (Ok m)" using assms(1) by (simp add: ref_mut_new_eq_ref_new)
  have inv: "map_inv m" using ref_new_inv [OF new assms(2)] assms(3) by (simp add: usize_limit_def)
  have shape: "map_buf m = b" "map_meta m = mt" "map_len m = map_size mt div desc_size mt"
    using new by (simp_all add: ref_new_cases)
  have ds: "descriptors m = map (\<lambda>i. descriptor_from_bytes (take 40 (drop (i * desc_size mt) b))) [0..<map_len m]"
    using assms(2) by (simp add: descriptors_def blocks_def block_def block_descriptor_def shape
        size_of_descriptor_def min_def)
  show ?thesis using inv mmi.collect [of "entries m"] by (simp add: map_get_eq ds shape)
qed

theorem memory_map_access_witness:
  "map_inv sample_map \<and> map_get sample_map 3 = Some None \<and>
   map_get sample_map 1 = Some (Some (descriptor_from_bytes (take 40 (drop 48 sample_buffer))))"
  using memory_map_access [OF sample_map_new] length_sample_buffer
  by (simp add: sample_meta_def size_of_descriptor_def sample_map_def)

text \<open>assigning a descriptor through \<open>index_mut\<close> on a well-formed map changes exactly that
  entry: the map stays well-formed, the entry reads back as written, and all others are unchanged.\<close>

theorem index_mut_assign_reads_back:
  assumes "map_inv m" and "i < map_len m"
  shows "\<exists>m'. index_mut_assign m i d = Some m' \<and> map_inv m' \<and> map_index m' i = Some d \<and>
    (\<forall>k. k \<noteq> i \<longrightarrow> map_get m' k = map_get m k)"
proof -
  obtain m' where m': "index_mut_assign m i d = Some m'" using index_mut_assign_eq [OF assms] by blast
  note D = descriptors_assign [OF assms m']
  have "map_len m' = map_len m" using D by (metis length_descriptors length_list_update)
  then show ?thesis using m' D assms by (auto simp: map_get_eq map_index_def)
qed

theorem index_mut_assign_reads_back_witness:
  "\<exists>m'. index_mut_assign sample_map 2 (sample_descriptor 0x9000) = Some m' \<and>
    map_index m' 2 = Some (sample_descriptor 0x9000) \<and> map_get m' 0 = map_get sample_map 0"
  using index_mut_assign_reads_back [OF sample_map_inv(1), of 2 "sample_descriptor 0x9000"]
  by (auto simp: sample_map_def)

text \<open>sorting an empty memory map panics: the upper bound \<open>len - 1\<close> underflows.\<close>

theorem sort_map_empty_panics:
  assumes "map_len m = 0"
  shows "sort_map m = None"
  using assms by (simp add: sort_map_def usub_def)

theorem sort_map_empty_panics_witness:
  "\<exists>m. ref_mut_new 0 [] \<lparr>map_size = 0, desc_size = 48, map_key = 0, desc_version = 1\<rparr> = Some (Ok m) \<and>
    sort_map m = None"
  using sort_map_empty_panics
    [of "\<lparr>map_buf = [], map_meta = \<lparr>map_size = 0, desc_size = 48, map_key = 0, desc_version = 1\<rparr>, map_len = 0\<rparr>"]
  by (simp add: ref_mut_new_eq_ref_new ref_new_cases)

text \<open>after an item was taken from a memory map iterator, its \<open>ExactSizeIterator::len\<close>
  is larger than the number of items left, which \<open>size_hint\<close> reports correctly.\<close>

theorem iter_len_overstates:
  assumes "iter_valid it" and "iter_next it = Some (Some d, it')"
  shows "\<exists>n. iter_size_hint it' = Some (n, Some n) \<and> n = length (iter_remaining it') \<and> n < iter_len it'"
proof -
  have v: "iter_valid it'" by (rule mmi.next_valid [OF assms])
  have "0 < iter_index it'" by (rule iter_next_index [OF assms(2)])
  then have "length (iter_remaining it') < iter_len it'"
    using v by (simp add: iter_remaining_def iter_valid_def iter_len_def)
  then show ?thesis using mmi.hint_exact [OF v] by simp
qed

theorem iter_len_overstates_witness:
  "\<exists>d it'. iter_next (entries sample_map) = Some (Some d, it') \<and>
    (\<exists>n. iter_size_hint it' = Some (n, Some n) \<and> n < iter_len it')"
proof -
  have v: "iter_valid (entries sample_map)" using sample_map_inv by simp
  have "descriptors sample_map \<noteq> []"
    using sample_map_inv(2) by (simp flip: length_descriptors length_greater_0_conv)
  then have "iter_remaining (entries sample_map) = hd (descriptors sample_map) # tl (descriptors sample_map)"
    by simp
  then obtain it' where n: "iter_next (entries sample_map) = Some (Some (hd (descriptors sample_map)), it')"
    using mmi.next_some [OF v] by blast
  then show ?thesis using iter_len_overstates [OF v n] by blast
qed

text \<open>A constructor accepts a stride below the size of a descriptor, and then reading a valid
  index leaves the buffer: here one 8-byte entry in an 8-byte buffer.\<close>

theorem small_stride_out_of_bounds:
  "\<exists>m. ref_new 0 (replicate 8 0) \<lparr>map_size = 8, desc_size = 8, map_key = 0, desc_version = 1\<rparr> = Some (Ok m) \<and>
    0 < map_len m \<and> map_get m 0 = None"
  by (simp add: ref_new_cases map_get_def read_descriptor_def size_of_descriptor_def umul_def usize_limit_def)

end
