(* ===== verification/Status_Result.thy ===== *)
theory Status_Result
  imports Prelude
begin

text \<open>
  Status codes and results: \<open>uefi-raw/src/status.rs\<close> (the \<open>Status\<close> newtype, its
  constants and classification) and \<open>uefi/src/result/\<close> (the \<open>Error\<close> struct and the
  conversions from a firmware status to a Rust \<open>Result\<close>). \<open>Status\<close> is a newtype
  over \<open>usize\<close> and keeps all 64-bit values, known or not; \<open>Error::new\<close> panics
  on \<open>SUCCESS\<close>, and the conversions are shown never to reach that panic.
\<close>

unbundle bit_operations_syntax

type_synonym status = u64

named_theorems status_consts \<open>values of the status constants\<close>

section \<open>Status codes\<close>

definition ERROR_BIT :: u64 where
  [status_consts]: "ERROR_BIT = 0x8000000000000000"

definition SUCCESS :: status where
  [status_consts]: "SUCCESS = 0"

definition WARN_UNKNOWN_GLYPH :: status where
  [status_consts]: "WARN_UNKNOWN_GLYPH = 1"

definition WARN_DELETE_FAILURE :: status where
  [status_consts]: "WARN_DELETE_FAILURE = 2"

definition WARN_WRITE_FAILURE :: status where
  [status_consts]: "WARN_WRITE_FAILURE = 3"

definition WARN_BUFFER_TOO_SMALL :: status where
  [status_consts]: "WARN_BUFFER_TOO_SMALL = 4"

definition WARN_STALE_DATA :: status where
  [status_consts]: "WARN_STALE_DATA = 5"

definition WARN_FILE_SYSTEM :: status where
  [status_consts]: "WARN_FILE_SYSTEM = 6"

definition WARN_RESET_REQUIRED :: status where
  [status_consts]: "WARN_RESET_REQUIRED = 7"

definition LOAD_ERROR :: status where
  [status_consts]: "LOAD_ERROR = ERROR_BIT OR 1"

definition INVALID_PARAMETER :: status where
  [status_consts]: "INVALID_PARAMETER = ERROR_BIT OR 2"

definition UNSUPPORTED :: status where
  [status_consts]: "UNSUPPORTED = ERROR_BIT OR 3"

definition BAD_BUFFER_SIZE :: status where
  [status_consts]: "BAD_BUFFER_SIZE = ERROR_BIT OR 4"

definition BUFFER_TOO_SMALL :: status where
  [status_consts]: "BUFFER_TOO_SMALL = ERROR_BIT OR 5"

definition NOT_READY :: status where
  [status_consts]: "NOT_READY = ERROR_BIT OR 6"

definition DEVICE_ERROR :: status where
  [status_consts]: "DEVICE_ERROR = ERROR_BIT OR 7"

definition WRITE_PROTECTED :: status where
  [status_consts]: "WRITE_PROTECTED = ERROR_BIT OR 8"

definition OUT_OF_RESOURCES :: status where
  [status_consts]: "OUT_OF_RESOURCES = ERROR_BIT OR 9"

definition VOLUME_CORRUPTED :: status where
  [status_consts]: "VOLUME_CORRUPTED = ERROR_BIT OR 10"

definition VOLUME_FULL :: status where
  [status_consts]: "VOLUME_FULL = ERROR_BIT OR 11"

definition NO_MEDIA :: status where
  [status_consts]: "NO_MEDIA = ERROR_BIT OR 12"

definition MEDIA_CHANGED :: status where
  [status_consts]: "MEDIA_CHANGED = ERROR_BIT OR 13"

definition NOT_FOUND :: status where
  [status_consts]: "NOT_FOUND = ERROR_BIT OR 14"

definition ACCESS_DENIED :: status where
  [status_consts]: "ACCESS_DENIED = ERROR_BIT OR 15"

definition NO_RESPONSE :: status where
  [status_consts]: "NO_RESPONSE = ERROR_BIT OR 16"

definition NO_MAPPING :: status where
  [status_consts]: "NO_MAPPING = ERROR_BIT OR 17"

definition TIMEOUT :: status where
  [status_consts]: "TIMEOUT = ERROR_BIT OR 18"

definition NOT_STARTED :: status where
  [status_consts]: "NOT_STARTED = ERROR_BIT OR 19"

definition ALREADY_STARTED :: status where
  [status_consts]: "ALREADY_STARTED = ERROR_BIT OR 20"

definition ABORTED :: status where
  [status_consts]: "ABORTED = ERROR_BIT OR 21"

definition ICMP_ERROR :: status where
  [status_consts]: "ICMP_ERROR = ERROR_BIT OR 22"

definition TFTP_ERROR :: status where
  [status_consts]: "TFTP_ERROR = ERROR_BIT OR 23"

definition PROTOCOL_ERROR :: status where
  [status_consts]: "PROTOCOL_ERROR = ERROR_BIT OR 24"

definition INCOMPATIBLE_VERSION :: status where
  [status_consts]: "INCOMPATIBLE_VERSION = ERROR_BIT OR 25"

definition SECURITY_VIOLATION :: status where
  [status_consts]: "SECURITY_VIOLATION = ERROR_BIT OR 26"

definition CRC_ERROR :: status where
  [status_consts]: "CRC_ERROR = ERROR_BIT OR 27"

definition END_OF_MEDIA :: status where
  [status_consts]: "END_OF_MEDIA = ERROR_BIT OR 28"

definition END_OF_FILE :: status where
  [status_consts]: "END_OF_FILE = ERROR_BIT OR 31"

definition INVALID_LANGUAGE :: status where
  [status_consts]: "INVALID_LANGUAGE = ERROR_BIT OR 32"

definition COMPROMISED_DATA :: status where
  [status_consts]: "COMPROMISED_DATA = ERROR_BIT OR 33"

definition IP_ADDRESS_CONFLICT :: status where
  [status_consts]: "IP_ADDRESS_CONFLICT = ERROR_BIT OR 34"

definition HTTP_ERROR :: status where
  [status_consts]: "HTTP_ERROR = ERROR_BIT OR 35"

definition known_statuses :: "status list" where
  "known_statuses = [
    SUCCESS, WARN_UNKNOWN_GLYPH, WARN_DELETE_FAILURE, WARN_WRITE_FAILURE,
    WARN_BUFFER_TOO_SMALL, WARN_STALE_DATA, WARN_FILE_SYSTEM, WARN_RESET_REQUIRED,
    LOAD_ERROR, INVALID_PARAMETER, UNSUPPORTED, BAD_BUFFER_SIZE,
    BUFFER_TOO_SMALL, NOT_READY, DEVICE_ERROR, WRITE_PROTECTED,
    OUT_OF_RESOURCES, VOLUME_CORRUPTED, VOLUME_FULL, NO_MEDIA,
    MEDIA_CHANGED, NOT_FOUND, ACCESS_DENIED, NO_RESPONSE,
    NO_MAPPING, TIMEOUT, NOT_STARTED, ALREADY_STARTED,
    ABORTED, ICMP_ERROR, TFTP_ERROR, PROTOCOL_ERROR,
    INCOMPATIBLE_VERSION, SECURITY_VIOLATION, CRC_ERROR, END_OF_MEDIA,
    END_OF_FILE, INVALID_LANGUAGE, COMPROMISED_DATA, IP_ADDRESS_CONFLICT,
    HTTP_ERROR]"

definition is_success :: "status \<Rightarrow> bool" where
  "is_success s = (s = SUCCESS)"

definition is_warning :: "status \<Rightarrow> bool" where
  "is_warning s = (s \<noteq> SUCCESS \<and> s AND ERROR_BIT = 0)"

definition is_error :: "status \<Rightarrow> bool" where
  "is_error s = (s AND ERROR_BIT \<noteq> 0)"

section \<open>Errors\<close>

record 'd error =
  err_status :: status
  err_data :: 'd

type_synonym 'a uefi_result = "('a, unit error) result"
type_synonym ('a, 'd) uefi_result_with = "('a, 'd error) result"

definition error_new :: "status \<Rightarrow> 'd \<Rightarrow> 'd error option" where
  "error_new s d = do {
     require (s \<noteq> SUCCESS);
     Some \<lparr>err_status = s, err_data = d\<rparr>
   }"

definition error_split :: "'d error \<Rightarrow> status \<times> 'd" where
  "error_split e = (err_status e, err_data e)"

definition error_from_status :: "status \<Rightarrow> unit error option" where
  "error_from_status s = error_new s ()"

definition to_err_without_payload :: "'d error \<Rightarrow> unit error" where
  "to_err_without_payload e = \<lparr>err_status = err_status e, err_data = ()\<rparr>"

section \<open>From statuses to results\<close>

text \<open>The closures \<open>val\<close> and \<open>err\<close> of the source run on one branch only; a closure
  that may panic is an option-valued argument that is consulted on that branch only.\<close>

definition to_result :: "status \<Rightarrow> unit uefi_result option" where
  "to_result s =
    (if is_success s then Some (Ok ())
     else do { e \<leftarrow> error_from_status s; Some (Err e) })"

definition to_result_with_val :: "status \<Rightarrow> 'a option \<Rightarrow> 'a uefi_result option" where
  "to_result_with_val s val =
    (if is_success s then do { v \<leftarrow> val; Some (Ok v) }
     else do { e \<leftarrow> error_from_status s; Some (Err e) })"

definition to_result_with_err :: "status \<Rightarrow> (status \<Rightarrow> 'd) \<Rightarrow> (unit, 'd) uefi_result_with option" where
  "to_result_with_err s err =
    (if is_success s then Some (Ok ())
     else do { e \<leftarrow> error_new s (err s); Some (Err e) })"

definition to_result_with :: "status \<Rightarrow> 'a option \<Rightarrow> (status \<Rightarrow> 'd) \<Rightarrow> ('a, 'd) uefi_result_with option" where
  "to_result_with s val err =
    (if is_success s then do { v \<leftarrow> val; Some (Ok v) }
     else do { e \<leftarrow> error_new s (err s); Some (Err e) })"

section \<open>Extension methods on results\<close>

fun result_status :: "('a, 'd) uefi_result_with \<Rightarrow> status" where
  "result_status (Ok _) = SUCCESS"
| "result_status (Err e) = err_status e"

fun discard_errdata :: "('a, 'd) uefi_result_with \<Rightarrow> 'a uefi_result option" where
  "discard_errdata (Ok a) = Some (Ok a)"
| "discard_errdata (Err e) = do { e' \<leftarrow> error_from_status (err_status e); Some (Err e') }"

fun handle_warning ::
  "('a, 'd) uefi_result_with \<Rightarrow> ('d error \<Rightarrow> ('a, 'd) uefi_result_with) \<Rightarrow> ('a, 'd) uefi_result_with" where
  "handle_warning (Ok a) op = Ok a"
| "handle_warning (Err e) op = (if is_warning (err_status e) then op e else Err e)"

text \<open>Every \<open>Error\<close> value was built by \<open>Error::new\<close>, so its status is not
  \<open>SUCCESS\<close>: the invariant of the struct.\<close>

definition error_inv :: "'d error \<Rightarrow> bool" where
  "error_inv e = (err_status e \<noteq> SUCCESS)"

fun result_inv :: "('a, 'd) uefi_result_with \<Rightarrow> bool" where
  "result_inv (Ok a) = True"
| "result_inv (Err e) = error_inv e"

section \<open>Lemmas\<close>

lemma is_success_iff [simp]: "is_success s \<longleftrightarrow> s = SUCCESS"
  by (simp add: is_success_def)

lemma bit_word_eq_iff: "(a :: u64) = b \<longleftrightarrow> (\<forall>n < 64. bit a n = bit b n)"
  by (auto intro: bit_word_eqI)

lemma bit_ERROR_BIT: "bit ERROR_BIT n \<longleftrightarrow> n = 63"
proof -
  have E: "ERROR_BIT = 2 ^ 63" by (simp add: ERROR_BIT_def)
  show ?thesis unfolding E bit_exp_iff by auto
qed

lemma is_error_bit: "is_error s \<longleftrightarrow> bit s 63"
  by (auto simp: is_error_def bit_word_eq_iff bit_and_iff bit_ERROR_BIT)

lemma error_codes [simp]: "is_error (ERROR_BIT OR c)"
  by (simp add: is_error_bit bit_or_iff bit_ERROR_BIT)

lemma success_not_error [simp]: "\<not> is_error SUCCESS"
  by (simp add: is_error_def SUCCESS_def)

lemma error_not_success: "is_error s \<Longrightarrow> s \<noteq> SUCCESS"
  by auto

lemma warning_iff: "is_warning s \<longleftrightarrow> s \<noteq> SUCCESS \<and> \<not> is_error s"
  by (simp add: is_warning_def is_error_def)

lemma error_new_eq [simp]:
  "error_new s d = (if s = SUCCESS then None else Some \<lparr>err_status = s, err_data = d\<rparr>)"
  by (simp add: error_new_def)

lemma error_new_inv: "error_new s d = Some e \<Longrightarrow> error_inv e"
  by (auto simp: error_inv_def split: if_splits)

lemma error_from_status_eq [simp]:
  "error_from_status s = (if s = SUCCESS then None else Some \<lparr>err_status = s, err_data = ()\<rparr>)"
  by (simp add: error_from_status_def)

lemma to_result_eq [simp]:
  "to_result s = Some (if s = SUCCESS then Ok () else Err \<lparr>err_status = s, err_data = ()\<rparr>)"
  by (simp add: to_result_def)

lemma to_result_with_val_eq [simp]:
  "to_result_with_val s val =
    (if s = SUCCESS then map_option Ok val else Some (Err \<lparr>err_status = s, err_data = ()\<rparr>))"
  by (cases val) (simp_all add: to_result_with_val_def)

lemma to_result_with_err_eq [simp]:
  "to_result_with_err s err =
    Some (if s = SUCCESS then Ok () else Err \<lparr>err_status = s, err_data = err s\<rparr>)"
  by (simp add: to_result_with_err_def)

lemma to_result_with_eq [simp]:
  "to_result_with s val err =
    (if s = SUCCESS then map_option Ok val else Some (Err \<lparr>err_status = s, err_data = err s\<rparr>))"
  by (cases val) (simp_all add: to_result_with_def)

lemma discard_errdata_eq:
  "result_inv r \<Longrightarrow> \<exists>r'. discard_errdata r = Some r' \<and> result_status r' = result_status r"
  by (cases r) (auto simp: error_inv_def)

lemma known_statuses_ascending: "sorted_wrt (<) known_statuses"
  by (simp add: known_statuses_def status_consts sorted_wrt1 sorted_wrt2 transp_on_less del: sorted_wrt.simps(2))

lemma distinct_statuses: "distinct known_statuses"
  using known_statuses_ascending strict_sorted_iff by blast

lemma status_success_neq: "OUT_OF_RESOURCES \<noteq> SUCCESS" "INVALID_PARAMETER \<noteq> SUCCESS" "UNSUPPORTED \<noteq> SUCCESS"
  "ABORTED \<noteq> SUCCESS" "BUFFER_TOO_SMALL \<noteq> SUCCESS" "NOT_FOUND \<noteq> SUCCESS" "NOT_READY \<noteq> SUCCESS"
  by (simp_all add: status_consts)

end
