(* ===== verification/Strings.thy ===== *)
theory Strings
  imports Iterators Status_Result
begin

text \<open>
  Characters and strings: \<open>uefi/src/data_types/\<close> (\<open>chars.rs\<close>, \<open>strs.rs\<close>,
  \<open>owned_strs.rs\<close>, \<open>unaligned_slice.rs\<close>). A Rust \<open>char\<close> is its code point, a
  \<open>&str\<close> the list of its code points; UTF-8 and UTF-16 are the standard library's encodings,
  written out where the code works on encoded units. \<open>CStr8\<close>, \<open>CStr16\<close> and
  \<open>CString16\<close> are lists of code units that end in the null character.
\<close>

unbundle bit_operations_syntax

section \<open>Rust characters and their encodings\<close>

type_synonym rchar = nat
type_synonym rstr = "nat list"

definition is_rchar :: "nat \<Rightarrow> bool" where
  "is_rchar c \<longleftrightarrow> c < 0x110000 \<and> \<not> (0xD800 \<le> c \<and> c \<le> 0xDFFF)"

definition encode_utf16_char :: "rchar \<Rightarrow> u16 list" where
  "encode_utf16_char c =
    (if c < 0x10000 then [word_of_nat c]
     else [word_of_nat (0xD800 + (c - 0x10000) div 0x400), word_of_nat (0xDC00 + (c - 0x10000) mod 0x400)])"

definition encode_utf16 :: "rstr \<Rightarrow> u16 list" where
  "encode_utf16 s = concat (map encode_utf16_char s)"

definition encode_utf8_char :: "rchar \<Rightarrow> bytes" where
  "encode_utf8_char c =
    (if c < 0x80 then [word_of_nat c]
     else if c < 0x800 then [word_of_nat (0xC0 + c div 0x40), word_of_nat (0x80 + c mod 0x40)]
     else if c < 0x10000 then
       [word_of_nat (0xE0 + c div 0x1000), word_of_nat (0x80 + c div 0x40 mod 0x40), word_of_nat (0x80 + c mod 0x40)]
     else
       [word_of_nat (0xF0 + c div 0x40000), word_of_nat (0x80 + c div 0x1000 mod 0x40),
        word_of_nat (0x80 + c div 0x40 mod 0x40), word_of_nat (0x80 + c mod 0x40)])"

definition encode_utf8 :: "rstr \<Rightarrow> bytes" where
  "encode_utf8 s = concat (map encode_utf8_char s)"

section \<open>Char8 and Char16\<close>

type_synonym char8 = u8
type_synonym char16 = u16

datatype char_conversion_error = CharConversionError

definition NUL_8 :: char8 where
  "NUL_8 = 0"

definition NUL_16 :: char16 where
  "NUL_16 = 0"

definition char8_try_from_char :: "rchar \<Rightarrow> (char8, char_conversion_error) result" where
  "char8_try_from_char c = (if c < 0x100 then Ok (word_of_nat c) else Err CharConversionError)"

definition char_from_char8 :: "char8 \<Rightarrow> rchar" where
  "char_from_char8 c = unat c"

definition char8_eq_char :: "char8 \<Rightarrow> rchar \<Rightarrow> bool" where
  "char8_eq_char c d = (unat c = d)"

definition char16_is_ascii :: "char16 \<Rightarrow> bool" where
  "char16_is_ascii c = (c \<le> 127)"

definition char16_try_from_char :: "rchar \<Rightarrow> (char16, char_conversion_error) result" where
  "char16_try_from_char c = (if c < 0x10000 then Ok (word_of_nat c) else Err CharConversionError)"

definition char_from_char16 :: "char16 \<Rightarrow> rchar option" where
  "char_from_char16 c = do { require (is_rchar (unat c)); Some (unat c) }"

definition char16_try_from_u16 :: "u16 \<Rightarrow> (char16, char_conversion_error) result" where
  "char16_try_from_u16 v =
    (if is_rchar (unat v) then char16_try_from_char (unat v) else Err CharConversionError)"

definition char16_eq_char :: "char16 \<Rightarrow> rchar \<Rightarrow> bool" where
  "char16_eq_char c d = (unat c = d)"

section \<open>Error types\<close>

datatype from_slice_until_nul_error = UntilNul_InvalidChar usize | UntilNul_NoNul

datatype from_slice_with_nul_error = InvalidChar usize | InteriorNul usize | NotNulTerminated

datatype unaligned_cstr16_error =
  Unaligned_InvalidChar usize | Unaligned_InteriorNul usize | Unaligned_NotNulTerminated
| Unaligned_BufferTooSmall

datatype from_str_with_buf_error =
  StrBuf_InvalidChar usize | StrBuf_InteriorNul usize | StrBuf_BufferTooSmall

datatype from_str_error = Str_InvalidChar | Str_InteriorNul

section \<open>CStr8\<close>

text \<open>A pointer to characters is the memory from the pointed-to address on.\<close>

fun ptr_strlen :: "'c \<Rightarrow> 'c list \<Rightarrow> nat option" where
  "ptr_strlen z [] = None"
| "ptr_strlen z (c # cs) = (if c \<noteq> z then map_option Suc (ptr_strlen z cs) else Some 0)"

definition cstr8_from_ptr :: "char8 list \<Rightarrow> char8 list option" where
  "cstr8_from_ptr mem = do { n \<leftarrow> ptr_strlen NUL_8 mem; Some (take (n + 1) mem) }"

definition from_bytes_with_nul :: "u8 list \<Rightarrow> (char8 list, from_slice_with_nul_error) result" where
  "from_bytes_with_nul chars =
    (case position (\<lambda>c. c = 0) chars of
       Some nul_pos \<Rightarrow>
         if nul_pos + 1 \<noteq> length chars then Err (InteriorNul nul_pos) else Ok chars
     | None \<Rightarrow> Err NotNulTerminated)"

definition zip_until_nul_differs :: "rchar list \<Rightarrow> rchar list \<Rightarrow> bool" where
  "zip_until_nul_differs ls rs =
    list_ex (\<lambda>(l, r). l \<noteq> r) (takeWhile (\<lambda>(l, r). l \<noteq> 0 \<and> r \<noteq> 0) (zip ls rs))"

definition cstr8_eq_str_until_nul :: "char8 list \<Rightarrow> rstr \<Rightarrow> bool" where
  "cstr8_eq_str_until_nul s other = (\<not> zip_until_nul_differs (map char_from_char8 s) other)"

section \<open>Latin-1 conversion of string literals\<close>

definition latin1_from_utf8_at_offset :: "bytes \<Rightarrow> usize \<Rightarrow> (u8 \<times> usize) option" where
  "latin1_from_utf8_at_offset b off = do {
     x \<leftarrow> get_at b off;
     if x AND 0x80 = 0 then Some (x, 1)
     else if x AND 0xE0 = 0xC0 then do {
       y \<leftarrow> get_at b (off + 1);
       let ch = push_bit 6 (ucast (x AND 0x1F) :: u16) OR ucast (y AND 0x3F);
       require (\<not> ch > 0xff);
       Some (ucast ch, 2)
     }
     else None
   }"

function str_num_latin1_chars_loop :: "bytes \<Rightarrow> usize \<Rightarrow> usize \<Rightarrow> usize option" where
  "str_num_latin1_chars_loop b off n =
    (if off < length b then do {
       r \<leftarrow> latin1_from_utf8_at_offset b off;
       str_num_latin1_chars_loop b (off + snd r) (n + 1)
     } else Some n)"
  by pat_completeness auto
termination
  by (relation "measure (\<lambda>(b, off, n). length b - off)")
    (auto simp: latin1_from_utf8_at_offset_def Let_def split: if_splits bind_splits)

definition str_num_latin1_chars :: "bytes \<Rightarrow> usize option" where
  "str_num_latin1_chars b = str_num_latin1_chars_loop b 0 0"

function str_to_latin1_loop :: "bytes \<Rightarrow> usize \<Rightarrow> usize \<Rightarrow> bytes \<Rightarrow> (usize \<times> bytes) option" where
  "str_to_latin1_loop b input_offset output_offset out =
    (if input_offset < length b then do {
       r \<leftarrow> latin1_from_utf8_at_offset b input_offset;
       if fst r = 0 then None
       else do {
         require (output_offset < length out);
         str_to_latin1_loop b (input_offset + snd r) (output_offset + 1) (out[output_offset := fst r])
       }
     } else Some (output_offset, out))"
  by pat_completeness auto
termination
  by (relation "measure (\<lambda>(b, i, n, out). length b - i)")
    (auto simp: latin1_from_utf8_at_offset_def Let_def split: if_splits bind_splits)

definition str_to_latin1 :: "usize \<Rightarrow> bytes \<Rightarrow> bytes option" where
  "str_to_latin1 N b = do {
     r \<leftarrow> str_to_latin1_loop b 0 0 (replicate N 0);
     require (fst r + 1 = N);
     Some (snd r)
   }"

declare str_num_latin1_chars_loop.simps [simp del] str_to_latin1_loop.simps [simp del]

section \<open>Unaligned slices\<close>

text \<open>The memory from the data pointer on and the number of elements; \<open>sz\<close> and \<open>dec\<close>
  are the size and the byte layout of the element type. Reading past the end of the memory is
  \<open>None\<close>.\<close>

record unaligned_slice =
  us_data :: bytes
  us_len :: usize

definition read_unaligned :: "nat \<Rightarrow> (bytes \<Rightarrow> 'a) \<Rightarrow> unaligned_slice \<Rightarrow> usize \<Rightarrow> 'a option" where
  "read_unaligned sz dec s i =
    (if i * sz + sz \<le> length (us_data s) then Some (read_field sz dec (i * sz) (us_data s)) else None)"

definition us_get :: "nat \<Rightarrow> (bytes \<Rightarrow> 'a) \<Rightarrow> unaligned_slice \<Rightarrow> usize \<Rightarrow> 'a option option" where
  "us_get sz dec s i =
    (if i < us_len s then do { x \<leftarrow> read_unaligned sz dec s i; Some (Some x) } else Some None)"

fun copy_elems :: "nat \<Rightarrow> (bytes \<Rightarrow> 'a) \<Rightarrow> unaligned_slice \<Rightarrow> nat \<Rightarrow> 'a list \<Rightarrow> 'a list option" where
  "copy_elems sz dec s i [] = Some []"
| "copy_elems sz dec s i (d # dest) = do {
     x \<leftarrow> read_unaligned sz dec s i;
     xs \<leftarrow> copy_elems sz dec s (i + 1) dest;
     Some (x # xs)
   }"

text \<open>\<open>copy_to\<close> and \<open>copy_to_maybe_uninit\<close> return the new contents of the
  destination.\<close>

definition us_copy_to :: "nat \<Rightarrow> (bytes \<Rightarrow> 'a) \<Rightarrow> unaligned_slice \<Rightarrow> 'a list \<Rightarrow> 'a list option" where
  "us_copy_to sz dec s dest = do {
     require (length dest = us_len s);
     copy_elems sz dec s 0 dest
   }"

definition us_copy_to_maybe_uninit ::
  "nat \<Rightarrow> (bytes \<Rightarrow> 'a) \<Rightarrow> unaligned_slice \<Rightarrow> 'a option list \<Rightarrow> 'a option list option" where
  "us_copy_to_maybe_uninit sz dec s dest = do {
     require (length dest = us_len s);
     xs \<leftarrow> copy_elems sz (\<lambda>b. Some (dec b)) s 0 dest;
     Some xs
   }"

text \<open>\<open>to_vec\<close> copies into the spare capacity of a fresh vector;
  \<open>Vec::with_capacity(n)\<close> reserves \<open>cap n\<close> elements, which the standard library
  documents to be at least \<open>n\<close>.\<close>

definition us_to_vec :: "(nat \<Rightarrow> nat) \<Rightarrow> nat \<Rightarrow> (bytes \<Rightarrow> 'a) \<Rightarrow> unaligned_slice \<Rightarrow> 'a list option" where
  "us_to_vec cap sz dec s = do {
     v \<leftarrow> us_copy_to_maybe_uninit sz dec s (replicate (cap (us_len s)) None);
     Some (map the (take (us_len s) v))
   }"

record unaligned_slice_iter =
  usi_slice :: unaligned_slice
  usi_index :: usize

definition us_iter_next ::
  "nat \<Rightarrow> (bytes \<Rightarrow> 'a) \<Rightarrow> unaligned_slice_iter \<Rightarrow> ('a option \<times> unaligned_slice_iter) option" where
  "us_iter_next sz dec it = do {
     output \<leftarrow> us_get sz dec (usi_slice it) (usi_index it);
     case output of
       None \<Rightarrow> Some (None, it)
     | Some x \<Rightarrow> do { i \<leftarrow> uadd (usi_index it) 1; Some (Some x, it\<lparr>usi_index := i\<rparr>) }
   }"

section \<open>CStr16\<close>

definition cstr16_from_ptr :: "char16 list \<Rightarrow> char16 list option" where
  "cstr16_from_ptr mem = do { n \<leftarrow> ptr_strlen NUL_16 mem; Some (take (n + 1) mem) }"

fun from_u16_until_nul_loop ::
  "u16 list \<Rightarrow> usize \<Rightarrow> u16 list \<Rightarrow> (char16 list, from_slice_until_nul_error) result" where
  "from_u16_until_nul_loop codes pos [] = Err UntilNul_NoNul"
| "from_u16_until_nul_loop codes pos (code # rest) =
    (case char16_try_from_u16 code of
       Err _ \<Rightarrow> Err (UntilNul_InvalidChar pos)
     | Ok chr \<Rightarrow>
         if chr = NUL_16 then Ok (take (pos + 1) codes)
         else from_u16_until_nul_loop codes (pos + 1) rest)"

definition from_u16_until_nul :: "u16 list \<Rightarrow> (char16 list, from_slice_until_nul_error) result" where
  "from_u16_until_nul codes = from_u16_until_nul_loop codes 0 codes"

fun from_u16_with_nul_loop ::
  "u16 list \<Rightarrow> usize \<Rightarrow> u16 list \<Rightarrow> (char16 list, from_slice_with_nul_error) result" where
  "from_u16_with_nul_loop codes pos [] = Err NotNulTerminated"
| "from_u16_with_nul_loop codes pos (code # rest) =
    (case char16_try_from_u16 code of
       Ok chr \<Rightarrow>
         if chr = NUL_16 then
           (if pos \<noteq> length codes - 1 then Err (InteriorNul pos) else Ok codes)
         else from_u16_with_nul_loop codes (pos + 1) rest
     | Err _ \<Rightarrow> Err (InvalidChar pos))"

definition from_u16_with_nul :: "u16 list \<Rightarrow> (char16 list, from_slice_with_nul_error) result" where
  "from_u16_with_nul codes = from_u16_with_nul_loop codes 0 codes"

definition from_char16_until_nul :: "char16 list \<Rightarrow> (char16 list, from_slice_until_nul_error) result" where
  "from_char16_until_nul chars =
    and_then (ok_or UntilNul_NoNul (position (\<lambda>c. c = NUL_16) chars)) (\<lambda>i. Ok (take (i + 1) chars))"

definition from_char16_with_nul :: "char16 list \<Rightarrow> (char16 list, from_slice_with_nul_error) result" where
  "from_char16_with_nul chars =
    (if chars = [] then Err NotNulTerminated
     else case position (\<lambda>c. c = NUL_16) chars of
       Some null_index \<Rightarrow>
         if null_index = length chars - 1 then Ok chars else Err (InteriorNul null_index)
     | None \<Rightarrow> Err NotNulTerminated)"

text \<open>The loop of \<open>from_str_with_buf\<close>: store the UTF-16 units one by one; the buffer keeps what
  was written when it runs out of room.\<close>

fun write_units :: "u16 list \<Rightarrow> usize \<Rightarrow> u16 list \<Rightarrow> (usize, from_str_with_buf_error) result \<times> u16 list" where
  "write_units [] i b = (Ok i, b)"
| "write_units (c # cs) i b =
    (if i < length b then write_units cs (i + 1) (b[i := c]) else (Err StrBuf_BufferTooSmall, b))"

fun str_buf_error :: "from_slice_with_nul_error \<Rightarrow> from_str_with_buf_error option" where
  "str_buf_error (InvalidChar p) = Some (StrBuf_InvalidChar p)"
| "str_buf_error (InteriorNul p) = Some (StrBuf_InteriorNul p)"
| "str_buf_error NotNulTerminated = None"

definition from_str_with_buf ::
  "rstr \<Rightarrow> u16 list \<Rightarrow> ((char16 list, from_str_with_buf_error) result \<times> u16 list) option" where
  "from_str_with_buf input b =
    (case write_units (encode_utf16 input) 0 b of
       (Err e, b1) \<Rightarrow> Some (Err e, b1)
     | (Ok i, b1) \<Rightarrow>
         if \<not> i < length b1 then Some (Err StrBuf_BufferTooSmall, b1)
         else
           let b2 = b1[i := 0]
           in case from_u16_with_nul (take (i + 1) b2) of
                Ok s \<Rightarrow> Some (Ok s, b2)
              | Err e \<Rightarrow> do { e' \<leftarrow> str_buf_error e; Some (Err e', b2) })"

fun unaligned_error :: "from_slice_with_nul_error \<Rightarrow> unaligned_cstr16_error" where
  "unaligned_error (InvalidChar v) = Unaligned_InvalidChar v"
| "unaligned_error (InteriorNul v) = Unaligned_InteriorNul v"
| "unaligned_error NotNulTerminated = Unaligned_NotNulTerminated"

definition from_unaligned_slice ::
  "unaligned_slice \<Rightarrow> u16 option list \<Rightarrow> (char16 list, unaligned_cstr16_error) panicking" where
  "from_unaligned_slice src b =
    (case get_range b 0 (us_len src) of
       None \<Rightarrow> Some (Err Unaligned_BufferTooSmall)
     | Some sub \<Rightarrow> do {
         filled \<leftarrow> us_copy_to_maybe_uninit 2 u16_from_le src sub;
         Some (map_err unaligned_error (from_u16_with_nul (map the filled)))
       })"

definition num_chars :: "char16 list \<Rightarrow> usize option" where
  "num_chars s = usub (length s) 1"

definition as_slice :: "char16 list \<Rightarrow> char16 list option" where
  "as_slice s = do { n \<leftarrow> num_chars s; get_range s 0 n }"

definition as_slice_with_nul :: "char16 list \<Rightarrow> char16 list" where
  "as_slice_with_nul s = s"

definition to_u16_slice :: "char16 list \<Rightarrow> u16 list option" where
  "to_u16_slice s = do { n \<leftarrow> usub (length s) 1; get_range s 0 n }"

definition cstr16_is_empty :: "char16 list \<Rightarrow> bool option" where
  "cstr16_is_empty s = do { n \<leftarrow> num_chars s; Some (n = 0) }"

definition num_bytes :: "char16 list \<Rightarrow> usize option" where
  "num_bytes s = umul (length s) 2"

definition cstr16_is_ascii :: "char16 list \<Rightarrow> bool" where
  "cstr16_is_ascii s = list_all char16_is_ascii s"

definition cstr16_as_bytes :: "char16 list \<Rightarrow> bytes" where
  "cstr16_as_bytes s = concat (map u16_to_le s)"

record cstr16_iter =
  ci_inner :: "char16 list"
  ci_pos :: usize

definition cstr16_iter :: "char16 list \<Rightarrow> cstr16_iter" where
  "cstr16_iter s = \<lparr>ci_inner = s, ci_pos = 0\<rparr>"

definition cstr16_iter_next :: "cstr16_iter \<Rightarrow> (char16 option \<times> cstr16_iter) option" where
  "cstr16_iter_next it = do {
     n \<leftarrow> usub (length (ci_inner it)) 1;
     if ci_pos it \<ge> n then Some (None, it)
     else do {
       p \<leftarrow> uadd (ci_pos it) 1;
       Some (get_at (ci_inner it) (p - 1), it\<lparr>ci_pos := p\<rparr>)
     }
   }"

text \<open>The formatter that \<open>as_str_in_buf\<close> writes to is a parameter: \<open>write_char\<close>
  returns whether the write succeeded, and the new state of the sink.\<close>

fun write_chars :: "('w \<Rightarrow> rchar \<Rightarrow> (unit, unit) result \<times> 'w) \<Rightarrow> char16 list \<Rightarrow> 'w \<Rightarrow> ((unit, unit) result \<times> 'w) option" where
  "write_chars write_char [] w = Some (Ok (), w)"
| "write_chars write_char (c # cs) w = do {
     ch \<leftarrow> char_from_char16 c;
     case write_char w ch of
       (Err e, w') \<Rightarrow> Some (Err e, w')
     | (Ok _, w') \<Rightarrow> write_chars write_char cs w'
   }"

definition as_str_in_buf ::
  "('w \<Rightarrow> rchar \<Rightarrow> (unit, unit) result \<times> 'w) \<Rightarrow> char16 list \<Rightarrow> 'w \<Rightarrow> ((unit, unit) result \<times> 'w) option" where
  "as_str_in_buf write_char s w = do {
     cs \<leftarrow> collect_iter cstr16_iter_next (cstr16_iter s);
     write_chars write_char cs w
   }"

definition string_from_cstr16 :: "char16 list \<Rightarrow> rstr option" where
  "string_from_cstr16 s = do {
     cs \<leftarrow> as_slice s;
     those (map char_from_char16 cs)
   }"

definition cstr16_eq_str_until_nul :: "char16 list \<Rightarrow> rstr \<Rightarrow> bool option" where
  "cstr16_eq_str_until_nul s other = do {
     cs \<leftarrow> collect_iter cstr16_iter_next (cstr16_iter s);
     ls \<leftarrow> those (map char_from_char16 cs);
     Some (\<not> zip_until_nul_differs ls other)
   }"

section \<open>CString16\<close>

definition cstring16_new :: "char16 list" where
  "cstring16_new = [NUL_16]"

definition cstring16_push :: "char16 list \<Rightarrow> char16 \<Rightarrow> char16 list option" where
  "cstring16_push s c = do {
     require (c \<noteq> NUL_16);
     require (s \<noteq> []);
     Some (s[length s - 1 := c] @ [NUL_16])
   }"

fun push_all :: "char16 list \<Rightarrow> char16 list \<Rightarrow> char16 list option" where
  "push_all s [] = Some s"
| "push_all s (c # cs) = do { s' \<leftarrow> cstring16_push s c; push_all s' cs }"

definition cstring16_push_str :: "char16 list \<Rightarrow> char16 list \<Rightarrow> char16 list option" where
  "cstring16_push_str s str = do { cs \<leftarrow> as_slice str; push_all s cs }"

definition cstring16_replace_char :: "char16 list \<Rightarrow> char16 \<Rightarrow> char16 \<Rightarrow> char16 list option" where
  "cstring16_replace_char s search replace = do {
     require (search \<noteq> NUL_16);
     require (replace \<noteq> NUL_16);
     Some (map (\<lambda>c. if c = search then replace else c) s)
   }"

definition cstring16_num_chars :: "char16 list \<Rightarrow> usize option" where
  "cstring16_num_chars s = usub (length s) 1"

definition cstring16_is_empty :: "char16 list \<Rightarrow> bool option" where
  "cstring16_is_empty s = do { n \<leftarrow> cstring16_num_chars s; Some (n = 0) }"

fun from_str_loop :: "u16 list \<Rightarrow> char16 list \<Rightarrow> (char16 list, from_str_error) result" where
  "from_str_loop [] out = Ok (out @ [NUL_16])"
| "from_str_loop (c # cs) out =
    (case char16_try_from_u16 c of
       Err _ \<Rightarrow> Err Str_InvalidChar
     | Ok ch \<Rightarrow> if ch = NUL_16 then Err Str_InteriorNul else from_str_loop cs (out @ [ch]))"

definition cstring16_try_from_str :: "rstr \<Rightarrow> (char16 list, from_str_error) result" where
  "cstring16_try_from_str input = from_str_loop (encode_utf16 input) []"

definition cstring16_try_from_vec :: "u16 list \<Rightarrow> (char16 list, from_slice_with_nul_error) result" where
  "cstring16_try_from_vec input = and_then (from_u16_with_nul input) (\<lambda>_. Ok input)"

definition cstring16_try_from_unaligned ::
  "(nat \<Rightarrow> nat) \<Rightarrow> unaligned_slice \<Rightarrow> (char16 list, from_slice_with_nul_error) panicking" where
  "cstring16_try_from_unaligned cap input = do {
     v \<leftarrow> us_to_vec cap 2 u16_from_le input;
     Some (cstring16_try_from_vec v)
   }"

definition cstring16_from_cstr16 :: "char16 list \<Rightarrow> char16 list" where
  "cstring16_from_cstr16 s = as_slice_with_nul s"

section \<open>Invariants\<close>

definition nul_terminated :: "('n \<Rightarrow> bool) \<Rightarrow> 'n :: zero list \<Rightarrow> bool" where
  "nul_terminated ok s \<longleftrightarrow> s \<noteq> [] \<and> last s = 0 \<and> 0 \<notin> set (butlast s) \<and> list_all ok s"

definition ucs2 :: "u16 \<Rightarrow> bool" where
  "ucs2 c \<longleftrightarrow> is_rchar (unat c)"

definition cstr16_inv :: "char16 list \<Rightarrow> bool" where
  "cstr16_inv s = nul_terminated ucs2 s"

definition cstr8_inv :: "char8 list \<Rightarrow> bool" where
  "cstr8_inv s = nul_terminated (\<lambda>_. True) s"

end
