(* ===== verification/Strings_Props.thy ===== *)
theory Strings_Props
  imports Strings
begin

text \<open>
  Properties of the character and string types: what each constructor accepts and which index it
  reports otherwise, conversions between Rust strings and UCS-2 strings, growth of
  \<open>CString16\<close>, the Latin-1 conversion, and the comparison \<open>eq_str_until_nul\<close>.
\<close>

section \<open>Characters\<close>

lemma unat_u16: "unat (c :: u16) < 0x10000"
  using unsigned_less [of c] by simp

lemma is_rchar_bmp: "is_rchar c \<Longrightarrow> c < 0x10000 \<Longrightarrow> unat (word_of_nat c :: u16) = c"
  by (simp add: unat_of_nat)

lemma char16_try_from_u16_eq:
  "char16_try_from_u16 v = (if ucs2 v then Ok v else Err CharConversionError)"
  using unat_u16 [of v] by (simp add: char16_try_from_u16_def char16_try_from_char_def ucs2_def)

lemma ucs2_0 [simp]: "ucs2 0"
  by (simp add: ucs2_def is_rchar_def)

lemma char_from_char16_eq: "char_from_char16 c = (if ucs2 c then Some (unat c) else None)"
  by (simp add: char_from_char16_def ucs2_def)

section \<open>Null-terminated strings\<close>

lemma nul_terminated_snoc:
  "nul_terminated ok (xs @ [x]) \<longleftrightarrow> x = 0 \<and> 0 \<notin> set xs \<and> list_all ok xs \<and> ok x"
  by (auto simp: nul_terminated_def)

lemma nul_terminatedE:
  assumes "nul_terminated ok s"
  obtains xs where "s = xs @ [0]" "0 \<notin> set xs" "list_all ok xs" "ok 0"
  using assms nul_terminated_snoc [of ok "butlast s" "last s"]
  by (metis append_butlast_last_id nul_terminated_def)

lemma nul_terminated_position:
  "nul_terminated ok s \<longleftrightarrow>
    (\<exists>i. position (\<lambda>c. \<not> ok c \<or> c = 0) s = Some i \<and> ok (s ! i) \<and> i = length s - 1)"
proof (cases s rule: rev_cases)
  case (snoc xs x)
  have "position (\<lambda>c. \<not> ok c \<or> c = 0) (xs @ [x]) = Some (length xs) \<longleftrightarrow>
      (\<forall>c \<in> set xs. ok c \<and> c \<noteq> 0) \<and> (\<not> ok x \<or> x = 0)"
    by (auto simp: position_Some_iff nth_append all_set_conv_all_nth)
  then show ?thesis by (auto simp: snoc nul_terminated_snoc list_all_iff)
qed (simp add: nul_terminated_def)

locale nul_string_constructor =
  fixes construct :: "'n :: zero list \<Rightarrow> ('n list, 'e) result" and ok :: "'n \<Rightarrow> bool"
  assumes construct_ok: "construct s = Ok t \<longleftrightarrow> t = s \<and> nul_terminated ok s"
begin

lemma construct_snoc:
  "construct (xs @ [x]) = Ok t \<longleftrightarrow> t = xs @ [x] \<and> x = 0 \<and> 0 \<notin> set xs \<and> list_all ok xs \<and> ok x"
  by (auto simp: construct_ok nul_terminated_snoc)

lemma construct_again: "construct s = Ok t \<Longrightarrow> construct t = Ok t"
  by (simp add: construct_ok)

lemma construct_fails: "(\<exists>e. construct s = Err e) \<longleftrightarrow> \<not> nul_terminated ok s"
  using construct_ok [of s] by (cases "construct s") auto

end

section \<open>The constructors of borrowed strings\<close>

text \<open>The reference definition of the checked constructors: look at the first code unit that is
  invalid or null.\<close>

definition classify_units ::
  "('n \<Rightarrow> bool) \<Rightarrow> 'n :: zero list \<Rightarrow> ('n list, from_slice_with_nul_error) result" where
  "classify_units ok s =
    (case position (\<lambda>c. \<not> ok c \<or> c = 0) s of
       None \<Rightarrow> Err NotNulTerminated
     | Some i \<Rightarrow>
         if \<not> ok (s ! i) then Err (InvalidChar i)
         else if i = length s - 1 then Ok s else Err (InteriorNul i))"

lemma classify_units_ok: "classify_units ok s = Ok t \<longleftrightarrow> t = s \<and> nul_terminated ok s"
  by (auto simp: classify_units_def nul_terminated_position split: option.splits)

lemma from_u16_with_nul_loop_eq:
  assumes "codes = pre @ rest" and "length pre = pos" and "\<forall>c \<in> set pre. ucs2 c \<and> c \<noteq> 0"
  shows "from_u16_with_nul_loop codes pos rest = classify_units ucs2 codes"
  using assms
proof (induction rest arbitrary: pre pos)
  case Nil
  then have "position (\<lambda>c. \<not> ucs2 c \<or> c = 0) codes = None" by (auto simp: position_None_iff)
  then show ?case by (simp add: classify_units_def)
next
  case (Cons c rest)
  have stop: "position (\<lambda>c. \<not> ucs2 c \<or> c = 0) codes = Some pos" if "\<not> ucs2 c \<or> c = 0"
    using that Cons.prems by (auto simp: position_Some_iff nth_append)
  have at: "codes ! pos = c" using Cons.prems by auto
  show ?case
  proof (cases "\<not> ucs2 c \<or> c = 0")
    case True
    then show ?thesis using stop at
      by (auto simp: char16_try_from_u16_eq NUL_16_def classify_units_def)
  next
    case False
    have "from_u16_with_nul_loop codes (pos + 1) rest = classify_units ucs2 codes"
      using Cons.prems False by (intro Cons.IH [of "pre @ [c]"]) auto
    then show ?thesis using False by (simp add: char16_try_from_u16_eq NUL_16_def)
  qed
qed

lemma from_u16_with_nul_eq: "from_u16_with_nul codes = classify_units ucs2 codes"
  by (simp add: from_u16_with_nul_def from_u16_with_nul_loop_eq [of codes "[]"])

lemma from_bytes_with_nul_eq: "from_bytes_with_nul cs = classify_units (\<lambda>_. True) cs"
  by (cases "position (\<lambda>c. c = 0) cs")
    (auto simp: from_bytes_with_nul_def classify_units_def dest: position_less)

lemma from_char16_with_nul_eq: "from_char16_with_nul cs = classify_units (\<lambda>_. True) cs"
  by (cases "position (\<lambda>c. c = 0) cs")
    (auto simp: from_char16_with_nul_def classify_units_def NUL_16_def)

interpretation u16_nul: nul_string_constructor from_u16_with_nul ucs2
  by unfold_locales (simp add: from_u16_with_nul_eq classify_units_ok)

interpretation c8_nul: nul_string_constructor from_bytes_with_nul "\<lambda>_. True"
  by unfold_locales (simp add: from_bytes_with_nul_eq classify_units_ok)

interpretation c16_nul: nul_string_constructor from_char16_with_nul "\<lambda>_. True"
  by unfold_locales (simp add: from_char16_with_nul_eq classify_units_ok)

interpretation vec_nul: nul_string_constructor cstring16_try_from_vec ucs2
proof unfold_locales
  fix s t
  show "cstring16_try_from_vec s = Ok t \<longleftrightarrow> t = s \<and> nul_terminated ucs2 s"
    using u16_nul.construct_ok [of s] by (cases "from_u16_with_nul s") (auto simp: cstring16_try_from_vec_def)
qed

lemma from_u16_until_nul_loop_eq:
  assumes "codes = pre @ rest" and "length pre = pos" and "\<forall>c \<in> set pre. ucs2 c \<and> c \<noteq> 0"
  shows "from_u16_until_nul_loop codes pos rest =
    (case position (\<lambda>c. \<not> ucs2 c \<or> c = 0) codes of
       None \<Rightarrow> Err UntilNul_NoNul
     | Some i \<Rightarrow> if ucs2 (codes ! i) then Ok (take (i + 1) codes) else Err (UntilNul_InvalidChar i))"
  using assms
proof (induction rest arbitrary: pre pos)
  case Nil
  then have "position (\<lambda>c. \<not> ucs2 c \<or> c = 0) codes = None" by (auto simp: position_None_iff)
  then show ?case by simp
next
  case (Cons c rest)
  have stop: "position (\<lambda>c. \<not> ucs2 c \<or> c = 0) codes = Some pos" if "\<not> ucs2 c \<or> c = 0"
    using that Cons.prems by (auto simp: position_Some_iff nth_append)
  have at: "codes ! pos = c" using Cons.prems by auto
  show ?case
  proof (cases "\<not> ucs2 c \<or> c = 0")
    case True
    then show ?thesis using stop at by (auto simp: char16_try_from_u16_eq NUL_16_def)
  next
    case False
    then show ?thesis using Cons.prems Cons.IH [of "pre @ [c]" "pos + 1"]
      by (auto simp: char16_try_from_u16_eq NUL_16_def)
  qed
qed

lemma take_until_nul_inv:
  assumes "position (\<lambda>c. \<not> ok c \<or> c = 0) codes = Some i" and "ok (codes ! i)"
  shows "nul_terminated ok (take (i + 1) codes)"
proof -
  have "i < length codes" "codes ! i = 0" "\<forall>j < i. ok (codes ! j) \<and> codes ! j \<noteq> 0"
    using assms by (auto simp: position_Some_iff)
  then show ?thesis using assms(2)
    by (auto simp: take_Suc_conv_app_nth nul_terminated_snoc list_all_iff in_set_conv_nth)
qed

section \<open>Latin-1\<close>

unbundle bit_operations_syntax

lemma all_less_upt: "(\<forall>k < n. P (k :: nat)) \<longleftrightarrow> list_all P [0..<n]"
  by (auto simp: list_all_iff)

lemma utf8_lead2:
  "\<forall>k < 32. (word_of_nat (0xC0 + k) :: u8) AND 0x80 \<noteq> 0 \<and>
     (word_of_nat (0xC0 + k) :: u8) AND 0xE0 = 0xC0 \<and> (word_of_nat (0xC0 + k) :: u8) AND 0x1F = word_of_nat k"
  unfolding all_less_upt by code_simp

lemma utf8_cont: "\<forall>k < 64. (word_of_nat (0x80 + k) :: u8) AND 0x3F = word_of_nat k"
  unfolding all_less_upt by code_simp

lemma utf8_lead34:
  "\<forall>k < 32. (word_of_nat (0xE0 + k) :: u8) AND 0x80 \<noteq> 0 \<and> (word_of_nat (0xE0 + k) :: u8) AND 0xE0 \<noteq> 0xC0"
  unfolding all_less_upt by code_simp

lemma utf8_ascii: "\<forall>k < 128. (word_of_nat k :: u8) AND 0x80 = 0"
  unfolding all_less_upt by code_simp

lemma utf8_combine:
  assumes "k < 32" "l < 64"
  shows "push_bit 6 (ucast (word_of_nat k :: u8) :: u16) OR ucast (word_of_nat l :: u8) = word_of_nat (64 * k + l)"
proof -
  have a: "(ucast (word_of_nat k :: u8) :: u16) = word_of_nat k" "(ucast (word_of_nat l :: u8) :: u16) = word_of_nat l"
    using assms by (simp_all add: unsigned_of_nat take_bit_nat_eq_self)
  have l: "take_bit 6 (word_of_nat l :: u16) = word_of_nat l"
    using assms by (simp add: take_bit_nat_eq_self flip: of_nat_take_bit)
  have low: "bit (word_of_nat l :: u16) n \<Longrightarrow> n < 6" for n
    using l by (metis bit_take_bit_iff)
  have "push_bit 6 (word_of_nat k :: u16) OR word_of_nat l = push_bit 6 (word_of_nat k) + word_of_nat l"
    by (rule disjunctive_add [symmetric]) (use low in \<open>force simp: bit_simps\<close>)
  then show ?thesis by (simp add: a push_bit_eq_mult)
qed

lemma latin1_at_char:
  assumes "is_rchar c"
  shows "latin1_from_utf8_at_offset (pre @ encode_utf8_char c @ post) (length pre) =
    (if c < 0x100 then Some (word_of_nat c, length (encode_utf8_char c)) else None)"
proof -
  consider "c < 0x80" | "0x80 \<le> c" "c < 0x800" | "0x800 \<le> c" by linarith
  then show ?thesis
  proof cases
    case 1
    then show ?thesis using utf8_ascii
      by (simp add: latin1_from_utf8_at_offset_def encode_utf8_char_def get_at_def)
  next
    case 2
    define k l where "k = c div 64" and "l = c mod 64"
    have kl: "k < 32" "l < 64" "64 * k + l = c" using 2 by (auto simp: k_def l_def)
    have "push_bit 6 (ucast (word_of_nat k :: u8) :: u16) OR ucast (word_of_nat l :: u8) = word_of_nat c"
      using utf8_combine [OF kl(1,2)] kl(3) by simp
    moreover have "(word_of_nat c :: u16) > 0xff \<longleftrightarrow> \<not> c < 0x100"
      using 2 by (auto simp: word_less_nat_alt unat_of_nat)
    moreover have "c < 0x100 \<Longrightarrow> (ucast (word_of_nat c :: u16) :: u8) = word_of_nat c"
      by (simp add: unsigned_of_nat take_bit_nat_eq_self)
    moreover have "encode_utf8_char c = [word_of_nat (0xC0 + k), word_of_nat (0x80 + l)]"
      using 2 by (simp add: encode_utf8_char_def k_def l_def)
    ultimately show ?thesis
      using utf8_lead2 [rule_format, OF kl(1)] utf8_cont [rule_format, OF kl(2)]
      by (simp add: latin1_from_utf8_at_offset_def get_at_def nth_append Let_def)
  next
    case 3
    obtain k bs where "k < 32" "encode_utf8_char c = word_of_nat (0xE0 + k) # bs"
    proof (cases "c < 0x10000")
      case True
      then show ?thesis using 3 that [of "c div 0x1000"] by (simp add: encode_utf8_char_def)
    next
      case False
      then have "encode_utf8_char c = word_of_nat (0xE0 + (16 + c div 0x40000)) # tl (encode_utf8_char c)"
        by (simp add: encode_utf8_char_def)
      moreover have "16 + c div 0x40000 < 32" using assms by (auto simp: is_rchar_def)
      ultimately show ?thesis using that by blast
    qed
    then show ?thesis using 3 utf8_lead34
      by (simp add: latin1_from_utf8_at_offset_def get_at_def)
  qed
qed

lemma encode_utf8_char_nonempty [simp]: "encode_utf8_char c \<noteq> []"
  by (simp add: encode_utf8_char_def)

lemma encode_utf8_Cons: "encode_utf8 (c # s) = encode_utf8_char c @ encode_utf8 s"
  by (simp add: encode_utf8_def)

lemma str_num_latin1_chars_loop_eq:
  assumes "list_all is_rchar s"
  shows "str_num_latin1_chars_loop (pre @ encode_utf8 s) (length pre) n =
    (if \<forall>c \<in> set s. c < 0x100 then Some (n + length s) else None)"
  using assms
proof (induction s arbitrary: pre n)
  case Nil
  then show ?case by (subst str_num_latin1_chars_loop.simps) (simp add: encode_utf8_def)
next
  case (Cons c s)
  show ?case using Cons.prems Cons.IH [of "pre @ encode_utf8_char c" "n + 1"]
    by (subst str_num_latin1_chars_loop.simps) (auto simp: encode_utf8_Cons latin1_at_char)
qed

lemma overwrite_step:
  assumes "off < length xs"
  shows "overwrite (xs[off := y]) (Suc off) ys = overwrite xs off (y # ys)"
  using assms by (simp add: overwrite_def take_Suc_conv_app_nth take_update_cancel)

lemma word_of_nat_u8_zero: "c < 0x100 \<Longrightarrow> (word_of_nat c :: u8) = 0 \<longleftrightarrow> c = 0"
  by (auto simp: word_of_nat_eq_0_iff dest: nat_dvd_not_less [rotated])

lemma str_to_latin1_loop_eq:
  assumes "list_all is_rchar s"
  shows "str_to_latin1_loop (pre @ encode_utf8 s) (length pre) off out =
    (if (\<forall>c \<in> set s. c < 0x100 \<and> c \<noteq> 0) \<and> (s \<noteq> [] \<longrightarrow> off + length s \<le> length out)
     then Some (off + length s, overwrite out off (map word_of_nat s)) else None)"
  using assms
proof (induction s arbitrary: pre off out)
  case Nil
  then show ?case by (subst str_to_latin1_loop.simps) (simp add: encode_utf8_def overwrite_def)
next
  case (Cons c s)
  show ?case using Cons.prems Cons.IH [of "pre @ encode_utf8_char c" "off + 1" "out[off := word_of_nat c]"]
    by (subst str_to_latin1_loop.simps)
      (auto simp: encode_utf8_Cons latin1_at_char overwrite_step word_of_nat_u8_zero)
qed

section \<open>Slices and iteration of CStr16\<close>

lemma as_slice_snoc [simp]: "as_slice (xs @ [x]) = Some xs"
  by (simp add: as_slice_def num_chars_def usub_def get_range_def)

lemma cstr16_invE:
  assumes "cstr16_inv s"
  obtains xs where "s = xs @ [0]" "0 \<notin> set xs" "list_all ucs2 xs"
  using assms nul_terminatedE [of ucs2 s] by (metis cstr16_inv_def)

lemma cstr16_inv_snoc: "cstr16_inv (xs @ [x]) \<longleftrightarrow> x = 0 \<and> 0 \<notin> set xs \<and> list_all ucs2 xs"
  by (auto simp: cstr16_inv_def nul_terminated_snoc)

definition ci_remaining :: "cstr16_iter \<Rightarrow> char16 list" where
  "ci_remaining it = drop (ci_pos it) (butlast (ci_inner it))"

definition ci_valid :: "cstr16_iter \<Rightarrow> bool" where
  "ci_valid it \<longleftrightarrow> ci_inner it \<noteq> [] \<and> length (ci_inner it) < usize_limit"

interpretation c16i: rust_iterator cstr16_iter_next ci_remaining ci_valid
proof unfold_locales
  fix it :: cstr16_iter and x xs
  assume v: "ci_valid it"
  then obtain ys y where inner: "ci_inner it = ys @ [y]" by (metis ci_valid_def rev_exhaust)
  {
    assume r: "ci_remaining it = []"
    then have "cstr16_iter_next it = Some (None, it)"
      by (simp add: ci_remaining_def cstr16_iter_next_def inner usub_def)
    then show "\<exists>it'. cstr16_iter_next it = Some (None, it') \<and> ci_valid it' \<and> ci_remaining it' = []"
      using v r by blast
  next
    assume r: "ci_remaining it = x # xs"
    then have p: "ci_pos it < length ys" by (rule contrapos_pp) (simp add: ci_remaining_def inner)
    then have "drop (ci_pos it) ys = ys ! ci_pos it # drop (Suc (ci_pos it)) ys"
      by (simp add: Cons_nth_drop_Suc)
    moreover have "cstr16_iter_next it = Some (Some (ys ! ci_pos it), it\<lparr>ci_pos := ci_pos it + 1\<rparr>)"
      using v p by (simp add: cstr16_iter_next_def inner usub_def uadd_def ci_valid_def get_at_def nth_append)
    ultimately show "\<exists>it'. cstr16_iter_next it = Some (Some x, it') \<and> ci_valid it' \<and> ci_remaining it' = xs"
      using v r by (auto simp: ci_valid_def ci_remaining_def inner)
  }
qed

lemma collect_cstr16:
  assumes "length xs + 1 < usize_limit"
  shows "collect_iter cstr16_iter_next (cstr16_iter (xs @ [0])) = Some xs"
  using c16i.collect [of "cstr16_iter (xs @ [0])"] assms
  by (simp add: ci_valid_def ci_remaining_def cstr16_iter_def)

section \<open>Growing CString16\<close>

lemma cstring16_push_snoc:
  "cstring16_push (xs @ [0]) c = (if c = 0 then None else Some (xs @ [c] @ [0]))"
  by (simp add: cstring16_push_def NUL_16_def)

lemma push_all_snoc: "0 \<notin> set cs \<Longrightarrow> push_all (xs @ [0]) cs = Some (xs @ cs @ [0])"
proof (induction cs arbitrary: xs)
  case (Cons c cs)
  then show ?case using Cons.IH [of "xs @ [c]"] by (simp add: cstring16_push_snoc)
qed simp

lemma push_str_snoc:
  "0 \<notin> set ys \<Longrightarrow> cstring16_push_str (xs @ [0]) (ys @ [0]) = Some (xs @ ys @ [0])"
  by (simp add: cstring16_push_str_def push_all_snoc)

section \<open>Conversion from and to Rust strings\<close>

lemma those_Some_map: "(\<And>x. x \<in> set xs \<Longrightarrow> f x = Some (g x)) \<Longrightarrow> those (map f xs) = Some (map g xs)"
  by (induction xs) auto

lemma encode_utf16_Cons: "encode_utf16 (c # s) = encode_utf16_char c @ encode_utf16 s"
  by (simp add: encode_utf16_def)

lemma encode_utf16_char_cases:
  assumes "is_rchar c"
  shows "if c < 0x10000 then encode_utf16_char c = [word_of_nat c] \<and> ucs2 (word_of_nat c)
    else (\<exists>u us. encode_utf16_char c = u # us \<and> \<not> ucs2 u)"
proof (cases "c < 0x10000")
  case True
  then show ?thesis using assms by (simp add: encode_utf16_char_def ucs2_def unat_of_nat)
next
  case False
  have "(c - 0x10000) div 0x400 < 0x400" using assms by (auto simp: is_rchar_def)
  then have "\<not> ucs2 (word_of_nat (0xD800 + (c - 0x10000) div 0x400))"
    by (simp add: ucs2_def is_rchar_def unat_of_nat del: of_nat_add)
  then show ?thesis using False by (simp add: encode_utf16_char_def)
qed

lemma word_of_nat_u16_zero: "c < 0x10000 \<Longrightarrow> (word_of_nat c :: u16) = 0 \<longleftrightarrow> c = 0"
  by (auto simp: word_of_nat_eq_0_iff dest: nat_dvd_not_less [rotated])

lemma from_str_loop_eq:
  assumes "list_all is_rchar s"
  shows "from_str_loop (encode_utf16 s) out =
    (case position (\<lambda>c. 0x10000 \<le> c \<or> c = 0) s of
       None \<Rightarrow> Ok (out @ map word_of_nat s @ [0])
     | Some i \<Rightarrow> Err (if s ! i = 0 then Str_InteriorNul else Str_InvalidChar))"
  using assms
proof (induction s arbitrary: out)
  case (Cons c s)
  have c: "is_rchar c" using Cons.prems by simp
  show ?case
  proof (cases "c < 0x10000")
    case True
    then show ?thesis using Cons encode_utf16_char_cases [OF c]
      by (auto simp: encode_utf16_Cons char16_try_from_u16_eq NUL_16_def word_of_nat_u16_zero split: option.splits)
  next
    case False
    then show ?thesis using encode_utf16_char_cases [OF c]
      by (auto simp: encode_utf16_Cons char16_try_from_u16_eq)
  qed
qed (simp add: encode_utf16_def NUL_16_def)

lemma write_units_eq:
  "write_units cs i b =
    (if i + length cs \<le> length b \<or> cs = [] then (Ok (i + length cs), overwrite b i cs)
     else (Err StrBuf_BufferTooSmall, overwrite b i (take (length b - i) cs)))"
proof (induction cs i b rule: write_units.induct)
  case (2 c cs i b)
  then show ?case
    by (cases "i < length b")
      (auto simp: overwrite_step take_Cons' overwrite_def take_Suc_conv_app_nth)
qed (simp add: overwrite_def)

lemma from_str_loop_ok:
  "from_str_loop cs out = Ok t \<longleftrightarrow> t = out @ cs @ [0] \<and> 0 \<notin> set cs \<and> list_all ucs2 cs"
proof (induction cs arbitrary: out)
  case (Cons c cs)
  then show ?case by (auto simp: char16_try_from_u16_eq NUL_16_def)
qed (auto simp: NUL_16_def)

lemma string_from_cstr16_snoc:
  "list_all ucs2 xs \<Longrightarrow> string_from_cstr16 (xs @ [0]) = Some (map unat xs)"
  by (simp add: string_from_cstr16_def) (intro those_Some_map, simp add: char_from_char16_eq list_all_iff)

lemma classify_snoc_not_unterminated: "classify_units ok (cs @ [0]) \<noteq> Err NotNulTerminated"
proof -
  have "position (\<lambda>c. \<not> ok c \<or> c = 0) (cs @ [0]) \<noteq> None" by (auto simp: position_None_iff)
  then show ?thesis by (auto simp: classify_units_def split: if_splits)
qed

lemma from_str_with_buf_fits:
  assumes "length (encode_utf16 s) < length b"
  shows "\<exists>r b'. from_str_with_buf s b = Some (r, b') \<and> length b' = length b \<and>
    (\<forall>t. r = Ok t \<longleftrightarrow> from_u16_with_nul (encode_utf16 s @ [0]) = Ok t)"
proof -
  define cs b2 where "cs = encode_utf16 s" and "b2 = (overwrite b 0 cs)[length cs := 0]"
  have w: "write_units cs 0 b = (Ok (length cs), overwrite b 0 cs)" "length (overwrite b 0 cs) = length b"
    using assms by (simp_all add: write_units_eq cs_def)
  have b2: "take (length cs + 1) b2 = cs @ [0]" "length b2 = length b"
    using assms w(2) by (simp_all add: b2_def cs_def take_Suc_conv_app_nth overwrite_def)
  then show ?thesis
  proof (cases "from_u16_with_nul (cs @ [0])")
    case (Ok t)
    then have "from_str_with_buf s b = Some (Ok t, b2)"
      using w b2 assms by (simp add: from_str_with_buf_def Let_def flip: cs_def b2_def)
    with Ok b2(2) show ?thesis by (auto simp: cs_def)
  next
    case (Err e)
    then obtain e' where "str_buf_error e = Some e'"
      using classify_snoc_not_unterminated [of ucs2 cs] by (cases e) (simp_all add: from_u16_with_nul_eq)
    with Err have "from_str_with_buf s b = Some (Err e', b2)"
      using w b2 assms by (simp add: from_str_with_buf_def Let_def flip: cs_def b2_def)
    with Err b2(2) show ?thesis by (auto simp: cs_def)
  qed
qed

lemma from_str_with_buf_too_small:
  assumes "length b \<le> length (encode_utf16 s)"
  shows "\<exists>b'. from_str_with_buf s b = Some (Err StrBuf_BufferTooSmall, b') \<and> length b' = length b"
proof (cases "length b = length (encode_utf16 s)")
  case True
  then show ?thesis by (auto simp: from_str_with_buf_def write_units_eq)
next
  case False
  then have "encode_utf16 s \<noteq> []" "length b < length (encode_utf16 s)" using assms by auto
  then show ?thesis by (simp add: from_str_with_buf_def write_units_eq)
qed

lemma zip_until_nul_differs_eq:
  assumes "0 \<notin> set ls" and "0 \<notin> set rs"
  shows "zip_until_nul_differs ls rs \<longleftrightarrow>
    take (min (length ls) (length rs)) ls \<noteq> take (min (length ls) (length rs)) rs"
  using assms
proof (induction ls arbitrary: rs)
  case (Cons l ls)
  then show ?case by (cases rs) (auto simp: zip_until_nul_differs_def)
qed (simp add: zip_until_nul_differs_def)

section \<open>Unaligned slices\<close>

lemma length_copy_elems: "copy_elems sz dec s i dest = Some xs \<Longrightarrow> length xs = length dest"
  by (induction sz dec s i dest arbitrary: xs rule: copy_elems.induct) (auto simp: bind_eq_Some_conv)

lemma copy_elems_eq:
  assumes "(i + length dest) * sz \<le> length (us_data s)"
  shows "copy_elems sz dec s i dest =
    Some (map (\<lambda>k. read_field sz dec (k * sz) (us_data s)) [i..<i + length dest])"
  using assms
proof (induction sz dec s i dest rule: copy_elems.induct)
  case (2 sz dec s i d dest)
  have "i * sz + sz \<le> length (us_data s)"
    using "2.prems" by (simp add: algebra_simps)
  moreover have "(i + 1 + length dest) * sz \<le> length (us_data s)"
    using "2.prems" by (simp add: algebra_simps)
  moreover have "[i..<i + length (d # dest)] = i # [i + 1..<i + 1 + length dest]"
    by (simp add: upt_conv_Cons del: upt_Suc)
  ultimately show ?case using "2.IH" by (simp add: read_unaligned_def del: upt_Suc)
qed simp

lemma us_to_vec_exact:
  assumes "us_len s * sz \<le> length (us_data s)"
  shows "us_to_vec cap sz dec s =
    (if cap (us_len s) = us_len s
     then Some (map (\<lambda>k. read_field sz dec (k * sz) (us_data s)) [0..<us_len s]) else None)"
  using assms
  by (simp add: us_to_vec_def us_copy_to_maybe_uninit_def copy_elems_eq read_field_def)

section \<open>Properties\<close>

text \<open>C33: \<open>CStr16::from_u16_with_nul\<close> decides by the first code unit that is a surrogate or
  null: no such unit means \<open>NotNulTerminated\<close>; a surrogate at index \<open>i\<close> means
  \<open>InvalidChar(i)\<close>; a null before the end means \<open>InteriorNul(i)\<close>. So it succeeds
  exactly on the slices that satisfy the invariant of \<open>CStr16\<close>, and returns them unchanged.\<close>

theorem from_u16_with_nul_classifies:
  "from_u16_with_nul codes =
    (case position (\<lambda>c. \<not> ucs2 c \<or> c = 0) codes of
       None \<Rightarrow> Err NotNulTerminated
     | Some i \<Rightarrow>
         if \<not> ucs2 (codes ! i) then Err (InvalidChar i)
         else if i = length codes - 1 then Ok codes else Err (InteriorNul i)) \<and>
   (from_u16_with_nul codes = Ok s \<longleftrightarrow> s = codes \<and> cstr16_inv codes)"
  using u16_nul.construct_ok [of codes s]
  by (simp add: from_u16_with_nul_eq classify_units_def cstr16_inv_def)

theorem from_u16_with_nul_classifies_witness:
  "from_u16_with_nul [0x61, 0xD800, 0] = Err (InvalidChar 1) \<and>
   from_u16_with_nul [0x61, 0, 0x62, 0] = Err (InteriorNul 1)"
  using from_u16_with_nul_classifies [of "[0x61, 0xD800, 0]" "[]"]
    from_u16_with_nul_classifies [of "[0x61, 0, 0x62, 0]" "[]"]
  by (simp add: ucs2_def is_rchar_def)

text \<open>C32: \<open>CString16::try_from(&str)\<close> succeeds exactly on strings whose characters are non-null
  and inside the basic multilingual plane; the first offending character decides between
  \<open>InteriorNul\<close> and \<open>InvalidChar\<close>. On success the result is a valid
  \<open>CStr16\<close>, and converting it back to a Rust string gives the input.\<close>

theorem cstring16_str_roundtrip:
  assumes "list_all is_rchar s"
  shows "case position (\<lambda>c. 0x10000 \<le> c \<or> c = 0) s of
      None \<Rightarrow> \<exists>t. cstring16_try_from_str s = Ok t \<and> cstr16_inv t \<and> string_from_cstr16 t = Some s
    | Some i \<Rightarrow> cstring16_try_from_str s = Err (if s ! i = 0 then Str_InteriorNul else Str_InvalidChar)"
proof (cases "position (\<lambda>c. 0x10000 \<le> c \<or> c = 0) s")
  case None
  then have bmp: "\<forall>c \<in> set s. c < 0x10000 \<and> c \<noteq> 0" by (auto simp: position_None_iff not_le)
  have t: "cstring16_try_from_str s = Ok (map word_of_nat s @ [0])"
    using None by (simp add: cstring16_try_from_str_def from_str_loop_eq [OF assms])
  have "list_all ucs2 (map word_of_nat s)"
    using bmp assms encode_utf16_char_cases by (auto simp: list_all_iff)
  moreover have "map (\<lambda>c. unat (word_of_nat c :: u16)) s = s"
    using bmp by (intro map_idI) (simp add: unat_of_nat)
  ultimately have "cstr16_inv (map word_of_nat s @ [0])" "string_from_cstr16 (map word_of_nat s @ [0]) = Some s"
    using bmp by (auto simp: cstr16_inv_snoc string_from_cstr16_snoc o_def word_of_nat_u16_zero)
  with t None show ?thesis by simp
next
  case (Some i)
  then show ?thesis by (simp add: cstring16_try_from_str_def from_str_loop_eq [OF assms])
qed

theorem cstring16_str_roundtrip_witness:
  "(\<exists>t. cstring16_try_from_str [0x41, 0xDF, 0x20AC] = Ok t \<and> string_from_cstr16 t = Some [0x41, 0xDF, 0x20AC]) \<and>
   cstring16_try_from_str [0x41, 0x1F600, 0] = Err Str_InvalidChar"
  using cstring16_str_roundtrip [of "[0x41, 0xDF, 0x20AC]"] cstring16_str_roundtrip [of "[0x41, 0x1F600, 0]"]
  by (auto simp: is_rchar_def)

text \<open>\<open>CStr16::from_str_with_buf\<close> never reaches its \<open>unreachable!()\<close>, keeps the
  length of the caller's buffer, and agrees with the owned conversion: it returns the string \<open>t\<close>
  exactly if \<open>CString16::try_from\<close> does and \<open>t\<close> with its null fits in the buffer.\<close>

theorem from_str_with_buf_agrees:
  "\<exists>r b'. from_str_with_buf s b = Some (r, b') \<and> length b' = length b \<and>
    (r = Ok t \<longleftrightarrow> cstring16_try_from_str s = Ok t \<and> length t \<le> length b)"
proof (cases "length (encode_utf16 s) < length b")
  case True
  have "from_u16_with_nul (encode_utf16 s @ [0]) = Ok t \<longleftrightarrow> cstring16_try_from_str s = Ok t \<and> length t \<le> length b"
    using True by (auto simp: u16_nul.construct_snoc cstring16_try_from_str_def from_str_loop_ok)
  then show ?thesis using from_str_with_buf_fits [OF True] by blast
next
  case False
  have "\<not> (cstring16_try_from_str s = Ok t \<and> length t \<le> length b)"
    using False by (auto simp: cstring16_try_from_str_def from_str_loop_ok)
  then show ?thesis using from_str_with_buf_too_small [of b s] False by auto
qed

text \<open>C35: pushing a string onto a \<open>CString16\<close> never panics on valid strings, and the result is
  valid and consists of the characters of both; pushing the null character always panics.\<close>

theorem push_str_appends:
  assumes "cstr16_inv s" and "cstr16_inv t"
  shows "\<exists>u. cstring16_push_str s t = Some u \<and> cstr16_inv u \<and> u = butlast s @ t \<and>
    cstring16_push s NUL_16 = None"
proof -
  obtain xs ys where s: "s = xs @ [0]" "0 \<notin> set xs" "list_all ucs2 xs"
    and t: "t = ys @ [0]" "0 \<notin> set ys" "list_all ucs2 ys"
    using assms by (metis cstr16_invE)
  then have "cstr16_inv ((xs @ ys) @ [0])" by (simp only: cstr16_inv_snoc) auto
  then show ?thesis using s t by (simp add: push_str_snoc cstring16_push_snoc NUL_16_def)
qed

theorem push_str_appends_witness:
  "\<exists>u. cstring16_push_str [0x61, 0] [0x62, 0x63, 0] = Some u \<and> u = [0x61, 0x62, 0x63, 0]"
  using push_str_appends [of "[0x61, 0]" "[0x62, 0x63, 0]"]
  by (auto simp: cstr16_inv_def nul_terminated_def ucs2_def is_rchar_def)

text \<open>on the UTF-8 encoding of a Rust string, \<open>str_to_latin1\<close> returns the Latin-1 bytes of
  the string and a null terminator if every character is between \<open>0x01\<close> and \<open>0xff\<close> and
  the array length is one more than the number of characters, and panics in every other case;
  \<open>str_num_latin1_chars\<close> counts the characters if all are at most \<open>0xff\<close> and panics
  otherwise.\<close>

theorem str_to_latin1_correct:
  assumes "list_all is_rchar s"
  shows "str_to_latin1 N (encode_utf8 s) =
      (if (\<forall>c \<in> set s. 0 < c \<and> c \<le> 0xff) \<and> N = length s + 1
       then Some (map word_of_nat s @ [0]) else None) \<and>
    str_num_latin1_chars (encode_utf8 s) = (if \<forall>c \<in> set s. c \<le> 0xff then Some (length s) else None)"
proof -
  have le: "c < 0x100 \<longleftrightarrow> c \<le> 0xff" for c :: nat by auto
  have "overwrite (replicate (Suc (length s)) (0 :: u8)) 0 (map word_of_nat s) = map word_of_nat s @ [0]"
    by (simp add: overwrite_def flip: replicate_append_same)
  then show ?thesis
    using str_to_latin1_loop_eq [OF assms, of "[]" 0] str_num_latin1_chars_loop_eq [OF assms, of "[]" 0]
    by (auto simp: str_to_latin1_def str_num_latin1_chars_def le)
qed

theorem str_to_latin1_correct_witness:
  "str_to_latin1 4 (encode_utf8 [0x61, 0xE4, 0xFF]) = Some [0x61, 0xE4, 0xFF, 0] \<and>
   str_to_latin1 2 (encode_utf8 [0x20AC]) = None"
  using str_to_latin1_correct [of "[0x61, 0xE4, 0xFF]" 4] str_to_latin1_correct [of "[0x20AC]" 2]
  by (simp add: is_rchar_def)

text \<open>\<open>eq_str_until_nul\<close> compares a string with another one only up to the length of the
  shorter of the two, so for strings without null characters it tests whether one is a prefix of the
  other: the empty string equals every string.\<close>

theorem eq_str_until_nul_is_prefix:
  assumes "cstr16_inv s" and "length s < usize_limit" and "0 \<notin> set other"
  shows "cstr16_eq_str_until_nul s other =
      Some (take (min (length s - 1) (length other)) (map unat s) = take (min (length s - 1) (length other)) other) \<and>
    cstr16_eq_str_until_nul s [] = Some True"
proof -
  obtain xs where xs: "s = xs @ [0]" "0 \<notin> set xs" "list_all ucs2 xs" using assms(1) by (rule cstr16_invE)
  then have "collect_iter cstr16_iter_next (cstr16_iter s) = Some xs"
    using assms(2) by (simp add: collect_cstr16)
  moreover have "those (map char_from_char16 xs) = Some (map unat xs)"
    using xs(3) by (intro those_Some_map) (simp add: char_from_char16_eq list_all_iff)
  moreover have "0 \<notin> set (map unat xs)" using xs(2) by (auto simp: unat_eq_0)
  ultimately show ?thesis using assms(3)
    by (simp add: cstr16_eq_str_until_nul_def zip_until_nul_differs_eq xs(1))
qed

theorem eq_str_until_nul_is_prefix_witness:
  "cstr16_eq_str_until_nul [0x74, 0x65, 0] [0x74, 0x65, 0x73, 0x74] = Some True"
  using eq_str_until_nul_is_prefix [of "[0x74, 0x65, 0]" "[0x74, 0x65, 0x73, 0x74]"]
  by (simp add: cstr16_inv_def nul_terminated_def ucs2_def is_rchar_def usize_limit_def)

text \<open>\<open>UnalignedSlice::to_vec\<close> copies into the whole spare capacity of a fresh vector, so it
  returns the elements only when \<open>Vec::with_capacity\<close> reserves exactly the requested number of
  elements; if it reserves more, which the standard library allows, the length check of
  \<open>copy_to_maybe_uninit\<close> panics.\<close>

theorem to_vec_needs_exact_capacity:
  assumes "us_len s * sz \<le> length (us_data s)" and "us_len s \<le> cap (us_len s)"
  shows "us_to_vec cap sz dec s =
    (if us_len s < cap (us_len s) then None
     else Some (map (\<lambda>k. read_field sz dec (k * sz) (us_data s)) [0..<us_len s]))"
  using assms by (simp add: us_to_vec_exact)

theorem to_vec_needs_exact_capacity_witness:
  "us_to_vec (\<lambda>n. max n 4) 2 u16_from_le \<lparr>us_data = [1, 0, 2, 0], us_len = 2\<rparr> = None \<and>
   us_to_vec (\<lambda>n. n) 2 u16_from_le \<lparr>us_data = [1, 0, 2, 0], us_len = 2\<rparr> = Some [1, 2]"
proof -
  have "[0..<2 :: nat] = [0, 1]" by (simp add: upt_rec)
  then show ?thesis
    using to_vec_needs_exact_capacity [of "\<lparr>us_data = [1, 0, 2, 0], us_len = 2\<rparr>" 2 "\<lambda>n. max n 4" u16_from_le]
      to_vec_needs_exact_capacity [of "\<lparr>us_data = [1, 0, 2, 0], us_len = 2\<rparr>" 2 "\<lambda>n. n" u16_from_le]
    by (simp add: read_field_def u16_from_le_def)
qed

end
