(* ===== verification/Fs_Path.thy ===== *)
theory Fs_Path
  imports Strings_Props
begin

text \<open>
  Paths: \<open>uefi/src/fs/path/\<close>. A path is a \<open>CStr16\<close>; \<open>components\<close> iterates over
  the parts between separators, skipping one leading separator. The reference definition
  \<open>path_components\<close> splits the characters at every separator, and the iterator is shown to
  produce exactly its parts.
\<close>

section \<open>Constants\<close>

definition SEPARATOR :: char16 where
  "SEPARATOR = 0x5C"

definition SEPARATOR_STR :: "char16 list" where
  "SEPARATOR_STR = [SEPARATOR, NUL_16]"

definition SLASH :: char16 where
  "SLASH = 0x2F"

definition CHARACTER_DENY_LIST :: "char16 list" where
  "CHARACTER_DENY_LIST =
    [NUL_16, 0x22, 0x2A, 0x2F, 0x3A, 0x3C, 0x3E, 0x3F, SEPARATOR, 0x7C]"

datatype path_error = PathEmpty | EmptyComponent | IllegalChar char16

section \<open>Components\<close>

record components =
  comp_path :: "char16 list"
  comp_i :: usize

definition path_iter :: "char16 list \<Rightarrow> components" where
  "path_iter p = \<lparr>comp_path = p, comp_i = 0\<rparr>"

definition components_next :: "components \<Rightarrow> (char16 list option \<times> components) option" where
  "components_next c = do {
     empty \<leftarrow> cstr16_is_empty (comp_path c);
     if empty then Some (None, c)
     else do {
       n \<leftarrow> num_chars (comp_path c);
       sl \<leftarrow> as_slice (comp_path c);
       first \<leftarrow> get_at sl 0;
       if n = 1 \<and> first = SEPARATOR then Some (None, c)
       else do {
         let i = (if comp_i c = 0 \<and> first = SEPARATOR then 1 else comp_i c);
         chars \<leftarrow> collect_iter cstr16_iter_next (cstr16_iter (comp_path c));
         let n_part = length (takeWhile (\<lambda>ch. ch \<noteq> SEPARATOR) (drop i chars));
         progress \<leftarrow> uadd i n_part;
         if progress > n then Some (None, c\<lparr>comp_i := i\<rparr>)
         else do {
           part \<leftarrow> get_range sl i (i + n_part);
           str \<leftarrow> push_all cstring16_new part;
           i' \<leftarrow> uadd progress 1;
           Some (Some str, c\<lparr>comp_i := i'\<rparr>)
         }
       }
     }
   }"

section \<open>Path\<close>

definition path_is_empty :: "char16 list \<Rightarrow> bool option" where
  "path_is_empty p = cstr16_is_empty p"

definition path_eq :: "char16 list \<Rightarrow> char16 list \<Rightarrow> bool option" where
  "path_eq p q = do {
     ps \<leftarrow> collect_iter components_next (path_iter p);
     qs \<leftarrow> collect_iter components_next (path_iter q);
     Some (length ps = length qs \<and> \<not> list_ex (\<lambda>(c1, c2). c1 \<noteq> c2) (zip ps qs))
   }"

section \<open>PathBuf\<close>

definition new_from_cstring16 :: "char16 list \<Rightarrow> char16 list option" where
  "new_from_cstring16 s = cstring16_replace_char s SLASH SEPARATOR"

definition to_path_buf :: "char16 list \<Rightarrow> char16 list option" where
  "to_path_buf p = new_from_cstring16 (cstring16_from_cstr16 p)"

definition pathbuf_new :: "char16 list" where
  "pathbuf_new = cstring16_new"

definition pathbuf_push :: "char16 list \<Rightarrow> char16 list \<Rightarrow> char16 list option" where
  "pathbuf_push self path = do {
     skip \<leftarrow> path_is_empty path;
     if skip then Some self
     else do {
       empty \<leftarrow> cstring16_is_empty self;
       require (as_slice_with_nul self \<noteq> []);
       let needs_sep = (last (as_slice_with_nul self) \<noteq> SEPARATOR);
       self1 \<leftarrow> (if \<not> empty \<and> needs_sep then cstring16_push self SEPARATOR else Some self);
       self2 \<leftarrow> cstring16_push_str self1 path;
       cstring16_replace_char self2 SLASH SEPARATOR
     }
   }"

section \<open>Parent\<close>

definition parent_step :: "char16 list \<Rightarrow> char16 list \<Rightarrow> char16 list option" where
  "parent_step acc nxt = do {
     empty \<leftarrow> cstring16_is_empty acc;
     acc1 \<leftarrow> (if empty then Some acc
       else do {
         sl \<leftarrow> as_slice acc;
         require (sl \<noteq> []);
         if last sl \<noteq> SEPARATOR then cstring16_push acc SEPARATOR else Some acc
       });
     cstring16_push_str acc1 nxt
   }"

fun parent_fold :: "char16 list \<Rightarrow> char16 list list \<Rightarrow> char16 list option" where
  "parent_fold acc [] = Some acc"
| "parent_fold acc (c # cs) = do { acc' \<leftarrow> parent_step acc c; parent_fold acc' cs }"

definition path_parent :: "char16 list \<Rightarrow> char16 list option option" where
  "path_parent p = do {
     cs \<leftarrow> collect_iter components_next (path_iter p);
     if length cs = 0 then Some None
     else do {
       sl \<leftarrow> as_slice p;
       if length (filter (\<lambda>ch. ch = SEPARATOR) sl) = 0 then Some None
       else do {
         s \<leftarrow> parent_fold cstring16_new (take (length cs - 1) cs);
         b \<leftarrow> new_from_cstring16 s;
         Some (Some b)
       }
     }
   }"

section \<open>Validation\<close>

definition check_component :: "char16 list \<Rightarrow> unit \<Rightarrow> ((unit, path_error) result, unit) flow option" where
  "check_component cm st = do {
     empty \<leftarrow> cstring16_is_empty cm;
     if empty then Some (Return (Err EmptyComponent))
     else do {
       sl \<leftarrow> as_slice cm;
       case find (\<lambda>ch. ch \<in> set CHARACTER_DENY_LIST) sl of
         Some ch \<Rightarrow> Some (Return (Err (IllegalChar ch)))
       | None \<Rightarrow> Some (Continue ())
     }
   }"

definition validate_path :: "char16 list \<Rightarrow> (unit, path_error) panicking" where
  "validate_path p = do {
     empty \<leftarrow> path_is_empty p;
     if empty then Some (Err PathEmpty)
     else do {
       f \<leftarrow> for_iter components_next check_component (path_iter p) ();
       case f of
         Return r \<Rightarrow> Some r
       | Continue _ \<Rightarrow> Some (Ok ())
     }
   }"

section \<open>Reference definitions\<close>

fun split_sep :: "char16 list \<Rightarrow> char16 list list" where
  "split_sep [] = [[]]"
| "split_sep (c # cs) =
    (if c = SEPARATOR then [] # split_sep cs
     else (c # hd (split_sep cs)) # tl (split_sep cs))"

definition path_components :: "char16 list \<Rightarrow> char16 list list" where
  "path_components xs =
    (if xs = [] \<or> xs = [SEPARATOR] then []
     else split_sep (if hd xs = SEPARATOR then tl xs else xs))"

fun join_sep :: "char16 list list \<Rightarrow> char16 list" where
  "join_sep [] = []"
| "join_sep [p] = p"
| "join_sep (p # q # ps) = p @ [SEPARATOR] @ join_sep (q # ps)"

definition path_inv :: "char16 list \<Rightarrow> bool" where
  "path_inv p \<longleftrightarrow> (\<exists>xs. p = xs @ [0] \<and> 0 \<notin> set xs) \<and> length p < usize_limit - 1"

definition comp_valid :: "components \<Rightarrow> bool" where
  "comp_valid c \<longleftrightarrow> path_inv (comp_path c) \<and> comp_i c \<le> length (comp_path c)"

definition comp_remaining :: "components \<Rightarrow> char16 list list" where
  "comp_remaining c =
    (let xs = butlast (comp_path c) in
     map (\<lambda>p. p @ [0])
       (if xs = [] \<or> xs = [SEPARATOR] then []
        else if comp_i c = 0 then path_components xs
        else if comp_i c \<le> length xs then split_sep (drop (comp_i c) xs) else []))"

section \<open>Lemmas: splitting and joining\<close>

lemma split_sep_nonempty [simp]: "split_sep xs \<noteq> []"
  by (cases xs) auto

lemma split_sep_unfold:
  "split_sep xs = takeWhile (\<lambda>c. c \<noteq> SEPARATOR) xs #
    (let n = length (takeWhile (\<lambda>c. c \<noteq> SEPARATOR) xs) in
     if n < length xs then split_sep (drop (Suc n) xs) else [])"
  by (induction xs) (auto simp: Let_def)

lemma split_sep_parts: "p \<in> set (split_sep xs) \<Longrightarrow> SEPARATOR \<notin> set p \<and> set p \<subseteq> set xs"
proof (induction xs arbitrary: p)
  case (Cons c cs)
  obtain q qs where q: "split_sep cs = q # qs" by (cases "split_sep cs") auto
  show ?case using Cons.prems Cons.IH [of q] Cons.IH [of p] by (auto simp: q split: if_splits)
qed simp

lemma join_split: "join_sep (split_sep xs) = xs"
proof (induction xs)
  case (Cons c cs)
  obtain p ps where "split_sep cs = p # ps" by (metis list.exhaust split_sep_nonempty)
  with Cons show ?case by (cases ps) auto
qed simp

lemma split_sep_append:
  "SEPARATOR \<notin> set p \<Longrightarrow> split_sep (p @ [SEPARATOR] @ xs) = p # split_sep xs"
  by (induction p) auto

lemma split_sep_single: "SEPARATOR \<notin> set p \<Longrightarrow> split_sep p = [p]"
  by (induction p) auto

lemma split_join: "ps \<noteq> [] \<Longrightarrow> \<forall>p \<in> set ps. SEPARATOR \<notin> set p \<Longrightarrow> split_sep (join_sep ps) = ps"
  by (induction ps rule: join_sep.induct) (auto simp: split_sep_single split_sep_append [simplified])

lemma split_sep_concat:
  "split_sep (xs @ [SEPARATOR] @ ys) = split_sep xs @ split_sep ys"
  by (induction xs) auto

section \<open>Lemmas: the components iterator\<close>

lemma path_invE:
  assumes "path_inv p"
  obtains xs where "p = xs @ [0]" "0 \<notin> set xs" "length xs + 1 < usize_limit - 1"
  using assms by (auto simp: path_inv_def)

lemma cstr16_is_empty_snoc [simp]: "cstr16_is_empty (xs @ [x]) = Some (xs = [])"
  by (simp add: cstr16_is_empty_def num_chars_def usub_def)

lemma cstring16_is_empty_snoc [simp]: "cstring16_is_empty (xs @ [x]) = Some (xs = [])"
  by (simp add: cstring16_is_empty_def cstring16_num_chars_def usub_def)

lemma num_chars_snoc [simp]: "num_chars (xs @ [x]) = Some (length xs)"
  by (simp add: num_chars_def usub_def)

lemma push_all_new: "0 \<notin> set cs \<Longrightarrow> push_all cstring16_new cs = Some (cs @ [0])"
  using push_all_snoc [of cs "[]"] by (simp add: cstring16_new_def NUL_16_def)

text \<open>One step of the iterator on a path with characters \<open>xs\<close> that is neither empty nor the
  root.\<close>

lemma components_next_eq:
  assumes "comp_path c = xs @ [0]" "0 \<notin> set xs" "length xs + 1 < usize_limit - 1"
    and "xs \<noteq> []" "xs \<noteq> [SEPARATOR]" "comp_i c \<le> length xs + 1"
    and i: "i = (if comp_i c = 0 \<and> hd xs = SEPARATOR then 1 else comp_i c)"
    and n: "n = length (takeWhile (\<lambda>ch. ch \<noteq> SEPARATOR) (drop i xs))"
  shows "components_next c =
    (if length xs < i then Some (None, c\<lparr>comp_i := i\<rparr>)
     else Some (Some (takeWhile (\<lambda>ch. ch \<noteq> SEPARATOR) (drop i xs) @ [0]), c\<lparr>comp_i := i + n + 1\<rparr>))"
proof -
  have collect: "collect_iter cstr16_iter_next (cstr16_iter (xs @ [0])) = Some xs"
    using assms(3) by (intro collect_cstr16) simp
  have first: "get_at xs 0 = Some (hd xs)" using assms(4) by (simp add: get_at_def hd_conv_nth)
  have not_root: "\<not> (length xs = 1 \<and> hd xs = SEPARATOR)" using assms(4,5) by (cases xs) auto
  have body: "components_next c = do {
      progress \<leftarrow> uadd i n;
      if progress > length xs then Some (None, c\<lparr>comp_i := i\<rparr>)
      else do {
        part \<leftarrow> get_range xs i (i + n);
        str \<leftarrow> push_all cstring16_new part;
        i' \<leftarrow> uadd progress 1;
        Some (Some str, c\<lparr>comp_i := i'\<rparr>)
      }
    }"
    unfolding components_next_def assms(1) as_slice_snoc cstr16_is_empty_snoc num_chars_snoc Option.bind.bind_lunit
      first collect Let_def i [symmetric] n [symmetric]
    using assms(4) not_root by auto
  have n_le: "n \<le> length xs - i" unfolding n using length_takeWhile_le [of _ "drop i xs"] by simp
  have part: "take n (drop i xs) = takeWhile (\<lambda>ch. ch \<noteq> SEPARATOR) (drop i xs)"
    by (simp add: n takeWhile_eq_take [symmetric])
  have push: "push_all cstring16_new (takeWhile (\<lambda>ch. ch \<noteq> SEPARATOR) (drop i xs)) =
      Some (takeWhile (\<lambda>ch. ch \<noteq> SEPARATOR) (drop i xs) @ [0])"
    using assms(2) by (intro push_all_new) (meson in_set_dropD set_takeWhileD)
  have i_le: "i \<le> length xs + 1" using assms(4,6) i by (cases xs) auto
  show ?thesis
  proof (cases "length xs < i")
    case True
    then show ?thesis using assms(3) i_le n_le by (simp add: body uadd_def)
  next
    case False
    then have "i + n \<le> length xs" "i + n + 1 < usize_limit" using assms(3) n_le by auto
    then show ?thesis using False push part by (simp add: body uadd_def get_range_def)
  qed
qed

lemma components_next_none:
  assumes "comp_path c = xs @ [0]" "xs = [] \<or> xs = [SEPARATOR]"
  shows "components_next c = Some (None, c)"
proof -
  have "as_slice [SEPARATOR, 0] = Some [SEPARATOR]" using as_slice_snoc [of "[SEPARATOR]"] by simp
  moreover have "cstr16_is_empty [SEPARATOR, 0] = Some False" "num_chars [SEPARATOR, 0] = Some 1"
    using cstr16_is_empty_snoc [of "[SEPARATOR]"] num_chars_snoc [of "[SEPARATOR]"] by simp_all
  moreover have "cstr16_is_empty [0] = Some True" using cstr16_is_empty_snoc [of "[]"] by simp
  ultimately show ?thesis using assms by (auto simp: components_next_def get_at_def)
qed

lemma comp_remaining_eq:
  assumes "comp_path c = xs @ [0]" "xs \<noteq> []" "xs \<noteq> [SEPARATOR]"
    and "i = (if comp_i c = 0 \<and> hd xs = SEPARATOR then 1 else comp_i c)"
  shows "comp_remaining c = (if i \<le> length xs then map (\<lambda>p. p @ [0]) (split_sep (drop i xs)) else [])"
  using assms by (cases xs) (auto simp: comp_remaining_def path_components_def Let_def)

interpretation pci: rust_iterator components_next comp_remaining comp_valid
proof unfold_locales
  fix c :: components and x :: "char16 list" and ys
  assume v: "comp_valid c"
  then obtain xs where xs: "comp_path c = xs @ [0]" "0 \<notin> set xs" "length xs + 1 < usize_limit - 1"
    by (metis comp_valid_def path_invE)
  have ci: "comp_i c \<le> length xs + 1" using v xs(1) by (simp add: comp_valid_def)
  define i where "i = (if comp_i c = 0 \<and> hd xs = SEPARATOR then 1 else comp_i c)"
  define part where "part = takeWhile (\<lambda>ch. ch \<noteq> SEPARATOR) (drop i xs)"
  have pl: "length part \<le> length xs - i"
    unfolding part_def using length_takeWhile_le [of _ "drop i xs"] by simp
  {
    assume r: "comp_remaining c = []"
    show "\<exists>c'. components_next c = Some (None, c') \<and> comp_valid c' \<and> comp_remaining c' = []"
    proof (cases "xs = [] \<or> xs = [SEPARATOR]")
      case True
      then show ?thesis using components_next_none [OF xs(1)] v r by auto
    next
      case False
      then have "length xs < i"
        using r comp_remaining_eq [OF xs(1) _ _ i_def] by (auto split: if_splits)
      then have "components_next c = Some (None, c\<lparr>comp_i := i\<rparr>)" "i = comp_i c"
        using components_next_eq [OF xs _ _ ci i_def refl] False i_def by (cases xs, auto)+
      then show ?thesis using v r by auto
    qed
  next
    assume r: "comp_remaining c = x # ys"
    then have ne: "xs \<noteq> []" "xs \<noteq> [SEPARATOR]" using xs(1) by (auto simp: comp_remaining_def Let_def)
    then have i: "i \<le> length xs" using r comp_remaining_eq [OF xs(1) ne i_def] by (auto split: if_splits)
    define c' where "c' = c\<lparr>comp_i := i + length part + 1\<rparr>"
    have nxt: "components_next c = Some (Some (part @ [0]), c')"
      using components_next_eq [OF xs ne ci i_def refl] i by (simp add: part_def c'_def)
    have split: "split_sep (drop i xs) = part #
        (if i + length part < length xs then split_sep (drop (i + length part + 1) xs) else [])"
      using i by (subst split_sep_unfold) (auto simp: Let_def part_def add.commute less_diff_conv)
    have "x # ys = map (\<lambda>p. p @ [0]) (split_sep (drop i xs))"
      using r comp_remaining_eq [OF xs(1) ne i_def] i by simp
    then have "x = part @ [0]" "ys = map (\<lambda>p. p @ [0])
        (if i + length part < length xs then split_sep (drop (i + length part + 1) xs) else [])"
      by (simp_all add: split)
    moreover have "comp_remaining c' = map (\<lambda>p. p @ [0])
        (if i + length part < length xs then split_sep (drop (i + length part + 1) xs) else [])"
      using comp_remaining_eq [of c' xs "i + length part + 1"] xs(1) ne by (auto simp: c'_def)
    moreover have "comp_valid c'" using v xs(1) i pl by (simp add: comp_valid_def c'_def)
    ultimately show "\<exists>c'. components_next c = Some (Some x, c') \<and> comp_valid c' \<and> comp_remaining c' = ys"
      using nxt by simp
  }
qed

lemma path_iter_valid [simp]: "path_inv p \<Longrightarrow> comp_valid (path_iter p)"
  by (simp add: comp_valid_def path_iter_def)

lemma comp_remaining_path_iter: "comp_remaining (path_iter p) = map (\<lambda>c. c @ [0]) (path_components (butlast p))"
  by (simp add: comp_remaining_def path_iter_def path_components_def Let_def)

lemma collect_components:
  "path_inv p \<Longrightarrow>
    collect_iter components_next (path_iter p) = Some (map (\<lambda>c. c @ [0]) (path_components (butlast p)))"
  by (simp add: pci.collect comp_remaining_path_iter)

lemma path_components_parts:
  assumes "c \<in> set (path_components xs)"
  shows "SEPARATOR \<notin> set c \<and> set c \<subseteq> set xs"
proof -
  have "set (tl xs) \<subseteq> set xs" by (cases xs) auto
  then show ?thesis using assms split_sep_parts by (fastforce simp: path_components_def split: if_splits)
qed

lemma join_components:
  "join_sep (path_components xs) = (if xs \<noteq> [] \<and> hd xs = SEPARATOR then tl xs else xs)"
  by (auto simp: path_components_def join_split)

lemma join_sep_hd: "c \<noteq> [] \<Longrightarrow> join_sep (c # cs) \<noteq> [] \<and> hd (join_sep (c # cs)) = hd c"
  by (cases cs) auto

section \<open>Lemmas: validation\<close>

definition bad_component :: "char16 list \<Rightarrow> bool" where
  "bad_component c \<longleftrightarrow> c = [] \<or> (\<exists>ch \<in> set c. ch \<in> set CHARACTER_DENY_LIST)"

definition component_error :: "char16 list \<Rightarrow> path_error" where
  "component_error c =
    (case find (\<lambda>ch. ch \<in> set CHARACTER_DENY_LIST) c of None \<Rightarrow> EmptyComponent | Some ch \<Rightarrow> IllegalChar ch)"

lemma bad_component_find:
  "bad_component c \<longleftrightarrow> c = [] \<or> find (\<lambda>ch. ch \<in> set CHARACTER_DENY_LIST) c \<noteq> None"
  by (auto simp: bad_component_def find_None_iff)

lemma check_component_snoc:
  "check_component (c @ [0]) st =
    Some (if bad_component c then Return (Err (component_error c)) else Continue ())"
  by (cases "find (\<lambda>ch. ch \<in> set CHARACTER_DENY_LIST) c")
    (auto simp: check_component_def bad_component_find component_error_def)

lemma for_list_check:
  "for_list check_component (map (\<lambda>c. c @ [0]) cs) st =
    Some (case find bad_component cs of None \<Rightarrow> Continue () | Some c \<Rightarrow> Return (Err (component_error c)))"
  by (induction cs arbitrary: st) (auto simp: check_component_snoc)

lemma validate_path_eq:
  assumes "path_inv p"
  shows "validate_path p = Some (
    if butlast p = [] then Err PathEmpty
    else case find bad_component (path_components (butlast p)) of
      None \<Rightarrow> Ok () | Some c \<Rightarrow> Err (component_error c))"
proof -
  obtain xs where "p = xs @ [0]" using assms by (rule path_invE)
  then show ?thesis using assms
    by (auto simp: validate_path_def path_is_empty_def pci.for_loop comp_remaining_path_iter for_list_check
        split: option.splits)
qed

section \<open>Lemmas: pushing and parents\<close>

lemma seps_nonzero [simp]: "SEPARATOR \<noteq> 0" "SLASH \<noteq> 0" "SLASH \<noteq> SEPARATOR"
  by (simp_all add: SEPARATOR_def SLASH_def)

lemma replace_slash_id: "SLASH \<notin> set xs \<Longrightarrow> cstring16_replace_char (xs @ [0]) SLASH SEPARATOR = Some (xs @ [0])"
  by (auto simp: cstring16_replace_char_def NUL_16_def intro!: map_idI)

lemma pathbuf_push_eq:
  assumes "0 \<notin> set xs" "0 \<notin> set ys" "ys \<noteq> []" "SLASH \<notin> set xs" "SLASH \<notin> set ys"
  shows "pathbuf_push (xs @ [0]) (ys @ [0]) =
    Some ((if xs = [] then ys else xs @ [SEPARATOR] @ ys) @ [0])"
proof (cases "xs = []")
  case True
  then show ?thesis using assms push_str_snoc [of ys "[]"] replace_slash_id [of ys]
    by (simp add: pathbuf_push_def path_is_empty_def as_slice_with_nul_def cstring16_is_empty_snoc [of "[]", simplified])
next
  case False
  then show ?thesis using assms push_str_snoc [of ys "xs @ [SEPARATOR]"] replace_slash_id [of "xs @ [SEPARATOR] @ ys"]
    by (simp add: pathbuf_push_def path_is_empty_def as_slice_with_nul_def cstring16_push_snoc)
qed

lemma parent_step_snoc:
  assumes "0 \<notin> set c" "xs = [] \<or> last xs \<noteq> SEPARATOR"
  shows "parent_step (xs @ [0]) (c @ [0]) = Some ((if xs = [] then c else xs @ [SEPARATOR] @ c) @ [0])"
proof (cases "xs = []")
  case True
  then show ?thesis using assms push_str_snoc [of c "[]"] cstring16_is_empty_snoc [of "[]"]
    by (simp add: parent_step_def)
next
  case False
  then show ?thesis using assms push_str_snoc [of c "xs @ [SEPARATOR]"]
    by (simp add: parent_step_def cstring16_push_snoc)
qed

lemma join_sep_snoc: "ps \<noteq> [] \<Longrightarrow> join_sep (ps @ [p]) = join_sep ps @ [SEPARATOR] @ p"
  by (induction ps rule: join_sep.induct) auto

lemma parent_fold_snoc:
  assumes "\<forall>c \<in> set cs. c \<noteq> [] \<and> 0 \<notin> set c \<and> SEPARATOR \<notin> set c"
    and "\<forall>c \<in> set acc. c \<noteq> [] \<and> 0 \<notin> set c \<and> SEPARATOR \<notin> set c"
  shows "parent_fold (join_sep acc @ [0]) (map (\<lambda>c. c @ [0]) cs) = Some (join_sep (acc @ cs) @ [0])"
  using assms
proof (induction cs arbitrary: acc)
  case (Cons c cs)
  have "join_sep acc = [] \<longleftrightarrow> acc = []" "acc \<noteq> [] \<Longrightarrow> last (join_sep acc) \<noteq> SEPARATOR"
    using Cons.prems(2) by (induction acc rule: join_sep.induct) (auto dest: last_in_set)
  moreover have "join_sep (acc @ [c]) = (if acc = [] then c else join_sep acc @ [SEPARATOR] @ c)"
    using join_sep_snoc [of "acc" c] by auto
  ultimately have "parent_step (join_sep acc @ [0]) (c @ [0]) = Some (join_sep (acc @ [c]) @ [0])"
    using Cons.prems parent_step_snoc [of c "join_sep acc"] by auto
  then show ?case using Cons.prems Cons.IH [of "acc @ [c]"] by simp
qed simp

lemma set_join_sep: "set (join_sep ps) \<subseteq> insert SEPARATOR (\<Union> (set ` set ps))"
  by (induction ps rule: join_sep.induct) auto

lemma path_parent_eq:
  assumes "path_inv p" and "SLASH \<notin> set p" and "[] \<notin> set (path_components (butlast p))"
  shows "path_parent p = Some (
    if path_components (butlast p) = [] \<or> SEPARATOR \<notin> set (butlast p) then None
    else Some (join_sep (butlast (path_components (butlast p))) @ [0]))"
proof -
  obtain xs where xs: "p = xs @ [0]" "0 \<notin> set xs" using assms(1) by (rule path_invE)
  let ?cs = "path_components xs"
  have parts: "\<forall>c \<in> set (butlast ?cs). c \<noteq> [] \<and> 0 \<notin> set c \<and> SEPARATOR \<notin> set c \<and> SLASH \<notin> set c"
    using path_components_parts xs assms(2,3) by (auto dest!: in_set_butlastD)
  have "take (length ?cs - 1) (map (\<lambda>c. c @ [0]) ?cs) = map (\<lambda>c. c @ [0]) (butlast ?cs)"
    by (simp add: butlast_conv_take take_map)
  moreover have "parent_fold cstring16_new (map (\<lambda>c. c @ [0]) (butlast ?cs)) = Some (join_sep (butlast ?cs) @ [0])"
    using parent_fold_snoc [of "butlast ?cs" "[]"] parts by (simp add: cstring16_new_def NUL_16_def)
  moreover have "SLASH \<notin> set (join_sep (butlast ?cs))"
    using set_join_sep [of "butlast ?cs"] parts seps_nonzero(3) by fastforce
  ultimately show ?thesis using collect_components [OF assms(1)] xs
    by (auto simp: path_parent_def new_from_cstring16_def replace_slash_id filter_empty_conv)
qed

section \<open>Properties\<close>

text \<open>C31: the \<open>Components\<close> iterator of a path never panics, ends, and yields the parts of the
  path between separators (none for the empty path and the root; one leading separator is skipped).
  No part contains a separator, and joining the parts with separators gives the path back up to the
  leading separator.\<close>

theorem components_split:
  assumes "path_inv p"
  shows "collect_iter components_next (path_iter p) =
      Some (map (\<lambda>c. c @ [0]) (path_components (butlast p))) \<and>
    (\<forall>c \<in> set (path_components (butlast p)). SEPARATOR \<notin> set c) \<and>
    (if hd (butlast p @ [0]) = SEPARATOR then butlast p = SEPARATOR # join_sep (path_components (butlast p))
     else butlast p = join_sep (path_components (butlast p)))"
proof -
  obtain xs where xs: "p = xs @ [0]" using assms by (rule path_invE)
  have "if hd (xs @ [0]) = SEPARATOR then xs = SEPARATOR # join_sep (path_components xs)
     else xs = join_sep (path_components xs)"
    unfolding join_components by (cases xs) auto
  then show ?thesis using collect_components [OF assms] path_components_parts xs by auto
qed

theorem components_split_witness:
  "collect_iter components_next (path_iter [0x5C, 0x61, 0x5C, 0x62, 0]) = Some [[0x61, 0], [0x62, 0]]"
  using components_split [of "[0x5C, 0x61, 0x5C, 0x62, 0]"]
  by (simp add: path_inv_def path_components_def SEPARATOR_def usize_limit_def)

text \<open>C20: \<open>validate_path\<close> never panics; it accepts a path exactly if it is not empty and every
  component is non-empty and free of the characters of the deny list, and otherwise reports the first
  offending component, naming its first denied character.\<close>

theorem validate_path_correct:
  assumes "path_inv p"
  shows "validate_path p = Some (
      if butlast p = [] then Err PathEmpty
      else case find bad_component (path_components (butlast p)) of
        None \<Rightarrow> Ok () | Some c \<Rightarrow> Err (component_error c)) \<and>
    (validate_path p = Some (Ok ()) \<longleftrightarrow> butlast p \<noteq> [] \<and>
      (\<forall>c \<in> set (path_components (butlast p)). c \<noteq> [] \<and> set c \<inter> set CHARACTER_DENY_LIST = {}))"
proof -
  let ?f = "find bad_component (path_components (butlast p))"
  have none: "?f = None \<longleftrightarrow>
      (\<forall>c \<in> set (path_components (butlast p)). c \<noteq> [] \<and> set c \<inter> set CHARACTER_DENY_LIST = {})"
    by (auto simp: find_None_iff bad_component_def)
  show ?thesis unfolding validate_path_eq [OF assms] none [symmetric] by (cases ?f) simp_all
qed

theorem validate_path_correct_witness:
  "validate_path [0x61, 0x5C, 0x3A, 0] = Some (Err (IllegalChar 0x3A)) \<and>
   validate_path [0x5C, 0x61, 0] = Some (Ok ())"
  using validate_path_correct [of "[0x61, 0x5C, 0x3A, 0]"] validate_path_correct [of "[0x5C, 0x61, 0]"]
  by (simp add: path_inv_def path_components_def SEPARATOR_def usize_limit_def bad_component_def
      component_error_def CHARACTER_DENY_LIST_def NUL_16_def)



text \<open>pushing onto the root path \<open>\\<close> duplicates the separator, so that the resulting path is
  rejected by \<open>validate_path\<close>: the check for an existing trailing separator looks at the
  terminating null character.\<close>

theorem pathbuf_push_root_invalid:
  assumes "path_inv q" "SLASH \<notin> set q" "butlast q \<noteq> []"
    and "length q < usize_limit - 4"
  shows "\<exists>r. pathbuf_push SEPARATOR_STR q = Some r \<and> validate_path r = Some (Err EmptyComponent)"
proof -
  obtain ys where ys: "q = ys @ [0]" "0 \<notin> set ys" using assms(1) by (rule path_invE)
  let ?r = "([SEPARATOR] @ [SEPARATOR] @ ys) @ [0]"
  have "pathbuf_push SEPARATOR_STR q = Some ?r"
    using assms(2,3) ys pathbuf_push_eq [of "[SEPARATOR]" ys] seps_nonzero
    by (simp add: SEPARATOR_STR_def NUL_16_def)
  moreover have "path_inv ?r"
    using ys assms(4) unfolding path_inv_def by (intro conjI exI [of _ "[SEPARATOR] @ [SEPARATOR] @ ys"]) auto
  then have "validate_path ?r = Some (Err EmptyComponent)"
    by (simp add: validate_path_eq path_components_def bad_component_def component_error_def)
  ultimately show ?thesis by blast
qed

theorem pathbuf_push_root_invalid_witness:
  "\<exists>r. pathbuf_push SEPARATOR_STR [0x61, 0] = Some r \<and> validate_path r = Some (Err EmptyComponent)"
  using pathbuf_push_root_invalid [of "[0x61, 0]"] by (simp add: path_inv_def SLASH_def usize_limit_def)

text \<open>for a path without empty components, \<open>parent\<close> is \<open>None\<close> for the empty path, the
  root and a single component without a separator, and otherwise the path of all but the last
  component; for two or more components the parent has exactly these components. A single component
  after a leading separator, although top-level, gets the empty path as its parent.\<close>

theorem path_parent_correct:
  assumes "path_inv p" and "SLASH \<notin> set p" and "[] \<notin> set (path_components (butlast p))"
  shows "case path_components (butlast p) of
      [] \<Rightarrow> path_parent p = Some None
    | [c] \<Rightarrow> path_parent p = Some (if hd p = SEPARATOR then Some [0] else None)
    | cs \<Rightarrow> \<exists>q. path_parent p = Some (Some q) \<and> path_components (butlast q) = butlast cs"
proof -
  obtain xs where xs: "p = xs @ [0]" "0 \<notin> set xs" using assms(1) by (rule path_invE)
  note eq = path_parent_eq [OF assms]
  show ?thesis
  proof (cases "path_components xs" rule: remdups_adj.cases)
    case 1
    then show ?thesis using eq xs by simp
  next
    case (2 c)
    then have "SEPARATOR \<notin> set c" using path_components_parts [of c xs] by simp
    moreover have "xs = (if hd xs = SEPARATOR then SEPARATOR # c else c)" "xs \<noteq> []"
      using 2 join_split [of xs] join_split [of "tl xs"]
      by (cases xs; auto simp: path_components_def split: if_splits)+
    ultimately have "SEPARATOR \<in> set xs \<longleftrightarrow> hd xs = SEPARATOR" by (metis hd_in_set list.set_intros(1))
    then show ?thesis using 2 eq xs \<open>xs \<noteq> []\<close> by simp
  next
    case (3 c d cs)
    let ?b = "butlast (c # d # cs)"
    have parts: "\<forall>x \<in> set ?b. x \<noteq> [] \<and> SEPARATOR \<notin> set x"
      using path_components_parts [of _ xs] assms(3) xs 3 by (auto dest!: in_set_butlastD)
    have "SEPARATOR \<in> set xs"
    proof (rule ccontr)
      assume "SEPARATOR \<notin> set xs"
      then have "path_components xs = [xs] \<or> path_components xs = []"
        by (cases xs) (auto simp: path_components_def split_sep_single)
      with 3 show False by auto
    qed
    then have "path_parent p = Some (Some (join_sep ?b @ [0]))" using eq xs 3 by simp
    moreover have "path_components (join_sep ?b) = ?b"
    proof -
      have c: "c \<noteq> []" "SEPARATOR \<notin> set c" using parts by auto
      then have "hd c \<noteq> SEPARATOR" by (metis hd_in_set)
      with c have "join_sep ?b \<noteq> []" "hd (join_sep ?b) \<noteq> SEPARATOR"
        using join_sep_hd [of c "butlast (d # cs)"] by auto
      then show ?thesis using parts split_join [of ?b] by (auto simp: path_components_def)
    qed
    ultimately show ?thesis using 3 xs by simp
  qed
qed

theorem path_parent_correct_witness:
  "path_parent [0x5C, 0x61, 0] = Some (Some [0]) \<and>
   (\<exists>q. path_parent [0x61, 0x5C, 0x62, 0] = Some (Some q) \<and> path_components (butlast q) = [[0x61]])"
proof -
  have pc: "path_components [0x5C, 0x61] = [[0x61]]" "path_components [0x61, 0x5C, 0x62] = [[0x61], [0x62]]"
    by (simp_all add: path_components_def SEPARATOR_def)
  have inv: "path_inv [0x5C, 0x61, 0]" "path_inv [0x61, 0x5C, 0x62, 0]"
    by (simp_all add: path_inv_def usize_limit_def)
  show ?thesis using path_parent_correct [OF inv(1)] path_parent_correct [OF inv(2)]
    by (simp add: pc SLASH_def) (simp add: SEPARATOR_def)
qed

end
