(* ===== verification/Uefi_Time.thy ===== *)
theory Uefi_Time
  imports Prelude
begin

text \<open>
  Date and time: the raw structure of \<open>uefi-raw/src/time.rs\<close> and the checked wrapper of
  \<open>uefi/src/runtime.rs\<close>, with the conversion from bytes. The time zone is a signed 16-bit number,
  kept as a word and read with \<open>sint\<close>.
\<close>

unbundle bit_operations_syntax

section \<open>The raw structure\<close>

record raw_time =
  tm_year :: u16
  tm_month :: u8
  tm_day :: u8
  tm_hour :: u8
  tm_minute :: u8
  tm_second :: u8
  tm_pad1 :: u8
  tm_nanosecond :: u32
  tm_time_zone :: u16
  tm_daylight :: u8
  tm_pad2 :: u8

definition UNSPECIFIED_TIMEZONE :: u16 where "UNSPECIFIED_TIMEZONE = 0x07ff"

definition ADJUST_DAYLIGHT :: u8 where "ADJUST_DAYLIGHT = 0x01"
definition IN_DAYLIGHT :: u8 where "IN_DAYLIGHT = 0x02"

definition raw_time_invalid :: raw_time where
  "raw_time_invalid = \<lparr>tm_year = 0, tm_month = 0, tm_day = 0, tm_hour = 0, tm_minute = 0, tm_second = 0, tm_pad1 = 0,
     tm_nanosecond = 0, tm_time_zone = 0, tm_daylight = 0, tm_pad2 = 0\<rparr>"

definition raw_time_is_valid :: "raw_time \<Rightarrow> bool" where
  "raw_time_is_valid t \<longleftrightarrow>
    1900 \<le> tm_year t \<and> tm_year t \<le> 9999 \<and>
    1 \<le> tm_month t \<and> tm_month t \<le> 12 \<and>
    1 \<le> tm_day t \<and> tm_day t \<le> 31 \<and>
    tm_hour t \<le> 23 \<and>
    tm_minute t \<le> 59 \<and>
    tm_second t \<le> 59 \<and>
    tm_nanosecond t \<le> 999999999 \<and>
    (- 1440 \<le> sint (tm_time_zone t) \<and> sint (tm_time_zone t) \<le> 1440 \<or> tm_time_zone t = UNSPECIFIED_TIMEZONE)"

definition raw_time_eq :: "raw_time \<Rightarrow> raw_time \<Rightarrow> bool" where
  "raw_time_eq a b \<longleftrightarrow>
    tm_year a = tm_year b \<and> tm_month a = tm_month b \<and> tm_day a = tm_day b \<and> tm_hour a = tm_hour b \<and>
    tm_minute a = tm_minute b \<and> tm_second a = tm_second b \<and> tm_nanosecond a = tm_nanosecond b \<and>
    tm_time_zone a = tm_time_zone b \<and> tm_daylight a = tm_daylight b"

section \<open>The checked wrapper\<close>

record time_params =
  tp_year :: u16
  tp_month :: u8
  tp_day :: u8
  tp_hour :: u8
  tp_minute :: u8
  tp_second :: u8
  tp_nanosecond :: u32
  tp_time_zone :: "u16 option"
  tp_daylight :: u8

record time_error =
  te_year :: bool
  te_month :: bool
  te_day :: bool
  te_hour :: bool
  te_minute :: bool
  te_second :: bool
  te_nanosecond :: bool
  te_timezone :: bool
  te_daylight :: bool

definition time_error_default :: time_error where
  "time_error_default = \<lparr>te_year = False, te_month = False, te_day = False, te_hour = False, te_minute = False,
     te_second = False, te_nanosecond = False, te_timezone = False, te_daylight = False\<rparr>"

definition time_zone :: "raw_time \<Rightarrow> u16 option" where
  "time_zone t = (if tm_time_zone t = UNSPECIFIED_TIMEZONE then None else Some (tm_time_zone t))"

definition time_is_valid :: "raw_time \<Rightarrow> (unit, time_error) result" where
  "time_is_valid t =
    (let err = time_error_default;
         err = (if \<not> (1900 \<le> tm_year t \<and> tm_year t \<le> 9999) then err\<lparr>te_year := True\<rparr> else err);
         err = (if \<not> (1 \<le> tm_month t \<and> tm_month t \<le> 12) then err\<lparr>te_month := True\<rparr> else err);
         err = (if \<not> (1 \<le> tm_day t \<and> tm_day t \<le> 31) then err\<lparr>te_day := True\<rparr> else err);
         err = (if 23 < tm_hour t then err\<lparr>te_hour := True\<rparr> else err);
         err = (if 59 < tm_minute t then err\<lparr>te_minute := True\<rparr> else err);
         err = (if 59 < tm_second t then err\<lparr>te_second := True\<rparr> else err);
         err = (if 999999999 < tm_nanosecond t then err\<lparr>te_nanosecond := True\<rparr> else err);
         err = (if (case time_zone t of None \<Rightarrow> False | Some z \<Rightarrow> \<not> (- 1440 \<le> sint z \<and> sint z \<le> 1440))
                then err\<lparr>te_timezone := True\<rparr> else err)
     in if err = time_error_default then Ok () else Err err)"

definition time_new :: "time_params \<Rightarrow> (raw_time, time_error) result" where
  "time_new p =
    (let t = \<lparr>tm_year = tp_year p, tm_month = tp_month p, tm_day = tp_day p, tm_hour = tp_hour p, tm_minute = tp_minute p,
         tm_second = tp_second p, tm_pad1 = 0, tm_nanosecond = tp_nanosecond p,
         tm_time_zone = (case tp_time_zone p of Some z \<Rightarrow> z | None \<Rightarrow> UNSPECIFIED_TIMEZONE),
         tm_daylight = tp_daylight p, tm_pad2 = 0\<rparr>
     in map_ok (\<lambda>_. t) (time_is_valid t))"

definition time_invalid :: raw_time where
  "time_invalid = raw_time_invalid"

datatype time_byte_conversion_error = InvalidFields time_error | InvalidSize

definition SIZE_OF_TIME :: usize where "SIZE_OF_TIME = 16"

definition daylight_from_bits :: "u8 \<Rightarrow> u8 option" where
  "daylight_from_bits b = (if b AND NOT (ADJUST_DAYLIGHT OR IN_DAYLIGHT) = 0 then Some b else None)"

definition time_try_from :: "bytes \<Rightarrow> (raw_time, time_byte_conversion_error) panicking" where
  "time_try_from bs =
    (if SIZE_OF_TIME \<le> length bs then do {
       year_bytes \<leftarrow> get_range bs 0 2;
       month \<leftarrow> get_at bs 2;
       day \<leftarrow> get_at bs 3;
       hour \<leftarrow> get_at bs 4;
       minute \<leftarrow> get_at bs 5;
       second \<leftarrow> get_at bs 6;
       nanosecond_bytes \<leftarrow> get_range bs 8 12;
       zone_bytes \<leftarrow> get_range bs 12 14;
       let zone = u16_from_le zone_bytes;
       daylight_bits \<leftarrow> get_at bs 14;
       case daylight_from_bits daylight_bits of
         None \<Rightarrow> Some (Err (InvalidFields (time_error_default\<lparr>te_daylight := True\<rparr>)))
       | Some dl \<Rightarrow> Some (map_err InvalidFields (time_new
           \<lparr>tp_year = u16_from_le year_bytes, tp_month = month, tp_day = day, tp_hour = hour, tp_minute = minute,
            tp_second = second, tp_nanosecond = u32_from_le nanosecond_bytes,
            tp_time_zone = (if zone = UNSPECIFIED_TIMEZONE then None else Some zone), tp_daylight = dl\<rparr>))
     } else Some (Err InvalidSize))"

section \<open>Layout\<close>

definition time_to_bytes :: "raw_time \<Rightarrow> bytes" where
  "time_to_bytes t = u16_to_le (tm_year t) @ [tm_month t, tm_day t, tm_hour t, tm_minute t, tm_second t, tm_pad1 t] @
    u32_to_le (tm_nanosecond t) @ u16_to_le (tm_time_zone t) @ [tm_daylight t, tm_pad2 t]"

definition known_daylight :: "raw_time \<Rightarrow> bool" where
  "known_daylight t \<longleftrightarrow> daylight_from_bits (tm_daylight t) \<noteq> None"

section \<open>Lemmas\<close>

text \<open>The error has a flag for every field out of range and no other.\<close>

definition time_errors :: "raw_time \<Rightarrow> time_error" where
  "time_errors t =
    \<lparr>te_year = (tm_year t < 1900 \<or> 9999 < tm_year t), te_month = (tm_month t < 1 \<or> 12 < tm_month t),
     te_day = (tm_day t < 1 \<or> 31 < tm_day t), te_hour = (23 < tm_hour t), te_minute = (59 < tm_minute t),
     te_second = (59 < tm_second t), te_nanosecond = (999999999 < tm_nanosecond t),
     te_timezone = (tm_time_zone t \<noteq> UNSPECIFIED_TIMEZONE \<and> (sint (tm_time_zone t) < - 1440 \<or> 1440 < sint (tm_time_zone t))),
     te_daylight = False\<rparr>"

lemma flag_if:
  "(if a then r\<lparr>te_year := True\<rparr> else r) = r\<lparr>te_year := te_year r \<or> a\<rparr>"
  "(if a then r\<lparr>te_month := True\<rparr> else r) = r\<lparr>te_month := te_month r \<or> a\<rparr>"
  "(if a then r\<lparr>te_day := True\<rparr> else r) = r\<lparr>te_day := te_day r \<or> a\<rparr>"
  "(if a then r\<lparr>te_hour := True\<rparr> else r) = r\<lparr>te_hour := te_hour r \<or> a\<rparr>"
  "(if a then r\<lparr>te_minute := True\<rparr> else r) = r\<lparr>te_minute := te_minute r \<or> a\<rparr>"
  "(if a then r\<lparr>te_second := True\<rparr> else r) = r\<lparr>te_second := te_second r \<or> a\<rparr>"
  "(if a then r\<lparr>te_nanosecond := True\<rparr> else r) = r\<lparr>te_nanosecond := te_nanosecond r \<or> a\<rparr>"
  "(if a then r\<lparr>te_timezone := True\<rparr> else r) = r\<lparr>te_timezone := te_timezone r \<or> a\<rparr>"
  by (cases a; simp)+

lemma time_is_valid_errors:
  "time_is_valid t = (if time_errors t = time_error_default then Ok () else Err (time_errors t))"
proof -
  have zone: "(case time_zone t of None \<Rightarrow> False | Some z \<Rightarrow> \<not> (- 1440 \<le> sint z \<and> sint z \<le> 1440)) \<longleftrightarrow>
      te_timezone (time_errors t)"
    by (auto simp: time_zone_def time_errors_def)
  have "time_errors t = time_error_default
      \<lparr>te_year := \<not> (1900 \<le> tm_year t \<and> tm_year t \<le> 9999), te_month := \<not> (1 \<le> tm_month t \<and> tm_month t \<le> 12),
       te_day := \<not> (1 \<le> tm_day t \<and> tm_day t \<le> 31), te_hour := 23 < tm_hour t, te_minute := 59 < tm_minute t,
       te_second := 59 < tm_second t, te_nanosecond := 999999999 < tm_nanosecond t, te_timezone := te_timezone (time_errors t)\<rparr>"
    by (simp add: time_errors_def time_error_default_def not_le)
  then show ?thesis unfolding time_is_valid_def Let_def flag_if zone by (simp add: time_error_default_def)
qed

lemma one_le_u8: "1 \<le> (x :: u8) \<longleftrightarrow> x \<noteq> 0"
  by (simp add: word_le_nat_alt Suc_le_eq unat_gt_0)

lemma no_errors_iff: "time_errors t = time_error_default \<longleftrightarrow> raw_time_is_valid t"
  by (auto simp: time_errors_def time_error_default_def raw_time_is_valid_def not_less one_le_u8)

lemma length_time_to_bytes: "length (time_to_bytes t) = SIZE_OF_TIME"
  by (simp add: time_to_bytes_def SIZE_OF_TIME_def u16c.encode_length u32c.encode_length)

lemma time_new_ok: "time_new p = Ok t \<Longrightarrow> raw_time_is_valid t \<and> tm_daylight t = tp_daylight p"
  by (auto simp: time_new_def Let_def time_is_valid_errors no_errors_iff split: if_splits)

text \<open>What the conversion does with enough bytes.\<close>

definition params_of_bytes :: "bytes \<Rightarrow> u8 \<Rightarrow> time_params" where
  "params_of_bytes bs dl =
    (let zone = u16_from_le (take 2 (drop 12 bs)) in
     \<lparr>tp_year = u16_from_le (take 2 bs), tp_month = bs ! 2, tp_day = bs ! 3, tp_hour = bs ! 4, tp_minute = bs ! 5,
      tp_second = bs ! 6, tp_nanosecond = u32_from_le (take 4 (drop 8 bs)),
      tp_time_zone = (if zone = UNSPECIFIED_TIMEZONE then None else Some zone), tp_daylight = dl\<rparr>)"

lemma time_try_from_long:
  assumes "SIZE_OF_TIME \<le> length bs"
  shows "time_try_from bs =
    (case daylight_from_bits (bs ! 14) of
       None \<Rightarrow> Some (Err (InvalidFields (time_error_default\<lparr>te_daylight := True\<rparr>)))
     | Some dl \<Rightarrow> Some (map_err InvalidFields (time_new (params_of_bytes bs dl))))"
  using assms by (cases "daylight_from_bits (bs ! 14)")
    (simp_all add: time_try_from_def SIZE_OF_TIME_def get_range_def get_at_def params_of_bytes_def Let_def)

text \<open>The structure that is rebuilt from the bytes has its padding cleared.\<close>

lemma time_try_from_bytes:
  assumes "known_daylight t"
  shows "time_try_from (time_to_bytes t @ r) =
    Some (if raw_time_is_valid t then Ok (t\<lparr>tm_pad1 := 0, tm_pad2 := 0\<rparr>) else Err (InvalidFields (time_errors t)))"
proof -
  let ?bs = "time_to_bytes t @ r" and ?t = "t\<lparr>tm_pad1 := 0, tm_pad2 := 0\<rparr>"
  obtain a b where ab: "u16_to_le (tm_year t) = [a, b]" "u16_from_le [a, b] = tm_year t" by (rule u16_to_le_cases)
  obtain c d e f where cf: "u32_to_le (tm_nanosecond t) = [c, d, e, f]" "u32_from_le [c, d, e, f] = tm_nanosecond t"
    by (rule u32_to_le_cases)
  obtain g h where gh: "u16_to_le (tm_time_zone t) = [g, h]" "u16_from_le [g, h] = tm_time_zone t" by (rule u16_to_le_cases)
  have bs: "?bs = [a, b, tm_month t, tm_day t, tm_hour t, tm_minute t, tm_second t, tm_pad1 t, c, d, e, f, g, h, tm_daylight t, tm_pad2 t] @ r"
    by (simp add: time_to_bytes_def ab cf gh)
  have dl: "daylight_from_bits (tm_daylight t) = Some (tm_daylight t)"
    using assms by (auto simp: known_daylight_def daylight_from_bits_def split: if_splits)
  have long: "SIZE_OF_TIME \<le> length ?bs" "?bs ! 14 = tm_daylight t" by (simp_all add: length_time_to_bytes, simp add: bs)
  let ?z = "if tm_time_zone t = UNSPECIFIED_TIMEZONE then None else Some (tm_time_zone t)"
  have par: "params_of_bytes ?bs (tm_daylight t) =
      \<lparr>tp_year = tm_year t, tp_month = tm_month t, tp_day = tm_day t, tp_hour = tm_hour t, tp_minute = tm_minute t,
       tp_second = tm_second t, tp_nanosecond = tm_nanosecond t, tp_time_zone = ?z, tp_daylight = tm_daylight t\<rparr>"
    unfolding params_of_bytes_def Let_def bs by (simp add: ab(2) cf(2) gh(2))
  have "(case ?z of Some z \<Rightarrow> z | None \<Rightarrow> UNSPECIFIED_TIMEZONE) = tm_time_zone t" by simp
  then have "time_new (params_of_bytes ?bs (tm_daylight t)) = map_ok (\<lambda>_. ?t) (time_is_valid ?t)"
    unfolding par time_new_def Let_def by (cases t) simp
  then have "time_try_from ?bs = Some (map_err InvalidFields (map_ok (\<lambda>_. ?t) (time_is_valid ?t)))"
    unfolding time_try_from_long [OF long(1)] long(2) dl by simp
  moreover have "time_errors ?t = time_errors t" by (simp add: time_errors_def)
  ultimately show ?thesis by (simp add: time_is_valid_errors no_errors_iff)
qed

lemma map_err_Ok: "map_err f r = Ok a \<longleftrightarrow> r = Ok a"
  by (cases r) auto

lemma time_try_from_valid:
  assumes "time_try_from bs = Some (Ok t)"
  shows "raw_time_is_valid t \<and> known_daylight t"
proof (cases "SIZE_OF_TIME \<le> length bs")
  case True
  then obtain dl where dl: "daylight_from_bits (bs ! 14) = Some dl" "time_new (params_of_bytes bs dl) = Ok t"
    using assms by (auto simp: time_try_from_long map_err_Ok split: option.splits)
  have "daylight_from_bits dl = Some dl" using dl(1) by (auto simp: daylight_from_bits_def split: if_splits)
  moreover have "tp_daylight (params_of_bytes bs dl) = dl" by (simp add: params_of_bytes_def Let_def)
  ultimately show ?thesis using time_new_ok [OF dl(2)] by (simp add: known_daylight_def)
qed (use assms in \<open>simp add: time_try_from_def\<close>)

section \<open>Properties\<close>

text \<open>The two validity checks of times agree: the wrapper accepts exactly the times that the raw check
  accepts, and for the others it reports an error in which precisely the fields out of their documented ranges are
  flagged.\<close>

theorem time_checks_agree:
  "(time_is_valid t = Ok () \<longleftrightarrow> raw_time_is_valid t) \<and>
    (\<forall>e. time_is_valid t = Err e \<longleftrightarrow> \<not> raw_time_is_valid t \<and> e = time_errors t)"
  by (auto simp: time_is_valid_errors no_errors_iff)


definition sample_time :: raw_time where
  "sample_time = \<lparr>tm_year = 2024, tm_month = 2, tm_day = 29, tm_hour = 23, tm_minute = 59, tm_second = 59, tm_pad1 = 7,
     tm_nanosecond = 999999999, tm_time_zone = - 1440, tm_daylight = 3, tm_pad2 = 9\<rparr>"


text \<open>The offset 2047, which is outside the documented range of time zones, is not rejected by \<open>Time::new\<close>: it is
  the marker of an unspecified time zone, so the time is created as if no time zone had been given.\<close>

theorem time_new_sentinel_zone:
  "time_new (p\<lparr>tp_time_zone := Some UNSPECIFIED_TIMEZONE\<rparr>) = time_new (p\<lparr>tp_time_zone := None\<rparr>) \<and>
    sint UNSPECIFIED_TIMEZONE = 2047"
  by (simp add: time_new_def UNSPECIFIED_TIMEZONE_def)

end
