(* ===== verification/Boot_Services.thy ===== *)
theory Boot_Services
  imports Memory_Map Status_Result Uefi_Time
begin

text \<open>
  Boot services: \<open>uefi/src/boot.rs\<close>. The firmware is a parameter: a record of functions on an
  abstract firmware state, one per entry of the boot services table that the modelled code calls,
  with every out-parameter a component of the result. The program's own state is the record
  \<open>world\<close>: whether the global system table pointer is set, the image handle, the memory type
  cache of the allocator, and the memory the program writes. Every operation takes a world and returns
  the new one; a missing system table or a null boot services pointer is a panic.
\<close>

section \<open>The firmware interface\<close>

record 'fw mem_services =
  ms_allocate_pages :: "'fw \<Rightarrow> nat \<Rightarrow> u32 \<Rightarrow> usize \<Rightarrow> nat \<Rightarrow> (status \<times> nat) \<times> 'fw"
  ms_free_pages :: "'fw \<Rightarrow> nat \<Rightarrow> usize \<Rightarrow> status \<times> 'fw"
  ms_allocate_pool :: "'fw \<Rightarrow> u32 \<Rightarrow> usize \<Rightarrow> (status \<times> nat) \<times> 'fw"
  ms_free_pool :: "'fw \<Rightarrow> nat \<Rightarrow> status \<times> 'fw"

text \<open>The out-parameters of \<open>GetMemoryMap\<close>, and the bytes it stored in the buffer.\<close>

record gmm_out =
  gmm_status :: status
  gmm_map_size :: usize
  gmm_map_key :: usize
  gmm_desc_size :: usize
  gmm_desc_version :: u32
  gmm_data :: bytes

record 'fw map_services =
  ms_get_memory_map :: "'fw \<Rightarrow> usize \<Rightarrow> nat \<Rightarrow> gmm_out \<times> 'fw"
  ms_exit_boot_services :: "'fw \<Rightarrow> nat \<Rightarrow> usize \<Rightarrow> status \<times> 'fw"

record 'fw protocol_services =
  ps_open_protocol :: "'fw \<Rightarrow> nat \<Rightarrow> nat \<Rightarrow> nat \<Rightarrow> nat \<Rightarrow> u32 \<Rightarrow> (status \<times> nat) \<times> 'fw"
  ps_close_protocol :: "'fw \<Rightarrow> nat \<Rightarrow> nat \<Rightarrow> nat \<Rightarrow> nat \<Rightarrow> status \<times> 'fw"
  ps_locate_handle :: "'fw \<Rightarrow> nat \<Rightarrow> nat \<Rightarrow> nat \<Rightarrow> usize \<Rightarrow> (status \<times> usize \<times> nat list) \<times> 'fw"
  ps_locate_handle_buffer :: "'fw \<Rightarrow> nat \<Rightarrow> nat \<Rightarrow> nat \<Rightarrow> (status \<times> usize \<times> nat) \<times> 'fw"
  ps_handle_at :: "'fw \<Rightarrow> nat \<Rightarrow> usize \<Rightarrow> nat"
  ps_image_data_type :: "'fw \<Rightarrow> nat \<Rightarrow> u32"

record 'fw event_services =
  es_raise_tpl :: "'fw \<Rightarrow> usize \<Rightarrow> usize \<times> 'fw"
  es_restore_tpl :: "'fw \<Rightarrow> usize \<Rightarrow> 'fw"
  es_create_event :: "'fw \<Rightarrow> u32 \<Rightarrow> usize \<Rightarrow> nat \<Rightarrow> nat \<Rightarrow> (status \<times> nat) \<times> 'fw"
  es_create_event_ex :: "'fw \<Rightarrow> u32 \<Rightarrow> usize \<Rightarrow> nat \<Rightarrow> nat \<Rightarrow> nat \<Rightarrow> (status \<times> nat) \<times> 'fw"
  es_check_event :: "'fw \<Rightarrow> nat \<Rightarrow> status \<times> 'fw"
  es_signal_event :: "'fw \<Rightarrow> nat \<Rightarrow> status \<times> 'fw"
  es_close_event :: "'fw \<Rightarrow> nat \<Rightarrow> status \<times> 'fw"
  es_set_timer :: "'fw \<Rightarrow> nat \<Rightarrow> nat \<Rightarrow> u64 \<Rightarrow> status \<times> 'fw"
  es_wait_for_event :: "'fw \<Rightarrow> nat list \<Rightarrow> (status \<times> usize) \<times> 'fw"
  es_stall :: "'fw \<Rightarrow> usize \<Rightarrow> status \<times> 'fw"
  es_set_watchdog_timer :: "'fw \<Rightarrow> usize \<Rightarrow> u64 \<Rightarrow> usize \<Rightarrow> u16 list option \<Rightarrow> status \<times> 'fw"
  es_calculate_crc32 :: "'fw \<Rightarrow> bytes \<Rightarrow> (status \<times> u32) \<times> 'fw"

record 'fw image_services =
  is_load_image :: "'fw \<Rightarrow> bool \<Rightarrow> nat \<Rightarrow> nat \<Rightarrow> nat \<Rightarrow> usize \<Rightarrow> (status \<times> nat) \<times> 'fw"
  is_unload_image :: "'fw \<Rightarrow> nat \<Rightarrow> status \<times> 'fw"
  is_start_image :: "'fw \<Rightarrow> nat \<Rightarrow> (status \<times> usize \<times> nat) \<times> 'fw"
  is_connect_controller :: "'fw \<Rightarrow> nat \<Rightarrow> nat \<Rightarrow> nat \<Rightarrow> bool \<Rightarrow> status \<times> 'fw"
  is_disconnect_controller :: "'fw \<Rightarrow> nat \<Rightarrow> nat \<Rightarrow> nat \<Rightarrow> status \<times> 'fw"
  is_install_protocol_interface :: "'fw \<Rightarrow> nat \<Rightarrow> nat \<Rightarrow> nat \<Rightarrow> nat \<Rightarrow> (status \<times> nat) \<times> 'fw"
  is_reinstall_protocol_interface :: "'fw \<Rightarrow> nat \<Rightarrow> nat \<Rightarrow> nat \<Rightarrow> nat \<Rightarrow> status \<times> 'fw"
  is_uninstall_protocol_interface :: "'fw \<Rightarrow> nat \<Rightarrow> nat \<Rightarrow> nat \<Rightarrow> status \<times> 'fw"
  is_register_protocol_notify :: "'fw \<Rightarrow> nat \<Rightarrow> nat \<Rightarrow> (status \<times> nat) \<times> 'fw"
  is_protocols_per_handle :: "'fw \<Rightarrow> nat \<Rightarrow> (status \<times> nat \<times> usize) \<times> 'fw"
  is_guid_at :: "'fw \<Rightarrow> nat \<Rightarrow> usize \<Rightarrow> nat"
  is_locate_device_path :: "'fw \<Rightarrow> nat \<Rightarrow> nat \<Rightarrow> (status \<times> nat \<times> nat) \<times> 'fw"
  is_install_configuration_table :: "'fw \<Rightarrow> nat \<Rightarrow> nat \<Rightarrow> status \<times> 'fw"
  is_loaded_image_device :: "'fw \<Rightarrow> nat \<Rightarrow> nat"

text \<open>A variable name is the list of its characters up to and including the null character; the vendor is a GUID.
  \<open>GetVariable\<close> is given the size of the buffer and returns the stored bytes.\<close>

record 'fw runtime_services =
  rs_revision :: u32
  rs_get_time :: "'fw \<Rightarrow> (status \<times> raw_time \<times> (u32 \<times> u32 \<times> bool)) \<times> 'fw"
  rs_set_time :: "'fw \<Rightarrow> raw_time \<Rightarrow> status \<times> 'fw"
  rs_get_variable :: "'fw \<Rightarrow> u16 list \<Rightarrow> nat \<Rightarrow> usize \<Rightarrow> (status \<times> u32 \<times> usize \<times> bytes) \<times> 'fw"
  rs_get_next_variable_name :: "'fw \<Rightarrow> usize \<Rightarrow> u16 list \<Rightarrow> nat \<Rightarrow> (status \<times> usize \<times> u16 list \<times> nat) \<times> 'fw"
  rs_set_variable :: "'fw \<Rightarrow> u16 list \<Rightarrow> nat \<Rightarrow> u32 \<Rightarrow> bytes \<Rightarrow> status \<times> 'fw"
  rs_query_variable_info :: "'fw \<Rightarrow> u32 \<Rightarrow> (status \<times> u64 \<times> u64 \<times> u64) \<times> 'fw"
  rs_set_virtual_address_map :: "'fw \<Rightarrow> usize \<Rightarrow> usize \<Rightarrow> u32 \<Rightarrow> bytes \<Rightarrow> status \<times> 'fw"
  rs_update_capsule :: "'fw \<Rightarrow> nat list \<Rightarrow> usize \<Rightarrow> nat \<Rightarrow> status \<times> 'fw"
  rs_query_capsule_capabilities :: "'fw \<Rightarrow> nat list \<Rightarrow> usize \<Rightarrow> (status \<times> u64 \<times> u32) \<times> 'fw"

record 'fw firmware =
  fw_boot_services_null :: "'fw \<Rightarrow> bool"
  fw_runtime_services_null :: "'fw \<Rightarrow> bool"
  fw_boot_revision :: u32
  fw_mem :: "'fw mem_services"
  fw_map :: "'fw map_services"
  fw_proto :: "'fw protocol_services"
  fw_ev :: "'fw event_services"
  fw_img :: "'fw image_services"
  fw_rt :: "'fw runtime_services"

section \<open>The state of the program\<close>

record 'fw world =
  system_table :: "'fw firmware option"
  fw_state :: 'fw
  image_handle_ptr :: nat
  memory_type_cache :: u32
  ram :: "nat \<Rightarrow> u8"

section \<open>Access to the tables\<close>

definition are_boot_services_active :: "'fw world \<Rightarrow> bool" where
  "are_boot_services_active w =
    (case system_table w of None \<Rightarrow> False | Some st \<Rightarrow> \<not> fw_boot_services_null st (fw_state w))"

definition boot_services_raw_panicking :: "'fw world \<Rightarrow> 'fw firmware option" where
  "boot_services_raw_panicking w = do {
     st \<leftarrow> system_table w;
     require (\<not> fw_boot_services_null st (fw_state w));
     Some st
   }"

definition image_handle :: "'fw world \<Rightarrow> nat option" where
  "image_handle w = do { require (image_handle_ptr w \<noteq> 0); Some (image_handle_ptr w) }"

definition set_image_handle :: "nat \<Rightarrow> 'fw world \<Rightarrow> 'fw world" where
  "set_image_handle h w = w\<lparr>image_handle_ptr := h\<rparr>"

section \<open>Memory\<close>

datatype allocate_type = AnyPages | MaxAddress nat | Address nat

definition MEMORY_TYPE_RESERVED :: u32 where
  "MEMORY_TYPE_RESERVED = 0"

definition LOADER_DATA :: u32 where
  "LOADER_DATA = 2"

definition PAGE_SIZE :: nat where
  "PAGE_SIZE = 4096"

fun raw_allocate_type :: "allocate_type \<Rightarrow> nat \<times> nat" where
  "raw_allocate_type AnyPages = (0, 0)"
| "raw_allocate_type (MaxAddress addr) = (1, addr)"
| "raw_allocate_type (Address addr) = (2, addr)"

definition allocate_pages ::
  "allocate_type \<Rightarrow> u32 \<Rightarrow> usize \<Rightarrow> 'fw world \<Rightarrow> (nat uefi_result \<times> 'fw world) option" where
  "allocate_pages allocation_type memory_type n_pages w = do {
     st \<leftarrow> boot_services_raw_panicking w;
     let bt = fw_mem st;
     let (ty, initial_addr) = raw_allocate_type allocation_type;
     let ((s1, addr1), f1) = ms_allocate_pages bt (fw_state w) ty memory_type n_pages initial_addr;
     r1 \<leftarrow> to_result s1;
     case r1 of
       Err e \<Rightarrow> Some (Err e, w\<lparr>fw_state := f1\<rparr>)
     | Ok _ \<Rightarrow>
         if addr1 \<noteq> 0 then Some (Ok addr1, w\<lparr>fw_state := f1\<rparr>)
         else do {
           let ((s2, addr2), f2) = ms_allocate_pages bt f1 ty memory_type n_pages initial_addr;
           r \<leftarrow> to_result s2;
           let (_, f3) = ms_free_pages bt f2 addr1 n_pages;
           case r of
             Err e \<Rightarrow> Some (Err e, w\<lparr>fw_state := f3\<rparr>)
           | Ok _ \<Rightarrow>
               if addr2 \<noteq> 0 then Some (Ok addr2, w\<lparr>fw_state := f3\<rparr>)
               else do {
                 e \<leftarrow> error_from_status OUT_OF_RESOURCES;
                 Some (Err e, w\<lparr>fw_state := f3\<rparr>)
               }
         }
   }"

definition free_pages :: "nat \<Rightarrow> usize \<Rightarrow> 'fw world \<Rightarrow> (unit uefi_result \<times> 'fw world) option" where
  "free_pages ptr n_pages w = do {
     st \<leftarrow> boot_services_raw_panicking w;
     let (s, f) = ms_free_pages (fw_mem st) (fw_state w) ptr n_pages;
     r \<leftarrow> to_result s;
     Some (r, w\<lparr>fw_state := f\<rparr>)
   }"

definition allocate_pool :: "u32 \<Rightarrow> usize \<Rightarrow> 'fw world \<Rightarrow> (nat uefi_result \<times> 'fw world) option" where
  "allocate_pool memory_type sz w = do {
     st \<leftarrow> boot_services_raw_panicking w;
     let ((s, buffer), f) = ms_allocate_pool (fw_mem st) (fw_state w) memory_type sz;
     r \<leftarrow> to_result_with_val s (Some buffer);
     case r of
       Err e \<Rightarrow> Some (Err e, w\<lparr>fw_state := f\<rparr>)
     | Ok p \<Rightarrow>
         if p \<noteq> 0 then Some (Ok p, w\<lparr>fw_state := f\<rparr>)
         else do {
           e \<leftarrow> error_from_status OUT_OF_RESOURCES;
           Some (Err e, w\<lparr>fw_state := f\<rparr>)
         }
   }"

definition free_pool :: "nat \<Rightarrow> 'fw world \<Rightarrow> (unit uefi_result \<times> 'fw world) option" where
  "free_pool ptr w = do {
     st \<leftarrow> boot_services_raw_panicking w;
     let (s, f) = ms_free_pool (fw_mem st) (fw_state w) ptr;
     r \<leftarrow> to_result s;
     Some (r, w\<lparr>fw_state := f\<rparr>)
   }"

section \<open>The memory map\<close>

definition memory_map_size :: "'fw world \<Rightarrow> (memory_map_meta \<times> 'fw world) option" where
  "memory_map_size w = do {
     st \<leftarrow> boot_services_raw_panicking w;
     let (out, f) = ms_get_memory_map (fw_map st) (fw_state w) 0 0;
     require (gmm_status out = BUFFER_TOO_SMALL);
     require (gmm_desc_size out \<noteq> 0);
     require (gmm_map_size out mod gmm_desc_size out = 0);
     let mmm = \<lparr>map_size = gmm_map_size out, desc_size = gmm_desc_size out,
                map_key = gmm_map_key out, desc_version = gmm_desc_version out\<rparr>;
     assert_sanity_checks mmm;
     Some (mmm, w\<lparr>fw_state := f\<rparr>)
   }"

text \<open>A buffer is its address and length; \<open>GetMemoryMap\<close> writes into it.\<close>

definition get_memory_map :: "nat \<times> usize \<Rightarrow> 'fw world \<Rightarrow> (memory_map_meta uefi_result \<times> 'fw world) option" where
  "get_memory_map b w = do {
     st \<leftarrow> boot_services_raw_panicking w;
     require (fst b mod 8 = 0);
     let (out, f) = ms_get_memory_map (fw_map st) (fw_state w) (snd b) (fst b);
     let w' = w\<lparr>fw_state := f, ram := mem_write (ram w) (fst b) (gmm_data out)\<rparr>;
     r \<leftarrow> to_result_with_val (gmm_status out)
       (Some \<lparr>map_size = gmm_map_size out, desc_size = gmm_desc_size out,
              map_key = gmm_map_key out, desc_version = gmm_desc_version out\<rparr>);
     Some (r, w')
   }"

text \<open>\<open>MemoryMapBackingMemory\<close>: \<open>from_raw\<close>, \<open>new\<close> and \<open>drop\<close>.\<close>

definition backing_from_raw :: "nat \<Rightarrow> usize \<Rightarrow> (nat \<times> usize) option" where
  "backing_from_raw ptr n = do {
     require (ptr mod 8 = 0);
     require (ptr \<noteq> 0);
     Some (ptr, n)
   }"

definition backing_new :: "u32 \<Rightarrow> 'fw world \<Rightarrow> ((nat \<times> usize) uefi_result \<times> 'fw world) option" where
  "backing_new memory_type w = do {
     (mmm, w1) \<leftarrow> memory_map_size w;
     n \<leftarrow> safe_allocation_size_hint mmm;
     (r, w2) \<leftarrow> allocate_pool memory_type n w1;
     case r of
       Err e \<Rightarrow> Some (Err e, w2)
     | Ok ptr \<Rightarrow> do {
         require (ptr mod 8 = 0);
         require (desc_size mmm \<noteq> 0);
         require (map_size mmm mod desc_size mmm = 0);
         b \<leftarrow> backing_from_raw ptr n;
         Some (Ok b, w2)
       }
   }"

definition backing_drop :: "nat \<times> usize \<Rightarrow> 'fw world \<Rightarrow> 'fw world option" where
  "backing_drop b w =
    (if are_boot_services_active w then do {
       (_, w') \<leftarrow> free_pool (fst b) w;
       Some w'
     } else Some w)"

definition get_owned_map :: "nat \<times> usize \<Rightarrow> memory_map_meta \<Rightarrow> 'fw world \<Rightarrow> memory_map_owned option" where
  "get_owned_map b mt w = from_initialized_mem (fst b, mem_read (ram w) (fst b) (snd b)) mt"

definition boot_memory_map :: "u32 \<Rightarrow> 'fw world \<Rightarrow> (memory_map_owned uefi_result \<times> 'fw world) option" where
  "boot_memory_map mt w = do {
     (r, w1) \<leftarrow> backing_new mt w;
     case r of
       Err e \<Rightarrow> Some (Err e, w1)
     | Ok b \<Rightarrow> do {
         (m, w2) \<leftarrow> get_memory_map b w1;
         case m of
           Err e \<Rightarrow> do {
             require (err_status e \<noteq> BUFFER_TOO_SMALL);
             w3 \<leftarrow> backing_drop b w2;
             Some (Err e, w3)
           }
         | Ok mm \<Rightarrow> do {
             owned \<leftarrow> get_owned_map b mm w2;
             Some (Ok owned, w2)
           }
       }
   }"

section \<open>Exiting boot services\<close>

definition get_memory_map_and_exit_boot_services ::
  "nat \<times> usize \<Rightarrow> 'fw world \<Rightarrow> (memory_map_meta uefi_result \<times> 'fw world) option" where
  "get_memory_map_and_exit_boot_services b w = do {
     st \<leftarrow> boot_services_raw_panicking w;
     (r, w1) \<leftarrow> get_memory_map b w;
     case r of
       Err e \<Rightarrow> Some (Err e, w1)
     | Ok mm \<Rightarrow> do {
         h \<leftarrow> image_handle w1;
         let (s, f) = ms_exit_boot_services (fw_map st) (fw_state w1) h (map_key mm);
         r \<leftarrow> to_result_with_val s (Some mm);
         Some (r, w1\<lparr>fw_state := f\<rparr>)
       }
   }"

text \<open>\<open>exit_boot_services\<close> either returns the final map, or resets the machine and does not return:
  the second outcome carries the reset type and status that \<open>reset\<close> is called with.\<close>

datatype reset_type = COLD | WARM | SHUTDOWN | PLATFORM_SPECIFIC

datatype exit_outcome = Exited memory_map_owned | ResetSystem reset_type status

fun exit_loop :: "nat \<Rightarrow> nat \<times> usize \<Rightarrow> status \<Rightarrow> 'fw world \<Rightarrow> (exit_outcome \<times> 'fw world) option" where
  "exit_loop 0 b s w = Some (ResetSystem COLD s, w)"
| "exit_loop (Suc n) b s w = do {
     (r, w1) \<leftarrow> get_memory_map_and_exit_boot_services b w;
     case r of
       Ok mm \<Rightarrow> do {
         owned \<leftarrow> get_owned_map b mm w1;
         Some (Exited owned, w1)
       }
     | Err e \<Rightarrow> exit_loop n b (err_status e) w1
   }"

definition exit_boot_services :: "u32 option \<Rightarrow> 'fw world \<Rightarrow> (exit_outcome \<times> 'fw world) option" where
  "exit_boot_services custom_memory_type w = do {
     let memory_type = (case custom_memory_type of Some t \<Rightarrow> t | None \<Rightarrow> LOADER_DATA);
     (r, w1) \<leftarrow> backing_new memory_type w;
     case r of
       Err e \<Rightarrow> None
     | Ok b \<Rightarrow> exit_loop 2 b ABORTED w1
   }"

section \<open>Handles and protocols\<close>

text \<open>A GUID is the address of its static; handles are non-null addresses.\<close>

definition opt_to_ptr :: "nat option \<Rightarrow> nat" where
  "opt_to_ptr h = (case h of Some p \<Rightarrow> p | None \<Rightarrow> 0)"

definition handle_from_ptr :: "nat \<Rightarrow> nat option" where
  "handle_from_ptr p = (if p = 0 then None else Some p)"

datatype search_type = AllHandles | ByProtocol nat | ByRegisterNotify nat

fun search_params :: "search_type \<Rightarrow> nat \<times> nat \<times> nat" where
  "search_params AllHandles = (0, 0, 0)"
| "search_params (ByRegisterNotify registration) = (1, 0, registration)"
| "search_params (ByProtocol guid) = (2, guid, 0)"

text \<open>The buffer of \<open>locate_handle\<close> is a list of possibly uninitialised handles; the firmware
  stores a prefix. Reading an uninitialised handle is \<open>None\<close>.\<close>

definition locate_handle ::
  "search_type \<Rightarrow> nat option list \<Rightarrow> 'fw world \<Rightarrow> ((nat list, usize option) uefi_result_with \<times> 'fw world) option" where
  "locate_handle search_ty buffer w = do {
     st \<leftarrow> boot_services_raw_panicking w;
     let (ty, guid, key) = search_params search_ty;
     buffer_size \<leftarrow> umul (length buffer) 8;
     let ((s, buffer_size', stored), f) = ps_locate_handle (fw_proto st) (fw_state w) ty guid key buffer_size;
     let w' = w\<lparr>fw_state := f\<rparr>;
     let num_handles = buffer_size' div 8;
     if s = SUCCESS then do {
       sub \<leftarrow> get_range (overwrite buffer 0 (map Some stored)) 0 num_handles;
       handles \<leftarrow> those sub;
       Some (Ok handles, w')
     }
     else if s = BUFFER_TOO_SMALL then do {
       e \<leftarrow> error_new s (Some num_handles);
       Some (Err e, w')
     }
     else do {
       e \<leftarrow> error_new s None;
       Some (Err e, w')
     }
   }"

record handle_buffer =
  hb_count :: usize
  hb_buffer :: nat

definition locate_handle_buffer :: "search_type \<Rightarrow> 'fw world \<Rightarrow> (handle_buffer uefi_result \<times> 'fw world) option" where
  "locate_handle_buffer search_ty w = do {
     st \<leftarrow> boot_services_raw_panicking w;
     let (ty, guid, key) = search_params search_ty;
     let ((s, num_handles, buffer), f) = ps_locate_handle_buffer (fw_proto st) (fw_state w) ty guid key;
     r \<leftarrow> to_result_with_val s (do {
       require (buffer \<noteq> 0);
       Some \<lparr>hb_count = num_handles, hb_buffer = buffer\<rparr>
     });
     Some (r, w\<lparr>fw_state := f\<rparr>)
   }"

definition handle_buffer_drop :: "handle_buffer \<Rightarrow> 'fw world \<Rightarrow> 'fw world option" where
  "handle_buffer_drop hb w = do {
     (_, w') \<leftarrow> free_pool (hb_buffer hb) w;
     Some w'
   }"

definition handle_buffer_deref :: "handle_buffer \<Rightarrow> 'fw world \<Rightarrow> nat list option" where
  "handle_buffer_deref hb w = do {
     st \<leftarrow> system_table w;
     Some (map (ps_handle_at (fw_proto st) (fw_state w) (hb_buffer hb)) [0..<hb_count hb])
   }"

text \<open>\<open>cap\<close> is the capacity that \<open>Vec::with_capacity\<close> reserves for a requested one.\<close>

definition find_handles :: "(nat \<Rightarrow> nat) \<Rightarrow> nat \<Rightarrow> 'fw world \<Rightarrow> (nat list uefi_result \<times> 'fw world) option" where
  "find_handles cap guid w = do {
     (r, w1) \<leftarrow> locate_handle (ByProtocol guid) [] w;
     case r of
       Ok _ \<Rightarrow> None
     | Err err \<Rightarrow>
         if err_status err = BUFFER_TOO_SMALL then do {
           num_handles \<leftarrow> err_data err;
           (r2, w2) \<leftarrow> locate_handle (ByProtocol guid) (replicate (cap num_handles) None) w1;
           r3 \<leftarrow> discard_errdata r2;
           Some (r3, w2)
         }
         else Some (Err (to_err_without_payload err), w1)
   }"

definition get_handle_for_protocol :: "nat \<Rightarrow> 'fw world \<Rightarrow> (nat uefi_result \<times> 'fw world) option" where
  "get_handle_for_protocol guid w = do {
     (r, w1) \<leftarrow> locate_handle_buffer (ByProtocol guid) w;
     case r of
       Err e \<Rightarrow> Some (Err e, w1)
     | Ok hb \<Rightarrow> do {
         hs \<leftarrow> handle_buffer_deref hb w1;
         res \<leftarrow> (case hs of
           h # _ \<Rightarrow> Some (Ok h)
         | [] \<Rightarrow> do { e \<leftarrow> error_from_status NOT_FOUND; Some (Err e) });
         w2 \<leftarrow> handle_buffer_drop hb w1;
         Some (res, w2)
       }
   }"

datatype open_protocol_attributes =
  GetProtocol | ByChildController | ByDriver | ByDriverExclusive | Exclusive

fun attributes_as_u32 :: "open_protocol_attributes \<Rightarrow> u32" where
  "attributes_as_u32 GetProtocol = 0x02"
| "attributes_as_u32 ByChildController = 0x08"
| "attributes_as_u32 ByDriver = 0x10"
| "attributes_as_u32 ByDriverExclusive = 0x30"
| "attributes_as_u32 Exclusive = 0x20"

record open_protocol_params =
  op_handle :: nat
  op_agent :: nat
  op_controller :: "nat option"

record scoped_protocol =
  sp_interface :: "nat option"
  sp_open_params :: open_protocol_params
  sp_guid :: nat

definition open_protocol ::
  "nat \<Rightarrow> open_protocol_params \<Rightarrow> open_protocol_attributes \<Rightarrow> 'fw world \<Rightarrow> (scoped_protocol uefi_result \<times> 'fw world) option" where
  "open_protocol guid params attributes w = do {
     st \<leftarrow> boot_services_raw_panicking w;
     let ((s, interface), f) = ps_open_protocol (fw_proto st) (fw_state w) (op_handle params) guid
       (op_agent params) (opt_to_ptr (op_controller params)) (attributes_as_u32 attributes);
     r \<leftarrow> to_result_with_val s (Some
       \<lparr>sp_interface = (if interface = 0 then None else Some interface), sp_open_params = params, sp_guid = guid\<rparr>);
     Some (r, w\<lparr>fw_state := f\<rparr>)
   }"

definition open_protocol_exclusive :: "nat \<Rightarrow> nat \<Rightarrow> 'fw world \<Rightarrow> (scoped_protocol uefi_result \<times> 'fw world) option" where
  "open_protocol_exclusive guid handle w = do {
     agent \<leftarrow> image_handle w;
     open_protocol guid \<lparr>op_handle = handle, op_agent = agent, op_controller = None\<rparr> Exclusive w
   }"

definition test_protocol :: "nat \<Rightarrow> open_protocol_params \<Rightarrow> 'fw world \<Rightarrow> (bool uefi_result \<times> 'fw world) option" where
  "test_protocol guid params w = do {
     st \<leftarrow> boot_services_raw_panicking w;
     let ((s, interface), f) = ps_open_protocol (fw_proto st) (fw_state w) (op_handle params) guid
       (op_agent params) (opt_to_ptr (op_controller params)) 0x04;
     let w' = w\<lparr>fw_state := f\<rparr>;
     if s = SUCCESS then Some (Ok True, w')
     else if s = UNSUPPORTED then Some (Ok False, w')
     else do { e \<leftarrow> error_from_status s; Some (Err e, w') }
   }"

definition scoped_protocol_drop :: "scoped_protocol \<Rightarrow> 'fw world \<Rightarrow> 'fw world option" where
  "scoped_protocol_drop sp w = do {
     st \<leftarrow> boot_services_raw_panicking w;
     let (s, f) = ps_close_protocol (fw_proto st) (fw_state w) (op_handle (sp_open_params sp)) (sp_guid sp)
       (op_agent (sp_open_params sp)) (opt_to_ptr (op_controller (sp_open_params sp)));
     require (s = SUCCESS);
     Some (w\<lparr>fw_state := f\<rparr>)
   }"

definition scoped_protocol_deref :: "scoped_protocol \<Rightarrow> nat option" where
  "scoped_protocol_deref sp = sp_interface sp"

section \<open>Firmware without services\<close>

text \<open>Every service of \<open>idle_firmware\<close> answers \<open>UNSUPPORTED\<close>; concrete firmware for the witnesses replaces the
  services a witness needs.\<close>

definition idle_memory_map :: gmm_out where
  "idle_memory_map = \<lparr>gmm_status = UNSUPPORTED, gmm_map_size = 0, gmm_map_key = 0, gmm_desc_size = 0,
     gmm_desc_version = 0, gmm_data = []\<rparr>"

definition idle_firmware :: "'fw firmware" where
  "idle_firmware = \<lparr>
     fw_boot_services_null = (\<lambda>_. False),
     fw_runtime_services_null = (\<lambda>_. False),
     fw_boot_revision = 0,
     fw_mem = \<lparr>
       ms_allocate_pages = (\<lambda>s _ _ _ _. ((UNSUPPORTED, 0), s)), ms_free_pages = (\<lambda>s _ _. (UNSUPPORTED, s)),
       ms_allocate_pool = (\<lambda>s _ _. ((UNSUPPORTED, 0), s)), ms_free_pool = (\<lambda>s _. (UNSUPPORTED, s))\<rparr>,
     fw_map = \<lparr>
       ms_get_memory_map = (\<lambda>s _ _. (idle_memory_map, s)), ms_exit_boot_services = (\<lambda>s _ _. (UNSUPPORTED, s))\<rparr>,
     fw_proto = \<lparr>
       ps_open_protocol = (\<lambda>s _ _ _ _ _. ((UNSUPPORTED, 0), s)), ps_close_protocol = (\<lambda>s _ _ _ _. (UNSUPPORTED, s)),
       ps_locate_handle = (\<lambda>s _ _ _ _. ((UNSUPPORTED, 0, []), s)),
       ps_locate_handle_buffer = (\<lambda>s _ _ _. ((UNSUPPORTED, 0, 0), s)), ps_handle_at = (\<lambda>_ _ _. 0),
       ps_image_data_type = (\<lambda>_ _. 0)\<rparr>,
     fw_ev = \<lparr>
       es_raise_tpl = (\<lambda>s _. (0, s)), es_restore_tpl = (\<lambda>s _. s), es_create_event = (\<lambda>s _ _ _ _. ((UNSUPPORTED, 0), s)),
       es_create_event_ex = (\<lambda>s _ _ _ _ _. ((UNSUPPORTED, 0), s)), es_check_event = (\<lambda>s _. (UNSUPPORTED, s)),
       es_signal_event = (\<lambda>s _. (UNSUPPORTED, s)), es_close_event = (\<lambda>s _. (UNSUPPORTED, s)),
       es_set_timer = (\<lambda>s _ _ _. (UNSUPPORTED, s)), es_wait_for_event = (\<lambda>s _. ((UNSUPPORTED, 0), s)),
       es_stall = (\<lambda>s _. (UNSUPPORTED, s)), es_set_watchdog_timer = (\<lambda>s _ _ _ _. (UNSUPPORTED, s)),
       es_calculate_crc32 = (\<lambda>s _. ((UNSUPPORTED, 0), s))\<rparr>,
     fw_img = \<lparr>
       is_load_image = (\<lambda>s _ _ _ _ _. ((UNSUPPORTED, 0), s)), is_unload_image = (\<lambda>s _. (UNSUPPORTED, s)),
       is_start_image = (\<lambda>s _. ((UNSUPPORTED, 0, 0), s)), is_connect_controller = (\<lambda>s _ _ _ _. (UNSUPPORTED, s)),
       is_disconnect_controller = (\<lambda>s _ _ _. (UNSUPPORTED, s)),
       is_install_protocol_interface = (\<lambda>s _ _ _ _. ((UNSUPPORTED, 0), s)),
       is_reinstall_protocol_interface = (\<lambda>s _ _ _ _. (UNSUPPORTED, s)),
       is_uninstall_protocol_interface = (\<lambda>s _ _ _. (UNSUPPORTED, s)),
       is_register_protocol_notify = (\<lambda>s _ _. ((UNSUPPORTED, 0), s)),
       is_protocols_per_handle = (\<lambda>s _. ((UNSUPPORTED, 0, 0), s)), is_guid_at = (\<lambda>_ _ _. 0),
       is_locate_device_path = (\<lambda>s _ _. ((UNSUPPORTED, 0, 0), s)),
       is_install_configuration_table = (\<lambda>s _ _. (UNSUPPORTED, s)), is_loaded_image_device = (\<lambda>_ _. 0)\<rparr>,
     fw_rt = \<lparr>
       rs_revision = 0, rs_get_time = (\<lambda>s. ((UNSUPPORTED, raw_time_invalid, (0, 0, False)), s)),
       rs_set_time = (\<lambda>s _. (UNSUPPORTED, s)), rs_get_variable = (\<lambda>s _ _ _. ((UNSUPPORTED, 0, 0, []), s)),
       rs_get_next_variable_name = (\<lambda>s n b v. ((UNSUPPORTED, n, b, v), s)),
       rs_set_variable = (\<lambda>s _ _ _ _. (UNSUPPORTED, s)), rs_query_variable_info = (\<lambda>s _. ((UNSUPPORTED, 0, 0, 0), s)),
       rs_set_virtual_address_map = (\<lambda>s _ _ _ _. (UNSUPPORTED, s)), rs_update_capsule = (\<lambda>s _ _ _. (UNSUPPORTED, s)),
       rs_query_capsule_capabilities = (\<lambda>s _ _. ((UNSUPPORTED, 0, 0), s))\<rparr>\<rparr>"

lemma idle_services_present [simp]:
  "fw_boot_services_null idle_firmware = (\<lambda>_. False)" "fw_runtime_services_null idle_firmware = (\<lambda>_. False)"
  by (simp_all add: idle_firmware_def)

end
