(* ===== verification/Allocator.thy ===== *)
theory Allocator
  imports Boot_Services
begin

text \<open>
  The global allocator: \<open>uefi/src/allocator.rs\<close>. An allocation with an alignment above eight is
  carved out of a larger pool allocation, whose address is stored in the eight bytes before the
  returned pointer; freeing reads it back. Page-aligned allocations of whole pages bypass the pool.
  The theorems relate \<open>alloc\<close> and \<open>dealloc\<close> under the documented behaviour of the
  firmware's pool and page allocators, which is a named hypothesis.
\<close>

section \<open>Definitions\<close>

record layout =
  l_size :: usize
  l_align :: usize

text \<open>The invariant of \<open>core::alloc::Layout\<close>; \<open>GlobalAlloc::alloc\<close> requires a non-zero
  size.\<close>

definition layout_inv :: "layout \<Rightarrow> bool" where
  "layout_inv l \<longleftrightarrow> (\<exists>k. l_align l = 2 ^ k) \<and> 0 < l_size l \<and> l_size l + (l_align l - 1) \<le> 9223372036854775807"

definition LOADED_IMAGE_GUID :: nat where
  "LOADED_IMAGE_GUID = 0x5b1b31a1956211d28e3f00a0c969723b"

definition get_memory_type :: "'fw world \<Rightarrow> (u32 \<times> 'fw world) option" where
  "get_memory_type w =
    (let memory_type = memory_type_cache w in
     if memory_type = MEMORY_TYPE_RESERVED then do {
       h \<leftarrow> image_handle w;
       (r, w1) \<leftarrow> open_protocol_exclusive LOADED_IMAGE_GUID h w;
       (ty, w2) \<leftarrow> (case r of
         Ok loaded_image \<Rightarrow> do {
           st \<leftarrow> system_table w1;
           interface \<leftarrow> scoped_protocol_deref loaded_image;
           let ty = ps_image_data_type (fw_proto st) (fw_state w1) interface;
           w1' \<leftarrow> scoped_protocol_drop loaded_image w1;
           Some (ty, w1')
         }
       | Err _ \<Rightarrow> Some (LOADER_DATA, w1));
       Some (ty, w2\<lparr>memory_type_cache := ty\<rparr>)
     } else Some (memory_type, w))"

definition align_offset :: "nat \<Rightarrow> nat \<Rightarrow> nat" where
  "align_offset p a = (if p mod a = 0 then 0 else a - p mod a)"

text \<open>The store of the full pointer writes the eight bytes before the aligned address; on a target
  with eight-byte pointers \<open>sub(1)\<close> moves by eight bytes.\<close>

definition alloc_pool_aligned :: "u32 \<Rightarrow> usize \<Rightarrow> usize \<Rightarrow> 'fw world \<Rightarrow> (nat \<times> 'fw world) option" where
  "alloc_pool_aligned memory_type sz align w = do {
     total \<leftarrow> uadd sz align;
     (r, w1) \<leftarrow> allocate_pool memory_type total w;
     case r of
       Err _ \<Rightarrow> Some (0, w1)
     | Ok full_alloc_ptr \<Rightarrow>
         let off0 = align_offset full_alloc_ptr align;
             off = (if off0 = 0 then align else off0);
             aligned_ptr = full_alloc_ptr + off
         in Some (aligned_ptr,
              w1\<lparr>ram := mem_write (ram w1) (aligned_ptr - 8) (u64_to_le (word_of_nat full_alloc_ptr))\<rparr>)
   }"

definition layout_allows_page_alloc_shortcut :: "layout \<Rightarrow> bool" where
  "layout_allows_page_alloc_shortcut l \<longleftrightarrow> l_size l mod PAGE_SIZE = 0 \<and> l_align l = PAGE_SIZE"

definition div_ceil :: "nat \<Rightarrow> nat \<Rightarrow> nat" where
  "div_ceil a b = a div b + (if a mod b = 0 then 0 else 1)"

fun ok_or_null :: "(nat uefi_result \<times> 'fw world) \<Rightarrow> nat \<times> 'fw world" where
  "ok_or_null (Ok p, w) = (p, w)"
| "ok_or_null (Err _, w) = (0, w)"

definition alloc :: "layout \<Rightarrow> 'fw world \<Rightarrow> (nat \<times> 'fw world) option" where
  "alloc l w =
    (if \<not> are_boot_services_active w then Some (0, w)
     else do {
       (memory_type, w1) \<leftarrow> get_memory_type w;
       if layout_allows_page_alloc_shortcut l then do {
         r \<leftarrow> allocate_pages AnyPages memory_type (div_ceil (l_size l) PAGE_SIZE) w1;
         Some (ok_or_null r)
       }
       else if l_align l \<le> 8 then do {
         r \<leftarrow> allocate_pool memory_type (l_size l) w1;
         Some (ok_or_null r)
       }
       else alloc_pool_aligned memory_type (l_size l) (l_align l) w1
     })"

text \<open>\<open>unwrap\<close> of the result of freeing.\<close>

fun unwrap_unit :: "(unit uefi_result \<times> 'fw world) \<Rightarrow> 'fw world option" where
  "unwrap_unit (Ok _, w) = Some w"
| "unwrap_unit (Err _, w) = None"

definition dealloc :: "nat \<Rightarrow> layout \<Rightarrow> 'fw world \<Rightarrow> 'fw world option" where
  "dealloc ptr l w = do {
     require (ptr \<noteq> 0);
     if layout_allows_page_alloc_shortcut l then do {
       r \<leftarrow> free_pages ptr (div_ceil (l_size l) PAGE_SIZE) w;
       unwrap_unit r
     }
     else if l_align l \<le> 8 then do {
       r \<leftarrow> free_pool ptr w;
       unwrap_unit r
     }
     else do {
       let actual_alloc_ptr = unat (u64_from_le (mem_read (ram w) (ptr - 8) 8));
       require (actual_alloc_ptr \<noteq> 0);
       r \<leftarrow> free_pool actual_alloc_ptr w;
       unwrap_unit r
     }
   }"

section \<open>The documented behaviour of the firmware's allocators\<close>

text \<open>The live pool allocations as a map from addresses to sizes, the live page allocations as a set
  of address and page count pairs.\<close>

definition pool_contract :: "'fw firmware \<Rightarrow> ('fw \<Rightarrow> nat \<Rightarrow> nat option) \<Rightarrow> bool" where
  "pool_contract st pools \<longleftrightarrow>
    (\<forall>s ty n st' p s'. ms_allocate_pool (fw_mem st) s ty n = ((st', p), s') \<longrightarrow>
       fw_boot_services_null st s' = fw_boot_services_null st s \<and>
       (if st' = SUCCESS then p \<noteq> 0 \<and> p mod 8 = 0 \<and> p + n < usize_limit \<and> pools s p = None \<and> pools s' = (pools s)(p \<mapsto> n)
        else pools s' = pools s)) \<and>
    (\<forall>s p n. pools s p = Some n \<longrightarrow>
       (\<exists>s'. ms_free_pool (fw_mem st) s p = (SUCCESS, s') \<and> pools s' = (pools s)(p := None)))"

definition page_contract :: "'fw firmware \<Rightarrow> ('fw \<Rightarrow> (nat \<times> nat) set) \<Rightarrow> bool" where
  "page_contract st pages \<longleftrightarrow>
    (\<forall>s ty mt n a st' p s'. ms_allocate_pages (fw_mem st) s ty mt n a = ((st', p), s') \<longrightarrow>
       (if st' = SUCCESS then p mod PAGE_SIZE = 0 \<and> (p, n) \<notin> pages s \<and>
          (\<forall>(q, k) \<in> pages s. p + n * PAGE_SIZE \<le> q \<or> q + k * PAGE_SIZE \<le> p) \<and> pages s' = insert (p, n) (pages s)
        else pages s' = pages s)) \<and>
    (\<forall>s p n. (p, n) \<in> pages s \<longrightarrow>
       (\<exists>s'. ms_free_pages (fw_mem st) s p n = (SUCCESS, s') \<and> pages s' = pages s - {(p, n)}))"

section \<open>Lemmas: memory\<close>

section \<open>Lemmas: alignment\<close>

lemma align_offset_aligns:
  assumes "0 < a"
  shows "(p + align_offset p a) mod a = 0"
proof (cases "p mod a = 0")
  case False
  have "p mod a < a" using assms by simp
  then have "p + (a - p mod a) = (p - p mod a) + a" by simp
  also have "\<dots> = (p div a) * a + a" by (simp add: minus_mod_eq_div_mult)
  finally show ?thesis using False by (simp add: align_offset_def)
qed (simp add: align_offset_def)

lemma align_offset_less: "0 < a \<Longrightarrow> align_offset p a < a"
  by (simp add: align_offset_def)

lemma pow2_small: "(2 :: nat) ^ k \<le> 8 \<Longrightarrow> 2 ^ k dvd (8 :: nat)"
proof -
  assume "(2 :: nat) ^ k \<le> 8"
  then have "(2 :: nat) ^ k \<le> 2 ^ 3" by simp
  then have "k \<le> 3" by (rule power_le_imp_le_exp [rotated]) simp
  then have "(2 :: nat) ^ k dvd 2 ^ 3" by (rule le_imp_power_dvd)
  then show ?thesis by simp
qed

lemma pow2_large: "8 < (2 :: nat) ^ k \<Longrightarrow> (8 :: nat) dvd 2 ^ k"
proof -
  assume "8 < (2 :: nat) ^ k"
  then have "(2 :: nat) ^ 3 < 2 ^ k" by simp
  then have "3 < k" by (rule power_less_imp_less_exp [rotated]) simp
  then have "(2 :: nat) ^ 3 dvd 2 ^ k" by (intro le_imp_power_dvd) simp
  then show ?thesis by simp
qed

section \<open>Lemmas: allocation from the pool\<close>

lemma boot_services_active:
  "system_table w = Some st \<Longrightarrow> \<not> fw_boot_services_null st (fw_state w) \<Longrightarrow>
    boot_services_raw_panicking w = Some st \<and> are_boot_services_active w"
  by (simp add: boot_services_raw_panicking_def are_boot_services_active_def)

lemma allocate_pool_cases [consumes 2, case_names ok err]:
  assumes "boot_services_raw_panicking w = Some st" and "pool_contract st pools"
  obtains (ok) p f where "allocate_pool ty n w = Some (Ok p, w\<lparr>fw_state := f\<rparr>)" "p \<noteq> 0" "p mod 8 = 0"
      "p + n < usize_limit" "pools (fw_state w) p = None" "pools f = (pools (fw_state w))(p \<mapsto> n)"
      "fw_boot_services_null st f = fw_boot_services_null st (fw_state w)"
    | (err) e f where "allocate_pool ty n w = Some (Err e, w\<lparr>fw_state := f\<rparr>)" "pools f = pools (fw_state w)"
proof -
  obtain s p f where call: "ms_allocate_pool (fw_mem st) (fw_state w) ty n = ((s, p), f)"
    by (metis surj_pair)
  have C: "fw_boot_services_null st f = fw_boot_services_null st (fw_state w) \<and>
      (if s = SUCCESS then p \<noteq> 0 \<and> p mod 8 = 0 \<and> p + n < usize_limit \<and> pools (fw_state w) p = None \<and>
         pools f = (pools (fw_state w))(p \<mapsto> n)
       else pools f = pools (fw_state w))"
    using assms(2) call unfolding pool_contract_def by blast
  show ?thesis
  proof (cases "s = SUCCESS")
    case True
    then show ?thesis using C assms(1) call by (intro ok [of p f]) (simp_all add: allocate_pool_def)
  next
    case False
    then show ?thesis using C assms(1) call
      by (intro err [of "\<lparr>err_status = s, err_data = ()\<rparr>" f]) (simp_all add: allocate_pool_def)
  qed
qed

lemma free_pool_live:
  assumes "boot_services_raw_panicking w = Some st" "pool_contract st pools" "pools (fw_state w) p = Some n"
  obtains f where "free_pool p w = Some (Ok (), w\<lparr>fw_state := f\<rparr>)" "pools f = (pools (fw_state w))(p := None)"
proof -
  obtain f where "ms_free_pool (fw_mem st) (fw_state w) p = (SUCCESS, f)" "pools f = (pools (fw_state w))(p := None)"
    using assms(2,3) unfolding pool_contract_def by blast
  then show ?thesis using assms(1) by (intro that [of f]) (simp_all add: free_pool_def)
qed

text \<open>Where an allocation with the given layout lies inside the pool block \<open>q\<close> of \<open>n\<close>
  bytes that backs it, and where the address of the block is kept.\<close>

definition backed_by :: "layout \<Rightarrow> nat \<Rightarrow> (nat \<Rightarrow> u8) \<Rightarrow> nat \<Rightarrow> nat \<Rightarrow> bool" where
  "backed_by l p m q n \<longleftrightarrow>
     p mod l_align l = 0 \<and> q \<le> p \<and> p + l_size l \<le> q + n \<and>
     (if l_align l \<le> 8 then p = q
      else q + 8 \<le> p \<and> unat (u64_from_le (mem_read m (p - 8) 8)) = q)"

lemma alloc_pool_aligned_backed:
  assumes "boot_services_raw_panicking w = Some st" "pool_contract st pools" "layout_inv l" "8 < l_align l"
    and "alloc_pool_aligned ty (l_size l) (l_align l) w = Some (p, w1)" "p \<noteq> 0"
  shows "\<exists>q n. pools (fw_state w) q = None \<and> q \<noteq> 0 \<and> pools (fw_state w1) = (pools (fw_state w))(q \<mapsto> n) \<and>
    backed_by l p (ram w1) q n \<and> fw_boot_services_null st (fw_state w1) = fw_boot_services_null st (fw_state w) \<and>
    system_table w1 = system_table w"
proof -
  let ?n = "l_size l + l_align l"
  obtain k where k: "l_align l = 2 ^ k" using assms(3) by (auto simp: layout_inv_def)
  have lim: "?n < usize_limit" using assms(3) by (auto simp: layout_inv_def usize_limit_def)
  have a8: "8 dvd l_align l" "0 < l_align l" using assms(4) k pow2_large [of k] by simp_all
  show ?thesis using assms(1,2)
  proof (cases rule: allocate_pool_cases [where ty = ty and n = ?n])
    case (ok q f)
    define off where "off = (if align_offset q (l_align l) = 0 then l_align l else align_offset q (l_align l))"
    have res: "p = q + off"
      "w1 = w\<lparr>fw_state := f, ram := mem_write (ram w) (q + off - 8) (u64_to_le (word_of_nat q))\<rparr>"
      using assms(5) ok lim by (auto simp: alloc_pool_aligned_def uadd_def Let_def off_def)
    have aligned: "p mod l_align l = 0"
      using align_offset_aligns [OF a8(2), of q] by (auto simp: res off_def)
    have "8 dvd q mod l_align l" using ok(3) a8 by (intro dvd_mod) auto
    then have "8 dvd align_offset q (l_align l)" using a8 by (simp add: align_offset_def dvd_diff_nat)
    then have "8 dvd off" "0 < off" using a8 by (auto simp: off_def)
    then have off8: "8 \<le> off" by (auto dest: dvd_imp_le)
    have "off \<le> l_align l" using align_offset_less [OF a8(2), of q] by (simp add: off_def)
    moreover have "mem_read (mem_write (ram w) (q + off - 8) (u64_to_le (word_of_nat q))) (q + off - 8) 8 =
        u64_to_le (word_of_nat q)"
      using mem_read_write_same [of "ram w" "q + off - 8" "u64_to_le (word_of_nat q)"]
      by (simp add: u64c.encode_length)
    moreover have "unat (word_of_nat q :: u64) = q" using ok(4) by (simp add: unat_of_nat usize_limit_def)
    ultimately have "backed_by l p (ram w1) q ?n"
      using assms(4) off8 aligned by (simp add: backed_by_def res u64c.decode_encode)
    then show ?thesis using ok res by (intro exI [of _ q] exI [of _ ?n]) simp
  next
    case (err e f)
    then show ?thesis using assms(5,6) lim by (simp add: alloc_pool_aligned_def uadd_def)
  qed
qed

lemma alloc_backed:
  assumes st: "system_table w = Some st" "\<not> fw_boot_services_null st (fw_state w)"
    and "memory_type_cache w \<noteq> MEMORY_TYPE_RESERVED" "layout_inv l" "\<not> layout_allows_page_alloc_shortcut l"
    and contract: "pool_contract st pools" and alloc: "alloc l w = Some (p, w1)" "p \<noteq> 0"
  shows "\<exists>q n. pools (fw_state w) q = None \<and> q \<noteq> 0 \<and> pools (fw_state w1) = (pools (fw_state w))(q \<mapsto> n) \<and>
    backed_by l p (ram w1) q n \<and> fw_boot_services_null st (fw_state w1) = fw_boot_services_null st (fw_state w) \<and>
    system_table w1 = system_table w"
proof -
  note act = boot_services_active [OF st]
  have mt: "get_memory_type w = Some (memory_type_cache w, w)" using assms(3) by (simp add: get_memory_type_def Let_def)
  show ?thesis
  proof (cases "l_align l \<le> 8")
    case False
    then have "alloc_pool_aligned (memory_type_cache w) (l_size l) (l_align l) w = Some (p, w1)"
      using alloc(1) act mt assms(5) by (simp add: alloc_def)
    then show ?thesis using alloc_pool_aligned_backed [OF _ contract assms(4)] act False alloc(2) by simp
  next
    case True
    then have a: "do { r \<leftarrow> allocate_pool (memory_type_cache w) (l_size l) w; Some (ok_or_null r) } = Some (p, w1)"
      using alloc(1) act mt assms(5) by (simp add: alloc_def)
    have b: "boot_services_raw_panicking w = Some st" using act by simp
    show ?thesis using b contract
    proof (cases rule: allocate_pool_cases [where ty = "memory_type_cache w" and n = "l_size l"])
      case (ok q f)
      obtain k where "l_align l = 2 ^ k" using assms(4) by (auto simp: layout_inv_def)
      then have "l_align l dvd 8" using True pow2_small by simp
      then have "q mod l_align l = 0" using ok(3) by (metis dvd_eq_mod_eq_0 dvd_trans)
      then show ?thesis using ok a True
        by (intro exI [of _ q] exI [of _ "l_size l"]) (auto simp: backed_by_def)
    next
      case (err e f)
      then show ?thesis using a alloc(2) by simp
    qed
  qed
qed

lemma dealloc_backed:
  assumes "boot_services_raw_panicking w = Some st" "pool_contract st pools" "\<not> layout_allows_page_alloc_shortcut l"
    and "pools (fw_state w) q = Some n" "backed_by l p (ram w) q n" "p \<noteq> 0" "q \<noteq> 0"
  shows "\<exists>w'. dealloc p l w = Some w' \<and> pools (fw_state w') = (pools (fw_state w))(q := None)"
proof -
  obtain f where f: "free_pool q w = Some (Ok (), w\<lparr>fw_state := f\<rparr>)" "pools f = (pools (fw_state w))(q := None)"
    using free_pool_live [OF assms(1,2,4)] .
  have "dealloc p l w = Some (w\<lparr>fw_state := f\<rparr>)"
    using assms(3,5-7) f(1) by (auto simp: dealloc_def backed_by_def Let_def split: if_splits)
  then show ?thesis using f(2) by simp
qed

section \<open>Lemmas: pages\<close>

lemma page_contract_alloc:
  assumes "page_contract st pages" "ms_allocate_pages (fw_mem st) s ty mt n a = ((st', p), s')"
  shows "if st' = SUCCESS then p mod PAGE_SIZE = 0 \<and> (p, n) \<notin> pages s \<and>
      (\<forall>(q, k) \<in> pages s. p + n * PAGE_SIZE \<le> q \<or> q + k * PAGE_SIZE \<le> p) \<and> pages s' = insert (p, n) (pages s)
    else pages s' = pages s"
  using assms unfolding page_contract_def by blast

lemma page_contract_free:
  assumes "page_contract st pages" "ms_free_pages (fw_mem st) s p n = (st', s')" "(p, n) \<in> pages s"
  shows "st' = SUCCESS \<and> pages s' = pages s - {(p, n)}"
proof -
  obtain s'' where "ms_free_pages (fw_mem st) s p n = (SUCCESS, s'')" "pages s'' = pages s - {(p, n)}"
    using assms(1,3) unfolding page_contract_def by blast
  with assms(2) show ?thesis by simp
qed

lemma allocate_pages_live:
  assumes "boot_services_raw_panicking w = Some st" "page_contract st pages" "0 < n"
    and "allocate_pages aty mt n w = Some (r, w')"
  shows "system_table w' = system_table w \<and> (case r of
      Ok p \<Rightarrow> p \<noteq> 0 \<and> p mod PAGE_SIZE = 0 \<and> (p, n) \<notin> pages (fw_state w) \<and> pages (fw_state w') = insert (p, n) (pages (fw_state w))
    | Err _ \<Rightarrow> pages (fw_state w') = pages (fw_state w))"
proof -
  obtain ty a where ta: "raw_allocate_type aty = (ty, a)" by (metis surj_pair)
  obtain s1 p1 f1 where c1: "ms_allocate_pages (fw_mem st) (fw_state w) ty mt n a = ((s1, p1), f1)" by (metis surj_pair)
  obtain s2 p2 f2 where c2: "ms_allocate_pages (fw_mem st) f1 ty mt n a = ((s2, p2), f2)" by (metis surj_pair)
  obtain s3 f3 where c3: "ms_free_pages (fw_mem st) f2 0 n = (s3, f3)" by (metis surj_pair)
  note C1 = page_contract_alloc [OF assms(2) c1]
  note C2 = page_contract_alloc [OF assms(2) c2]
  note C3 = page_contract_free [OF assms(2) c3, THEN conjunct2]
  have unfold: "allocate_pages aty mt n w =
    (if s1 \<noteq> SUCCESS then Some (Err \<lparr>err_status = s1, err_data = ()\<rparr>, w\<lparr>fw_state := f1\<rparr>)
     else if p1 \<noteq> 0 then Some (Ok p1, w\<lparr>fw_state := f1\<rparr>)
     else if s2 \<noteq> SUCCESS then Some (Err \<lparr>err_status = s2, err_data = ()\<rparr>, w\<lparr>fw_state := f3\<rparr>)
     else if p2 \<noteq> 0 then Some (Ok p2, w\<lparr>fw_state := f3\<rparr>)
     else map_option (\<lambda>e. (Err e, w\<lparr>fw_state := f3\<rparr>)) (error_from_status OUT_OF_RESOURCES))"
    by (simp add: allocate_pages_def assms(1) ta c1 c2 c3)
  consider "s1 \<noteq> SUCCESS" | "s1 = SUCCESS" "p1 \<noteq> 0" | "s1 = SUCCESS" "p1 = 0" by blast
  then show ?thesis
  proof cases
    case 1
    then show ?thesis using C1 assms(4) unfold by auto
  next
    case 2
    then show ?thesis using C1 assms(4) unfold by auto
  next
    case 3
    then have f1: "pages f1 = insert (0, n) (pages (fw_state w))" "(0, n) \<notin> pages (fw_state w)" using C1 by auto
    then have free: "pages f3 = pages f2 - {(0, n)}" using C2 by (intro C3) (auto split: if_splits)
    show ?thesis
    proof (cases "s2 = SUCCESS")
      case True
      then have "p2 \<noteq> 0" "p2 mod PAGE_SIZE = 0" "(p2, n) \<notin> pages f1" "pages f2 = insert (p2, n) (pages f1)"
        using C2 f1 assms(3) by (auto simp: PAGE_SIZE_def)
      then show ?thesis using 3 True assms(4) unfold f1 free by auto
    next
      case False
      then show ?thesis using 3 C2 assms(4) unfold f1 free by auto
    qed
  qed
qed

section \<open>Properties\<close>

text \<open>A firmware with a single pool slot, for the witnesses: its state is the map of live pool
  allocations and the list of live page allocations. The first page allocation is at address zero.\<close>

definition sample_mem_services :: "((nat \<Rightarrow> nat option) \<times> (nat \<times> nat) list) mem_services" where
  "sample_mem_services = \<lparr>
     ms_allocate_pages = (\<lambda>s ty mt n a.
       if snd s = [] then ((SUCCESS, 0), (fst s, [(0, n)]))
       else if snd s = [(0, n)] \<and> 0 < n then ((SUCCESS, n * PAGE_SIZE), (fst s, [(n * PAGE_SIZE, n), (0, n)]))
       else ((OUT_OF_RESOURCES, 0), s)),
     ms_free_pages = (\<lambda>s p n.
       if (p, n) \<in> set (snd s) then (SUCCESS, (fst s, filter (\<lambda>x. x \<noteq> (p, n)) (snd s))) else (INVALID_PARAMETER, s)),
     ms_allocate_pool = (\<lambda>s ty n.
       if fst s 0x1008 = None \<and> 0x1008 + n < usize_limit then ((SUCCESS, 0x1008), ((fst s)(0x1008 \<mapsto> n), snd s))
       else ((OUT_OF_RESOURCES, 0), s)),
     ms_free_pool = (\<lambda>s p.
       if fst s p \<noteq> None then (SUCCESS, ((fst s)(p := None), snd s)) else (INVALID_PARAMETER, s))\<rparr>"

definition sample_firmware :: "((nat \<Rightarrow> nat option) \<times> (nat \<times> nat) list) firmware" where
  "sample_firmware = idle_firmware\<lparr>fw_mem := sample_mem_services\<rparr>"

definition sample_world :: "((nat \<Rightarrow> nat option) \<times> (nat \<times> nat) list) world" where
  "sample_world = \<lparr>system_table = Some sample_firmware, fw_state = (\<lambda>_. None, []), image_handle_ptr = 1,
     memory_type_cache = LOADER_DATA, ram = (\<lambda>_. 0)\<rparr>"

lemma sample_pool_contract: "pool_contract sample_firmware fst"
  unfolding pool_contract_def sample_firmware_def sample_mem_services_def
  by (auto simp: status_success_neq usize_limit_def split: if_splits)

text \<open>C13: on a boot services world whose memory type is cached, an allocation through the pool paths of
  the global allocator that returns a non-null pointer is aligned as requested and lies inside one newly
  live pool block together with, for alignments above eight, the eight bytes that record the block's
  address. Freeing it later with the same layout, when the recorded bytes and the live blocks are as the
  allocation left them, succeeds and frees exactly that block.\<close>

theorem alloc_dealloc_pool:
  assumes "system_table w = Some st" "\<not> fw_boot_services_null st (fw_state w)"
    and "memory_type_cache w \<noteq> MEMORY_TYPE_RESERVED" "layout_inv l" "\<not> layout_allows_page_alloc_shortcut l"
    and "pool_contract st pools" and "alloc l w = Some (p, w1)" "p \<noteq> 0"
  shows "p mod l_align l = 0 \<and>
    (\<exists>q n. pools (fw_state w) q = None \<and> pools (fw_state w1) = (pools (fw_state w))(q \<mapsto> n) \<and>
       q \<le> p \<and> p + l_size l \<le> q + n \<and> (8 < l_align l \<longrightarrow> q + 8 \<le> p)) \<and>
    (\<forall>w2. system_table w2 = Some st \<and> \<not> fw_boot_services_null st (fw_state w2) \<and>
       pools (fw_state w2) = pools (fw_state w1) \<and> (\<forall>a. p - 8 \<le> a \<and> a < p \<longrightarrow> ram w2 a = ram w1 a) \<longrightarrow>
       (\<exists>w3. dealloc p l w2 = Some w3 \<and> pools (fw_state w3) = pools (fw_state w)))"
proof -
  obtain q n where q: "pools (fw_state w) q = None" "q \<noteq> 0" "pools (fw_state w1) = (pools (fw_state w))(q \<mapsto> n)"
    "backed_by l p (ram w1) q n"
    using alloc_backed [OF assms] by blast
  have "\<exists>w3. dealloc p l w2 = Some w3 \<and> pools (fw_state w3) = pools (fw_state w)"
    if w2: "system_table w2 = Some st" "\<not> fw_boot_services_null st (fw_state w2)"
      "pools (fw_state w2) = pools (fw_state w1)" "\<forall>a. p - 8 \<le> a \<and> a < p \<longrightarrow> ram w2 a = ram w1 a" for w2
  proof -
    have "mem_read (ram w2) (p - 8) 8 = mem_read (ram w1) (p - 8) 8" if "q + 8 \<le> p"
      using that by (intro mem_read_cong w2(4) [rule_format]) auto
    then have "backed_by l p (ram w2) q n" using q(4) by (auto simp: backed_by_def)
    moreover have "boot_services_raw_panicking w2 = Some st" using boot_services_active [OF w2(1,2)] by simp
    moreover have "pools (fw_state w2) q = Some n" using w2(3) q(3) by simp
    moreover have "((pools (fw_state w))(q \<mapsto> n))(q := None) = pools (fw_state w)" using q(1) by auto
    ultimately show ?thesis using dealloc_backed [of w2 st pools l q n p] assms(5,6,8) q(2,3) w2(3) by simp
  qed
  then show ?thesis using q by (auto simp: backed_by_def split: if_splits)
qed

theorem alloc_dealloc_pool_witness:
  "\<exists>w1. alloc \<lparr>l_size = 100, l_align = 16\<rparr> sample_world = Some (0x1010, w1) \<and>
    fst (fw_state w1) 0x1008 = Some 116 \<and>
    (\<exists>w3. dealloc 0x1010 \<lparr>l_size = 100, l_align = 16\<rparr> w1 = Some w3 \<and> fst (fw_state w3) = fst (fw_state sample_world))"
proof -
  let ?l = "\<lparr>l_size = 100, l_align = 16\<rparr>"
  have sw: "system_table sample_world = Some sample_firmware" "\<not> fw_boot_services_null sample_firmware s"
    "memory_type_cache sample_world \<noteq> MEMORY_TYPE_RESERVED" for s
    by (simp_all add: sample_world_def sample_firmware_def LOADER_DATA_def MEMORY_TYPE_RESERVED_def)
  have "\<exists>k. (16 :: nat) = 2 ^ k" by (rule exI [of _ 4]) simp
  then have l: "layout_inv ?l" "\<not> layout_allows_page_alloc_shortcut ?l"
    by (simp_all add: layout_inv_def layout_allows_page_alloc_shortcut_def PAGE_SIZE_def)
  have pool: "ms_allocate_pool (fw_mem sample_firmware) (fw_state sample_world) t 116 =
      ((SUCCESS, 0x1008), ([0x1008 \<mapsto> 116], []))" for t
    by (simp add: sample_world_def sample_firmware_def sample_mem_services_def usize_limit_def)
  have "align_offset 0x1008 16 = 8" by (simp add: align_offset_def)
  then obtain w1 where w1: "alloc ?l sample_world = Some (0x1010, w1)" "system_table w1 = Some sample_firmware"
    "fst (fw_state w1) = [0x1008 \<mapsto> 116]"
    using boot_services_active [OF sw(1,2)] sw l
    by (simp add: alloc_def get_memory_type_def Let_def alloc_pool_aligned_def allocate_pool_def uadd_def
        usize_limit_def pool)
  show ?thesis
    using alloc_dealloc_pool [OF sw(1,2,3) l sample_pool_contract w1(1)] sw(2) w1 by auto
qed

text \<open>C22: \<open>allocate_pages\<close> never returns address zero and never leaks: on success exactly the
  returned pages become live, and on an error the live pages are as before; in particular a first
  allocation at address zero is freed again.\<close>

theorem allocate_pages_no_leak:
  assumes "system_table w = Some st" "\<not> fw_boot_services_null st (fw_state w)" "page_contract st pages" "0 < n"
    and "allocate_pages aty mt n w = Some (r, w')"
  shows "case r of
      Ok p \<Rightarrow> p \<noteq> 0 \<and> p mod PAGE_SIZE = 0 \<and> (p, n) \<notin> pages (fw_state w) \<and> pages (fw_state w') = insert (p, n) (pages (fw_state w))
    | Err _ \<Rightarrow> pages (fw_state w') = pages (fw_state w)"
  using allocate_pages_live [OF _ assms(3-5)] boot_services_active [OF assms(1,2)] by simp

lemma sample_page_contract: "page_contract sample_firmware (\<lambda>s. set (snd s))"
proof -
  have "\<exists>s'. ms_free_pages sample_mem_services s p n = (SUCCESS, s') \<and> set (snd s') = set (snd s) - {(p, n)}"
    if "(p, n) \<in> set (snd s)" for s p n
    using that by (auto simp: sample_mem_services_def)
  then show ?thesis
    by (auto simp: page_contract_def sample_firmware_def sample_mem_services_def status_success_neq PAGE_SIZE_def split: if_splits)
qed

theorem allocate_pages_no_leak_witness:
  "\<exists>w'. allocate_pages AnyPages LOADER_DATA 2 sample_world = Some (Ok (2 * PAGE_SIZE), w') \<and>
    set (snd (fw_state w')) = {(2 * PAGE_SIZE, 2)}"
proof -
  have sw: "system_table sample_world = Some sample_firmware" "\<not> fw_boot_services_null sample_firmware s" for s
    by (simp_all add: sample_world_def sample_firmware_def)
  obtain w' where w': "allocate_pages AnyPages LOADER_DATA 2 sample_world = Some (Ok (2 * PAGE_SIZE), w')"
    using boot_services_active [OF sw] by (simp add: allocate_pages_def)
      (simp add: sample_world_def sample_firmware_def sample_mem_services_def PAGE_SIZE_def)
  then show ?thesis using allocate_pages_no_leak [OF sw sample_page_contract _ w'] by (simp add: sample_world_def)
qed

end
