(* ===== verification/Boot_Exit.thy ===== *)
theory Boot_Exit
  imports Boot_Services
begin

text \<open>
  Leaving boot services: properties of \<open>exit_boot_services\<close> and of the acquisition of the memory
  map in \<open>uefi/src/boot.rs\<close>. The behaviour the UEFI specification documents for
  \<open>GetMemoryMap\<close> and \<open>ExitBootServices\<close> is the hypothesis \<open>map_contract\<close>; the
  firmware may reject a stale map key any number of times.
\<close>

section \<open>The documented behaviour of the firmware\<close>

text \<open>\<open>cur\<close> is the key of the current memory map, \<open>exited\<close> whether boot services are over.
  A size query with a null buffer reports \<open>BUFFER_TOO_SMALL\<close> and the size of the map; a call with
  a buffer returns the current key and at most as many bytes as the buffer has. A successful exit needs
  the current key; a failed one leaves boot services active.\<close>

definition map_contract :: "'fw firmware \<Rightarrow> ('fw \<Rightarrow> usize) \<Rightarrow> ('fw \<Rightarrow> bool) \<Rightarrow> bool" where
  "map_contract st cur exited \<longleftrightarrow>
    (\<forall>s n p out s'. ms_get_memory_map (fw_map st) s n p = (out, s') \<longrightarrow>
       fw_boot_services_null st s' = fw_boot_services_null st s \<and>
       size_of_descriptor \<le> gmm_desc_size out \<and> gmm_desc_size out < 2 ^ 32 \<and>
       gmm_map_size out mod gmm_desc_size out = 0 \<and>
       (p = 0 \<longrightarrow> gmm_status out = BUFFER_TOO_SMALL \<and> 0 < gmm_map_size out \<and> gmm_map_size out \<le> 2 ^ 30) \<and>
       (gmm_status out = SUCCESS \<longrightarrow> gmm_map_size out \<le> n \<and> length (gmm_data out) = gmm_map_size out \<and> gmm_map_key out = cur s')) \<and>
    (\<forall>s h k r s'. ms_exit_boot_services (fw_map st) s h k = (r, s') \<longrightarrow>
       (if r = SUCCESS then k = cur s \<and> exited s' else \<not> fw_boot_services_null st s'))"

text \<open>Pool memory is eight-byte aligned, and allocating it does not end boot services.\<close>

definition pool_alignment :: "'fw firmware \<Rightarrow> bool" where
  "pool_alignment st \<longleftrightarrow>
    (\<forall>s ty n r p s'. ms_allocate_pool (fw_mem st) s ty n = ((r, p), s') \<longrightarrow>
       fw_boot_services_null st s' = fw_boot_services_null st s \<and> p mod 8 = 0)"

section \<open>Lemmas\<close>

lemma boot_services_raw_eq:
  "system_table w = Some st \<Longrightarrow> boot_services_raw_panicking w =
    (if fw_boot_services_null st (fw_state w) then None else Some st)"
  by (simp add: boot_services_raw_panicking_def)

lemma map_contract_get:
  assumes "map_contract st cur exited" "ms_get_memory_map (fw_map st) s n p = (out, s')"
  shows "fw_boot_services_null st s' = fw_boot_services_null st s"
    and "size_of_descriptor \<le> gmm_desc_size out" "gmm_desc_size out < 2 ^ 32" "gmm_map_size out mod gmm_desc_size out = 0"
    and "gmm_status out = SUCCESS \<Longrightarrow> gmm_map_size out \<le> n \<and> length (gmm_data out) = gmm_map_size out \<and> gmm_map_key out = cur s'"
    and "p = 0 \<Longrightarrow> gmm_status out = BUFFER_TOO_SMALL \<and> 0 < gmm_map_size out \<and> gmm_map_size out \<le> 2 ^ 30"
  using assms unfolding map_contract_def by blast+

lemma map_contract_exit:
  assumes "map_contract st cur exited" "ms_exit_boot_services (fw_map st) s h k = (r, s')"
  shows "if r = SUCCESS then k = cur s \<and> exited s' else \<not> fw_boot_services_null st s'"
  using assms unfolding map_contract_def by blast

text \<open>One attempt: the map is fetched and the exit tried with its key.\<close>

lemma attempt_cases:
  assumes c: "map_contract st cur exited" and st: "system_table w = Some st"
    "\<not> fw_boot_services_null st (fw_state w)" and h: "image_handle_ptr w \<noteq> 0" and b: "fst b mod 8 = 0"
  shows "\<exists>r w'. get_memory_map_and_exit_boot_services b w = Some (r, w') \<and> system_table w' = Some st \<and>
    image_handle_ptr w' = image_handle_ptr w \<and>
    (case r of
       Ok mm \<Rightarrow> exited (fw_state w') \<and> map_size mm \<le> snd b \<and> size_of_descriptor \<le> desc_size mm \<and>
         map_size mm mod desc_size mm = 0
     | Err e \<Rightarrow> \<not> fw_boot_services_null st (fw_state w') \<and> err_status e \<noteq> SUCCESS)"
proof -
  obtain out f where get: "ms_get_memory_map (fw_map st) (fw_state w) (snd b) (fst b) = (out, f)" by (metis surj_pair)
  note G = map_contract_get [OF c get]
  let ?w = "w\<lparr>fw_state := f, ram := mem_write (ram w) (fst b) (gmm_data out)\<rparr>"
  have raw: "boot_services_raw_panicking w = Some st" using st by (simp add: boot_services_raw_eq)
  show ?thesis
  proof (cases "gmm_status out = SUCCESS")
    case False
    then show ?thesis using raw st b get G(1)
      by (simp add: get_memory_map_and_exit_boot_services_def get_memory_map_def)
  next
    case True
    obtain r f2 where ex: "ms_exit_boot_services (fw_map st) f (image_handle_ptr w) (gmm_map_key out) = (r, f2)"
      by (metis surj_pair)
    note E = map_contract_exit [OF c ex]
    show ?thesis
    proof (cases "r = SUCCESS")
      case True
      then show ?thesis using \<open>gmm_status out = SUCCESS\<close> raw st b h get ex E G(2,4,5)
        by (simp add: get_memory_map_and_exit_boot_services_def get_memory_map_def image_handle_def)
    next
      case False
      then show ?thesis using \<open>gmm_status out = SUCCESS\<close> raw st b h get ex E
        by (simp add: get_memory_map_and_exit_boot_services_def get_memory_map_def image_handle_def)
    qed
  qed
qed

lemma get_owned_map_inv:
  assumes "map_size mm \<le> snd b" "size_of_descriptor \<le> desc_size mm" "map_size mm mod desc_size mm = 0"
    and "snd b < usize_limit - 1"
  shows "\<exists>m. get_owned_map b mm w = Some m \<and> map_inv (as_ref_mut m) \<and> backing_ptr m = fst b \<and> owned_meta m = mm"
proof -
  have ds: "desc_size mm \<noteq> 0" using assms(2) by (simp add: size_of_descriptor_def)
  have "map_size mm div desc_size mm * desc_size mm = map_size mm" using assms(3) by auto
  then show ?thesis using assms ds
    by (simp add: get_owned_map_def from_initialized_mem_def entry_count_def as_ref_mut_def map_inv_def)
qed

lemma exit_loop_correct:
  assumes c: "map_contract st cur exited" and "system_table w = Some st" "\<not> fw_boot_services_null st (fw_state w)"
    and "image_handle_ptr w \<noteq> 0" and b: "fst b mod 8 = 0" "snd b < usize_limit - 1" and "s \<noteq> SUCCESS"
  shows "\<exists>out w'. exit_loop n b s w = Some (out, w') \<and>
    (case out of
       Exited m \<Rightarrow> exited (fw_state w') \<and> map_inv (as_ref_mut m) \<and> backing_ptr m = fst b
     | ResetSystem t s' \<Rightarrow> t = COLD \<and> s' \<noteq> SUCCESS)"
  using assms(2-4,7)
proof (induction n arbitrary: s w)
  case (Suc n)
  obtain r w' where r: "get_memory_map_and_exit_boot_services b w = Some (r, w')" "system_table w' = Some st"
    "image_handle_ptr w' = image_handle_ptr w"
    "case r of
       Ok mm \<Rightarrow> exited (fw_state w') \<and> map_size mm \<le> snd b \<and> size_of_descriptor \<le> desc_size mm \<and>
         map_size mm mod desc_size mm = 0
     | Err e \<Rightarrow> \<not> fw_boot_services_null st (fw_state w') \<and> err_status e \<noteq> SUCCESS"
    using attempt_cases [OF c Suc.prems(1-3) b(1)] by blast
  show ?case
  proof (cases r)
    case (Ok mm)
    then obtain m where "get_owned_map b mm w' = Some m" "map_inv (as_ref_mut m)" "backing_ptr m = fst b"
      using r(4) get_owned_map_inv [of mm b w'] b(2) by auto
    then show ?thesis using r Ok by simp
  next
    case (Err e)
    then show ?thesis using r Suc.IH [of w' "err_status e"] Suc.prems by simp
  qed
qed simp

lemma backing_new_ok:
  assumes c: "map_contract st cur exited" and st: "system_table w = Some st" "\<not> fw_boot_services_null st (fw_state w)"
    and pool: "pool_alignment st"
    and ok: "backing_new mt w = Some (Ok b, w1)"
  shows "system_table w1 = Some st \<and> \<not> fw_boot_services_null st (fw_state w1) \<and>
    image_handle_ptr w1 = image_handle_ptr w \<and> fst b mod 8 = 0 \<and> snd b < usize_limit - 1"
proof -
  obtain out f where get: "ms_get_memory_map (fw_map st) (fw_state w) 0 0 = (out, f)" by (metis surj_pair)
  note G = map_contract_get [OF c get]
  let ?n = "gmm_map_size out + gmm_desc_size out * 8"
  obtain r p f2 where al: "ms_allocate_pool (fw_mem st) f mt ?n = ((r, p), f2)" by (metis surj_pair)
  have P: "fw_boot_services_null st f2 = fw_boot_services_null st f" "p mod 8 = 0"
    using pool al unfolding pool_alignment_def by blast+
  have small: "?n < usize_limit - 1" using G(3) G(6) by (simp add: usize_limit_def)
  have size: "memory_map_size w = Some (\<lparr>map_size = gmm_map_size out, desc_size = gmm_desc_size out,
      map_key = gmm_map_key out, desc_version = gmm_desc_version out\<rparr>, w\<lparr>fw_state := f\<rparr>)"
    using st get G by (simp add: memory_map_size_def boot_services_raw_eq assert_sanity_checks_def size_of_descriptor_def)
  have raw: "boot_services_raw_panicking (w\<lparr>fw_state := f\<rparr>) = Some st" using st G(1) by (simp add: boot_services_raw_eq)
  have hint: "safe_allocation_size_hint \<lparr>map_size = gmm_map_size out, desc_size = gmm_desc_size out,
      map_key = gmm_map_key out, desc_version = gmm_desc_version out\<rparr> = Some ?n"
    using small by (simp add: safe_allocation_size_hint_def umul_def uadd_def)
  have "r = SUCCESS \<and> p \<noteq> 0"
    using ok by (auto simp: backing_new_def size hint allocate_pool_def raw al split: if_splits)
  then have "b = (p, ?n) \<and> w1 = w\<lparr>fw_state := f2\<rparr>"
    using ok P G(2,4) by (auto simp: backing_new_def size hint allocate_pool_def raw al backing_from_raw_def size_of_descriptor_def split: if_splits)
  then show ?thesis using st G(1) P small by simp
qed

text \<open>The reset is reached only after both attempts failed.\<close>

lemma exit_loop_reset_step:
  assumes "exit_loop (Suc n) b s w = Some (ResetSystem t s', w')"
  shows "\<exists>e w1. get_memory_map_and_exit_boot_services b w = Some (Err e, w1) \<and>
    exit_loop n b (err_status e) w1 = Some (ResetSystem t s', w')"
proof -
  obtain r w1 where r: "get_memory_map_and_exit_boot_services b w = Some (r, w1)"
    using assms by (cases "get_memory_map_and_exit_boot_services b w") auto
  then show ?thesis using assms by (cases r) (auto simp: bind_eq_Some_conv)
qed

lemma exit_loop_2_reset:
  assumes "exit_loop 2 b s w = Some (ResetSystem t s', w')"
  shows "\<exists>e1 w1 e2. get_memory_map_and_exit_boot_services b w = Some (Err e1, w1) \<and>
    get_memory_map_and_exit_boot_services b w1 = Some (Err e2, w') \<and> s' = err_status e2"
  using exit_loop_reset_step [of 1 b s w] exit_loop_reset_step [of 0 b] assms by (fastforce simp: numeral_2_eq_2)

section \<open>Properties\<close>

text \<open>C5: On firmware that behaves as documented, once the buffer for the memory map is allocated,
  \<open>exit_boot_services\<close> never panics and does one of two things. It returns a well-formed memory map
  stored in that buffer, and the firmware has left boot services; or it asks for a cold reset with an error status,
  and only after two attempts, each with a freshly fetched map, both failed.\<close>

theorem exit_boot_services_correct:
  assumes "map_contract st cur exited" "system_table w = Some st" "\<not> fw_boot_services_null st (fw_state w)"
    and "image_handle_ptr w \<noteq> 0"
    and "pool_alignment st"
    and "backing_new (case t of Some ty \<Rightarrow> ty | None \<Rightarrow> LOADER_DATA) w = Some (Ok b, w1)"
  shows "\<exists>out w'. exit_boot_services t w = Some (out, w') \<and>
    (case out of
       Exited m \<Rightarrow> exited (fw_state w') \<and> map_inv (as_ref_mut m) \<and> backing_ptr m = fst b
     | ResetSystem ty s \<Rightarrow> ty = COLD \<and> s \<noteq> SUCCESS \<and>
         (\<exists>e1 w2 e2. get_memory_map_and_exit_boot_services b w1 = Some (Err e1, w2) \<and>
           get_memory_map_and_exit_boot_services b w2 = Some (Err e2, w') \<and> s = err_status e2))"
proof -
  have w1: "system_table w1 = Some st" "\<not> fw_boot_services_null st (fw_state w1)" "image_handle_ptr w1 \<noteq> 0"
    "fst b mod 8 = 0" "snd b < usize_limit - 1"
    using backing_new_ok [OF assms(1-3) assms(5,6)] assms(4) by auto
  have run: "exit_boot_services t w = exit_loop 2 b ABORTED w1"
    using assms(6) by (simp add: exit_boot_services_def)
  obtain out w' where "exit_loop 2 b ABORTED w1 = Some (out, w')"
    "case out of
       Exited m \<Rightarrow> exited (fw_state w') \<and> map_inv (as_ref_mut m) \<and> backing_ptr m = fst b
     | ResetSystem t s' \<Rightarrow> t = COLD \<and> s' \<noteq> SUCCESS"
    using exit_loop_correct [OF assms(1) w1, of ABORTED 2] by (auto simp: status_success_neq)
  then show ?thesis unfolding run using exit_loop_2_reset by (cases out) (simp, fastforce)
qed

text \<open>Firmware whose memory map changes during the first attempt to exit, so that the first key is stale.\<close>

definition stale_firmware :: "(nat \<times> bool) firmware" where
  "stale_firmware = idle_firmware\<lparr>
     fw_boot_services_null := (\<lambda>s. snd s),
     fw_mem := \<lparr>
       ms_allocate_pages = (\<lambda>s _ _ _ _. ((OUT_OF_RESOURCES, 0), s)),
       ms_free_pages = (\<lambda>s _ _. (SUCCESS, s)),
       ms_allocate_pool = (\<lambda>s _ _. ((SUCCESS, 0x1000), s)),
       ms_free_pool = (\<lambda>s _. (SUCCESS, s))\<rparr>,
     fw_map := \<lparr>
       ms_get_memory_map = (\<lambda>s n p.
         (\<lparr>gmm_status = (if p \<noteq> 0 \<and> 96 \<le> n then SUCCESS else BUFFER_TOO_SMALL), gmm_map_size = 96, gmm_map_key = fst s,
           gmm_desc_size = 48, gmm_desc_version = 1, gmm_data = replicate 96 0\<rparr>, s)),
       ms_exit_boot_services = (\<lambda>(k, x) _ key.
         if k = 0 then (INVALID_PARAMETER, (1, False)) else if key = k then (SUCCESS, (k, True)) else (INVALID_PARAMETER, (k, False)))\<rparr>\<rparr>"

definition stale_world :: "(nat \<times> bool) world" where
  "stale_world = \<lparr>system_table = Some stale_firmware, fw_state = (0, False), image_handle_ptr = 1,
     memory_type_cache = LOADER_DATA, ram = (\<lambda>_. 0)\<rparr>"

lemma stale_map_contract: "map_contract stale_firmware fst snd"
  by (auto simp: map_contract_def stale_firmware_def size_of_descriptor_def status_success_neq split: if_splits prod.splits)

lemma stale_backing_new: "backing_new LOADER_DATA stale_world = Some (Ok (0x1000, 480), stale_world)"
  by (simp add: backing_new_def memory_map_size_def boot_services_raw_panicking_def stale_world_def stale_firmware_def
      assert_sanity_checks_def size_of_descriptor_def safe_allocation_size_hint_def umul_def uadd_def usize_limit_def
      allocate_pool_def backing_from_raw_def)

theorem exit_boot_services_correct_witness:
  "\<exists>m w'. exit_boot_services None stale_world = Some (Exited m, w') \<and> snd (fw_state w') \<and>
    map_inv (as_ref_mut m) \<and> backing_ptr m = 0x1000"
proof -
  let ?b = "(0x1000, 480) :: nat \<times> nat"
  have st: "system_table stale_world = Some stale_firmware" "\<not> fw_boot_services_null stale_firmware (fw_state stale_world)"
    "image_handle_ptr stale_world \<noteq> 0" by (simp_all add: stale_world_def stale_firmware_def)
  have "get_memory_map_and_exit_boot_services ?b w \<noteq> Some (Err e, w')"
    if "fst (fw_state w) = 1" "\<not> snd (fw_state w)" "system_table w = Some stale_firmware" "image_handle_ptr w = 1" for w e w'
    using that by (cases "fw_state w") (auto simp: get_memory_map_and_exit_boot_services_def get_memory_map_def
      boot_services_raw_panicking_def stale_firmware_def image_handle_def)
  moreover have "fst (fw_state w) = 1 \<and> \<not> snd (fw_state w) \<and> system_table w = Some stale_firmware \<and> image_handle_ptr w = 1"
    if "get_memory_map_and_exit_boot_services ?b stale_world = Some (Err e, w)" for e w
    using that by (auto simp: get_memory_map_and_exit_boot_services_def get_memory_map_def
      boot_services_raw_panicking_def stale_firmware_def stale_world_def image_handle_def status_success_neq)
  ultimately have no_reset: "\<not> (get_memory_map_and_exit_boot_services ?b stale_world = Some (Err e1, w2) \<and>
      get_memory_map_and_exit_boot_services ?b w2 = Some (Err e2, w'))" for e1 w2 e2 w' by blast
  have pool: "pool_alignment stale_firmware" by (auto simp: pool_alignment_def stale_firmware_def)
  have new: "backing_new (case None of Some ty \<Rightarrow> ty | None \<Rightarrow> LOADER_DATA) stale_world = Some (Ok ?b, stale_world)"
    by (simp add: stale_backing_new)
  obtain out w' where out: "exit_boot_services None stale_world = Some (out, w')"
    "case out of
       Exited m \<Rightarrow> snd (fw_state w') \<and> map_inv (as_ref_mut m) \<and> backing_ptr m = fst ?b
     | ResetSystem ty s \<Rightarrow> ty = COLD \<and> s \<noteq> SUCCESS \<and>
         (\<exists>e1 w2 e2. get_memory_map_and_exit_boot_services ?b stale_world = Some (Err e1, w2) \<and>
           get_memory_map_and_exit_boot_services ?b w2 = Some (Err e2, w') \<and> s = err_status e2)"
    using exit_boot_services_correct [OF stale_map_contract st pool new] by blast
  then show ?thesis using no_reset by (cases out) auto
qed

end
