(* ===== verification/Device_Path.thy ===== *)
theory Device_Path
  imports Iterators
begin

text \<open>
  Device paths: the byte format, the iterators over nodes and instances, and the builder
  (\<open>uefi/src/proto/device_path/mod.rs\<close> and \<open>build.rs\<close>, and the header type of
  \<open>uefi-raw/src/protocol/device_path.rs\<close>).

  A pointer to a node is modelled by the bytes that are readable from it on. Reading beyond them, or
  forming a reference that extends beyond them, is undefined behaviour in the source and
  \<open>None\<close> here, as are the panics. A reference to an unsized type is its content.
\<close>

section \<open>Headers\<close>

record device_path_header =
  major_type :: u8
  sub_type :: u8
  length_le :: "u8 \<times> u8"

definition DEVICE_TYPE_END :: u8 where "DEVICE_TYPE_END = 0x7f"
definition END_INSTANCE :: u8 where "END_INSTANCE = 0x01"
definition END_ENTIRE :: u8 where "END_ENTIRE = 0xff"

definition HEADER_SIZE :: usize where "HEADER_SIZE = 4"

definition header_new :: "u8 \<Rightarrow> u8 \<Rightarrow> u16 \<Rightarrow> device_path_header" where
  "header_new mt st len =
    \<lparr>major_type = mt, sub_type = st, length_le = (u16_to_le len ! 0, u16_to_le len ! 1)\<rparr>"

definition header_length :: "device_path_header \<Rightarrow> u16" where
  "header_length h = u16_from_le [fst (length_le h), snd (length_le h)]"

text \<open>The C layout of the header.\<close>

definition header_to_bytes :: "device_path_header \<Rightarrow> bytes" where
  "header_to_bytes h = [major_type h, sub_type h, fst (length_le h), snd (length_le h)]"

definition header_from_bytes :: "bytes \<Rightarrow> device_path_header" where
  "header_from_bytes bs = \<lparr>major_type = bs ! 0, sub_type = bs ! 1, length_le = (bs ! 2, bs ! 3)\<rparr>"

datatype byte_conversion_error = InvalidLength

definition header_try_from :: "bytes \<Rightarrow> (device_path_header, byte_conversion_error) result" where
  "header_try_from bs = (if HEADER_SIZE \<le> length bs then Ok (header_from_bytes bs) else Err InvalidLength)"

section \<open>Nodes\<close>

record device_path_node =
  node_header :: device_path_header
  node_data :: bytes

definition node_from_ffi_ptr :: "bytes \<Rightarrow> device_path_node option" where
  "node_from_ffi_ptr mem = do {
     require (HEADER_SIZE \<le> length mem);
     let header = header_from_bytes mem;
     data_len \<leftarrow> usub (unat (header_length header)) HEADER_SIZE;
     require (HEADER_SIZE + data_len \<le> length mem);
     Some \<lparr>node_header = header, node_data = take data_len (drop HEADER_SIZE mem)\<rparr>
   }"

definition device_type :: "device_path_node \<Rightarrow> u8" where
  "device_type n = major_type (node_header n)"

definition node_sub_type :: "device_path_node \<Rightarrow> u8" where
  "node_sub_type n = sub_type (node_header n)"

definition full_type :: "device_path_node \<Rightarrow> u8 \<times> u8" where
  "full_type n = (device_type n, node_sub_type n)"

definition node_length :: "device_path_node \<Rightarrow> u16" where
  "node_length n = header_length (node_header n)"

definition is_end_entire :: "device_path_node \<Rightarrow> bool" where
  "is_end_entire n \<longleftrightarrow> full_type n = (DEVICE_TYPE_END, END_ENTIRE)"

definition node_eq :: "device_path_node \<Rightarrow> device_path_node \<Rightarrow> bool" where
  "node_eq a b \<longleftrightarrow> node_header a = node_header b \<and> node_data a = node_data b"

definition node_try_from :: "bytes \<Rightarrow> (device_path_node, byte_conversion_error) panicking" where
  "node_try_from bs =
    (case header_try_from bs of
       Err e \<Rightarrow> Some (Err e)
     | Ok dp \<Rightarrow>
         if unat (header_length dp) \<le> length bs then do {
           n \<leftarrow> node_from_ffi_ptr bs;
           Some (Ok n)
         } else Some (Err InvalidLength))"

section \<open>Paths\<close>

partial_function (option) size_in_bytes_from_ptr_loop :: "bytes \<Rightarrow> usize \<Rightarrow> usize option" where
  [code]: "size_in_bytes_from_ptr_loop ptr acc = do {
     node \<leftarrow> node_from_ffi_ptr ptr;
     sum' \<leftarrow> uadd acc (unat (node_length node));
     if is_end_entire node then Some sum'
     else size_in_bytes_from_ptr_loop (drop (unat (node_length node)) ptr) sum'
   }"

definition size_in_bytes_from_ptr :: "bytes \<Rightarrow> usize option" where
  "size_in_bytes_from_ptr ptr = size_in_bytes_from_ptr_loop ptr 0"

partial_function (option) size_in_bytes_from_slice_loop ::
  "usize \<Rightarrow> bytes \<Rightarrow> usize \<Rightarrow> (usize, byte_conversion_error) panicking" where
  [code]: "size_in_bytes_from_slice_loop max_size bs acc = do {
     r \<leftarrow> node_try_from bs;
     case r of
       Err e \<Rightarrow> Some (Err e)
     | Ok node \<Rightarrow> do {
         sum' \<leftarrow> uadd acc (unat (node_length node));
         if max_size < sum' then Some (Err InvalidLength)
         else if is_end_entire node then Some (Ok sum')
         else do {
           bs' \<leftarrow> get_range bs (unat (node_length node)) (length bs);
           size_in_bytes_from_slice_loop max_size bs' sum'
         }
       }
   }"

definition size_in_bytes_from_slice :: "bytes \<Rightarrow> (usize, byte_conversion_error) panicking" where
  "size_in_bytes_from_slice bs = size_in_bytes_from_slice_loop (length bs) bs 0"

text \<open>A device path is its bytes.\<close>

definition path_from_ffi_ptr :: "bytes \<Rightarrow> bytes option" where
  "path_from_ffi_ptr ptr = do {
     n \<leftarrow> size_in_bytes_from_ptr ptr;
     Some (take n ptr)
   }"

definition path_try_from :: "bytes \<Rightarrow> (bytes, byte_conversion_error) panicking" where
  "path_try_from bs = do {
     r \<leftarrow> size_in_bytes_from_slice bs;
     case r of
       Err e \<Rightarrow> Some (Err e)
     | Ok len \<Rightarrow> Some (Ok (take len bs))
   }"

section \<open>Iterators\<close>

datatype stop_condition = AnyEndNode | EndEntireNode | NoMoreNodes

record node_iterator =
  nodes :: bytes
  stop_at :: stop_condition

fun stop_reached :: "stop_condition \<Rightarrow> device_path_node \<Rightarrow> bool" where
  "stop_reached AnyEndNode n \<longleftrightarrow> device_type n = DEVICE_TYPE_END"
| "stop_reached EndEntireNode n \<longleftrightarrow> is_end_entire n"
| "stop_reached NoMoreNodes n \<longleftrightarrow> False"

definition node_next :: "node_iterator \<Rightarrow> (device_path_node option \<times> node_iterator) option" where
  "node_next it =
    (if nodes it = [] then Some (None, it)
     else do {
       node \<leftarrow> node_from_ffi_ptr (nodes it);
       if stop_reached (stop_at it) node then Some (None, it\<lparr>nodes := []\<rparr>)
       else do {
         rest \<leftarrow> get_range (nodes it) (unat (node_length node)) (length (nodes it));
         Some (Some node, it\<lparr>nodes := rest\<rparr>)
       }
     })"

definition path_node_iter :: "bytes \<Rightarrow> node_iterator" where
  "path_node_iter p = \<lparr>nodes = p, stop_at = EndEntireNode\<rparr>"

definition instance_node_iter :: "bytes \<Rightarrow> node_iterator" where
  "instance_node_iter i = \<lparr>nodes = i, stop_at = AnyEndNode\<rparr>"

record instance_iterator =
  remaining_path :: "bytes option"

definition path_instance_iter :: "bytes \<Rightarrow> instance_iterator" where
  "path_instance_iter p = \<lparr>remaining_path = Some p\<rparr>"

text \<open>The body of the loop that measures the instance; \<open>break\<close> leaves it with the size.\<close>

definition measure_instance :: "device_path_node \<Rightarrow> usize \<Rightarrow> (usize, usize) flow option" where
  "measure_instance node instance_size = do {
     n \<leftarrow> uadd instance_size (unat (node_length node));
     Some (if device_type node = DEVICE_TYPE_END then Return n else Continue n)
   }"

definition instance_next :: "instance_iterator \<Rightarrow> (bytes option \<times> instance_iterator) option" where
  "instance_next it =
    (case remaining_path it of
       None \<Rightarrow> Some (None, it)
     | Some p \<Rightarrow> do {
         f \<leftarrow> for_iter node_next measure_instance \<lparr>nodes = p, stop_at = NoMoreNodes\<rparr> 0;
         let instance_size = (case f of Return n \<Rightarrow> n | Continue n \<Rightarrow> n);
         require (instance_size \<le> length p);
         let rest = drop instance_size p;
         Some (Some (take instance_size p), it\<lparr>remaining_path := (if rest = [] then None else Some rest)\<rparr>)
       })"

section \<open>The builder\<close>

datatype build_error = BufferTooSmall | NodeTooBig | UnexpectedEndEntire

text \<open>A \<open>dyn BuildNode\<close>: the two methods, \<open>write_data\<close> being given the old content of
  the output slice and returning the new one.\<close>

record build_node =
  size_in_bytes :: "(u16, build_error) panicking"
  write_data :: "bytes \<Rightarrow> bytes option"

datatype builder = BuilderBuf bytes usize | BuilderVec bytes

definition with_buf :: "bytes \<Rightarrow> builder" where
  "with_buf buf = BuilderBuf buf 0"

definition with_vec :: "bytes \<Rightarrow> builder" where
  "with_vec v = BuilderVec []"

text \<open>The spare capacity of a vector after \<open>reserve\<close> is uninitialised; \<open>spare\<close> is its
  unknown content.\<close>

fun builder_push :: "(nat \<Rightarrow> bytes) \<Rightarrow> builder \<Rightarrow> build_node \<Rightarrow> (builder, build_error) panicking" where
  "builder_push spare b node = do {
     r \<leftarrow> size_in_bytes node;
     case r of
       Err e \<Rightarrow> Some (Err e)
     | Ok sz \<Rightarrow>
         (let node_size = unat sz in
          case b of
            BuilderBuf buf off \<Rightarrow> do {
              stop \<leftarrow> uadd off node_size;
              case get_range buf off stop of
                None \<Rightarrow> Some (Err BufferTooSmall)
              | Some out \<Rightarrow> do {
                  written \<leftarrow> write_data node out;
                  Some (Ok (BuilderBuf (overwrite buf off written) stop))
                }
            }
          | BuilderVec v \<Rightarrow> do {
              out \<leftarrow> get_range (spare node_size) 0 node_size;
              written \<leftarrow> write_data node out;
              Some (Ok (BuilderVec (v @ written)))
            })
   }"

text \<open>The implementations of the trait for the generated node types follow one template: the size is
  computed in \<open>usize\<close> and narrowed, the size of the output slice is asserted, and the header and
  the fields are written through the raw pointer to it. A write beyond the slice is undefined behaviour.
  \<open>end::Instance\<close> and \<open>end::Entire\<close> are the instances without fields.\<close>

definition u16_try_from :: "usize \<Rightarrow> (u16, build_error) result" where
  "u16_try_from n = (if n < 2 ^ 16 then Ok (word_of_nat n) else Err NodeTooBig)"

fun write_all :: "(usize \<times> bytes) list \<Rightarrow> bytes \<Rightarrow> bytes option" where
  "write_all [] out = Some out"
| "write_all ((off, bs) # ws) out = do {
     require (off + length bs \<le> length out);
     write_all ws (overwrite out off bs)
   }"

definition generated_node :: "usize option \<Rightarrow> u8 \<Rightarrow> u8 \<Rightarrow> (usize \<times> bytes) list \<Rightarrow> build_node" where
  "generated_node node_size ty sub writes =
    (let sz = do { n \<leftarrow> node_size; Some (u16_try_from n) }
     in \<lparr>size_in_bytes = sz,
         write_data = (\<lambda>out. do {
           r \<leftarrow> sz;
           case r of
             Err _ \<Rightarrow> None
           | Ok len \<Rightarrow> do {
               require (unat len = length out);
               write_all ((0, header_to_bytes (header_new ty sub len)) # writes) out
             }
         })\<rparr>)"

definition end_instance :: build_node where
  "end_instance = generated_node (Some 4) DEVICE_TYPE_END END_INSTANCE []"

definition end_entire :: build_node where
  "end_entire = generated_node (Some 4) DEVICE_TYPE_END END_ENTIRE []"

text \<open>\<open>BuildNode for &DevicePathNode\<close>: the bytes of the node are copied.\<close>

definition node_bytes :: "device_path_node \<Rightarrow> bytes" where
  "node_bytes n = header_to_bytes (node_header n) @ node_data n"

definition copy_node :: "device_path_node \<Rightarrow> build_node" where
  "copy_node n = \<lparr>size_in_bytes = Some (Ok (header_length (node_header n))),
     write_data = (\<lambda>out. do {
       require (length out \<le> length (node_bytes n));
       Some (take (length out) (node_bytes n))
     })\<rparr>"

definition builder_data :: "builder \<Rightarrow> bytes" where
  "builder_data b = (case b of BuilderBuf buf off \<Rightarrow> take off buf | BuilderVec v \<Rightarrow> v)"

definition builder_finalize :: "(nat \<Rightarrow> bytes) \<Rightarrow> builder \<Rightarrow> (bytes, build_error) panicking" where
  "builder_finalize spare b = do {
     r \<leftarrow> builder_push spare b end_entire;
     case r of
       Err e \<Rightarrow> Some (Err e)
     | Ok this \<Rightarrow> Some (Ok (builder_data this))
   }"

text \<open>A chain of \<open>push\<close> calls joined by the question mark operator, then \<open>finalize\<close>.\<close>

fun build :: "(nat \<Rightarrow> bytes) \<Rightarrow> builder \<Rightarrow> build_node list \<Rightarrow> (bytes, build_error) panicking" where
  "build spare b [] = builder_finalize spare b"
| "build spare b (n # ns) = do {
     r \<leftarrow> builder_push spare b n;
     case r of
       Err e \<Rightarrow> Some (Err e)
     | Ok b' \<Rightarrow> build spare b' ns
   }"

end
