(* ===== verification/Device_Path_Props.thy ===== *)
theory Device_Path_Props
  imports Device_Path
begin

text \<open>
  Device paths as sequences of nodes: the parser accepts exactly the encodings of a sequence of nodes
  followed by an end-entire node, the iterators give the sequence back, and the builder produces it.
\<close>

section \<open>Encodings of nodes\<close>

definition wf_node :: "device_path_node \<Rightarrow> bool" where
  "wf_node n \<longleftrightarrow> unat (node_length n) = HEADER_SIZE + length (node_data n)"

definition nodes_bytes :: "device_path_node list \<Rightarrow> bytes" where
  "nodes_bytes ns = concat (map node_bytes ns)"

definition inner_nodes :: "device_path_node list \<Rightarrow> bool" where
  "inner_nodes ns \<longleftrightarrow> (\<forall>n \<in> set ns. wf_node n \<and> \<not> is_end_entire n)"

lemma nodes_bytes_simps [simp]:
  "nodes_bytes [] = []" "nodes_bytes (n # ns) = node_bytes n @ nodes_bytes ns"
  "nodes_bytes (ns @ ms) = nodes_bytes ns @ nodes_bytes ms"
  by (simp_all add: nodes_bytes_def)

lemma inner_nodes_simps [simp]:
  "inner_nodes []" "inner_nodes (n # ns) \<longleftrightarrow> wf_node n \<and> \<not> is_end_entire n \<and> inner_nodes ns"
  by (auto simp: inner_nodes_def)

lemma length_header_to_bytes [simp]: "length (header_to_bytes h) = HEADER_SIZE"
  by (simp add: header_to_bytes_def HEADER_SIZE_def)

lemma length_node_bytes: "wf_node n \<Longrightarrow> length (node_bytes n) = unat (node_length n)"
  by (simp add: node_bytes_def wf_node_def)

lemma header_from_to_bytes [simp]: "header_from_bytes (header_to_bytes h @ r) = h"
  by (simp add: header_from_bytes_def header_to_bytes_def)

lemma node_bytes_not_empty [simp]: "node_bytes n \<noteq> []" "[] \<noteq> node_bytes n"
  by (simp_all add: node_bytes_def header_to_bytes_def)

lemma header_to_from_bytes:
  assumes "HEADER_SIZE \<le> length bs"
  shows "header_to_bytes (header_from_bytes bs) = take HEADER_SIZE bs"
proof -
  obtain a b c d r where "bs = a # b # c # d # r"
    using assms by (auto simp: HEADER_SIZE_def Suc_le_length_iff numeral_eq_Suc)
  then show ?thesis by (simp add: HEADER_SIZE_def header_to_bytes_def header_from_bytes_def)
qed

lemma header_length_new [simp]: "header_length (header_new mt st len) = len"
proof -
  have "length (u16_to_le len) = 2" by (rule u16c.encode_length)
  then obtain a b where "u16_to_le len = [a, b]" by (auto simp: length_Suc_conv numeral_2_eq_2)
  then show ?thesis using u16c.decode_encode [of len] by (simp add: header_length_def header_new_def)
qed

text \<open>Reading a node back, and what a successful read says.\<close>

lemma node_from_ffi_ptr_bytes [simp]:
  assumes "wf_node n"
  shows "node_from_ffi_ptr (node_bytes n @ r) = Some n"
  using assms by (simp add: node_from_ffi_ptr_def node_bytes_def wf_node_def node_length_def usub_def)

lemma node_from_ffi_ptr_SomeD:
  assumes "node_from_ffi_ptr m = Some n"
  shows "wf_node n \<and> m = node_bytes n @ drop (unat (node_length n)) m"
proof -
  have m: "HEADER_SIZE \<le> length m" and n: "node_header n = header_from_bytes m"
    and data: "node_data n = take (unat (node_length n) - HEADER_SIZE) (drop HEADER_SIZE m)"
    and len: "HEADER_SIZE \<le> unat (node_length n)" "unat (node_length n) \<le> length m"
    using assms by (auto simp: node_from_ffi_ptr_def node_length_def usub_def Let_def split: if_splits)
  have "node_bytes n = take (unat (node_length n)) m"
    using m len by (simp add: node_bytes_def n data header_to_from_bytes take_add [symmetric])
  then show ?thesis using len data by (simp add: wf_node_def)
qed

section \<open>Where parsing stops\<close>

text \<open>Bytes too short for the node they start with, and bytes whose header claims less than a header.\<close>

definition truncated :: "bytes \<Rightarrow> bool" where
  "truncated bs \<longleftrightarrow> length bs < HEADER_SIZE \<or> length bs < unat (header_length (header_from_bytes bs))"

definition short_header :: "bytes \<Rightarrow> bool" where
  "short_header bs \<longleftrightarrow> HEADER_SIZE \<le> length bs \<and> unat (header_length (header_from_bytes bs)) < HEADER_SIZE"

lemma node_try_from_cases:
  "node_try_from bs =
    (if truncated bs then Some (Err InvalidLength) else if short_header bs then None else map_option Ok (node_from_ffi_ptr bs))"
  by (auto simp: node_try_from_def header_try_from_def truncated_def short_header_def node_from_ffi_ptr_def usub_def Let_def)

lemma node_reads:
  assumes "\<not> truncated bs" "\<not> short_header bs"
  shows "\<exists>n. wf_node n \<and> bs = node_bytes n @ drop (length (node_bytes n)) bs"
proof -
  have "node_from_ffi_ptr bs \<noteq> None"
    using assms by (auto simp: truncated_def short_header_def node_from_ffi_ptr_def usub_def Let_def)
  then show ?thesis using node_from_ffi_ptr_SomeD length_node_bytes by (metis not_None_eq)
qed

lemma node_try_from_bytes [simp]:
  assumes "wf_node n"
  shows "node_try_from (node_bytes n @ r) = Some (Ok n)"
proof -
  have "\<not> truncated (node_bytes n @ r)" "\<not> short_header (node_bytes n @ r)"
    using assms by (simp_all add: truncated_def short_header_def node_bytes_def node_length_def wf_node_def)
  then show ?thesis using assms by (simp add: node_try_from_cases)
qed

text \<open>Every byte sequence is a run of inner nodes up to an end-entire node or a defect.\<close>

lemma decompose:
  "\<exists>ns r. bs = nodes_bytes ns @ r \<and> inner_nodes ns \<and>
    (truncated r \<or> short_header r \<or> (\<exists>e r'. r = node_bytes e @ r' \<and> wf_node e \<and> is_end_entire e))"
proof (induction bs rule: length_induct)
  case (1 bs)
  show ?case
  proof (cases "truncated bs \<or> short_header bs")
    case True
    then show ?thesis by (intro exI [of _ "[]"] exI [of _ bs]) auto
  next
    case False
    then obtain n where n: "wf_node n" "bs = node_bytes n @ drop (length (node_bytes n)) bs" using node_reads by blast
    show ?thesis
    proof (cases "is_end_entire n")
      case True
      then show ?thesis using n by (intro exI [of _ "[]"] exI [of _ bs]) auto
    next
      case inner: False
      let ?d = "drop (length (node_bytes n)) bs"
      have "length bs = length (node_bytes n) + length ?d" using arg_cong [OF n(2), of length] by simp
      moreover have "0 < length (node_bytes n)" by simp
      ultimately have "length ?d < length bs" by linarith
      then obtain ns r where "?d = nodes_bytes ns @ r" "inner_nodes ns"
        "truncated r \<or> short_header r \<or> (\<exists>e r'. r = node_bytes e @ r' \<and> wf_node e \<and> is_end_entire e)"
        using 1 by blast
      then show ?thesis using n inner by (intro exI [of _ "n # ns"] exI [of _ r]) auto
    qed
  qed
qed

section \<open>Measuring a path\<close>

lemma slice_loop_skip:
  assumes "inner_nodes ns" "acc + length (nodes_bytes ns) + length r \<le> m" "m < usize_limit"
  shows "size_in_bytes_from_slice_loop m (nodes_bytes ns @ r) acc =
    size_in_bytes_from_slice_loop m r (acc + length (nodes_bytes ns))"
  using assms(1,2)
proof (induction ns arbitrary: acc)
  case (Cons n ns)
  have len: "length (node_bytes n) = unat (node_length n)" using Cons.prems(1) length_node_bytes by simp
  have "size_in_bytes_from_slice_loop m (nodes_bytes (n # ns) @ r) acc =
      size_in_bytes_from_slice_loop m (nodes_bytes ns @ r) (acc + unat (node_length n))"
    using Cons.prems assms(3) len
    by (subst size_in_bytes_from_slice_loop.simps) (simp add: uadd_def get_range_def)
  then show ?case using Cons len by (simp add: add.assoc)
qed simp

lemma path_try_from_end:
  assumes "inner_nodes ns" "wf_node e" "is_end_entire e" "length (nodes_bytes ns @ node_bytes e @ r) < usize_limit"
  shows "path_try_from (nodes_bytes ns @ node_bytes e @ r) = Some (Ok (nodes_bytes ns @ node_bytes e))"
proof -
  let ?bs = "nodes_bytes ns @ node_bytes e @ r"
  have len: "length (node_bytes e) = unat (node_length e)" using assms(2) length_node_bytes by simp
  have "size_in_bytes_from_slice ?bs = size_in_bytes_from_slice_loop (length ?bs) (node_bytes e @ r) (length (nodes_bytes ns))"
    using slice_loop_skip [OF assms(1), of 0 "node_bytes e @ r" "length ?bs"] assms(4)
    by (simp add: size_in_bytes_from_slice_def)
  also have "\<dots> = Some (Ok (length (nodes_bytes ns) + length (node_bytes e)))"
    using assms len by (subst size_in_bytes_from_slice_loop.simps) (simp add: uadd_def)
  finally show ?thesis by (simp add: path_try_from_def)
qed

lemma path_try_from_stuck:
  assumes "inner_nodes ns" "truncated r \<or> short_header r" "length (nodes_bytes ns @ r) < usize_limit"
  shows "path_try_from (nodes_bytes ns @ r) = (if truncated r then Some (Err InvalidLength) else None)"
proof -
  let ?bs = "nodes_bytes ns @ r"
  have "size_in_bytes_from_slice ?bs = size_in_bytes_from_slice_loop (length ?bs) r (length (nodes_bytes ns))"
    using slice_loop_skip [OF assms(1), of 0 r "length ?bs"] assms(3) by (simp add: size_in_bytes_from_slice_def)
  also have "\<dots> = (if truncated r then Some (Err InvalidLength) else None)"
    using assms(2) by (subst size_in_bytes_from_slice_loop.simps) (auto simp: node_try_from_cases)
  finally show ?thesis by (simp add: path_try_from_def)
qed

lemma ptr_loop_skip:
  assumes "inner_nodes ns" "acc + length (nodes_bytes ns) < usize_limit"
  shows "size_in_bytes_from_ptr_loop (nodes_bytes ns @ r) acc =
    size_in_bytes_from_ptr_loop r (acc + length (nodes_bytes ns))"
  using assms
proof (induction ns arbitrary: acc)
  case (Cons n ns)
  have len: "length (node_bytes n) = unat (node_length n)" using Cons.prems(1) length_node_bytes by simp
  have "size_in_bytes_from_ptr_loop (nodes_bytes (n # ns) @ r) acc =
      size_in_bytes_from_ptr_loop (nodes_bytes ns @ r) (acc + unat (node_length n))"
    using Cons.prems len by (subst size_in_bytes_from_ptr_loop.simps) (simp add: uadd_def)
  then show ?case using Cons len by (simp add: add.assoc)
qed simp

lemma path_from_ffi_ptr_end:
  assumes "inner_nodes ns" "wf_node e" "is_end_entire e" "length (nodes_bytes ns @ node_bytes e) < usize_limit"
  shows "path_from_ffi_ptr (nodes_bytes ns @ node_bytes e @ r) = Some (nodes_bytes ns @ node_bytes e)"
proof -
  have len: "length (node_bytes e) = unat (node_length e)" using assms(2) length_node_bytes by simp
  have "size_in_bytes_from_ptr (nodes_bytes ns @ node_bytes e @ r) = Some (length (nodes_bytes ns) + length (node_bytes e))"
    unfolding size_in_bytes_from_ptr_def ptr_loop_skip [OF assms(1), of 0, simplified, OF assms(4) [simplified, THEN add_lessD1]]
    using assms len by (subst size_in_bytes_from_ptr_loop.simps) (simp add: uadd_def)
  then show ?thesis by (simp add: path_from_ffi_ptr_def)
qed

section \<open>The node iterator\<close>

function decode_nodes :: "bytes \<Rightarrow> device_path_node list" where
  "decode_nodes bs =
    (case node_from_ffi_ptr bs of None \<Rightarrow> [] | Some n \<Rightarrow> n # decode_nodes (drop (unat (node_length n)) bs))"
  by pat_completeness auto
termination
proof (relation "measure length")
  fix bs n
  assume "node_from_ffi_ptr bs = Some n"
  then have "bs = node_bytes n @ drop (unat (node_length n)) bs" "wf_node n" using node_from_ffi_ptr_SomeD by blast+
  moreover from this have "0 < unat (node_length n)" by (simp add: wf_node_def HEADER_SIZE_def)
  ultimately show "(drop (unat (node_length n)) bs, bs) \<in> measure length"
    using node_bytes_not_empty by (cases bs) auto
qed simp

declare decode_nodes.simps [simp del]

lemma node_from_ffi_ptr_Nil [simp]: "node_from_ffi_ptr [] = None"
  by (simp add: node_from_ffi_ptr_def HEADER_SIZE_def)

lemma decode_nodes_bytes [simp]: "\<forall>n \<in> set ns. wf_node n \<Longrightarrow> decode_nodes (nodes_bytes ns) = ns"
  by (induction ns) (simp_all add: decode_nodes.simps length_node_bytes [symmetric])

definition nodes_remaining :: "node_iterator \<Rightarrow> device_path_node list" where
  "nodes_remaining it = takeWhile (\<lambda>n. \<not> stop_reached (stop_at it) n) (decode_nodes (nodes it))"

definition nodes_valid :: "node_iterator \<Rightarrow> bool" where
  "nodes_valid it \<longleftrightarrow> (\<exists>ns. nodes it = nodes_bytes ns \<and> (\<forall>n \<in> set ns. wf_node n))"

lemma nodes_validE:
  assumes "nodes_valid it"
  obtains "nodes it = []" "nodes_remaining it = []"
  | n ns where "nodes it = node_bytes n @ nodes_bytes ns" "wf_node n" "\<forall>m \<in> set ns. wf_node m"
    "nodes_remaining it = (if stop_reached (stop_at it) n then [] else n # nodes_remaining (it\<lparr>nodes := nodes_bytes ns\<rparr>))"
proof -
  obtain ns where ns: "nodes it = nodes_bytes ns" "\<forall>n \<in> set ns. wf_node n" using assms by (auto simp: nodes_valid_def)
  then show thesis using that by (cases ns) (auto simp: nodes_remaining_def decode_nodes.simps [of "[]"] decode_nodes_bytes [of "_ # _", simplified])
qed

lemma node_next_node:
  assumes "nodes it = node_bytes n @ nodes_bytes ns" "wf_node n"
  shows "node_next it =
    (if stop_reached (stop_at it) n then Some (None, it\<lparr>nodes := []\<rparr>) else Some (Some n, it\<lparr>nodes := nodes_bytes ns\<rparr>))"
  using assms length_node_bytes [OF assms(2)] by (simp add: node_next_def get_range_def)

interpretation nodei: rust_iterator node_next nodes_remaining nodes_valid
proof unfold_locales
  fix it :: node_iterator and x xs
  assume v: "nodes_valid it"
  have nil: "nodes_valid (it\<lparr>nodes := []\<rparr>)" "nodes_remaining (it\<lparr>nodes := []\<rparr>) = []"
    by (auto simp: nodes_valid_def nodes_remaining_def decode_nodes.simps [of "[]"] intro: exI [of _ "[]"])
  show "\<exists>s'. node_next it = Some (None, s') \<and> nodes_valid s' \<and> nodes_remaining s' = []" if "nodes_remaining it = []"
    using v that
  proof (cases it rule: nodes_validE)
    case 1
    then show ?thesis using v by (simp add: node_next_def)
  next
    case (2 n ns)
    then show ?thesis using that node_next_node [OF 2(1,2)] nil by (simp split: if_splits)
  qed
  show "\<exists>s'. node_next it = Some (Some x, s') \<and> nodes_valid s' \<and> nodes_remaining s' = xs" if "nodes_remaining it = x # xs"
    using v that
  proof (cases it rule: nodes_validE)
    case (2 n ns)
    then show ?thesis using that node_next_node [OF 2(1,2)] by (auto simp: nodes_valid_def split: if_splits)
  qed simp
qed

lemma nodes_valid_bytes: "\<forall>n \<in> set ns. wf_node n \<Longrightarrow> nodes_valid \<lparr>nodes = nodes_bytes ns, stop_at = c\<rparr>"
  by (auto simp: nodes_valid_def)

lemma collect_nodes:
  assumes "\<forall>n \<in> set ns. wf_node n"
  shows "collect_iter node_next \<lparr>nodes = nodes_bytes ns, stop_at = c\<rparr> = Some (takeWhile (\<lambda>n. \<not> stop_reached c n) ns)"
  using nodei.collect [OF nodes_valid_bytes [OF assms]] assms by (simp add: nodes_remaining_def)

lemma collect_path_nodes:
  assumes "inner_nodes ns" "wf_node e" "is_end_entire e"
  shows "collect_iter node_next (path_node_iter (nodes_bytes ns @ node_bytes e)) = Some ns"
proof -
  have "\<forall>n \<in> set (ns @ [e]). wf_node n" using assms by (auto simp: inner_nodes_def)
  from collect_nodes [OF this, of EndEntireNode] show ?thesis
    using assms by (simp add: path_node_iter_def inner_nodes_def takeWhile_append)
qed

section \<open>The instance iterator\<close>

text \<open>The nodes up to the first end node of either kind, and those after it.\<close>

fun first_instance :: "device_path_node list \<Rightarrow> device_path_node list" where
  "first_instance [] = []"
| "first_instance (n # ns) = n # (if device_type n = DEVICE_TYPE_END then [] else first_instance ns)"

fun later_instances :: "device_path_node list \<Rightarrow> device_path_node list" where
  "later_instances [] = []"
| "later_instances (n # ns) = (if device_type n = DEVICE_TYPE_END then ns else later_instances ns)"

lemma first_later_instances: "first_instance ns @ later_instances ns = ns"
  by (induction ns) auto

lemma set_later_instances: "set (later_instances ns) \<subseteq> set ns"
  by (induction ns) auto

lemma length_later_instances [termination_simp]: "length (later_instances (n # ns)) < Suc (length ns)"
proof -
  have "length (later_instances ms) \<le> length ms" for ms by (induction ms) auto
  then show ?thesis by (simp add: le_imp_less_Suc)
qed

function split_instances :: "device_path_node list \<Rightarrow> device_path_node list list" where
  "split_instances [] = []"
| "split_instances (n # ns) = first_instance (n # ns) # split_instances (later_instances (n # ns))"
  by pat_completeness auto
termination
  by (relation "measure length") (simp_all only: in_measure length_later_instances length_Cons, simp)

lemma measure_instances:
  assumes "\<forall>n \<in> set ns. wf_node n" "acc + length (nodes_bytes ns) < usize_limit"
  shows "\<exists>f. for_list measure_instance ns acc = Some f \<and>
    (case f of Return n \<Rightarrow> n | Continue n \<Rightarrow> n) = acc + length (nodes_bytes (first_instance ns))"
  using assms
proof (induction ns arbitrary: acc)
  case (Cons n ns)
  have len: "length (node_bytes n) = unat (node_length n)" using Cons.prems(1) length_node_bytes by simp
  then show ?case using Cons.prems Cons.IH [of "acc + unat (node_length n)"]
    by (auto simp: measure_instance_def uadd_def add.assoc)
qed simp

definition instances_remaining :: "instance_iterator \<Rightarrow> bytes list" where
  "instances_remaining it =
    (case remaining_path it of None \<Rightarrow> [] | Some p \<Rightarrow> map nodes_bytes (split_instances (decode_nodes p)))"

definition instances_valid :: "instance_iterator \<Rightarrow> bool" where
  "instances_valid it \<longleftrightarrow>
    (case remaining_path it of
       None \<Rightarrow> True
     | Some p \<Rightarrow> \<exists>ns. p = nodes_bytes ns \<and> ns \<noteq> [] \<and> (\<forall>n \<in> set ns. wf_node n) \<and> length p < usize_limit)"

lemma instance_next_nodes:
  assumes p: "remaining_path it = Some (nodes_bytes ns)" and ns: "\<forall>n \<in> set ns. wf_node n" "length (nodes_bytes ns) < usize_limit"
  shows "instance_next it = Some (Some (nodes_bytes (first_instance ns)),
    it\<lparr>remaining_path := (if later_instances ns = [] then None else Some (nodes_bytes (later_instances ns)))\<rparr>)"
proof -
  let ?it = "\<lparr>nodes = nodes_bytes ns, stop_at = NoMoreNodes\<rparr>"
  have rem: "nodes_remaining ?it = ns" using ns(1) by (simp add: nodes_remaining_def)
  have split: "nodes_bytes ns = nodes_bytes (first_instance ns) @ nodes_bytes (later_instances ns)"
    by (metis first_later_instances nodes_bytes_simps(3))
  have empty: "nodes_bytes ms = [] \<longleftrightarrow> ms = []" for ms by (cases ms) auto
  obtain f where f: "for_list measure_instance ns 0 = Some f"
    "(case f of Return n \<Rightarrow> n | Continue n \<Rightarrow> n) = length (nodes_bytes (first_instance ns))"
    using measure_instances [OF ns(1), of 0] ns(2) by auto
  have "for_iter node_next measure_instance ?it 0 = Some f"
    unfolding nodei.for_loop [OF nodes_valid_bytes [OF ns(1)]] rem by (rule f(1))
  then show ?thesis using f(2) by (simp add: instance_next_def p) (simp add: split empty)
qed

lemma instances_validE:
  assumes "instances_valid it"
  obtains (over) "remaining_path it = None" "instances_remaining it = []"
  | (more) n ns where "remaining_path it = Some (nodes_bytes (n # ns))" "\<forall>m \<in> set (n # ns). wf_node m"
      "length (nodes_bytes (n # ns)) < usize_limit"
      "instances_remaining it = nodes_bytes (first_instance (n # ns)) # map nodes_bytes (split_instances (later_instances (n # ns)))"
proof (cases "remaining_path it")
  case None
  then show thesis using over by (simp add: instances_remaining_def)
next
  case (Some p)
  then obtain n ns where ns: "p = nodes_bytes (n # ns)" "\<forall>m \<in> set (n # ns). wf_node m" "length p < usize_limit"
    using assms by (auto simp: instances_valid_def neq_Nil_conv)
  show thesis by (rule more [OF _ ns(2)])
      (use Some ns(1,3) decode_nodes_bytes [OF ns(2)] in \<open>simp_all add: instances_remaining_def del: nodes_bytes_simps(2) first_instance.simps later_instances.simps\<close>)
qed

interpretation insti: rust_iterator instance_next instances_remaining instances_valid
proof unfold_locales
  fix it :: instance_iterator and x xs
  assume v: "instances_valid it"
  show "\<exists>s'. instance_next it = Some (None, s') \<and> instances_valid s' \<and> instances_remaining s' = []"
    if "instances_remaining it = []" using v
    by (cases it rule: instances_validE) (use that v in \<open>auto simp: instance_next_def\<close>)
  show "\<exists>s'. instance_next it = Some (Some x, s') \<and> instances_valid s' \<and> instances_remaining s' = xs"
    if "instances_remaining it = x # xs" using v
  proof (cases it rule: instances_validE)
    case more: (more n ns)
    let ?l = "later_instances (n # ns)"
    have l: "\<forall>m \<in> set ?l. wf_node m" using more(2) set_later_instances by blast
    have "length (nodes_bytes ?l) < usize_limit"
      using more(3) first_later_instances [of "n # ns"] by (metis length_append nodes_bytes_simps(3) add_lessD1 add.commute)
    then show ?thesis using l that more(4) instance_next_nodes [OF more(1-3)]
      by (simp add: instances_valid_def instances_remaining_def del: later_instances.simps first_instance.simps nodes_bytes_simps(2)) auto
  qed (use that in simp)
qed

section \<open>The builder\<close>

text \<open>The contract of the \<open>BuildNode\<close> trait: the announced size is that of the image, and
  \<open>write_data\<close> fills an output slice of that size with it.\<close>

definition builds :: "build_node \<Rightarrow> bytes \<Rightarrow> bool" where
  "builds node img \<longleftrightarrow> length img < 2 ^ 16 \<and> size_in_bytes node = Some (Ok (word_of_nat (length img))) \<and>
    (\<forall>out. length out = length img \<longrightarrow> write_data node out = Some img)"

text \<open>A type that implements the trait, with the images of its values.\<close>

locale build_node_impl =
  fixes to_dyn :: "'n \<Rightarrow> build_node" and image_bytes :: "'n \<Rightarrow> bytes" and ok_node :: "'n \<Rightarrow> bool"
  assumes image_built: "ok_node n \<Longrightarrow> builds (to_dyn n) (image_bytes n)"
begin

lemma push_vec:
  assumes "ok_node n" "\<And>k. length (spare k) = k"
  shows "builder_push spare (BuilderVec v) (to_dyn n) = Some (Ok (BuilderVec (v @ image_bytes n)))"
  using image_built [OF assms(1)] assms(2) by (simp add: builds_def get_range_def unat_of_nat)

lemma push_buf:
  assumes "ok_node n" "off + 2 ^ 16 < usize_limit"
  shows "builder_push spare (BuilderBuf buf off) (to_dyn n) =
    Some (if off + length (image_bytes n) \<le> length buf
          then Ok (BuilderBuf (overwrite buf off (image_bytes n)) (off + length (image_bytes n)))
          else Err BufferTooSmall)"
  using image_built [OF assms(1)] assms(2) by (simp add: builds_def get_range_def unat_of_nat uadd_def)

lemma images_built: "\<forall>n \<in> set ns. ok_node n \<Longrightarrow> list_all2 builds (map to_dyn ns) (map image_bytes ns)"
  using image_built by (induction ns) auto

end

definition end_node :: "u8 \<Rightarrow> device_path_node" where
  "end_node sub = \<lparr>node_header = header_new DEVICE_TYPE_END sub 4, node_data = []\<rparr>"

lemma wf_end_node [simp]: "wf_node (end_node sub)"
  by (simp add: wf_node_def end_node_def node_length_def HEADER_SIZE_def)

lemma end_node_type [simp]: "device_type (end_node sub) = DEVICE_TYPE_END" "is_end_entire (end_node sub) \<longleftrightarrow> sub = END_ENTIRE"
  by (simp_all add: is_end_entire_def full_type_def device_type_def node_sub_type_def end_node_def header_new_def)

interpretation copyi: build_node_impl copy_node node_bytes wf_node
proof unfold_locales
  fix n assume n: "wf_node n"
  have "unat (node_length n) < 2 ^ 16" using unsigned_less [of "node_length n"] by simp
  then show "builds (copy_node n) (node_bytes n)"
    using length_node_bytes [OF n] by (simp add: builds_def copy_node_def node_length_def)
qed

definition end_build_node :: "u8 \<Rightarrow> build_node" where
  "end_build_node sub = (if sub = END_ENTIRE then end_entire else end_instance)"

interpretation endi: build_node_impl end_build_node "\<lambda>sub. node_bytes (end_node sub)" "\<lambda>sub. sub \<in> {END_INSTANCE, END_ENTIRE}"
proof unfold_locales
  fix sub assume "sub \<in> {END_INSTANCE, END_ENTIRE}"
  then show "builds (end_build_node sub) (node_bytes (end_node sub))"
    by (auto simp: builds_def end_build_node_def end_entire_def end_instance_def generated_node_def u16_try_from_def node_bytes_def
        end_node_def HEADER_SIZE_def overwrite_def)
qed

interpretation anyi: build_node_impl fst snd "\<lambda>(node, img). builds node img"
  by unfold_locales auto

lemma finalize_is_push: "end_entire = end_build_node END_ENTIRE"
  by (simp add: end_build_node_def)

lemma build_vec:
  assumes "list_all2 builds bns imgs" "\<And>k. length (spare k) = k"
  shows "build spare (BuilderVec v) bns = Some (Ok (v @ concat imgs @ node_bytes (end_node END_ENTIRE)))"
  using assms(1)
proof (induction bns imgs arbitrary: v rule: list_all2_induct)
  case Nil
  show ?case using endi.push_vec [of END_ENTIRE spare v, OF _ assms(2)]
    by (simp add: builder_finalize_def finalize_is_push builder_data_def del: builder_push.simps)
next
  case (Cons node bns img imgs)
  show ?case using anyi.push_vec [of "(node, img)" spare v, OF _ assms(2)] Cons by (simp del: builder_push.simps)
qed

text \<open>The buffer holds what was pushed so far in its first bytes.\<close>

lemma take_overwrite_extend:
  "off + length img \<le> length buf \<Longrightarrow> take (off + length img) (overwrite buf off img) = take off buf @ img"
  by (simp add: overwrite_def)

lemma build_buf:
  assumes "list_all2 builds bns imgs" "length buf + 2 ^ 16 < usize_limit" "off \<le> length buf"
  shows "build spare (BuilderBuf buf off) bns =
    (let p = concat imgs @ node_bytes (end_node END_ENTIRE)
     in Some (if off + length p \<le> length buf then Ok (take off buf @ p) else Err BufferTooSmall))"
  using assms
proof (induction bns imgs arbitrary: buf off rule: list_all2_induct)
  case Nil
  then show ?case using endi.push_buf [of END_ENTIRE off spare buf]
    by (auto simp: builder_finalize_def finalize_is_push builder_data_def Let_def take_overwrite_extend simp del: builder_push.simps)
next
  case (Cons node bns img imgs)
  have "builder_push spare (BuilderBuf buf off) node =
    Some (if off + length img \<le> length buf then Ok (BuilderBuf (overwrite buf off img) (off + length img)) else Err BufferTooSmall)"
    using anyi.push_buf [of "(node, img)" off spare buf] Cons.hyps(1) Cons.prems by simp
  then show ?case using Cons.IH [of "overwrite buf off img" "off + length img"] Cons.prems
    by (auto simp: Let_def take_overwrite_extend add.assoc simp del: builder_push.simps)
qed

section \<open>Instances of a path\<close>

abbreviation is_end :: "device_path_node \<Rightarrow> bool" where
  "is_end n \<equiv> device_type n = DEVICE_TYPE_END"

lemma split_instances_step:
  assumes "is_end x" "\<forall>m \<in> set ms. \<not> is_end m"
  shows "split_instances (ms @ x # r) = (ms @ [x]) # split_instances r"
proof -
  have "first_instance (ms @ x # r) = ms @ [x]" "later_instances (ms @ x # r) = r"
    using assms by (induction ms) auto
  then show ?thesis by (cases ms) (simp_all add: split_instances.simps(2) del: first_instance.simps later_instances.simps)
qed

lemma collect_instance_nodes:
  assumes "is_end x" "wf_node x" "\<forall>m \<in> set ms. \<not> is_end m \<and> wf_node m"
  shows "collect_iter node_next (instance_node_iter (nodes_bytes (ms @ [x]))) = Some ms"
proof -
  have "takeWhile (\<lambda>n. \<not> stop_reached AnyEndNode n) (ms @ [x]) = ms" using assms by (simp add: takeWhile_append)
  then show ?thesis using collect_nodes [of "ms @ [x]" AnyEndNode] assms by (simp add: instance_node_iter_def)
qed

lemma split_instances_end:
  assumes "is_end e" "\<forall>n \<in> set (ns @ [e]). wf_node n"
  shows "\<exists>mss. map (\<lambda>i. collect_iter node_next (instance_node_iter (nodes_bytes i))) (split_instances (ns @ [e])) = map Some mss \<and>
    concat mss = filter (\<lambda>n. \<not> is_end n) ns \<and> length mss = Suc (length (filter is_end ns))"
  using assms(2)
proof (induction ns rule: length_induct)
  case (1 ns)
  show ?case
  proof (cases "\<exists>n \<in> set ns. is_end n")
    case False
    then show ?thesis using split_instances_step [OF assms(1), of ns "[]"] collect_instance_nodes [OF assms(1), of ns] 1(2)
      by (intro exI [of _ "[ns]"]) (auto simp: filter_id_conv filter_empty_conv)
  next
    case True
    then obtain ms x r where ns: "ns = ms @ x # r" "is_end x" "\<forall>m \<in> set ms. \<not> is_end m"
      using split_list_first_prop [of ns is_end] by blast
    have r: "length r < length ns" "\<forall>n \<in> set (r @ [e]). wf_node n" "wf_node x" "\<forall>m \<in> set ms. \<not> is_end m \<and> wf_node m"
      using 1(2) ns by auto
    obtain mss where mss: "map (\<lambda>i. collect_iter node_next (instance_node_iter (nodes_bytes i))) (split_instances (r @ [e])) = map Some mss"
      "concat mss = filter (\<lambda>n. \<not> is_end n) r" "length mss = Suc (length (filter is_end r))"
      using 1(1) r(1,2) by blast
    have "filter (\<lambda>n. \<not> is_end n) ms = ms" "filter is_end ms = []"
      using ns(3) by (auto simp: filter_id_conv filter_empty_conv)
    then show ?thesis
      using split_instances_step [OF ns(2,3), of "r @ [e]"] collect_instance_nodes [OF ns(2) r(3,4)] mss ns(2)
      by (intro exI [of _ "ms # mss"]) (simp add: ns(1))
  qed
qed

lemma concat_split_instances: "concat (split_instances ns) = ns"
  by (induction ns rule: split_instances.induct) (use first_later_instances in \<open>simp_all del: first_instance.simps later_instances.simps\<close>)

lemma collect_instances:
  assumes "\<forall>n \<in> set ms. wf_node n" "ms \<noteq> []" "length (nodes_bytes ms) < usize_limit"
  shows "collect_iter instance_next (path_instance_iter (nodes_bytes ms)) = Some (map nodes_bytes (split_instances ms))"
proof -
  have "instances_valid (path_instance_iter (nodes_bytes ms))"
    unfolding instances_valid_def path_instance_iter_def using assms by (simp, intro exI [of _ ms]) simp
  from insti.collect [OF this] show ?thesis
    using decode_nodes_bytes [OF assms(1)] by (simp add: instances_remaining_def path_instance_iter_def)
qed

lemma concat_nodes_bytes: "concat (map nodes_bytes iss) = nodes_bytes (concat iss)"
  by (induction iss) simp_all

section \<open>Classification of byte slices\<close>

definition starts_with_path :: "bytes \<Rightarrow> bytes \<Rightarrow> bool" where
  "starts_with_path p bs \<longleftrightarrow>
    (\<exists>ns e r. inner_nodes ns \<and> wf_node e \<and> is_end_entire e \<and> p = nodes_bytes ns @ node_bytes e \<and> bs = p @ r)"

definition cut_off :: "bytes \<Rightarrow> bool" where
  "cut_off bs \<longleftrightarrow> (\<exists>ns r. inner_nodes ns \<and> bs = nodes_bytes ns @ r \<and> truncated r)"

definition bad_header :: "bytes \<Rightarrow> bool" where
  "bad_header bs \<longleftrightarrow> (\<exists>ns r. inner_nodes ns \<and> bs = nodes_bytes ns @ r \<and> short_header r)"

lemma short_header_complete: "short_header r \<Longrightarrow> \<not> truncated r"
  by (auto simp: truncated_def short_header_def)

lemma bytes_cases:
  obtains "cut_off bs" | "bad_header bs" | p where "starts_with_path p bs"
proof -
  obtain ns r where d: "bs = nodes_bytes ns @ r" "inner_nodes ns"
    "truncated r \<or> short_header r \<or> (\<exists>e r'. r = node_bytes e @ r' \<and> wf_node e \<and> is_end_entire e)"
    using decompose by blast
  consider "truncated r" | "short_header r" | e r' where "r = node_bytes e @ r'" "wf_node e" "is_end_entire e"
    using d(3) by blast
  then show thesis
  proof cases
    case (3 e r')
    then have "starts_with_path (nodes_bytes ns @ node_bytes e) bs"
      unfolding starts_with_path_def using d by (intro exI [of _ ns] exI [of _ e] exI [of _ r']) simp
    then show thesis using that by blast
  qed (use d that in \<open>auto simp: cut_off_def bad_header_def\<close>)
qed

lemma starts_with_path_try_from:
  assumes "starts_with_path p bs" "length bs < usize_limit"
  shows "path_try_from bs = Some (Ok p)"
proof -
  obtain ns e r where "inner_nodes ns" "wf_node e" "is_end_entire e" "p = nodes_bytes ns @ node_bytes e" "bs = p @ r"
    using assms(1) unfolding starts_with_path_def by blast
  then show ?thesis using path_try_from_end [of ns e r] assms(2) by simp
qed

section \<open>Properties\<close>

text \<open>C10: Conversion of a byte slice into a device path succeeds exactly when the slice starts with a
  sequence of nodes and an end-entire node, and returns precisely that prefix; it reports
  \<open>InvalidLength\<close> exactly when some node of the sequence is cut off by the end of the slice; and
  it panics exactly when a header in the sequence claims a length below the four bytes of the header itself.\<close>

theorem path_try_from_classifies:
  assumes "length bs < usize_limit"
  shows "(path_try_from bs = Some (Ok p) \<longleftrightarrow> starts_with_path p bs) \<and>
    (path_try_from bs = Some (Err InvalidLength) \<longleftrightarrow> cut_off bs) \<and>
    (path_try_from bs = None \<longleftrightarrow> bad_header bs)"
proof -
  have stuck: "path_try_from bs = (if truncated r then Some (Err InvalidLength) else None)"
    if "inner_nodes ns" "bs = nodes_bytes ns @ r" "truncated r \<or> short_header r" for ns r
    using path_try_from_stuck [OF that(1,3)] that(2) assms by simp
  have trunc: "path_try_from bs = Some (Err InvalidLength)" if "cut_off bs"
    using that stuck unfolding cut_off_def by metis
  have short: "path_try_from bs = None" if "bad_header bs"
    using that stuck short_header_complete unfolding bad_header_def by metis
  have fin: "path_try_from bs = Some (Ok q)" if "starts_with_path q bs" for q
    using starts_with_path_try_from [OF that assms] .
  from bytes_cases [of bs] show ?thesis
  proof cases
    case 1
    from trunc [OF 1] show ?thesis using 1 fin short by auto
  next
    case 2
    from short [OF 2] show ?thesis using 2 fin trunc by auto
  next
    case (3 q)
    from fin [OF 3] show ?thesis using 3 fin [of p] trunc short by auto
  qed
qed

theorem path_try_from_classifies_witness:
  "path_try_from [1, 1, 3, 0, 7] = None \<and> path_try_from [1, 1, 6, 0, 7] = Some (Err InvalidLength)"
proof -
  let ?a = "[1, 1, 3, 0, 7] :: bytes" and ?b = "[1, 1, 6, 0, 7] :: bytes"
  have len: "length ?a < usize_limit" "length ?b < usize_limit" by (simp_all add: usize_limit_def)
  have "short_header ?a" "truncated ?b"
    by (simp_all add: short_header_def truncated_def HEADER_SIZE_def header_length_def header_from_bytes_def u16_from_le_def)
  then have "bad_header ?a \<and> cut_off ?b"
    unfolding bad_header_def cut_off_def by (intro conjI; intro exI [of _ "[]"] exI [of _ ?a] exI [of _ ?b]) simp_all
  then show ?thesis using path_try_from_classifies [OF len(1)] path_try_from_classifies [OF len(2)] by blast
qed

text \<open>C24: The device path that a successful conversion returns is the one found through a raw
  pointer to the same bytes; its node iterator ends and yields exactly the nodes before the end-entire
  node, so that re-encoding them gives the path back.\<close>

theorem path_nodes_roundtrip:
  assumes "length bs < usize_limit" "path_try_from bs = Some (Ok p)"
  shows "path_from_ffi_ptr bs = Some p \<and>
    (\<exists>ns e. collect_iter node_next (path_node_iter p) = Some ns \<and> is_end_entire e \<and> p = nodes_bytes ns @ node_bytes e)"
proof -
  obtain ns r where d: "bs = nodes_bytes ns @ r" "inner_nodes ns"
    "truncated r \<or> short_header r \<or> (\<exists>e r'. r = node_bytes e @ r' \<and> wf_node e \<and> is_end_entire e)"
    using decompose by blast
  have "\<not> (truncated r \<or> short_header r)"
    using path_try_from_stuck [OF d(2), of r] assms d(1) by (auto split: if_splits)
  then obtain e r' where e: "r = node_bytes e @ r'" "wf_node e" "is_end_entire e" using d(3) by blast
  then have p: "p = nodes_bytes ns @ node_bytes e" using path_try_from_end [OF d(2) e(2,3), of r'] assms d(1) by simp
  then show ?thesis
    using path_from_ffi_ptr_end [OF d(2) e(2,3), of r'] collect_path_nodes [OF d(2) e(2,3)] e assms(1) d(1) by auto
qed

text \<open>A path with two instances and an unrelated byte behind it.\<close>

definition two_instances :: "device_path_node list" where
  "two_instances = [\<lparr>node_header = header_new 1 1 6, node_data = [7, 8]\<rparr>, end_node END_INSTANCE,
     \<lparr>node_header = header_new 3 4 5, node_data = [9]\<rparr>]"

lemma header_new_type [simp]: "major_type (header_new mt st len) = mt" "sub_type (header_new mt st len) = st"
  by (simp_all add: header_new_def)

lemma inner_two_instances: "inner_nodes two_instances"
  by (simp add: two_instances_def wf_node_def node_length_def HEADER_SIZE_def is_end_entire_def full_type_def
      device_type_def node_sub_type_def end_node_def DEVICE_TYPE_END_def END_ENTIRE_def END_INSTANCE_def)

lemma length_two_instances: "length (nodes_bytes two_instances @ node_bytes (end_node END_ENTIRE) @ [x]) = 20"
  by (simp add: two_instances_def node_bytes_def end_node_def HEADER_SIZE_def)

theorem path_nodes_roundtrip_witness:
  "\<exists>p. path_try_from (nodes_bytes two_instances @ node_bytes (end_node END_ENTIRE) @ [5]) = Some (Ok p) \<and>
    path_from_ffi_ptr (nodes_bytes two_instances @ node_bytes (end_node END_ENTIRE) @ [5]) = Some p"
proof -
  let ?bs = "nodes_bytes two_instances @ node_bytes (end_node END_ENTIRE) @ [5]"
  have l: "length ?bs < usize_limit" unfolding length_two_instances by (simp add: usize_limit_def)
  have "path_try_from ?bs = Some (Ok (nodes_bytes two_instances @ node_bytes (end_node END_ENTIRE)))"
    by (rule path_try_from_end [OF inner_two_instances _ _ l]) simp_all
  then show ?thesis using path_nodes_roundtrip [OF l] by blast
qed

text \<open>C23: The instance iterator of a path ends and cuts the path, without losing a byte, after every
  end node; the node iterators of the instances together yield the nodes of the path that are not end
  nodes, and there is one more instance than there are end nodes within the path.\<close>

theorem path_instances_split:
  assumes "inner_nodes ns" "wf_node e" "is_end_entire e" "length (nodes_bytes ns @ node_bytes e) < usize_limit"
  shows "\<exists>is mss. collect_iter instance_next (path_instance_iter (nodes_bytes ns @ node_bytes e)) = Some is \<and>
    concat is = nodes_bytes ns @ node_bytes e \<and>
    map (\<lambda>i. collect_iter node_next (instance_node_iter i)) is = map Some mss \<and>
    concat mss = filter (\<lambda>n. device_type n \<noteq> DEVICE_TYPE_END) ns \<and>
    length is = Suc (length (filter (\<lambda>n. device_type n = DEVICE_TYPE_END) ns))"
proof -
  let ?is = "map nodes_bytes (split_instances (ns @ [e]))"
  have wf: "\<forall>n \<in> set (ns @ [e]). wf_node n" using assms(1,2) unfolding inner_nodes_def by simp
  have e: "is_end e" using assms(3) by (simp add: is_end_entire_def full_type_def)
  have p: "nodes_bytes ns @ node_bytes e = nodes_bytes (ns @ [e])" by simp
  obtain mss where mss: "map (\<lambda>i. collect_iter node_next (instance_node_iter (nodes_bytes i))) (split_instances (ns @ [e])) = map Some mss"
    "concat mss = filter (\<lambda>n. \<not> is_end n) ns" "length mss = Suc (length (filter is_end ns))"
    using split_instances_end [OF e wf] by blast
  have "length ?is = length mss" using arg_cong [OF mss(1), of length] by simp
  moreover have "collect_iter instance_next (path_instance_iter (nodes_bytes ns @ node_bytes e)) = Some ?is"
    unfolding p using collect_instances [OF wf] assms(4) by simp
  moreover have "concat ?is = nodes_bytes ns @ node_bytes e"
    unfolding p concat_nodes_bytes concat_split_instances ..
  moreover have "map (\<lambda>i. collect_iter node_next (instance_node_iter i)) ?is = map Some mss"
    using mss(1) by (simp add: comp_def)
  ultimately show ?thesis using mss(2,3) by (metis (no_types))
qed

theorem path_instances_split_witness:
  "\<exists>is. collect_iter instance_next (path_instance_iter (nodes_bytes two_instances @ node_bytes (end_node END_ENTIRE))) = Some is \<and>
    length is = 2"
proof -
  have "length (nodes_bytes two_instances @ node_bytes (end_node END_ENTIRE)) < usize_limit"
    using length_two_instances [of 0] by (simp add: usize_limit_def)
  moreover have "length (filter is_end two_instances) = 1"
    by (simp add: two_instances_def device_type_def end_node_def DEVICE_TYPE_END_def)
  ultimately show ?thesis
    using path_instances_split [OF inner_two_instances wf_end_node [of END_ENTIRE]] by fastforce
qed



text \<open>Contrary to its documentation, \<open>push\<close> accepts an end-entire node: the builder never
  answers \<open>UnexpectedEndEntire\<close>, and everything pushed behind such a node is invisible to the node
  iterator of the finished path.\<close>

theorem push_accepts_end_entire:
  assumes "inner_nodes ns" "\<forall>m \<in> set ms. wf_node m" "\<And>k. length (spare k) = k"
  shows "\<exists>p. build spare (with_vec v) (map copy_node ns @ end_entire # map copy_node ms) = Some (Ok p) \<and>
    collect_iter node_next (path_node_iter p) = Some ns"
proof -
  let ?all = "ns @ end_node END_ENTIRE # ms"
  have "\<forall>n \<in> set ns. wf_node n" using assms(1) by (simp add: inner_nodes_def)
  then have "list_all2 builds (map copy_node ns @ end_entire # map copy_node ms) (map node_bytes ?all)"
    using copyi.images_built assms(2) endi.image_built [of END_ENTIRE] by (auto simp: finalize_is_push intro!: list_all2_appendI)
  then have b: "build spare (with_vec v) (map copy_node ns @ end_entire # map copy_node ms) =
      Some (Ok (nodes_bytes (?all @ [end_node END_ENTIRE])))"
    using build_vec [OF _ assms(3)] by (simp add: with_vec_def nodes_bytes_def)
  have "takeWhile (\<lambda>n. \<not> stop_reached EndEntireNode n) (?all @ [end_node END_ENTIRE]) = ns"
    using assms(1) by (simp add: takeWhile_append inner_nodes_def)
  moreover have "\<forall>n \<in> set (?all @ [end_node END_ENTIRE]). wf_node n" using assms(1,2) by (auto simp: inner_nodes_def)
  ultimately have "collect_iter node_next (path_node_iter (nodes_bytes (?all @ [end_node END_ENTIRE]))) = Some ns"
    using collect_nodes unfolding path_node_iter_def by metis
  then show ?thesis using b by blast
qed

theorem push_accepts_end_entire_witness:
  "\<exists>p. build (\<lambda>k. replicate k 0) (with_vec []) [end_entire, copy_node (end_node END_INSTANCE)] = Some (Ok p) \<and>
    collect_iter node_next (path_node_iter p) = Some []"
  using push_accepts_end_entire [of "[]" "[end_node END_INSTANCE]" "\<lambda>k. replicate k 0" "[]"] by simp

end
