(* ===== verification/Mem_Util.thy ===== *)
theory Mem_Util
  imports Allocator
begin

text \<open>
  Helpers around memory: alignment of buffers (\<open>Align\<close> in \<open>uefi/src/data_types/mod.rs\<close>),
  \<open>make_boxed\<close> (\<open>uefi/src/mem/util.rs\<close>), \<open>AlignedBuffer\<close>
  (\<open>uefi/src/mem/aligned_buffer.rs\<close>) and the conversions of \<open>uefi/src/util.rs\<close>.

  The heap is whatever global allocator the program registered, so it is a parameter: a record of the two
  operations on the state. A buffer is an address and a length; its content is part of the state.
\<close>

section \<open>Conversions\<close>

definition SIZE_OF_USIZE :: nat where "SIZE_OF_USIZE = 8"
definition SIZE_OF_U32 :: nat where "SIZE_OF_U32 = 4"

definition usize_from_u32 :: "u32 \<Rightarrow> usize option" where
  "usize_from_u32 v =
    (if SIZE_OF_USIZE < SIZE_OF_U32 \<and> unat v < (usize_limit - 1) mod 2 ^ 32 then None else Some (unat v))"

text \<open>The pointer that is written through is a buffer and a position in it.\<close>

definition ptr_write_unaligned_and_add :: "bytes \<times> nat \<Rightarrow> bytes \<Rightarrow> bytes \<times> nat" where
  "ptr_write_unaligned_and_add bp v = (overwrite (fst bp) (snd bp) v, snd bp + length v)"

definition opt_nonnull_to_ptr :: "nat option \<Rightarrow> nat" where
  "opt_nonnull_to_ptr p = (case p of None \<Rightarrow> 0 | Some a \<Rightarrow> a)"

section \<open>Alignment\<close>

definition offset_up_to_alignment :: "usize \<Rightarrow> usize \<Rightarrow> usize option" where
  "offset_up_to_alignment al v = do {
     require (al \<noteq> 0);
     Some (let r = v mod al in if r = 0 then 0 else al - r)
   }"

definition round_up_to_alignment :: "usize \<Rightarrow> usize \<Rightarrow> usize option" where
  "round_up_to_alignment al v = do {
     n \<leftarrow> offset_up_to_alignment al v;
     uadd v n
   }"

definition align_buf :: "usize \<Rightarrow> nat \<times> usize \<Rightarrow> (nat \<times> usize) option" where
  "align_buf al buf =
    (let off = align_offset (fst buf) al in
     if off \<le> snd buf then Some (fst buf + off, snd buf - off) else None)"

definition assert_aligned :: "usize \<Rightarrow> nat \<times> usize \<Rightarrow> unit option" where
  "assert_aligned al storage = (if snd storage \<noteq> 0 then require (align_offset (fst storage) al = 0) else Some ())"

section \<open>Layouts\<close>

definition layout_from_size_align :: "usize \<Rightarrow> usize \<Rightarrow> layout option" where
  "layout_from_size_align n al =
    (if al \<in> set (map (\<lambda>k. 2 ^ k) [0..<64]) \<and> n + (al - 1) \<le> 9223372036854775807
     then Some \<lparr>l_size = n, l_align = al\<rparr> else None)"

definition pad_to_align :: "layout \<Rightarrow> layout" where
  "pad_to_align l = l\<lparr>l_size := l_size l + align_offset (l_size l) (l_align l)\<rparr>"

section \<open>Boxed data\<close>

record 's heap =
  heap_alloc :: "layout \<Rightarrow> 's \<Rightarrow> nat \<times> 's"
  heap_dealloc :: "nat \<Rightarrow> layout \<Rightarrow> 's \<Rightarrow> 's"

type_synonym ('d, 's) fetch = "nat \<times> usize \<Rightarrow> 's \<Rightarrow> (('d, usize option) uefi_result_with \<times> 's) option"

text \<open>Allocating with a layout of size zero is undefined behaviour of \<open>alloc\<close>.\<close>

definition make_boxed :: "'s heap \<Rightarrow> usize \<Rightarrow> ('d, 's) fetch \<Rightarrow> 's \<Rightarrow> ('d uefi_result \<times> 's) option" where
  "make_boxed heap al fetch_data_fn s = do {
     (r, s1) \<leftarrow> fetch_data_fn (1, 0) s;
     case r of
       Ok _ \<Rightarrow> do { e \<leftarrow> error_from_status UNSUPPORTED; Some (Err e, s1) }
     | Err e \<Rightarrow>
         (case error_split e of (status, payload) \<Rightarrow>
            (case (if status = BUFFER_TOO_SMALL then payload else None) of
               None \<Rightarrow> do { e' \<leftarrow> error_from_status status; Some (Err e', s1) }
             | Some required_size \<Rightarrow> do {
                 l \<leftarrow> layout_from_size_align required_size al;
                 let layout = pad_to_align l;
                 require (0 < l_size layout);
                 let (heap_buf, s2) = heap_alloc heap layout s1;
                 if heap_buf = 0 then do { e' \<leftarrow> error_from_status OUT_OF_RESOURCES; Some (Err e', s2) }
                 else do {
                   (r2, s3) \<leftarrow> fetch_data_fn (heap_buf, required_size) s2;
                   data \<leftarrow> discard_errdata r2;
                   case data of
                     Ok d \<Rightarrow> Some (Ok d, s3)
                   | Err err \<Rightarrow> Some (Err err, heap_dealloc heap heap_buf layout s3)
                 }
               }))
   }"

section \<open>Aligned buffers\<close>

record aligned_buffer =
  ab_ptr :: nat
  ab_layout :: layout

definition from_layout :: "'s heap \<Rightarrow> layout \<Rightarrow> 's \<Rightarrow> (aligned_buffer \<times> 's) option" where
  "from_layout heap l s = do {
     require (0 < l_size l);
     let (p, s') = heap_alloc heap l s;
     require (p \<noteq> 0);
     Some (\<lparr>ab_ptr = p, ab_layout = l\<rparr>, s')
   }"

datatype layout_error = LayoutError

definition from_size_align :: "'s heap \<Rightarrow> usize \<Rightarrow> usize \<Rightarrow> 's \<Rightarrow> ((aligned_buffer, layout_error) result \<times> 's) option" where
  "from_size_align heap len al s =
    (case layout_from_size_align len al of
       None \<Rightarrow> Some (Err LayoutError, s)
     | Some l \<Rightarrow> do {
         (b, s') \<leftarrow> from_layout heap l s;
         Some (Ok b, s')
       })"

definition aligned_buffer_size :: "aligned_buffer \<Rightarrow> usize" where
  "aligned_buffer_size b = l_size (ab_layout b)"

definition aligned_copy_from_slice :: "aligned_buffer \<Rightarrow> bytes \<Rightarrow> (nat \<Rightarrow> u8) \<Rightarrow> (nat \<Rightarrow> u8) option" where
  "aligned_copy_from_slice b src m = do {
     require (aligned_buffer_size b = length src);
     Some (mem_write m (ab_ptr b) src)
   }"

datatype alignment_error = AlignmentError

definition check_alignment :: "aligned_buffer \<Rightarrow> usize \<Rightarrow> (unit, alignment_error) panicking" where
  "check_alignment b required_alignment = do {
     require (required_alignment \<noteq> 0);
     Some (if ab_ptr b mod required_alignment \<noteq> 0 then Err AlignmentError else Ok ())
   }"

definition aligned_buffer_drop :: "'s heap \<Rightarrow> aligned_buffer \<Rightarrow> 's \<Rightarrow> 's" where
  "aligned_buffer_drop heap b s = heap_dealloc heap (ab_ptr b) (ab_layout b) s"

section \<open>Pool allocations\<close>

definition pool_allocation_drop :: "nat \<Rightarrow> 'fw world \<Rightarrow> 'fw world option" where
  "pool_allocation_drop p w = do {
     (_, w') \<leftarrow> free_pool p w;
     Some w'
   }"

section \<open>Lemmas\<close>

lemma usize_from_u32_eq [simp]: "usize_from_u32 v = Some (unat v)"
  by (simp add: usize_from_u32_def SIZE_OF_USIZE_def SIZE_OF_U32_def)

lemma layout_from_size_align_SomeD:
  assumes "layout_from_size_align n al = Some l"
  shows "l = \<lparr>l_size = n, l_align = al\<rparr>" "0 < al"
  using assms by (auto simp: layout_from_size_align_def split: if_splits)

lemma pad_to_align_covers:
  assumes "layout_from_size_align n al = Some l"
  shows "l_size (pad_to_align l) mod al = 0" "n \<le> l_size (pad_to_align l)" "l_align (pad_to_align l) = al"
  using layout_from_size_align_SomeD [OF assms] align_offset_aligns by (simp_all add: pad_to_align_def)

text \<open>The contract of a global allocator, on the blocks it has handed out.\<close>

definition heap_contract :: "'s heap \<Rightarrow> ('s \<Rightarrow> nat \<rightharpoonup> layout) \<Rightarrow> bool" where
  "heap_contract heap live \<longleftrightarrow>
    (\<forall>l s p s'. heap_alloc heap l s = (p, s') \<longrightarrow>
       (if p = 0 then live s' = live s else p \<notin> dom (live s) \<and> p mod l_align l = 0 \<and> live s' = (live s)(p \<mapsto> l))) \<and>
    (\<forall>p l s. live s p = Some l \<longrightarrow> live (heap_dealloc heap p l s) = (live s)(p := None))"

text \<open>A function that reads data into buffers neither allocates nor frees, and its errors are errors.\<close>

definition fetch_contract :: "('d, 's) fetch \<Rightarrow> ('s \<Rightarrow> nat \<rightharpoonup> layout) \<Rightarrow> bool" where
  "fetch_contract f live \<longleftrightarrow>
    (\<forall>b s r s'. f b s = Some (r, s') \<longrightarrow> live s' = live s \<and> (\<forall>e. r = Err e \<longrightarrow> err_status e \<noteq> SUCCESS))"

text \<open>The first call decides: either it names a size, or its failure is the result.\<close>

lemma make_boxed_other:
  assumes "f (1, 0) s = Some (r0, s1)" "\<nexists>n. r0 = Err \<lparr>err_status = BUFFER_TOO_SMALL, err_data = Some n\<rparr>"
    and "make_boxed heap al f s = Some (r, s')"
  shows "r \<in> range Err \<and> s' = s1"
proof (cases r0)
  case (Err e)
  have "(if err_status e = BUFFER_TOO_SMALL then err_data e else None) = None"
    using assms(2) Err by (cases e; cases "err_data e") auto
  then show ?thesis using assms(1,3) Err by (auto simp: make_boxed_def error_split_def bind_eq_Some_conv)
qed (use assms in \<open>auto simp: make_boxed_def bind_eq_Some_conv\<close>)

lemma make_boxed_sized [consumes 2, case_names null read failed]:
  assumes "f (1, 0) s = Some (Err \<lparr>err_status = BUFFER_TOO_SMALL, err_data = Some n\<rparr>, s1)"
    and "make_boxed heap al f s = Some (r, s')"
  obtains (null) l s2 where "heap_alloc heap l s1 = (0, s2)" "r \<in> range Err" "s' = s2"
  | (read) l p s2 d where "heap_alloc heap l s1 = (p, s2)" "p \<noteq> 0" "n \<le> l_size l" "l_align l = al"
      "f (p, n) s2 = Some (Ok d, s')" "r = Ok d"
  | (failed) l p s2 e s3 where "heap_alloc heap l s1 = (p, s2)" "p \<noteq> 0" "f (p, n) s2 = Some (Err e, s3)"
      "r \<in> range Err" "s' = heap_dealloc heap p l s3"
proof -
  obtain l0 where l0: "layout_from_size_align n al = Some l0"
    using assms by (cases "layout_from_size_align n al") (auto simp: make_boxed_def error_split_def Let_def)
  let ?l = "pad_to_align l0"
  note fit = pad_to_align_covers [OF l0]
  obtain p s2 where p: "heap_alloc heap ?l s1 = (p, s2)" by (metis surj_pair)
  show thesis
  proof (cases "p = 0")
    case True
    then show thesis using null [of ?l s2] assms l0 p
      by (auto simp: make_boxed_def error_split_def Let_def bind_eq_Some_conv split: if_splits)
  next
    case False
    then obtain r2 s3 where f2: "f (p, n) s2 = Some (r2, s3)"
      using assms l0 p by (cases "f (p, n) s2") (auto simp: make_boxed_def error_split_def Let_def split: if_splits)
    show thesis
    proof (cases r2)
      case (Ok d)
      then have "r = Ok d" "s' = s3"
        using assms l0 p False f2 by (auto simp: make_boxed_def error_split_def Let_def split: if_splits)
      then show thesis using read [OF p False fit(2,3)] f2 Ok by blast
    next
      case (Err e)
      then have "r \<in> range Err" "s' = heap_dealloc heap p ?l s3"
        using assms l0 p False f2 by (auto simp: make_boxed_def error_split_def Let_def bind_eq_Some_conv split: if_splits)
      then show thesis using failed [OF p False] f2 Err by blast
    qed
  qed
qed

lemma heap_contractD:
  assumes "heap_contract heap live" "heap_alloc heap l s = (p, s')"
  shows "p = 0 \<Longrightarrow> live s' = live s"
    and "p \<noteq> 0 \<Longrightarrow> p \<notin> dom (live s) \<and> p mod l_align l = 0 \<and> live s' = (live s)(p \<mapsto> l)"
  using assms unfolding heap_contract_def by metis+

lemma heap_contract_dealloc:
  "heap_contract heap live \<Longrightarrow> live s p = Some l \<Longrightarrow> live (heap_dealloc heap p l s) = (live s)(p := None)"
  by (simp add: heap_contract_def)

lemma fetch_contractD: "fetch_contract f live \<Longrightarrow> f b s = Some (r, s') \<Longrightarrow> live s' = live s"
  unfolding fetch_contract_def by blast

section \<open>Properties\<close>

text \<open>\<open>round_up_to_alignment\<close> returns the least multiple of the alignment that is not
  below the value, and overflows only when that multiple does not fit.\<close>

theorem round_up_least:
  assumes "0 < al"
  shows "\<exists>m. m mod al = 0 \<and> v \<le> m \<and> m < v + al \<and>
    round_up_to_alignment al v = (if m < usize_limit then Some m else None)"
proof -
  let ?m = "v + align_offset v al"
  have "?m mod al = 0" using align_offset_aligns [OF assms] .
  moreover have "align_offset v al < al" using assms by (auto simp: align_offset_def)
  moreover have "round_up_to_alignment al v = (if ?m < usize_limit then Some ?m else None)"
    using assms by (simp add: round_up_to_alignment_def offset_up_to_alignment_def align_offset_def uadd_def Let_def)
  ultimately show ?thesis by (intro exI [of _ ?m]) simp
qed

theorem round_up_least_witness: "round_up_to_alignment 8 13 = Some 16"
proof -
  obtain m where m: "m mod 8 = 0" "13 \<le> m" "m < 13 + 8" "round_up_to_alignment 8 13 = (if m < usize_limit then Some m else None)"
    using round_up_least [of 8 13] by (metis zero_less_numeral)
  have "m = 16" using m(1-3) by presburger
  then show ?thesis using m by (simp add: usize_limit_def)
qed

text \<open>C28: \<open>make_boxed\<close> never leaks and never hands out a buffer that is too small. When it
  succeeds, exactly one live block was added: it holds at least the size that the first, empty call
  asked for, at the alignment of the type, and the data was read into that block. When it fails, the live
  blocks are as before, whichever of the calls failed.\<close>

theorem make_boxed_no_leak:
  assumes "heap_contract heap live" "fetch_contract f live" "make_boxed heap al f s = Some (r, s')"
  shows "case r of
      Err _ \<Rightarrow> live s' = live s
    | Ok d \<Rightarrow> \<exists>p n l s1 s2. f (1, 0) s = Some (Err \<lparr>err_status = BUFFER_TOO_SMALL, err_data = Some n\<rparr>, s1) \<and>
        f (p, n) s2 = Some (Ok d, s') \<and> p \<notin> dom (live s) \<and> live s' = (live s)(p \<mapsto> l) \<and>
        n \<le> l_size l \<and> l_align l = al \<and> p mod al = 0"
proof -
  obtain r0 s1 where f0: "f (1, 0) s = Some (r0, s1)" using assms(3) by (cases "f (1, 0) s") (auto simp: make_boxed_def)
  have l1: "live s1 = live s" by (rule fetch_contractD [OF assms(2) f0])
  show ?thesis
  proof (cases "\<exists>n. r0 = Err \<lparr>err_status = BUFFER_TOO_SMALL, err_data = Some n\<rparr>")
    case False
    then show ?thesis using make_boxed_other [OF f0 _ assms(3)] l1 by auto
  next
    case True
    then obtain n where f1: "f (1, 0) s = Some (Err \<lparr>err_status = BUFFER_TOO_SMALL, err_data = Some n\<rparr>, s1)" using f0 by blast
    from f1 assms(3) show ?thesis
    proof (cases rule: make_boxed_sized)
      case (null l s2)
      then show ?thesis using heap_contractD(1) [OF assms(1) null(1)] l1 by auto
    next
      case (read l p s2 d)
      have "p \<notin> dom (live s) \<and> p mod al = 0 \<and> live s' = (live s)(p \<mapsto> l)"
        using heap_contractD(2) [OF assms(1) read(1,2)] fetch_contractD [OF assms(2) read(5)] l1 read(4) by simp
      then show ?thesis unfolding read(6) result.case using f1 read(3-5)
        by (intro exI [of _ p] exI [of _ n] exI [of _ l] exI [of _ s1] exI [of _ s2]) simp
    next
      case (failed l p s2 e s3)
      have a: "p \<notin> dom (live s)" "live s3 = (live s)(p \<mapsto> l)"
        using heap_contractD(2) [OF assms(1) failed(1,2)] fetch_contractD [OF assms(2) failed(3)] l1 by auto
      then have "live s' = (live s3)(p := None)" using heap_contract_dealloc [OF assms(1)] failed(5) by simp
      moreover have "(live s)(p := None) = live s" using a(1) by auto
      ultimately show ?thesis using a(2) failed(4) by auto
    qed
  qed
qed

text \<open>A heap with one slot, and a reader of five bytes of data that fails once it is given the buffer.\<close>

definition slot_heap :: "layout option heap" where
  "slot_heap = \<lparr>heap_alloc = (\<lambda>l s. if s = None \<and> 4096 mod l_align l = 0 then (4096, Some l) else (0, s)),
     heap_dealloc = (\<lambda>p l s. if p = 4096 then None else s)\<rparr>"

definition slot_live :: "layout option \<Rightarrow> nat \<rightharpoonup> layout" where
  "slot_live s = (case s of None \<Rightarrow> Map.empty | Some l \<Rightarrow> [4096 \<mapsto> l])"

definition five_bytes :: "bool \<Rightarrow> (nat, layout option) fetch" where
  "five_bytes ok b s =
    Some (if snd b < 5 then Err \<lparr>err_status = BUFFER_TOO_SMALL, err_data = Some 5\<rparr>
          else if ok then Ok (fst b) else Err \<lparr>err_status = ABORTED, err_data = None\<rparr>, s)"

theorem make_boxed_no_leak_witness:
  "make_boxed slot_heap 8 (five_bytes False) None = Some (Err \<lparr>err_status = ABORTED, err_data = ()\<rparr>, None) \<and>
    (\<exists>l. make_boxed slot_heap 8 (five_bytes True) None = Some (Ok 4096, Some l) \<and> l_align l = 8 \<and> 5 \<le> l_size l)"
proof -
  have h: "heap_contract slot_heap slot_live"
    by (auto simp: heap_contract_def slot_heap_def slot_live_def fun_eq_iff split: option.splits if_splits)
  have f: "fetch_contract (five_bytes ok) slot_live" for ok
    by (auto simp: fetch_contract_def five_bytes_def status_success_neq split: if_splits)
  have "(8 :: nat) \<in> (\<lambda>k. 2 ^ k) ` set [0..<64]" by (rule image_eqI [of _ _ 3]) simp_all
  then have lay: "layout_from_size_align 5 8 = Some \<lparr>l_size = 5, l_align = 8\<rparr>" by (simp add: layout_from_size_align_def)
  have run: "make_boxed slot_heap 8 (five_bytes True) None = Some (Ok 4096, Some \<lparr>l_size = 8, l_align = 8\<rparr>)"
    "make_boxed slot_heap 8 (five_bytes False) None = Some (Err \<lparr>err_status = ABORTED, err_data = ()\<rparr>, None)"
    by (simp_all add: make_boxed_def five_bytes_def lay pad_to_align_def align_offset_def slot_heap_def error_split_def
        error_from_status_def error_new_def status_success_neq)
  from make_boxed_no_leak [OF h f run(1)] make_boxed_no_leak [OF h f run(2)] show ?thesis
    using run by (auto simp: slot_live_def)
qed

end
