(* ===== verification/Tcg_Log.thy ===== *)
theory Tcg_Log
  imports Mem_Util Iterators
begin

text \<open>
  The TPM event logs of \<open>uefi/src/proto/tcg/v1.rs\<close> and \<open>v2.rs\<close>: the events that are
  built in caller-provided buffers, and the iterators over the logs that firmware leaves in memory.
  Memory reached through the log pointers is a total function from addresses to bytes; the source
  trusts the protocol to hand out valid ranges. Address zero is the null pointer.

  \<open>try_opt\<close> is the question mark operator in a function that returns \<open>Option\<close>; the outer
  option layer of such a function is the panic.
\<close>

definition try_opt :: "'a option \<Rightarrow> ('a \<Rightarrow> 'b option option) \<Rightarrow> 'b option option" where
  "try_opt a f = (case a of None \<Rightarrow> Some None | Some x \<Rightarrow> f x)"

section \<open>Version 1: events\<close>

record pcr_event =
  pcr_index :: u32
  event_type :: u32
  pcr_digest :: bytes
  event_data_size :: u32
  event_data :: bytes

text \<open>The value seen through a reference to the packed structure with \<open>n\<close> bytes of event data.\<close>

definition pcr_event_of :: "bytes \<Rightarrow> usize \<Rightarrow> pcr_event" where
  "pcr_event_of buf n =
    \<lparr>pcr_index = read_field 4 u32_from_le 0 buf, event_type = read_field 4 u32_from_le 4 buf,
     pcr_digest = take 20 (drop 8 buf), event_data_size = read_field 4 u32_from_le 28 buf,
     event_data = take n (drop 32 buf)\<rparr>"

definition size_of_pcr_event :: "pcr_event \<Rightarrow> usize" where
  "size_of_pcr_event e = 32 + length (event_data e)"

definition pcr_event_from_ptr :: "(nat \<Rightarrow> u8) \<Rightarrow> nat \<Rightarrow> pcr_event option" where
  "pcr_event_from_ptr m p = do {
     let event_size = u32_from_le (mem_read m (p + 7 * 4) 4);
     n \<leftarrow> usize_from_u32 event_size;
     Some (pcr_event_of (mem_read m p (32 + n)) n)
   }"

text \<open>The new content of the buffer is returned with the result.\<close>

definition pcr_event_new_in_buffer ::
  "bytes \<Rightarrow> u32 \<Rightarrow> u32 \<Rightarrow> bytes \<Rightarrow> bytes \<Rightarrow> ((pcr_event, usize option) uefi_result_with \<times> bytes) option" where
  "pcr_event_new_in_buffer buffer idx ty dig dat =
    (if 2 ^ 32 \<le> length dat then do {
       e \<leftarrow> error_new INVALID_PARAMETER None;
       Some (Err e, buffer)
     } else do {
       let data_size = (word_of_nat (length dat) :: u32);
       required_size \<leftarrow> uadd (4 + 4 + 20 + 4) (length dat);
       if length buffer < required_size then do {
         e \<leftarrow> error_new BUFFER_TOO_SMALL (Some required_size);
         Some (Err e, buffer)
       } else
         (let p0 = (buffer, 0);
              p1 = ptr_write_unaligned_and_add p0 (u32_to_le idx);
              p2 = ptr_write_unaligned_and_add p1 (u32_to_le ty);
              p3 = ptr_write_unaligned_and_add p2 dig;
              p4 = ptr_write_unaligned_and_add p3 (u32_to_le data_size);
              buf = overwrite (fst p4) (snd p4) dat
          in Some (Ok (pcr_event_of buf (length dat)), buf))
     })"

definition pcr_event_alignment :: usize where
  "pcr_event_alignment = 1"

definition pcr_event_eq :: "pcr_event \<Rightarrow> pcr_event \<Rightarrow> bool" where
  "pcr_event_eq a b \<longleftrightarrow> pcr_index a = pcr_index b \<and> event_type a = event_type b \<and> pcr_digest a = pcr_digest b \<and>
    event_data_size a = event_data_size b \<and> event_data a = event_data b"

text \<open>\<open>new_in_box\<close>: the state is that of the heap together with the memory.\<close>

definition pcr_event_fetch ::
  "u32 \<Rightarrow> u32 \<Rightarrow> bytes \<Rightarrow> bytes \<Rightarrow> (pcr_event, 'h \<times> (nat \<Rightarrow> u8)) fetch" where
  "pcr_event_fetch idx ty dig dat b s = do {
     (r, buf) \<leftarrow> pcr_event_new_in_buffer (mem_read (snd s) (fst b) (snd b)) idx ty dig dat;
     Some (r, (fst s, mem_write (snd s) (fst b) buf))
   }"

definition pcr_event_new_in_box ::
  "('h \<times> (nat \<Rightarrow> u8)) heap \<Rightarrow> u32 \<Rightarrow> u32 \<Rightarrow> bytes \<Rightarrow> bytes \<Rightarrow> 'h \<times> (nat \<Rightarrow> u8) \<Rightarrow>
    (pcr_event uefi_result \<times> ('h \<times> (nat \<Rightarrow> u8))) option" where
  "pcr_event_new_in_box heap idx ty dig dat s = make_boxed heap pcr_event_alignment (pcr_event_fetch idx ty dig dat) s"

section \<open>Version 1: the log\<close>

record event_log =
  log_location :: nat
  last_entry :: nat
  is_truncated :: bool

definition event_log_new :: "nat \<Rightarrow> nat \<Rightarrow> bool \<Rightarrow> event_log" where
  "event_log_new loc entry trunc = \<lparr>log_location = loc, last_entry = entry, is_truncated = trunc\<rparr>"

record event_log_iter =
  iter_log :: event_log
  iter_location :: nat

definition event_log_v1_iter :: "event_log \<Rightarrow> event_log_iter" where
  "event_log_v1_iter l = \<lparr>iter_log = l, iter_location = log_location l\<rparr>"

definition event_log_v1_next :: "(nat \<Rightarrow> u8) \<Rightarrow> event_log_iter \<Rightarrow> (pcr_event option \<times> event_log_iter) option" where
  "event_log_v1_next m it =
    (if iter_location it = 0 \<or> last_entry (iter_log it) = 0 then Some (None, it)
     else do {
       event \<leftarrow> pcr_event_from_ptr m (iter_location it);
       let it' = it\<lparr>iter_location :=
         (if iter_location it = last_entry (iter_log it) then 0 else iter_location it + size_of_pcr_event event)\<rparr>;
       Some (Some event, it')
     })"

section \<open>Version 2: event inputs\<close>

record event_header =
  header_size :: u32
  header_version :: u16
  header_pcr_index :: u32
  header_event_type :: u32

definition event_header_bytes :: "event_header \<Rightarrow> bytes" where
  "event_header_bytes h = u32_to_le (header_size h) @ u16_to_le (header_version h) @
    u32_to_le (header_pcr_index h) @ u32_to_le (header_event_type h)"

definition SIZE_OF_EVENT_HEADER :: usize where "SIZE_OF_EVENT_HEADER = 14"

record pcr_event_inputs =
  inputs_size :: u32
  inputs_header :: event_header
  inputs_event :: bytes

definition pcr_event_inputs_of :: "bytes \<Rightarrow> usize \<Rightarrow> pcr_event_inputs" where
  "pcr_event_inputs_of buf n =
    \<lparr>inputs_size = read_field 4 u32_from_le 0 buf,
     inputs_header = \<lparr>header_size = read_field 4 u32_from_le 4 buf, header_version = read_field 2 u16_from_le 8 buf,
       header_pcr_index = read_field 4 u32_from_le 10 buf, header_event_type = read_field 4 u32_from_le 14 buf\<rparr>,
     inputs_event = take n (drop 18 buf)\<rparr>"

definition pcr_event_inputs_new_in_buffer ::
  "bytes \<Rightarrow> u32 \<Rightarrow> u32 \<Rightarrow> bytes \<Rightarrow> ((pcr_event_inputs, usize option) uefi_result_with \<times> bytes) option" where
  "pcr_event_inputs_new_in_buffer buffer idx ty dat = do {
     required_size \<leftarrow> uadd (4 + SIZE_OF_EVENT_HEADER) (length dat);
     if length buffer < required_size then do {
       e \<leftarrow> error_new BUFFER_TOO_SMALL (Some required_size);
       Some (Err e, buffer)
     } else if 2 ^ 32 \<le> required_size then do {
       e \<leftarrow> error_new INVALID_PARAMETER None;
       Some (Err e, buffer)
     } else
       (let size_field = (word_of_nat required_size :: u32);
            p0 = (buffer, 0);
            p1 = ptr_write_unaligned_and_add p0 (u32_to_le size_field);
            p2 = ptr_write_unaligned_and_add p1 (event_header_bytes
              \<lparr>header_size = word_of_nat SIZE_OF_EVENT_HEADER, header_version = 1, header_pcr_index = idx, header_event_type = ty\<rparr>);
            buf = overwrite (fst p2) (snd p2) dat
        in Some (Ok (pcr_event_inputs_of buf (length dat)), buf))
   }"

section \<open>Version 2: the header of the log\<close>

type_synonym algorithm_digest_sizes = "(u16 \<times> u16) list"

fun get_size :: "algorithm_digest_sizes \<Rightarrow> u16 \<Rightarrow> u16 option" where
  "get_size [] alg = None"
| "get_size ((algorithm_id, digest_size) # elems) alg = (if algorithm_id = alg then Some digest_size else get_size elems alg)"

definition u32_le_from_bytes_at_offset :: "bytes \<Rightarrow> nat \<Rightarrow> u32 option" where
  "u32_le_from_bytes_at_offset bs off = map_option u32_from_le (get_range bs off (off + 4))"

record event_log_header =
  platform_class :: u32
  spec_version :: "u8 \<times> u8 \<times> u8"
  uintn_size :: u8
  algorithm_digest_sizes :: algorithm_digest_sizes
  vendor_info :: bytes
  header_size_in_bytes :: usize

definition NO_ACTION :: u32 where "NO_ACTION = 3"

text \<open>The bytes of \<open>Spec ID Event03\<close> and a null byte.\<close>

definition SPEC_ID_EVENT03 :: bytes where
  "SPEC_ID_EVENT03 = [83, 112, 101, 99, 32, 73, 68, 32, 69, 118, 101, 110, 116, 48, 51, 0]"

definition SIZE_OF_ALGORITHM_DIGEST_SIZE :: usize where "SIZE_OF_ALGORITHM_DIGEST_SIZE = 4"

text \<open>The unaligned slice of \<open>n\<close> packed pairs.\<close>

definition algorithm_pairs :: "bytes \<Rightarrow> usize \<Rightarrow> algorithm_digest_sizes" where
  "algorithm_pairs bs n =
    map (\<lambda>i. (read_field 2 u16_from_le (4 * i) bs, read_field 2 u16_from_le (4 * i + 2) bs)) [0..<n]"

definition event_log_header_new :: "pcr_event \<Rightarrow> event_log_header option option" where
  "event_log_header_new event =
    (if pcr_index event \<noteq> 0 then Some None
     else if event_type event \<noteq> NO_ACTION then Some None
     else if pcr_digest event \<noteq> replicate 20 0 then Some None
     else
       (let ev = event_data event in
        try_opt (get_range ev 0 16) (\<lambda>signature.
        if signature \<noteq> SPEC_ID_EVENT03 then Some None
        else
        try_opt (u32_le_from_bytes_at_offset ev 16) (\<lambda>class.
        try_opt (get_at ev 20) (\<lambda>version_minor.
        try_opt (get_at ev 21) (\<lambda>version_major.
        try_opt (get_at ev 22) (\<lambda>version_errata.
        try_opt (get_at ev 23) (\<lambda>uintn.
        try_opt (u32_le_from_bytes_at_offset ev 24) (\<lambda>algs. do {
          number_of_algorithms \<leftarrow> usize_from_u32 algs;
          algs_size \<leftarrow> umul number_of_algorithms SIZE_OF_ALGORITHM_DIGEST_SIZE;
          vendor_info_size_byte_offset \<leftarrow> uadd 28 algs_size;
          try_opt (get_at ev vendor_info_size_byte_offset) (\<lambda>vendor_size. do {
            let vendor_info_size = unat vendor_size;
            let sizes = algorithm_pairs (drop 28 ev) number_of_algorithms;
            vendor_info_byte_offset \<leftarrow> uadd vendor_info_size_byte_offset 1;
            stop \<leftarrow> uadd vendor_info_byte_offset vendor_info_size;
            try_opt (get_range ev vendor_info_byte_offset stop) (\<lambda>vendor. do {
              sz \<leftarrow> uadd 32 vendor_info_byte_offset;
              total \<leftarrow> uadd sz vendor_info_size;
              Some (Some \<lparr>platform_class = class, spec_version = (version_major, version_minor, version_errata),
                uintn_size = uintn, algorithm_digest_sizes = sizes, vendor_info = vendor, header_size_in_bytes = total\<rparr>)
            })
          })
        })))))))))"

section \<open>Version 2: events and digests\<close>

record pcr_event_v2 =
  pcr_index_v2 :: u32
  event_type_v2 :: u32
  digests_data :: bytes
  event_data_v2 :: bytes
  next_event :: nat
  event_digest_sizes :: algorithm_digest_sizes

fun digests_loop :: "(nat \<Rightarrow> u8) \<Rightarrow> algorithm_digest_sizes \<Rightarrow> nat \<Rightarrow> nat \<Rightarrow> usize \<Rightarrow> usize option option" where
  "digests_loop m sizes 0 elem_ptr digests_byte_size = Some (Some digests_byte_size)"
| "digests_loop m sizes (Suc n) elem_ptr digests_byte_size =
    try_opt (get_size sizes (u16_from_le (mem_read m elem_ptr 2))) (\<lambda>sz. do {
      alg_and_digest_size \<leftarrow> uadd 2 (unat sz);
      total \<leftarrow> uadd digests_byte_size alg_and_digest_size;
      digests_loop m sizes n (elem_ptr + alg_and_digest_size) total
    })"

definition pcr_event_v2_from_ptr :: "(nat \<Rightarrow> u8) \<Rightarrow> nat \<Rightarrow> event_log_header \<Rightarrow> pcr_event_v2 option option" where
  "pcr_event_v2_from_ptr m ptr header = do {
     let idx = u32_from_le (mem_read m ptr 4);
     let ty = u32_from_le (mem_read m (ptr + 4) 4);
     let digests_count = u32_from_le (mem_read m (ptr + 8) 4);
     let digests_ptr = ptr + 12;
     r \<leftarrow> digests_loop m (algorithm_digest_sizes header) (unat digests_count) digests_ptr 0;
     try_opt r (\<lambda>digests_byte_size. do {
       let event_size_ptr = digests_ptr + digests_byte_size;
       event_size \<leftarrow> usize_from_u32 (u32_from_le (mem_read m event_size_ptr 4));
       let event_data_ptr = event_size_ptr + 4;
       Some (Some \<lparr>pcr_index_v2 = idx, event_type_v2 = ty, digests_data = mem_read m digests_ptr digests_byte_size,
         event_data_v2 = mem_read m event_data_ptr event_size, next_event = event_data_ptr + event_size,
         event_digest_sizes = algorithm_digest_sizes header\<rparr>)
     })
   }"

record digest_iter =
  di_data :: bytes
  di_sizes :: algorithm_digest_sizes
  di_offset :: usize

definition pcr_event_digests :: "pcr_event_v2 \<Rightarrow> digest_iter" where
  "pcr_event_digests e = \<lparr>di_data = digests_data e, di_sizes = event_digest_sizes e, di_offset = 0\<rparr>"

definition digest_next :: "digest_iter \<Rightarrow> ((u16 \<times> bytes) option \<times> digest_iter) option" where
  "digest_next it = do {
     dat \<leftarrow> get_range (di_data it) (di_offset it) (length (di_data it));
     case get_range dat 0 2 of
       None \<Rightarrow> Some (None, it)
     | Some a \<Rightarrow>
         (let alg = u16_from_le [a ! 0, a ! 1] in
          case get_size (di_sizes it) alg of
            None \<Rightarrow> Some (None, it)
          | Some sz \<Rightarrow>
              (let digest_size = unat sz in
               case get_range dat 2 (2 + digest_size) of
                 None \<Rightarrow> Some (None, it)
               | Some dig \<Rightarrow> do {
                   off \<leftarrow> uadd (di_offset it) (2 + digest_size);
                   Some (Some (alg, dig), it\<lparr>di_offset := off\<rparr>)
                 }))
   }"

section \<open>Version 2: the log\<close>

record event_log_iter_v2 =
  iter_log_v2 :: event_log
  iter_header_v2 :: "event_log_header option"
  iter_location_v2 :: nat

definition event_log_v2_header :: "(nat \<Rightarrow> u8) \<Rightarrow> event_log \<Rightarrow> event_log_header option option" where
  "event_log_v2_header m l =
    (if log_location l = 0 then Some None
     else do {
       event \<leftarrow> pcr_event_from_ptr m (log_location l);
       event_log_header_new event
     })"

definition event_log_v2_iter :: "(nat \<Rightarrow> u8) \<Rightarrow> event_log \<Rightarrow> event_log_iter_v2 option" where
  "event_log_v2_iter m l = do {
     h \<leftarrow> event_log_v2_header m l;
     case h of
       Some header \<Rightarrow> do {
         h' \<leftarrow> event_log_v2_header m l;
         Some \<lparr>iter_log_v2 = l, iter_header_v2 = h', iter_location_v2 = log_location l + header_size_in_bytes header\<rparr>
       }
     | None \<Rightarrow> Some \<lparr>iter_log_v2 = l, iter_header_v2 = None, iter_location_v2 = 0\<rparr>
   }"

definition event_log_v2_next ::
  "(nat \<Rightarrow> u8) \<Rightarrow> event_log_iter_v2 \<Rightarrow> (pcr_event_v2 option \<times> event_log_iter_v2) option" where
  "event_log_v2_next m it =
    (if iter_location_v2 it = 0 \<or> last_entry (iter_log_v2 it) = 0 then Some (None, it)
     else
       (case iter_header_v2 it of
          None \<Rightarrow> Some (None, it)
        | Some header \<Rightarrow> do {
            r \<leftarrow> pcr_event_v2_from_ptr m (iter_location_v2 it) header;
            case r of
              None \<Rightarrow> Some (None, it)
            | Some event \<Rightarrow>
                Some (Some event, it\<lparr>iter_location_v2 :=
                  (if iter_location_v2 it = last_entry (iter_log_v2 it) then 0 else next_event event)\<rparr>)
          }))"

end
