(* ===== verification/Tcg_Props.thy ===== *)
theory Tcg_Props
  imports Tcg_Log
begin

text \<open>
  The event logs decode to the events they were made of: layouts of events as byte strings, and the
  behaviour of the constructors and iterators on memory that holds such byte strings.
\<close>

section \<open>Version 1\<close>

definition pcr_event_bytes :: "pcr_event \<Rightarrow> bytes" where
  "pcr_event_bytes e = u32_to_le (pcr_index e) @ u32_to_le (event_type e) @ pcr_digest e @
    u32_to_le (event_data_size e) @ event_data e"

definition wf_event :: "pcr_event \<Rightarrow> bool" where
  "wf_event e \<longleftrightarrow> length (pcr_digest e) = 20 \<and> unat (event_data_size e) = length (event_data e)"

lemmas codec_lengths [simp] = u16c.encode_length u32c.encode_length u16c.decode_encode u32c.decode_encode

lemma length_pcr_event_bytes: "wf_event e \<Longrightarrow> length (pcr_event_bytes e) = size_of_pcr_event e"
  by (simp add: pcr_event_bytes_def size_of_pcr_event_def wf_event_def)

lemma pcr_event_of_bytes: "wf_event e \<Longrightarrow> pcr_event_of (pcr_event_bytes e @ r) (length (event_data e)) = e"
  by (simp add: pcr_event_of_def pcr_event_bytes_def wf_event_def read_field_def)

lemma pcr_event_from_ptr_holds:
  assumes "wf_event e" "holds m p (pcr_event_bytes e)"
  shows "pcr_event_from_ptr m p = Some e"
proof -
  have "holds m (p + 28) (u32_to_le (event_data_size e))"
    using assms by (simp add: pcr_event_bytes_def wf_event_def add.assoc)
  then have "mem_read m (p + 28) 4 = u32_to_le (event_data_size e)" by (simp add: holds_read)
  moreover have "mem_read m p (32 + length (event_data e)) = pcr_event_bytes e"
    using holds_read [OF assms(2)] length_pcr_event_bytes [OF assms(1)] by (simp add: size_of_pcr_event_def)
  ultimately show ?thesis using pcr_event_of_bytes [OF assms(1), of "[]"] assms(1)
    by (simp add: pcr_event_from_ptr_def wf_event_def)
qed

text \<open>Writing one field after the other through the moving pointer.\<close>

lemma overwrite_append: "overwrite (pre @ rest) (length pre) ys = pre @ ys @ drop (length ys) rest"
  by (simp add: overwrite_def)

lemma ptr_write_append:
  "n = length pre \<Longrightarrow> ptr_write_unaligned_and_add (pre @ rest, n) v = ((pre @ v) @ drop (length v) rest, length (pre @ v))"
  by (simp add: ptr_write_unaligned_and_add_def overwrite_append)

lemma ptr_write_first: "ptr_write_unaligned_and_add (rest, 0) v = (v @ drop (length v) rest, length v)"
  using ptr_write_append [of 0 "[]" rest v] by simp

definition event_of :: "u32 \<Rightarrow> u32 \<Rightarrow> bytes \<Rightarrow> bytes \<Rightarrow> pcr_event" where
  "event_of idx ty dig dat = \<lparr>pcr_index = idx, event_type = ty, pcr_digest = dig,
     event_data_size = word_of_nat (length dat), event_data = dat\<rparr>"

lemma wf_event_of: "length dig = 20 \<Longrightarrow> length dat < 2 ^ 32 \<Longrightarrow> wf_event (event_of idx ty dig dat)"
  by (simp add: wf_event_def event_of_def unat_of_nat)

lemma new_in_buffer_ok:
  assumes "length dig = 20" "length dat < 2 ^ 32" "32 + length dat \<le> length buffer"
  shows "pcr_event_new_in_buffer buffer idx ty dig dat =
    Some (Ok (event_of idx ty dig dat), pcr_event_bytes (event_of idx ty dig dat) @ drop (32 + length dat) buffer)"
proof -
  let ?e = "event_of idx ty dig dat"
  let ?n = "word_of_nat (length dat) :: u32"
  have lim: "32 + length dat < usize_limit" using assms(2) by (simp add: usize_limit_def)
  define p1 where "p1 = ptr_write_unaligned_and_add (buffer, 0) (u32_to_le idx)"
  define p2 where "p2 = ptr_write_unaligned_and_add p1 (u32_to_le ty)"
  define p3 where "p3 = ptr_write_unaligned_and_add p2 dig"
  define p4 where "p4 = ptr_write_unaligned_and_add p3 (u32_to_le ?n)"
  have p1: "p1 = (u32_to_le idx @ drop 4 buffer, 4)" by (simp add: p1_def ptr_write_first)
  have p2: "p2 = ((u32_to_le idx @ u32_to_le ty) @ drop 8 buffer, 8)" by (simp add: p2_def p1 ptr_write_append)
  have p3: "p3 = ((u32_to_le idx @ u32_to_le ty @ dig) @ drop 28 buffer, 28)"
    unfolding p3_def p2 by (subst ptr_write_append) (simp_all add: assms(1))
  have p4: "p4 = ((u32_to_le idx @ u32_to_le ty @ dig @ u32_to_le ?n) @ drop 32 buffer, 32)"
    unfolding p4_def p3 by (subst ptr_write_append) (simp_all add: assms(1))
  have buf: "overwrite (fst p4) (snd p4) dat = pcr_event_bytes ?e @ drop (32 + length dat) buffer"
    using overwrite_append [of "u32_to_le idx @ u32_to_le ty @ dig @ u32_to_le ?n" "drop 32 buffer" dat] assms(1)
    by (simp add: p4 pcr_event_bytes_def event_of_def add.commute)
  have "pcr_event_of (overwrite (fst p4) (snd p4) dat) (length dat) = ?e"
    unfolding buf using pcr_event_of_bytes [OF wf_event_of [OF assms(1,2), of idx ty]] by (simp add: event_of_def)
  then show ?thesis using assms lim buf unfolding p4_def p3_def p2_def p1_def
    by (simp add: pcr_event_new_in_buffer_def uadd_def Let_def)
qed

text \<open>The iterator on a log that holds events back to back.\<close>

definition log_bytes :: "pcr_event list \<Rightarrow> bytes" where
  "log_bytes es = concat (map pcr_event_bytes es)"

lemma collect_v1:
  assumes "es \<noteq> []" "\<forall>e \<in> set es. wf_event e" "p \<noteq> 0" "holds m p (log_bytes es)"
    and "last_entry l = p + length (log_bytes (butlast es))"
  shows "collect_iter (event_log_v1_next m) \<lparr>iter_log = l, iter_location = p\<rparr> = Some es"
  using assms
proof (induction es arbitrary: p)
  case (Cons e es)
  have e: "pcr_event_from_ptr m p = Some e" using Cons.prems by (simp add: pcr_event_from_ptr_holds log_bytes_def)
  have len: "length (pcr_event_bytes e) = size_of_pcr_event e" "0 < size_of_pcr_event e"
    using Cons.prems length_pcr_event_bytes by (simp_all add: size_of_pcr_event_def)
  show ?case
  proof (cases "es = []")
    case True
    then have "last_entry l = p" using Cons.prems by (simp add: log_bytes_def)
    then show ?thesis using e Cons.prems True
      by (subst collect_iter.simps, simp add: event_log_v1_next_def) (subst collect_iter.simps, simp add: event_log_v1_next_def)
  next
    case False
    let ?p = "p + size_of_pcr_event e"
    have last: "last_entry l = ?p + length (log_bytes (butlast es))" "last_entry l \<noteq> p" "last_entry l \<noteq> 0"
      using Cons.prems False len by (simp_all add: log_bytes_def)
    have "holds m ?p (log_bytes es)" using Cons.prems len by (simp add: log_bytes_def)
    then have "collect_iter (event_log_v1_next m) \<lparr>iter_log = l, iter_location = ?p\<rparr> = Some es"
      using Cons.IH [of ?p] Cons.prems False last by simp
    then show ?thesis using e Cons.prems last by (subst collect_iter.simps) (simp add: event_log_v1_next_def)
  qed
qed simp

section \<open>Version 2: the header\<close>

text \<open>The header event of a log with the given algorithms, and the header that is read from it.\<close>

definition algorithms_bytes :: "algorithm_digest_sizes \<Rightarrow> bytes" where
  "algorithms_bytes sizes = concat (map (\<lambda>(a, n). u16_to_le a @ u16_to_le n) sizes)"

definition header_data :: "u32 \<Rightarrow> u8 \<times> u8 \<times> u8 \<Rightarrow> u8 \<Rightarrow> algorithm_digest_sizes \<Rightarrow> bytes \<Rightarrow> bytes" where
  "header_data class ver uintn sizes vendor =
    (case ver of (major, minor, errata) \<Rightarrow>
      SPEC_ID_EVENT03 @ u32_to_le class @ [minor, major, errata, uintn] @ u32_to_le (word_of_nat (length sizes)) @
      algorithms_bytes sizes @ [word_of_nat (length vendor)] @ vendor)"

definition header_of :: "u32 \<Rightarrow> u8 \<times> u8 \<times> u8 \<Rightarrow> u8 \<Rightarrow> algorithm_digest_sizes \<Rightarrow> bytes \<Rightarrow> event_log_header" where
  "header_of class ver uintn sizes vendor =
    \<lparr>platform_class = class, spec_version = ver, uintn_size = uintn, algorithm_digest_sizes = sizes, vendor_info = vendor,
     header_size_in_bytes = 32 + length (header_data class ver uintn sizes vendor)\<rparr>"

lemma length_algorithms_bytes [simp]: "length (algorithms_bytes sizes) = 4 * length sizes"
  by (induction sizes) (auto simp: algorithms_bytes_def)

lemma algorithm_pairs_bytes: "algorithm_pairs (algorithms_bytes sizes @ r) (length sizes) = sizes"
proof (rule nth_equalityI)
  fix i assume "i < length (algorithm_pairs (algorithms_bytes sizes @ r) (length sizes))"
  then have i: "i < length sizes" by (simp add: algorithm_pairs_def)
  obtain a n where an: "sizes ! i = (a, n)" by (metis surj_pair)
  have "sizes = take i sizes @ sizes ! i # drop (Suc i) sizes" using i by (simp add: id_take_nth_drop [symmetric])
  then have "algorithms_bytes sizes = algorithms_bytes (take i sizes) @ u16_to_le a @ u16_to_le n @ algorithms_bytes (drop (Suc i) sizes)"
    using an by (metis (no_types, lifting) algorithms_bytes_def append.assoc case_prod_conv concat.simps(2) concat_append list.simps(9) map_append)
  moreover have "length (algorithms_bytes (take i sizes)) = 4 * i" using i by simp
  ultimately have "read_field 2 u16_from_le (4 * i) (algorithms_bytes sizes @ r) = a"
    "read_field 2 u16_from_le (4 * i + 2) (algorithms_bytes sizes @ r) = n"
    by (simp_all add: read_field_def)
  then show "algorithm_pairs (algorithms_bytes sizes @ r) (length sizes) ! i = sizes ! i"
    using i an by (simp add: algorithm_pairs_def)
qed (simp add: algorithm_pairs_def)

lemma length_SPEC_ID_EVENT03 [simp]: "length SPEC_ID_EVENT03 = 16"
  by (simp add: SPEC_ID_EVENT03_def)

lemma header_new_of:
  assumes "length sizes < 2 ^ 32" "length vendor < 256"
  shows "event_log_header_new (event_of 0 NO_ACTION (replicate 20 0) (header_data class ver uintn sizes vendor)) =
    Some (Some (header_of class ver uintn sizes vendor))"
proof -
  obtain major minor errata where ver: "ver = (major, minor, errata)" by (metis surj_pair)
  define ev where "ev = header_data class ver uintn sizes vendor"
  let ?n = "word_of_nat (length sizes) :: u32"
  have ev: "ev = SPEC_ID_EVENT03 @ u32_to_le class @ [minor, major, errata, uintn] @ u32_to_le ?n @
      algorithms_bytes sizes @ [word_of_nat (length vendor)] @ vendor"
    by (simp add: ev_def header_data_def ver)
  have len: "length ev = 29 + 4 * length sizes + length vendor" by (simp add: ev)
  have n: "unat ?n = length sizes" "unat (word_of_nat (length vendor) :: u8) = length vendor"
    using assms by (simp_all add: unat_of_nat)
  have f1: "get_range ev 0 16 = Some SPEC_ID_EVENT03" "u32_le_from_bytes_at_offset ev 16 = Some class"
    "u32_le_from_bytes_at_offset ev 24 = Some ?n"
    by (simp_all add: ev u32_le_from_bytes_at_offset_def get_range_def)
  have "ev ! 20 = minor" "ev ! 21 = major" "ev ! 22 = errata" "ev ! 23 = uintn"
    by (simp_all add: ev nth_append nth_Cons')
  then have f2: "get_at ev 20 = Some minor" "get_at ev 21 = Some major" "get_at ev 22 = Some errata" "get_at ev 23 = Some uintn"
    using len by simp_all
  have "ev ! (28 + 4 * length sizes) = word_of_nat (length vendor)" by (simp add: ev nth_append nth_Cons')
  then have f3: "get_at ev (28 + 4 * length sizes) = Some (word_of_nat (length vendor))" using len by simp
  have f4: "get_range ev (29 + 4 * length sizes) (29 + 4 * length sizes + length vendor) = Some vendor"
  proof -
    let ?pre = "SPEC_ID_EVENT03 @ u32_to_le class @ [minor, major, errata, uintn] @ u32_to_le ?n @
      algorithms_bytes sizes @ [word_of_nat (length vendor)]"
    have "ev = ?pre @ vendor" "length ?pre = 29 + 4 * length sizes" by (simp_all add: ev)
    then have "drop (29 + 4 * length sizes) ev = vendor" by (metis append_eq_conv_conj)
    then show ?thesis using len by (simp add: get_range_def)
  qed
  have f5: "algorithm_pairs (drop 28 ev) (length sizes) = sizes" using algorithm_pairs_bytes by (simp add: ev)
  show ?thesis using assms f1 f2 f3 f4 f5 n len unfolding ev_def [symmetric] header_of_def
    by (simp add: event_log_header_new_def event_of_def try_opt_def ver uadd_def umul_def usize_limit_def
        SIZE_OF_ALGORITHM_DIGEST_SIZE_def mult.commute del: get_at_eq_Some get_range_eq_Some)
qed

section \<open>Version 2: digests\<close>

text \<open>A digest is an algorithm and as many bytes as the header declares for it.\<close>

definition wf_digest :: "algorithm_digest_sizes \<Rightarrow> u16 \<times> bytes \<Rightarrow> bool" where
  "wf_digest sizes d \<longleftrightarrow> length (snd d) < 2 ^ 16 \<and> get_size sizes (fst d) = Some (word_of_nat (length (snd d)))"

definition digest_bytes :: "(u16 \<times> bytes) list \<Rightarrow> bytes" where
  "digest_bytes ds = concat (map (\<lambda>d. u16_to_le (fst d) @ snd d) ds)"

lemma digest_bytes_simps [simp]:
  "digest_bytes [] = []" "digest_bytes (d # ds) = u16_to_le (fst d) @ snd d @ digest_bytes ds"
  by (simp_all add: digest_bytes_def)

lemma digests_loop_bytes:
  assumes "\<forall>d \<in> set ds. wf_digest sizes d" "holds m p (digest_bytes ds)" "acc + length (digest_bytes ds) < usize_limit"
  shows "digests_loop m sizes (length ds) p acc = Some (Some (acc + length (digest_bytes ds)))"
  using assms
proof (induction ds arbitrary: p acc)
  case (Cons d ds)
  have d: "get_size sizes (fst d) = Some (word_of_nat (length (snd d)))" "length (snd d) < 2 ^ 16"
    using Cons.prems(1) by (simp_all add: wf_digest_def)
  have "mem_read m p 2 = u16_to_le (fst d)" using Cons.prems(2) by (simp add: holds_read)
  moreover have "holds m (p + (2 + length (snd d))) (digest_bytes ds)" using Cons.prems(2) by (simp add: add.assoc)
  ultimately show ?case using Cons.IH [of "p + (2 + length (snd d))" "acc + (2 + length (snd d))"] Cons.prems d
    by (simp add: try_opt_def uadd_def unat_of_nat add.assoc)
qed simp

lemma collect_digests:
  assumes "\<forall>d \<in> set ds. wf_digest sizes d" "length (pre @ digest_bytes ds) < usize_limit"
  shows "collect_iter digest_next \<lparr>di_data = pre @ digest_bytes ds, di_sizes = sizes, di_offset = length pre\<rparr> = Some ds"
  using assms
proof (induction ds arbitrary: pre)
  case Nil
  then show ?case by (subst collect_iter.simps) (simp add: digest_next_def get_range_def)
next
  case (Cons d ds)
  obtain a dig where d: "d = (a, dig)" by (cases d)
  have sz: "get_size sizes a = Some (word_of_nat (length dig))" "length dig < 2 ^ 16"
    using Cons.prems(1) by (simp_all add: wf_digest_def d)
  obtain x y where xy: "u16_to_le a = [x, y]" by (simp add: u16_to_le_def numeral_2_eq_2)
  then have a: "u16_from_le [x, y] = a" using u16c.decode_encode [of a] by simp
  let ?it = "\<lambda>off. \<lparr>di_data = pre @ digest_bytes (d # ds), di_sizes = sizes, di_offset = off\<rparr>"
  have "digest_next (?it (length pre)) = Some (Some d, ?it (length pre + (2 + length dig)))"
    using Cons.prems(2) sz a by (simp add: digest_next_def get_range_def d xy uadd_def unat_of_nat)
  moreover have "collect_iter digest_next (?it (length pre + (2 + length dig))) = Some ds"
    using Cons.IH [of "pre @ u16_to_le a @ dig"] Cons.prems by (simp add: d)
  ultimately show ?case by (subst collect_iter.simps) simp
qed

section \<open>Version 2: events\<close>

record event_spec =
  es_index :: u32
  es_type :: u32
  es_digests :: "(u16 \<times> bytes) list"
  es_data :: bytes

definition event_spec_bytes :: "event_spec \<Rightarrow> bytes" where
  "event_spec_bytes e = u32_to_le (es_index e) @ u32_to_le (es_type e) @ u32_to_le (word_of_nat (length (es_digests e))) @
    digest_bytes (es_digests e) @ u32_to_le (word_of_nat (length (es_data e))) @ es_data e"

definition wf_spec :: "algorithm_digest_sizes \<Rightarrow> event_spec \<Rightarrow> bool" where
  "wf_spec sizes e \<longleftrightarrow> (\<forall>d \<in> set (es_digests e). wf_digest sizes d) \<and> length (es_digests e) < 2 ^ 32 \<and>
    length (es_data e) < 2 ^ 32 \<and> length (digest_bytes (es_digests e)) < usize_limit"

definition event_at :: "algorithm_digest_sizes \<Rightarrow> nat \<Rightarrow> event_spec \<Rightarrow> pcr_event_v2" where
  "event_at sizes p e = \<lparr>pcr_index_v2 = es_index e, event_type_v2 = es_type e, digests_data = digest_bytes (es_digests e),
     event_data_v2 = es_data e, next_event = p + length (event_spec_bytes e), event_digest_sizes = sizes\<rparr>"

lemma event_at_digests:
  assumes "wf_spec sizes e"
  shows "collect_iter digest_next (pcr_event_digests (event_at sizes p e)) = Some (es_digests e)"
  using collect_digests [of "es_digests e" sizes "[]"] assms by (simp add: wf_spec_def pcr_event_digests_def event_at_def)

lemma event_v2_from_ptr_holds:
  assumes e: "wf_spec (algorithm_digest_sizes h) e" and m: "holds m p (event_spec_bytes e)"
  shows "pcr_event_v2_from_ptr m p h = Some (Some (event_at (algorithm_digest_sizes h) p e))"
proof -
  let ?ds = "digest_bytes (es_digests e)"
  have reads: "mem_read m p 4 = u32_to_le (es_index e)" "mem_read m (p + 4) 4 = u32_to_le (es_type e)"
    "mem_read m (p + 8) 4 = u32_to_le (word_of_nat (length (es_digests e)))"
    "holds m (p + 12) ?ds" "mem_read m (p + 12 + length ?ds) 4 = u32_to_le (word_of_nat (length (es_data e)))"
    "mem_read m (p + 12 + length ?ds + 4) (length (es_data e)) = es_data e"
    using m by (simp_all add: event_spec_bytes_def holds_read add.assoc)
  have "digests_loop m (algorithm_digest_sizes h) (length (es_digests e)) (p + 12) 0 = Some (Some (length ?ds))"
    using digests_loop_bytes [of "es_digests e" _ m "p + 12" 0] e reads(4) by (simp add: wf_spec_def)
  then show ?thesis using e reads holds_read [OF reads(4) refl]
    by (simp add: pcr_event_v2_from_ptr_def wf_spec_def unat_of_nat try_opt_def event_at_def event_spec_bytes_def)
qed

definition spec_log_bytes :: "event_spec list \<Rightarrow> bytes" where
  "spec_log_bytes es = concat (map event_spec_bytes es)"

text \<open>The values the iterator yields, each knowing where the next event starts.\<close>

fun events_at :: "algorithm_digest_sizes \<Rightarrow> nat \<Rightarrow> event_spec list \<Rightarrow> pcr_event_v2 list" where
  "events_at sizes p [] = []"
| "events_at sizes p (e # es) = event_at sizes p e # events_at sizes (p + length (event_spec_bytes e)) es"

lemma collect_v2:
  assumes "es \<noteq> []" "\<forall>e \<in> set es. wf_spec (algorithm_digest_sizes h) e" "p \<noteq> 0" "holds m p (spec_log_bytes es)"
    and "last_entry l = p + length (spec_log_bytes (butlast es))"
  shows "collect_iter (event_log_v2_next m) \<lparr>iter_log_v2 = l, iter_header_v2 = Some h, iter_location_v2 = p\<rparr> =
    Some (events_at (algorithm_digest_sizes h) p es)"
  using assms
proof (induction es arbitrary: p)
  case (Cons e es)
  have e: "pcr_event_v2_from_ptr m p h = Some (Some (event_at (algorithm_digest_sizes h) p e))"
    using Cons.prems by (simp add: event_v2_from_ptr_holds spec_log_bytes_def)
  have pos: "0 < length (event_spec_bytes e)" by (simp add: event_spec_bytes_def)
  show ?case
  proof (cases "es = []")
    case True
    then have "last_entry l = p" using Cons.prems by (simp add: spec_log_bytes_def)
    then show ?thesis using e Cons.prems True
      by (subst collect_iter.simps, simp add: event_log_v2_next_def) (subst collect_iter.simps, simp add: event_log_v2_next_def)
  next
    case False
    let ?p = "p + length (event_spec_bytes e)"
    have last: "last_entry l = ?p + length (spec_log_bytes (butlast es))" "last_entry l \<noteq> p" "last_entry l \<noteq> 0"
      using Cons.prems False pos by (simp_all add: spec_log_bytes_def)
    have "holds m ?p (spec_log_bytes es)" using Cons.prems by (simp add: spec_log_bytes_def)
    then have "collect_iter (event_log_v2_next m) \<lparr>iter_log_v2 = l, iter_header_v2 = Some h, iter_location_v2 = ?p\<rparr> =
        Some (events_at (algorithm_digest_sizes h) ?p es)"
      using Cons.IH [of ?p] Cons.prems False last by simp
    moreover have "next_event (event_at (algorithm_digest_sizes h) p e) = ?p" by (simp add: event_at_def)
    ultimately show ?thesis using e Cons.prems last by (subst collect_iter.simps) (simp add: event_log_v2_next_def)
  qed
qed simp

section \<open>Version 2: event inputs\<close>

definition inputs_of :: "u32 \<Rightarrow> u32 \<Rightarrow> bytes \<Rightarrow> pcr_event_inputs" where
  "inputs_of idx ty dat = \<lparr>inputs_size = word_of_nat (18 + length dat),
     inputs_header = \<lparr>header_size = 14, header_version = 1, header_pcr_index = idx, header_event_type = ty\<rparr>,
     inputs_event = dat\<rparr>"

lemma length_event_header_bytes [simp]: "length (event_header_bytes h) = 14"
  by (simp add: event_header_bytes_def)

lemma inputs_new_in_buffer:
  assumes "length dat < usize_limit - 18"
  shows "pcr_event_inputs_new_in_buffer buffer idx ty dat =
    (if length buffer < 18 + length dat then Some (Err \<lparr>err_status = BUFFER_TOO_SMALL, err_data = Some (18 + length dat)\<rparr>, buffer)
     else if 2 ^ 32 \<le> 18 + length dat then Some (Err \<lparr>err_status = INVALID_PARAMETER, err_data = None\<rparr>, buffer)
     else Some (Ok (inputs_of idx ty dat),
       u32_to_le (word_of_nat (18 + length dat)) @ event_header_bytes (inputs_header (inputs_of idx ty dat)) @ dat @
       drop (18 + length dat) buffer))"
proof -
  let ?sz = "u32_to_le (word_of_nat (18 + length dat))"
  let ?h = "event_header_bytes (inputs_header (inputs_of idx ty dat))"
  define p1 where "p1 = ptr_write_unaligned_and_add (buffer, 0) ?sz"
  define p2 where "p2 = ptr_write_unaligned_and_add p1 ?h"
  have p2: "p2 = ((?sz @ ?h) @ drop 18 buffer, 18)"
    unfolding p2_def p1_def ptr_write_first by (subst ptr_write_append) simp_all
  have buf: "overwrite (fst p2) (snd p2) dat = ?sz @ ?h @ dat @ drop (18 + length dat) buffer"
    using overwrite_append [of "?sz @ ?h" "drop 18 buffer" dat] by (simp add: p2 add.commute)
  have "pcr_event_inputs_of (?sz @ ?h @ dat @ r) (length dat) = inputs_of idx ty dat" for r
    by (simp add: pcr_event_inputs_of_def inputs_of_def event_header_bytes_def read_field_def)
  moreover have "event_header_bytes \<lparr>header_size = word_of_nat SIZE_OF_EVENT_HEADER, header_version = 1,
      header_pcr_index = idx, header_event_type = ty\<rparr> = ?h"
    by (simp add: inputs_of_def SIZE_OF_EVENT_HEADER_def)
  ultimately show ?thesis using assms buf unfolding p2_def p1_def
    by (simp add: pcr_event_inputs_new_in_buffer_def uadd_def Let_def error_new_def status_success_neq SIZE_OF_EVENT_HEADER_def)
qed

section \<open>Version 2: the iterator on a whole log\<close>

lemma collected_events:
  assumes "length sizes < 2 ^ 32" "length vendor < 256" "length (header_data class ver uintn sizes vendor) < 2 ^ 32"
    and "\<forall>e \<in> set es. wf_spec sizes e" "log_location l \<noteq> 0"
    and "hdr = event_of 0 NO_ACTION (replicate 20 0) (header_data class ver uintn sizes vendor)"
    and "holds m (log_location l) (pcr_event_bytes hdr @ spec_log_bytes es)"
    and "last_entry l = (if es = [] then 0 else log_location l + length (pcr_event_bytes hdr @ spec_log_bytes (butlast es)))"
  shows "\<exists>it evs. event_log_v2_iter m l = Some it \<and> collect_iter (event_log_v2_next m) it = Some evs \<and>
    map (\<lambda>e. (pcr_index_v2 e, event_type_v2 e, event_data_v2 e, collect_iter digest_next (pcr_event_digests e))) evs =
    map (\<lambda>s. (es_index s, es_type s, es_data s, Some (es_digests s))) es"
proof -
  let ?h = "header_of class ver uintn sizes vendor"
  have wf: "wf_event hdr" using assms(3,6) by (simp add: wf_event_of)
  have len: "length (pcr_event_bytes hdr) = header_size_in_bytes ?h"
    using length_pcr_event_bytes [OF wf] by (simp add: size_of_pcr_event_def header_of_def assms(6) event_of_def)
  have "pcr_event_from_ptr m (log_location l) = Some hdr" using pcr_event_from_ptr_holds [OF wf] assms(7) by simp
  then have h: "event_log_v2_header m l = Some (Some ?h)"
    using header_new_of [OF assms(1,2)] assms(5,6) by (simp add: event_log_v2_header_def)
  let ?p = "log_location l + header_size_in_bytes ?h"
  let ?it = "\<lparr>iter_log_v2 = l, iter_header_v2 = Some ?h, iter_location_v2 = ?p\<rparr>"
  have sizes: "algorithm_digest_sizes ?h = sizes" by (simp add: header_of_def)
  have "collect_iter (event_log_v2_next m) ?it = Some (events_at sizes ?p es)"
  proof (cases "es = []")
    case True
    then show ?thesis using assms(8) by (subst collect_iter.simps) (simp add: event_log_v2_next_def)
  next
    case False
    then show ?thesis using collect_v2 [OF False, of ?h ?p m l] assms(4,5,7,8) len sizes by (simp add: add.assoc)
  qed
  moreover have "map (\<lambda>e. (pcr_index_v2 e, event_type_v2 e, event_data_v2 e, collect_iter digest_next (pcr_event_digests e)))
      (events_at sizes p es) = map (\<lambda>s. (es_index s, es_type s, es_data s, Some (es_digests s))) es" for p
    using assms(4) by (induction es arbitrary: p) (simp_all add: event_at_digests, simp add: event_at_def)
  ultimately show ?thesis using h by (simp add: event_log_v2_iter_def)
qed

section \<open>Properties\<close>

text \<open>C38: Creating a version 1 event in a buffer distinguishes exactly three cases: event data that does
  not fit a 32-bit size is refused, a buffer that is too small is reported with the size that is needed,
  and otherwise the event has the given fields, the rest of the buffer is untouched, and reading an event
  from a pointer to the buffer gives the same event.\<close>

theorem pcr_event_new_roundtrip:
  assumes "length dig = 20"
  shows "pcr_event_new_in_buffer buffer idx ty dig dat =
    (if 2 ^ 32 \<le> length dat then Some (Err \<lparr>err_status = INVALID_PARAMETER, err_data = None\<rparr>, buffer)
     else if length buffer < 32 + length dat then Some (Err \<lparr>err_status = BUFFER_TOO_SMALL, err_data = Some (32 + length dat)\<rparr>, buffer)
     else Some (Ok (event_of idx ty dig dat), pcr_event_bytes (event_of idx ty dig dat) @ drop (32 + length dat) buffer)) \<and>
    (length dat < 2 ^ 32 \<longrightarrow> holds m p (pcr_event_bytes (event_of idx ty dig dat)) \<longrightarrow>
      pcr_event_from_ptr m p = Some (event_of idx ty dig dat))"
proof (intro conjI impI)
  consider "2 ^ 32 \<le> length dat" | "length dat < 2 ^ 32" "length buffer < 32 + length dat"
    | "length dat < 2 ^ 32" "32 + length dat \<le> length buffer" by linarith
  then show "pcr_event_new_in_buffer buffer idx ty dig dat =
    (if 2 ^ 32 \<le> length dat then Some (Err \<lparr>err_status = INVALID_PARAMETER, err_data = None\<rparr>, buffer)
     else if length buffer < 32 + length dat then Some (Err \<lparr>err_status = BUFFER_TOO_SMALL, err_data = Some (32 + length dat)\<rparr>, buffer)
     else Some (Ok (event_of idx ty dig dat), pcr_event_bytes (event_of idx ty dig dat) @ drop (32 + length dat) buffer))"
  proof cases
    case 3
    then show ?thesis using new_in_buffer_ok [OF assms] by simp
  qed (simp_all add: pcr_event_new_in_buffer_def error_new_def status_success_neq uadd_def usize_limit_def)
next
  assume "length dat < 2 ^ 32" "holds m p (pcr_event_bytes (event_of idx ty dig dat))"
  then show "pcr_event_from_ptr m p = Some (event_of idx ty dig dat)"
    using wf_event_of [OF assms] by (simp add: pcr_event_from_ptr_holds)
qed

theorem pcr_event_new_roundtrip_witness:
  "pcr_event_new_in_buffer (replicate 33 0) 8 5 (replicate 20 1) [7, 7] =
    Some (Err \<lparr>err_status = BUFFER_TOO_SMALL, err_data = Some 34\<rparr>, replicate 33 0)"
  using pcr_event_new_roundtrip [of "replicate 20 1" "replicate 33 0" 8 5 "[7, 7]"] by simp

text \<open>C37: On a version 1 log whose events lie back to back from the location to the last entry, the
  iterator ends and yields exactly these events; a log without entries, whose last entry is the null pointer, yields
  nothing.\<close>

theorem event_log_v1_events:
  assumes "\<forall>e \<in> set es. wf_event e" "log_location l \<noteq> 0" "holds m (log_location l) (log_bytes es)"
    and "last_entry l = (if es = [] then 0 else log_location l + length (log_bytes (butlast es)))"
  shows "collect_iter (event_log_v1_next m) (event_log_v1_iter l) = Some es"
proof (cases "es = []")
  case True
  then show ?thesis using assms(4) by (subst collect_iter.simps) (simp add: event_log_v1_next_def event_log_v1_iter_def)
next
  case False
  then show ?thesis using collect_v1 [OF False assms(1-3), of l] assms(4) by (simp add: event_log_v1_iter_def)
qed

theorem event_log_v1_events_witness:
  "\<exists>m l. collect_iter (event_log_v1_next m) (event_log_v1_iter l) =
    Some [event_of 0 4 (replicate 20 1) [1, 2, 3], event_of 7 5 (replicate 20 2) []]"
proof -
  let ?es = "[event_of 0 4 (replicate 20 1) [1, 2, 3], event_of 7 5 (replicate 20 2) []]"
  let ?l = "\<lparr>log_location = 100, last_entry = 135, is_truncated = False\<rparr>"
  have "\<forall>e \<in> set ?es. wf_event e" by (simp add: wf_event_of)
  moreover have "length (log_bytes (butlast ?es)) = 35" by (simp add: log_bytes_def pcr_event_bytes_def event_of_def)
  ultimately have "collect_iter (event_log_v1_next (mem_write (\<lambda>_. 0) 100 (log_bytes ?es))) (event_log_v1_iter ?l) = Some ?es"
    using event_log_v1_events [of ?es ?l "mem_write (\<lambda>_. 0) 100 (log_bytes ?es)"] holds_write [of "\<lambda>_. 0" 100 "log_bytes ?es"] by simp
  then show ?thesis by blast
qed

text \<open>C21: On a version 2 log that starts with a header event and continues with events whose digests have the
  sizes that the header declares, the iterator ends and yields exactly the events behind the
  header, and the digest iterator of every event ends and yields exactly its digests.\<close>

theorem event_log_v2_events:
  assumes "length sizes < 2 ^ 32" "length vendor < 256" "length (header_data class ver uintn sizes vendor) < 2 ^ 32"
    and "\<forall>e \<in> set es. wf_spec sizes e" "log_location l \<noteq> 0"
    and "hdr = event_of 0 NO_ACTION (replicate 20 0) (header_data class ver uintn sizes vendor)"
    and "holds m (log_location l) (pcr_event_bytes hdr @ spec_log_bytes es)"
    and "last_entry l = (if es = [] then 0 else log_location l + length (pcr_event_bytes hdr @ spec_log_bytes (butlast es)))"
  shows "\<exists>it evs. event_log_v2_iter m l = Some it \<and> collect_iter (event_log_v2_next m) it = Some evs \<and>
    map (\<lambda>e. (pcr_index_v2 e, event_type_v2 e, event_data_v2 e, collect_iter digest_next (pcr_event_digests e))) evs =
    map (\<lambda>s. (es_index s, es_type s, es_data s, Some (es_digests s))) es"
  using collected_events [OF assms] by simp

theorem event_log_v2_events_witness:
  "\<exists>m l it evs. event_log_v2_iter m l = Some it \<and> collect_iter (event_log_v2_next m) it = Some evs \<and>
    map (\<lambda>e. collect_iter digest_next (pcr_event_digests e)) evs = [Some [(4, replicate 20 1), (11, replicate 32 2)], Some []]"
proof -
  let ?sizes = "[(4, 20), (11, 32)] :: algorithm_digest_sizes"
  let ?data = "header_data 0 (2, 0, 2) 2 ?sizes [1]"
  let ?hdr = "event_of 0 NO_ACTION (replicate 20 0) ?data"
  let ?es = "[\<lparr>es_index = 8, es_type = 4, es_digests = [(4, replicate 20 1), (11, replicate 32 2)], es_data = [9]\<rparr>,
    \<lparr>es_index = 9, es_type = 5, es_digests = [], es_data = []\<rparr>]"
  let ?bytes = "pcr_event_bytes ?hdr @ spec_log_bytes ?es"
  let ?l = "\<lparr>log_location = 100, last_entry = 100 + length (pcr_event_bytes ?hdr @ spec_log_bytes (butlast ?es)), is_truncated = False\<rparr>"
  let ?m = "mem_write (\<lambda>_. 0) 100 ?bytes"
  have "length ?data < 2 ^ 32" by (simp add: header_data_def)
  moreover have "\<forall>e \<in> set ?es. wf_spec ?sizes e" by (simp add: wf_spec_def wf_digest_def usize_limit_def)
  moreover have "holds ?m (log_location ?l) ?bytes" unfolding event_log.simps by (rule holds_write)
  ultimately obtain it evs where r: "event_log_v2_iter ?m ?l = Some it" "collect_iter (event_log_v2_next ?m) it = Some evs"
    "map (\<lambda>e. (pcr_index_v2 e, event_type_v2 e, event_data_v2 e, collect_iter digest_next (pcr_event_digests e))) evs =
    map (\<lambda>s. (es_index s, es_type s, es_data s, Some (es_digests s))) ?es"
    using event_log_v2_events [of ?sizes "[1]" 0 "(2, 0, 2)" 2 ?es ?l ?hdr ?m] by auto
  have "map (\<lambda>e. collect_iter digest_next (pcr_event_digests e)) evs = [Some [(4, replicate 20 1), (11, replicate 32 2)], Some []]"
    using arg_cong [OF r(3), of "map (\<lambda>(_, _, _, d). d)"] by (simp add: comp_def)
  with r(1,2) show ?thesis by (intro exI conjI)
qed

end
