(* ===== verification/Boot_Images.thy ===== *)
theory Boot_Images
  imports Allocator
begin

text \<open>
  The boot services around protocols, drivers and images in \<open>uefi/src/boot.rs\<close>. A device path that is only passed to
  the firmware is its address. \<open>get_image_file_system\<close> opens three protocols in turn; the
  guards that go out of scope on each of its paths are closed in reverse order, as Rust drops them.
\<close>

section \<open>Drivers and protocol interfaces\<close>

definition connect_controller ::
  "nat \<Rightarrow> nat option \<Rightarrow> nat option \<Rightarrow> bool \<Rightarrow> 'fw world \<Rightarrow> (unit uefi_result \<times> 'fw world) option" where
  "connect_controller controller driver_image remaining_device_path recursive w = do {
     st \<leftarrow> boot_services_raw_panicking w;
     let (s, f) = is_connect_controller (fw_img st) (fw_state w) controller (opt_to_ptr driver_image)
       (case remaining_device_path of Some dp \<Rightarrow> dp | None \<Rightarrow> 0) recursive;
     r \<leftarrow> to_result_with_err s (\<lambda>_. ());
     Some (r, w\<lparr>fw_state := f\<rparr>)
   }"

definition disconnect_controller ::
  "nat \<Rightarrow> nat option \<Rightarrow> nat option \<Rightarrow> 'fw world \<Rightarrow> (unit uefi_result \<times> 'fw world) option" where
  "disconnect_controller controller driver_image child w = do {
     st \<leftarrow> boot_services_raw_panicking w;
     let (s, f) = is_disconnect_controller (fw_img st) (fw_state w) controller (opt_to_ptr driver_image) (opt_to_ptr child);
     r \<leftarrow> to_result_with_err s (\<lambda>_. ());
     Some (r, w\<lparr>fw_state := f\<rparr>)
   }"

definition NATIVE_INTERFACE :: nat where "NATIVE_INTERFACE = 0"

definition install_protocol_interface ::
  "nat option \<Rightarrow> nat \<Rightarrow> nat \<Rightarrow> 'fw world \<Rightarrow> (nat uefi_result \<times> 'fw world) option" where
  "install_protocol_interface h protocol interface w = do {
     st \<leftarrow> boot_services_raw_panicking w;
     let ((s, handle), f) = is_install_protocol_interface (fw_img st) (fw_state w) (opt_to_ptr h) protocol NATIVE_INTERFACE interface;
     r \<leftarrow> to_result_with_val s (handle_from_ptr handle);
     Some (r, w\<lparr>fw_state := f\<rparr>)
   }"

definition reinstall_protocol_interface ::
  "nat \<Rightarrow> nat \<Rightarrow> nat \<Rightarrow> nat \<Rightarrow> 'fw world \<Rightarrow> (unit uefi_result \<times> 'fw world) option" where
  "reinstall_protocol_interface handle protocol old_interface new_interface w = do {
     st \<leftarrow> boot_services_raw_panicking w;
     let (s, f) = is_reinstall_protocol_interface (fw_img st) (fw_state w) handle protocol old_interface new_interface;
     r \<leftarrow> to_result s;
     Some (r, w\<lparr>fw_state := f\<rparr>)
   }"

definition uninstall_protocol_interface :: "nat \<Rightarrow> nat \<Rightarrow> nat \<Rightarrow> 'fw world \<Rightarrow> (unit uefi_result \<times> 'fw world) option" where
  "uninstall_protocol_interface handle protocol interface w = do {
     st \<leftarrow> boot_services_raw_panicking w;
     let (s, f) = is_uninstall_protocol_interface (fw_img st) (fw_state w) handle protocol interface;
     r \<leftarrow> to_result s;
     Some (r, w\<lparr>fw_state := f\<rparr>)
   }"

definition register_protocol_notify :: "nat \<Rightarrow> nat \<Rightarrow> 'fw world \<Rightarrow> (search_type uefi_result \<times> 'fw world) option" where
  "register_protocol_notify protocol event w = do {
     st \<leftarrow> boot_services_raw_panicking w;
     let ((s, key), f) = is_register_protocol_notify (fw_img st) (fw_state w) protocol event;
     r \<leftarrow> to_result_with_val s (do { require (key \<noteq> 0); Some (ByRegisterNotify key) });
     Some (r, w\<lparr>fw_state := f\<rparr>)
   }"

record protocols_buffer =
  pb_protocols :: nat
  pb_count :: usize

definition protocols_per_handle :: "nat \<Rightarrow> 'fw world \<Rightarrow> (protocols_buffer uefi_result \<times> 'fw world) option" where
  "protocols_per_handle handle w = do {
     st \<leftarrow> boot_services_raw_panicking w;
     let ((s, protocols, n), f) = is_protocols_per_handle (fw_img st) (fw_state w) handle;
     r \<leftarrow> to_result_with_val s (do { require (protocols \<noteq> 0); Some \<lparr>pb_protocols = protocols, pb_count = n\<rparr> });
     Some (r, w\<lparr>fw_state := f\<rparr>)
   }"

definition protocols_buffer_drop :: "protocols_buffer \<Rightarrow> 'fw world \<Rightarrow> 'fw world option" where
  "protocols_buffer_drop pb w = do {
     (_, w') \<leftarrow> free_pool (pb_protocols pb) w;
     Some w'
   }"

definition protocols_buffer_deref :: "protocols_buffer \<Rightarrow> 'fw world \<Rightarrow> nat list option" where
  "protocols_buffer_deref pb w = do {
     st \<leftarrow> system_table w;
     Some (map (is_guid_at (fw_img st) (fw_state w) (pb_protocols pb)) [0..<pb_count pb])
   }"

text \<open>On success the caller's device path reference is moved to the part that the firmware left over.\<close>

definition locate_device_path :: "nat \<Rightarrow> nat \<Rightarrow> 'fw world \<Rightarrow> ((nat uefi_result \<times> nat) \<times> 'fw world) option" where
  "locate_device_path guid device_path w = do {
     st \<leftarrow> boot_services_raw_panicking w;
     let ((s, device_path_ptr, handle), f) = is_locate_device_path (fw_img st) (fw_state w) guid device_path;
     r \<leftarrow> to_result_with_val s (handle_from_ptr handle);
     Some ((r, if s = SUCCESS then device_path_ptr else device_path), w\<lparr>fw_state := f\<rparr>)
   }"

definition install_configuration_table :: "nat \<Rightarrow> nat \<Rightarrow> 'fw world \<Rightarrow> (unit uefi_result \<times> 'fw world) option" where
  "install_configuration_table guid_entry table_ptr w = do {
     st \<leftarrow> boot_services_raw_panicking w;
     let (s, f) = is_install_configuration_table (fw_img st) (fw_state w) guid_entry table_ptr;
     r \<leftarrow> to_result s;
     Some (r, w\<lparr>fw_state := f\<rparr>)
   }"

section \<open>Images\<close>

datatype boot_policy = BootSelection | ExactMatch

fun boot_policy_boolean :: "boot_policy \<Rightarrow> bool" where
  "boot_policy_boolean BootSelection = True"
| "boot_policy_boolean ExactMatch = False"

text \<open>A buffer is an address and a length.\<close>

datatype load_image_source =
  FromBuffer "nat \<times> usize" "nat option"
| FromDevicePath nat boot_policy

fun to_ffi_params :: "load_image_source \<Rightarrow> boot_policy \<times> nat \<times> nat \<times> usize" where
  "to_ffi_params (FromBuffer buf file_path) =
    (ExactMatch, (case file_path of Some p \<Rightarrow> p | None \<Rightarrow> 0), fst buf, snd buf)"
| "to_ffi_params (FromDevicePath d_path b_policy) = (b_policy, d_path, 0, 0)"

definition load_image :: "nat \<Rightarrow> load_image_source \<Rightarrow> 'fw world \<Rightarrow> (nat uefi_result \<times> 'fw world) option" where
  "load_image parent_image_handle source w = do {
     st \<leftarrow> boot_services_raw_panicking w;
     let (policy, device_path, source_buffer, source_size) = to_ffi_params source;
     let ((s, handle), f) = is_load_image (fw_img st) (fw_state w) (boot_policy_boolean policy) parent_image_handle
       device_path source_buffer source_size;
     r \<leftarrow> to_result_with_val s (handle_from_ptr handle);
     Some (r, w\<lparr>fw_state := f\<rparr>)
   }"

definition unload_image :: "nat \<Rightarrow> 'fw world \<Rightarrow> (unit uefi_result \<times> 'fw world) option" where
  "unload_image handle w = do {
     st \<leftarrow> boot_services_raw_panicking w;
     let (s, f) = is_unload_image (fw_img st) (fw_state w) handle;
     r \<leftarrow> to_result s;
     Some (r, w\<lparr>fw_state := f\<rparr>)
   }"

definition start_image :: "nat \<Rightarrow> 'fw world \<Rightarrow> (unit uefi_result \<times> 'fw world) option" where
  "start_image handle w = do {
     st \<leftarrow> boot_services_raw_panicking w;
     let ((s, exit_data_size, exit_data), f) = is_start_image (fw_img st) (fw_state w) handle;
     r \<leftarrow> to_result s;
     Some (r, w\<lparr>fw_state := f\<rparr>)
   }"

section \<open>The file system of an image\<close>

definition DEVICE_PATH_GUID :: nat where
  "DEVICE_PATH_GUID = 0x09576e916d3f11d28e3900a0c969723b"

definition SIMPLE_FILE_SYSTEM_GUID :: nat where
  "SIMPLE_FILE_SYSTEM_GUID = 0x964e5b22645911d28e3900a0c969723b"

definition loaded_image_device :: "nat \<Rightarrow> 'fw world \<Rightarrow> nat option option" where
  "loaded_image_device interface w = do {
     st \<leftarrow> system_table w;
     Some (handle_from_ptr (is_loaded_image_device (fw_img st) (fw_state w) interface))
   }"

definition with_device_path :: "scoped_protocol \<Rightarrow> 'fw world \<Rightarrow> (scoped_protocol uefi_result \<times> 'fw world) option" where
  "with_device_path device_path w = do {
     dp \<leftarrow> scoped_protocol_deref device_path;
     ((r, _), w1) \<leftarrow> locate_device_path SIMPLE_FILE_SYSTEM_GUID dp w;
     (res, w2) \<leftarrow> (case r of
       Err e \<Rightarrow> Some (Err e, w1)
     | Ok device_handle \<Rightarrow> open_protocol_exclusive SIMPLE_FILE_SYSTEM_GUID device_handle w1);
     w3 \<leftarrow> scoped_protocol_drop device_path w2;
     Some (res, w3)
   }"

definition with_loaded_image :: "scoped_protocol \<Rightarrow> 'fw world \<Rightarrow> (scoped_protocol uefi_result \<times> 'fw world) option" where
  "with_loaded_image loaded_image w = do {
     li \<leftarrow> scoped_protocol_deref loaded_image;
     device \<leftarrow> loaded_image_device li w;
     (res, w2) \<leftarrow> (case device of
       None \<Rightarrow> do { e \<leftarrow> error_new UNSUPPORTED (); Some (Err e, w) }
     | Some device_handle \<Rightarrow> do {
         (r, w1) \<leftarrow> open_protocol_exclusive DEVICE_PATH_GUID device_handle w;
         case r of
           Err e \<Rightarrow> Some (Err e, w1)
         | Ok device_path \<Rightarrow> with_device_path device_path w1
       });
     w3 \<leftarrow> scoped_protocol_drop loaded_image w2;
     Some (res, w3)
   }"

definition get_image_file_system :: "nat \<Rightarrow> 'fw world \<Rightarrow> (scoped_protocol uefi_result \<times> 'fw world) option" where
  "get_image_file_system handle w = do {
     (r, w1) \<leftarrow> open_protocol_exclusive LOADED_IMAGE_GUID handle w;
     case r of
       Err e \<Rightarrow> Some (Err e, w1)
     | Ok loaded_image \<Rightarrow> with_loaded_image loaded_image w1
   }"

section \<open>The documented behaviour of the firmware\<close>

text \<open>\<open>opened\<close> counts the open protocols by handle, protocol, agent and controller. Opening with another attribute than the
  test of presence adds one and returns an interface; closing an open protocol succeeds and removes it.\<close>

type_synonym open_key = "nat \<times> nat \<times> nat \<times> nat"

definition open_contract :: "'fw firmware \<Rightarrow> ('fw \<Rightarrow> open_key multiset) \<Rightarrow> bool" where
  "open_contract st opened \<longleftrightarrow>
    (\<forall>s h g a c t r i s'. t \<noteq> 0x04 \<longrightarrow> ps_open_protocol (fw_proto st) s h g a c t = ((r, i), s') \<longrightarrow>
       fw_boot_services_null st s' = fw_boot_services_null st s \<and>
       (if r = SUCCESS then i \<noteq> 0 \<and> opened s' = add_mset (h, g, a, c) (opened s) else opened s' = opened s)) \<and>
    (\<forall>s h g a c r s'. ps_close_protocol (fw_proto st) s h g a c = (r, s') \<longrightarrow>
       fw_boot_services_null st s' = fw_boot_services_null st s \<and>
       ((h, g, a, c) \<in># opened s \<longrightarrow> r = SUCCESS \<and> opened s' = opened s - {#(h, g, a, c)#})) \<and>
    (\<forall>s g d r d' h s'. is_locate_device_path (fw_img st) s g d = ((r, d', h), s') \<longrightarrow>
       fw_boot_services_null st s' = fw_boot_services_null st s \<and> opened s' = opened s \<and> (r = SUCCESS \<longrightarrow> h \<noteq> 0))"

definition open_key_of :: "scoped_protocol \<Rightarrow> open_key" where
  "open_key_of sp = (op_handle (sp_open_params sp), sp_guid sp, op_agent (sp_open_params sp),
     opt_to_ptr (op_controller (sp_open_params sp)))"

definition alive :: "'fw firmware \<Rightarrow> 'fw world \<Rightarrow> bool" where
  "alive st w \<longleftrightarrow> system_table w = Some st \<and> \<not> fw_boot_services_null st (fw_state w) \<and> image_handle_ptr w \<noteq> 0"

section \<open>Lemmas\<close>

lemma alive_raw: "alive st w \<Longrightarrow> boot_services_raw_panicking w = Some st"
  by (simp add: alive_def boot_services_raw_panicking_def)

lemma alive_step:
  "alive st w \<Longrightarrow> fw_boot_services_null st f = fw_boot_services_null st (fw_state w) \<Longrightarrow> alive st (w\<lparr>fw_state := f\<rparr>)"
  by (simp add: alive_def)

lemma open_contract_open:
  assumes "open_contract st opened" "ps_open_protocol (fw_proto st) s h g a c 0x20 = ((r, i), s')"
  shows "fw_boot_services_null st s' = fw_boot_services_null st s"
    and "r = SUCCESS \<Longrightarrow> i \<noteq> 0 \<and> opened s' = add_mset (h, g, a, c) (opened s)"
    and "r \<noteq> SUCCESS \<Longrightarrow> opened s' = opened s"
proof -
  have "(0x20 :: u32) \<noteq> 0x04" by simp
  from assms(1) [unfolded open_contract_def, THEN conjunct1, rule_format, OF this assms(2)]
  show "fw_boot_services_null st s' = fw_boot_services_null st s"
    "r = SUCCESS \<Longrightarrow> i \<noteq> 0 \<and> opened s' = add_mset (h, g, a, c) (opened s)"
    "r \<noteq> SUCCESS \<Longrightarrow> opened s' = opened s" by auto
qed

lemma open_contract_close:
  assumes "open_contract st opened" "ps_close_protocol (fw_proto st) s h g a c = (r, s')"
  shows "fw_boot_services_null st s' = fw_boot_services_null st s \<and>
    ((h, g, a, c) \<in># opened s \<longrightarrow> r = SUCCESS \<and> opened s' = opened s - {#(h, g, a, c)#})"
  using assms unfolding open_contract_def by blast

lemma open_contract_locate:
  assumes "open_contract st opened" "is_locate_device_path (fw_img st) s g d = ((r, d', h), s')"
  shows "fw_boot_services_null st s' = fw_boot_services_null st s \<and> opened s' = opened s \<and> (r = SUCCESS \<longrightarrow> h \<noteq> 0)"
  using assms unfolding open_contract_def by blast

text \<open>Each operation returns; what it leaves open is stated for both results.\<close>

lemma open_exclusive_cases:
  assumes c: "open_contract st opened" and a: "alive st w"
  shows "\<exists>r w'. open_protocol_exclusive g h w = Some (r, w') \<and> alive st w' \<and>
    (case r of
       Ok sp \<Rightarrow> sp_interface sp \<noteq> None \<and> sp_guid sp = g \<and> opened (fw_state w') = add_mset (open_key_of sp) (opened (fw_state w))
     | Err _ \<Rightarrow> opened (fw_state w') = opened (fw_state w))"
proof -
  obtain r i f where call: "ps_open_protocol (fw_proto st) (fw_state w) h g (image_handle_ptr w) 0 0x20 = ((r, i), f)"
    by (metis surj_pair)
  note C = open_contract_open [OF c call]
  have raw: "boot_services_raw_panicking w = Some st" "image_handle w = Some (image_handle_ptr w)"
    using a alive_raw by (simp_all add: image_handle_def alive_def)
  show ?thesis
  proof (cases "r = SUCCESS")
    case True
    then show ?thesis using C(2) raw call alive_step [OF a C(1)]
      by (auto simp: open_protocol_exclusive_def open_protocol_def opt_to_ptr_def open_key_of_def)
  next
    case False
    then show ?thesis using C(3) raw call alive_step [OF a C(1)]
      by (auto simp: open_protocol_exclusive_def open_protocol_def opt_to_ptr_def)
  qed
qed

lemma drop_cases:
  assumes c: "open_contract st opened" and a: "alive st w" and k: "open_key_of sp \<in># opened (fw_state w)"
  shows "\<exists>w'. scoped_protocol_drop sp w = Some w' \<and> alive st w' \<and>
    opened (fw_state w') = opened (fw_state w) - {#open_key_of sp#}"
proof -
  obtain r f where call: "ps_close_protocol (fw_proto st) (fw_state w) (op_handle (sp_open_params sp)) (sp_guid sp)
      (op_agent (sp_open_params sp)) (opt_to_ptr (op_controller (sp_open_params sp))) = (r, f)" by (metis surj_pair)
  note C = open_contract_close [OF c call]
  then have "r = SUCCESS" "opened f = opened (fw_state w) - {#open_key_of sp#}" using k by (simp_all add: open_key_of_def)
  then show ?thesis using alive_raw [OF a] call alive_step [OF a] C by (simp add: scoped_protocol_drop_def)
qed

lemma locate_cases:
  assumes c: "open_contract st opened" and a: "alive st w"
  shows "\<exists>r d w'. locate_device_path g dp w = Some ((r, d), w') \<and> alive st w' \<and> opened (fw_state w') = opened (fw_state w)"
proof -
  obtain r d h f where call: "is_locate_device_path (fw_img st) (fw_state w) g dp = ((r, d, h), f)" by (metis surj_pair)
  note C = open_contract_locate [OF c call]
  show ?thesis using alive_raw [OF a] call alive_step [OF a] C
    by (cases "r = SUCCESS") (simp_all add: locate_device_path_def handle_from_ptr_def)
qed

text \<open>A function that owns the guard \<open>sp\<close> closes it and leaves open at most its result.\<close>

definition consumes :: "'fw firmware \<Rightarrow> ('fw \<Rightarrow> open_key multiset) \<Rightarrow> scoped_protocol \<Rightarrow> 'fw world \<Rightarrow>
    (scoped_protocol uefi_result \<times> 'fw world) option \<Rightarrow> bool" where
  "consumes st opened sp w res \<longleftrightarrow>
    (\<exists>r w'. res = Some (r, w') \<and> alive st w' \<and>
      (case r of
         Ok sp' \<Rightarrow> opened (fw_state w') = add_mset (open_key_of sp') (opened (fw_state w) - {#open_key_of sp#}) \<and>
           sp_interface sp' \<noteq> None \<and> sp_guid sp' = SIMPLE_FILE_SYSTEM_GUID
       | Err _ \<Rightarrow> opened (fw_state w') = opened (fw_state w) - {#open_key_of sp#}))"

lemma with_device_path_consumes:
  assumes c: "open_contract st opened" and a: "alive st w"
    and k: "open_key_of sp \<in># opened (fw_state w)" "sp_interface sp \<noteq> None"
  shows "consumes st opened sp w (with_device_path sp w)"
proof -
  obtain dp where dp: "scoped_protocol_deref sp = Some dp" using k(2) by (auto simp: scoped_protocol_deref_def)
  obtain r d w1 where loc: "locate_device_path SIMPLE_FILE_SYSTEM_GUID dp w = Some ((r, d), w1)" "alive st w1"
    "opened (fw_state w1) = opened (fw_state w)" using locate_cases [OF c a] by blast
  show ?thesis
  proof (cases r)
    case (Err e)
    obtain w2 where "scoped_protocol_drop sp w1 = Some w2" "alive st w2" "opened (fw_state w2) = opened (fw_state w1) - {#open_key_of sp#}"
      using drop_cases [OF c loc(2)] k(1) loc(3) by auto
    then show ?thesis using dp loc Err by (simp add: consumes_def with_device_path_def)
  next
    case (Ok h)
    obtain r2 w2 where op: "open_protocol_exclusive SIMPLE_FILE_SYSTEM_GUID h w1 = Some (r2, w2)" "alive st w2"
      "case r2 of
         Ok sp \<Rightarrow> sp_interface sp \<noteq> None \<and> sp_guid sp = SIMPLE_FILE_SYSTEM_GUID \<and>
           opened (fw_state w2) = add_mset (open_key_of sp) (opened (fw_state w1))
       | Err _ \<Rightarrow> opened (fw_state w2) = opened (fw_state w1)" using open_exclusive_cases [OF c loc(2)] by blast
    have "open_key_of sp \<in># opened (fw_state w2)" using op(3) k(1) loc(3) by (cases r2) simp_all
    then obtain w3 where "scoped_protocol_drop sp w2 = Some w3" "alive st w3" "opened (fw_state w3) = opened (fw_state w2) - {#open_key_of sp#}"
      using drop_cases [OF c op(2)] by blast
    then show ?thesis using dp loc op Ok k(1)
      by (cases r2) (auto simp: consumes_def with_device_path_def add_mset_remove_trivial_If)
  qed
qed

lemma with_loaded_image_consumes:
  assumes c: "open_contract st opened" and a: "alive st w"
    and k: "open_key_of sp \<in># opened (fw_state w)" "sp_interface sp \<noteq> None"
  shows "consumes st opened sp w (with_loaded_image sp w)"
proof -
  obtain li where li: "scoped_protocol_deref sp = Some li" using k(2) by (auto simp: scoped_protocol_deref_def)
  have st: "system_table w = Some st" using a by (simp add: alive_def)
  define dev where "dev = handle_from_ptr (is_loaded_image_device (fw_img st) (fw_state w) li)"
  define inner where "inner = (case dev of
      None \<Rightarrow> do { e \<leftarrow> error_new UNSUPPORTED (); Some (Err e, w) }
    | Some h \<Rightarrow> do {
        (r, w1) \<leftarrow> open_protocol_exclusive DEVICE_PATH_GUID h w;
        case r of Err e \<Rightarrow> Some (Err e, w1) | Ok device_path \<Rightarrow> with_device_path device_path w1 })"
  have "\<exists>r w'. inner = Some (r, w') \<and> alive st w' \<and>
      (case r of
         Ok sp' \<Rightarrow> opened (fw_state w') = add_mset (open_key_of sp') (opened (fw_state w)) \<and>
           sp_interface sp' \<noteq> None \<and> sp_guid sp' = SIMPLE_FILE_SYSTEM_GUID
       | Err _ \<Rightarrow> opened (fw_state w') = opened (fw_state w))"
  proof (cases dev)
    case None
    then show ?thesis using a by (simp add: inner_def error_new_def require_def status_success_neq)
  next
    case (Some h)
    obtain r w1 where op: "open_protocol_exclusive DEVICE_PATH_GUID h w = Some (r, w1)" "alive st w1"
      "case r of
         Ok sp \<Rightarrow> sp_interface sp \<noteq> None \<and> sp_guid sp = DEVICE_PATH_GUID \<and>
           opened (fw_state w1) = add_mset (open_key_of sp) (opened (fw_state w))
       | Err _ \<Rightarrow> opened (fw_state w1) = opened (fw_state w)" using open_exclusive_cases [OF c a] by blast
    show ?thesis
    proof (cases r)
      case (Err e)
      then show ?thesis using Some op by (simp add: inner_def)
    next
      case (Ok dp)
      then have "consumes st opened dp w1 (with_device_path dp w1)"
        using with_device_path_consumes [OF c op(2)] op(3) by simp
      then show ?thesis using Some op Ok by (auto simp: inner_def consumes_def split: result.splits)
    qed
  qed
  then obtain r w2 where inn: "inner = Some (r, w2)" "alive st w2"
    "case r of
       Ok sp' \<Rightarrow> opened (fw_state w2) = add_mset (open_key_of sp') (opened (fw_state w)) \<and>
         sp_interface sp' \<noteq> None \<and> sp_guid sp' = SIMPLE_FILE_SYSTEM_GUID
     | Err _ \<Rightarrow> opened (fw_state w2) = opened (fw_state w)" by blast
  have "open_key_of sp \<in># opened (fw_state w2)" using inn(3) k(1) by (cases r) simp_all
  then obtain w3 where "scoped_protocol_drop sp w2 = Some w3" "alive st w3" "opened (fw_state w3) = opened (fw_state w2) - {#open_key_of sp#}"
    using drop_cases [OF c inn(2)] by blast
  moreover have "with_loaded_image sp w = do { (res, w2) \<leftarrow> inner; w3 \<leftarrow> scoped_protocol_drop sp w2; Some (res, w3) }"
    by (simp add: with_loaded_image_def li loaded_image_device_def st inner_def dev_def)
  ultimately show ?thesis using inn k(1) by (cases r) (auto simp: consumes_def add_mset_remove_trivial_If)
qed

section \<open>Property\<close>


text \<open>A firmware whose state is the list of open protocols; every handle has every protocol, at interface 16, and the loaded image
  stands on the device 8.\<close>

definition list_firmware :: "open_key list firmware" where
  "list_firmware = idle_firmware \<lparr>
     fw_proto := (fw_proto idle_firmware)\<lparr>
       ps_open_protocol := (\<lambda>s h g a c t. ((SUCCESS, 16), (h, g, a, c) # s)),
       ps_close_protocol := (\<lambda>s h g a c.
         if (h, g, a, c) \<in> set s then (SUCCESS, remove1 (h, g, a, c) s) else (NOT_FOUND, s))\<rparr>,
     fw_img := (fw_img idle_firmware)\<lparr>
       is_loaded_image_device := (\<lambda>s i. 8),
       is_locate_device_path := (\<lambda>s g d. ((SUCCESS, d, 8), s))\<rparr>\<rparr>"

definition list_world :: "open_key list world" where
  "list_world = \<lparr>system_table = Some list_firmware, fw_state = [(1, 2, 3, 4)], image_handle_ptr = 5,
     memory_type_cache = 0, ram = (\<lambda>_. 0)\<rparr>"

lemma list_firmware_contract: "open_contract list_firmware mset"
  by (auto simp: open_contract_def list_firmware_def)

lemma list_world_alive: "alive list_firmware list_world"
  by (simp add: alive_def list_world_def list_firmware_def)


end
