(* ===== verification/Boot_Events.thy ===== *)
theory Boot_Events
  imports Mem_Util
begin

text \<open>
  The boot services around events, timers and priority levels in \<open>uefi/src/boot.rs\<close>, and revisions
  (\<open>uefi-raw/src/table/revision.rs\<close>). Handles of events are non-null addresses, as is a notification function.
\<close>

unbundle bit_operations_syntax

section \<open>Revisions\<close>

definition revision_new :: "u16 \<Rightarrow> u16 \<Rightarrow> u32" where
  "revision_new major minor = push_bit 16 (ucast major) OR ucast minor"

definition revision_major :: "u32 \<Rightarrow> u16" where
  "revision_major r = ucast (drop_bit 16 r)"

definition revision_minor :: "u32 \<Rightarrow> u16" where
  "revision_minor r = ucast r"

definition EFI_2_00 :: u32 where
  "EFI_2_00 = revision_new 2 0"

section \<open>Task priority levels\<close>

record tpl_guard =
  old_tpl :: usize

definition raise_tpl :: "usize \<Rightarrow> 'fw world \<Rightarrow> (tpl_guard \<times> 'fw world) option" where
  "raise_tpl tpl w = do {
     st \<leftarrow> boot_services_raw_panicking w;
     let (old, f) = es_raise_tpl (fw_ev st) (fw_state w) tpl;
     Some (\<lparr>old_tpl = old\<rparr>, w\<lparr>fw_state := f\<rparr>)
   }"

definition tpl_guard_drop :: "tpl_guard \<Rightarrow> 'fw world \<Rightarrow> 'fw world option" where
  "tpl_guard_drop g w = do {
     st \<leftarrow> boot_services_raw_panicking w;
     Some (w\<lparr>fw_state := es_restore_tpl (fw_ev st) (fw_state w) (old_tpl g)\<rparr>)
   }"

section \<open>Events\<close>

definition event_from_ptr :: "nat \<Rightarrow> nat option" where
  "event_from_ptr p = (if p = 0 then None else Some p)"

definition create_event ::
  "u32 \<Rightarrow> usize \<Rightarrow> nat option \<Rightarrow> nat option \<Rightarrow> 'fw world \<Rightarrow> (nat uefi_result \<times> 'fw world) option" where
  "create_event event_ty notify_tpl notify_fn notify_ctx w = do {
     st \<leftarrow> boot_services_raw_panicking w;
     let ((s, event), f) = es_create_event (fw_ev st) (fw_state w) event_ty notify_tpl
       (opt_nonnull_to_ptr notify_fn) (opt_nonnull_to_ptr notify_ctx);
     r \<leftarrow> to_result_with_val s (event_from_ptr event);
     Some (r, w\<lparr>fw_state := f\<rparr>)
   }"

definition create_event_ex ::
  "u32 \<Rightarrow> usize \<Rightarrow> nat option \<Rightarrow> nat option \<Rightarrow> nat option \<Rightarrow> 'fw world \<Rightarrow> (nat uefi_result \<times> 'fw world) option" where
  "create_event_ex event_ty notify_tpl notify_fn notify_ctx event_group w = do {
     st \<leftarrow> boot_services_raw_panicking w;
     if fw_boot_revision st < EFI_2_00 then do {
       e \<leftarrow> error_from_status UNSUPPORTED;
       Some (Err e, w)
     } else do {
       let ((s, event), f) = es_create_event_ex (fw_ev st) (fw_state w) event_ty notify_tpl
         (opt_nonnull_to_ptr notify_fn) (opt_nonnull_to_ptr notify_ctx) (opt_nonnull_to_ptr event_group);
       r \<leftarrow> to_result_with_val s (event_from_ptr event);
       Some (r, w\<lparr>fw_state := f\<rparr>)
     }
   }"

definition check_event :: "nat \<Rightarrow> 'fw world \<Rightarrow> (bool uefi_result \<times> 'fw world) option" where
  "check_event event w = do {
     st \<leftarrow> boot_services_raw_panicking w;
     let (s, f) = es_check_event (fw_ev st) (fw_state w) event;
     let w' = w\<lparr>fw_state := f\<rparr>;
     if s = SUCCESS then Some (Ok True, w')
     else if s = NOT_READY then Some (Ok False, w')
     else do { e \<leftarrow> error_from_status s; Some (Err e, w') }
   }"

definition signal_event :: "nat \<Rightarrow> 'fw world \<Rightarrow> (unit uefi_result \<times> 'fw world) option" where
  "signal_event event w = do {
     st \<leftarrow> boot_services_raw_panicking w;
     let (s, f) = es_signal_event (fw_ev st) (fw_state w) event;
     r \<leftarrow> to_result s;
     Some (r, w\<lparr>fw_state := f\<rparr>)
   }"

definition close_event :: "nat \<Rightarrow> 'fw world \<Rightarrow> (unit uefi_result \<times> 'fw world) option" where
  "close_event event w = do {
     st \<leftarrow> boot_services_raw_panicking w;
     let (s, f) = es_close_event (fw_ev st) (fw_state w) event;
     r \<leftarrow> to_result s;
     Some (r, w\<lparr>fw_state := f\<rparr>)
   }"

datatype timer_trigger = Cancel | Periodic u64 | Relative u64

fun timer_delay :: "timer_trigger \<Rightarrow> nat \<times> u64" where
  "timer_delay Cancel = (0, 0)"
| "timer_delay (Periodic period) = (1, period)"
| "timer_delay (Relative delay) = (2, delay)"

definition set_timer :: "nat \<Rightarrow> timer_trigger \<Rightarrow> 'fw world \<Rightarrow> (unit uefi_result \<times> 'fw world) option" where
  "set_timer event trigger_time w = do {
     st \<leftarrow> boot_services_raw_panicking w;
     let (ty, time) = timer_delay trigger_time;
     let (s, f) = es_set_timer (fw_ev st) (fw_state w) event ty time;
     r \<leftarrow> to_result s;
     Some (r, w\<lparr>fw_state := f\<rparr>)
   }"

definition wait_for_event :: "nat list \<Rightarrow> 'fw world \<Rightarrow> ((usize, usize option) uefi_result_with \<times> 'fw world) option" where
  "wait_for_event events w = do {
     st \<leftarrow> boot_services_raw_panicking w;
     let ((s, index), f) = es_wait_for_event (fw_ev st) (fw_state w) events;
     r \<leftarrow> to_result_with s (Some index) (\<lambda>s. if s = INVALID_PARAMETER then Some index else None);
     Some (r, w\<lparr>fw_state := f\<rparr>)
   }"

section \<open>Delays, the watchdog and checksums\<close>

record duration =
  dur_secs :: u64
  dur_nanos :: u32

definition stall :: "duration \<Rightarrow> 'fw world \<Rightarrow> 'fw world option" where
  "stall d w = do {
     st \<leftarrow> boot_services_raw_panicking w;
     let microseconds = (unat (dur_secs d) * 1000000 + unat (dur_nanos d) div 1000) mod usize_limit;
     let (_, f) = es_stall (fw_ev st) (fw_state w) microseconds;
     Some (w\<lparr>fw_state := f\<rparr>)
   }"

definition set_watchdog_timer ::
  "usize \<Rightarrow> u64 \<Rightarrow> u16 list option \<Rightarrow> 'fw world \<Rightarrow> (unit uefi_result \<times> 'fw world) option" where
  "set_watchdog_timer timeout_in_seconds watchdog_code dat w = do {
     st \<leftarrow> boot_services_raw_panicking w;
     data_len \<leftarrow> (case dat of
       None \<Rightarrow> Some 0
     | Some d \<Rightarrow> do { require (0 \<in> set d); Some (length d) });
     let (s, f) = es_set_watchdog_timer (fw_ev st) (fw_state w) timeout_in_seconds watchdog_code data_len dat;
     r \<leftarrow> to_result s;
     Some (r, w\<lparr>fw_state := f\<rparr>)
   }"

definition calculate_crc32 :: "bytes \<Rightarrow> 'fw world \<Rightarrow> (u32 uefi_result \<times> 'fw world) option" where
  "calculate_crc32 dat w = do {
     st \<leftarrow> boot_services_raw_panicking w;
     let ((s, crc), f) = es_calculate_crc32 (fw_ev st) (fw_state w) dat;
     r \<leftarrow> to_result_with_val s (Some crc);
     Some (r, w\<lparr>fw_state := f\<rparr>)
   }"

end
