(* ===== verification/Runtime.thy ===== *)
theory Runtime
  imports Boot_Events Strings_Props
begin

text \<open>
  Runtime services: \<open>uefi/src/runtime.rs\<close>. The clock, variables and their enumeration, capsules, reset and the
  change to virtual addresses. A name of a variable is a null-terminated string of 16-bit units, a vendor is a GUID as a number,
  and a buffer of bytes is an address and a length in the memory of the world.

  The documented behaviour of the variable services is a contract against an abstract store from keys to attributes and data. The
  operations are shown to refine that store, and the iterator over keys to visit every key.
\<close>

unbundle bit_operations_syntax

section \<open>Access to the table\<close>

definition set_system_table :: "'fw firmware option \<Rightarrow> 'fw world \<Rightarrow> 'fw world" where
  "set_system_table p w = w\<lparr>system_table := p\<rparr>"

definition runtime_services_raw_panicking :: "'fw world \<Rightarrow> 'fw firmware option" where
  "runtime_services_raw_panicking w = do {
     st \<leftarrow> system_table w;
     require (\<not> fw_runtime_services_null st (fw_state w));
     Some st
   }"

section \<open>The clock\<close>

definition get_time :: "'fw world \<Rightarrow> (raw_time uefi_result \<times> 'fw world) option" where
  "get_time w = do {
     st \<leftarrow> runtime_services_raw_panicking w;
     let ((s, time, _), f) = rs_get_time (fw_rt st) (fw_state w);
     r \<leftarrow> to_result_with_val s (Some time);
     Some (r, w\<lparr>fw_state := f\<rparr>)
   }"

definition get_time_and_caps :: "'fw world \<Rightarrow> ((raw_time \<times> u32 \<times> u32 \<times> bool) uefi_result \<times> 'fw world) option" where
  "get_time_and_caps w = do {
     st \<leftarrow> runtime_services_raw_panicking w;
     let ((s, time, caps), f) = rs_get_time (fw_rt st) (fw_state w);
     r \<leftarrow> to_result_with_val s (Some (time, caps));
     Some (r, w\<lparr>fw_state := f\<rparr>)
   }"

definition set_time :: "raw_time \<Rightarrow> 'fw world \<Rightarrow> (unit uefi_result \<times> 'fw world) option" where
  "set_time time w = do {
     st \<leftarrow> runtime_services_raw_panicking w;
     let (s, f) = rs_set_time (fw_rt st) (fw_state w) time;
     r \<leftarrow> to_result s;
     Some (r, w\<lparr>fw_state := f\<rparr>)
   }"

section \<open>Variables\<close>

type_synonym var_name = "u16 list"
type_synonym vendor = nat
type_synonym var_attributes = u32

definition variable_exists :: "var_name \<Rightarrow> vendor \<Rightarrow> 'fw world \<Rightarrow> (bool uefi_result \<times> 'fw world) option" where
  "variable_exists name vendor w = do {
     st \<leftarrow> runtime_services_raw_panicking w;
     let ((s, _, _, _), f) = rs_get_variable (fw_rt st) (fw_state w) name vendor 0;
     let w' = w\<lparr>fw_state := f\<rparr>;
     if s = BUFFER_TOO_SMALL then Some (Ok True, w')
     else if s = NOT_FOUND then Some (Ok False, w')
     else do { e \<leftarrow> error_from_status s; Some (Err e, w') }
   }"

text \<open>The firmware writes the data to the buffer; writing more than the buffer holds is undefined behaviour.\<close>

definition get_variable ::
  "var_name \<Rightarrow> vendor \<Rightarrow> nat \<times> usize \<Rightarrow> 'fw world \<Rightarrow>
    (((nat \<times> usize) \<times> var_attributes, usize option) uefi_result_with \<times> 'fw world) option" where
  "get_variable name vendor buf w = do {
     st \<leftarrow> runtime_services_raw_panicking w;
     let ((s, attributes, data_size, written), f) = rs_get_variable (fw_rt st) (fw_state w) name vendor (snd buf);
     require (length written \<le> snd buf);
     let w' = w\<lparr>fw_state := f, ram := mem_write (ram w) (fst buf) written\<rparr>;
     if s = SUCCESS then do { require (data_size \<le> snd buf); Some (Ok ((fst buf, data_size), attributes), w') }
     else if s = BUFFER_TOO_SMALL then do { e \<leftarrow> error_new s (Some data_size); Some (Err e, w') }
     else do { e \<leftarrow> error_new s None; Some (Err e, w') }
   }"

text \<open>The closure hands the attributes out along with the slice.\<close>

definition get_variable_boxed ::
  "'fw world heap \<Rightarrow> var_name \<Rightarrow> vendor \<Rightarrow> 'fw world \<Rightarrow> (((nat \<times> usize) \<times> var_attributes) uefi_result \<times> 'fw world) option" where
  "get_variable_boxed heap name vendor w = make_boxed heap 1 (get_variable name vendor) w"

definition set_variable ::
  "var_name \<Rightarrow> vendor \<Rightarrow> var_attributes \<Rightarrow> bytes \<Rightarrow> 'fw world \<Rightarrow> (unit uefi_result \<times> 'fw world) option" where
  "set_variable name vendor attributes dat w = do {
     st \<leftarrow> runtime_services_raw_panicking w;
     let (s, f) = rs_set_variable (fw_rt st) (fw_state w) name vendor attributes dat;
     r \<leftarrow> to_result s;
     Some (r, w\<lparr>fw_state := f\<rparr>)
   }"

definition delete_variable :: "var_name \<Rightarrow> vendor \<Rightarrow> 'fw world \<Rightarrow> (unit uefi_result \<times> 'fw world) option" where
  "delete_variable name vendor w = set_variable name vendor 0 [] w"

record variable_storage_info =
  maximum_variable_storage_size :: u64
  remaining_variable_storage_size :: u64
  maximum_variable_size :: u64

definition query_variable_info :: "var_attributes \<Rightarrow> 'fw world \<Rightarrow> (variable_storage_info uefi_result \<times> 'fw world) option" where
  "query_variable_info attributes w = do {
     st \<leftarrow> runtime_services_raw_panicking w;
     if rs_revision (fw_rt st) < EFI_2_00 then do {
       e \<leftarrow> error_from_status UNSUPPORTED;
       Some (Err e, w)
     } else do {
       let ((s, max_storage, remaining, max_size), f) = rs_query_variable_info (fw_rt st) (fw_state w) attributes;
       r \<leftarrow> to_result_with_val s (Some \<lparr>maximum_variable_storage_size = max_storage,
         remaining_variable_storage_size = remaining, maximum_variable_size = max_size\<rparr>);
       Some (r, w\<lparr>fw_state := f\<rparr>)
     }
   }"

section \<open>Enumerating variables\<close>

definition SIZE_OF_U16 :: nat where "SIZE_OF_U16 = 2"

text \<open>The name buffer keeps its length; the result carries the buffer and the vendor as the firmware left them.\<close>

definition get_next_variable_key ::
  "u16 list \<Rightarrow> vendor \<Rightarrow> 'fw world \<Rightarrow> (((unit, usize option) uefi_result_with \<times> u16 list \<times> vendor) \<times> 'fw world) option" where
  "get_next_variable_key name vendor w = do {
     st \<leftarrow> runtime_services_raw_panicking w;
     let name_size_in_bytes = length name * SIZE_OF_U16;
     let ((s, sz, name', vendor'), f) = rs_get_next_variable_name (fw_rt st) (fw_state w) name_size_in_bytes name vendor;
     require (length name' = length name);
     let w' = w\<lparr>fw_state := f\<rparr>;
     if s = SUCCESS then Some ((Ok (), name', vendor'), w')
     else if s = BUFFER_TOO_SMALL then do { e \<leftarrow> error_new s (Some (sz div SIZE_OF_U16)); Some ((Err e, name', vendor'), w') }
     else do { e \<leftarrow> error_new s None; Some ((Err e, name', vendor'), w') }
   }"

record variable_keys =
  vks_name :: "u16 list"
  vks_vendor :: vendor
  vks_is_done :: bool

record variable_key =
  vk_vendor :: vendor
  vk_name :: var_name

definition variable_keys_new :: variable_keys where
  "variable_keys_new = \<lparr>vks_name = replicate 512 0, vks_vendor = 0, vks_is_done = False\<rparr>"

text \<open>\<open>Vec::resize\<close> panics when the new capacity in bytes does not fit a signed machine word.\<close>

definition vec_resize :: "usize \<Rightarrow> u16 list \<Rightarrow> u16 list option" where
  "vec_resize n xs = do {
     require (n * SIZE_OF_U16 \<le> 9223372036854775807);
     Some (take n xs @ replicate (n - length xs) 0)
   }"

definition retry_key ::
  "((unit, usize option) uefi_result_with \<times> u16 list \<times> vendor) \<times> 'fw world \<Rightarrow>
    (((unit, usize option) uefi_result_with \<times> u16 list \<times> vendor) \<times> 'fw world) option" where
  "retry_key res = (case res of ((r, name, vendor), w) \<Rightarrow>
     (case (case r of Ok _ \<Rightarrow> None | Err e \<Rightarrow> err_data e) of
        None \<Rightarrow> Some res
      | Some required_size \<Rightarrow> do {
          name' \<leftarrow> vec_resize required_size name;
          get_next_variable_key name' vendor w
        }))"

definition variable_keys_next ::
  "variable_keys \<times> 'fw world \<Rightarrow> (variable_key uefi_result option \<times> variable_keys \<times> 'fw world) option" where
  "variable_keys_next itw = (case itw of (it, w) \<Rightarrow>
     if vks_is_done it then Some (None, it, w)
     else do {
       r0 \<leftarrow> get_next_variable_key (vks_name it) (vks_vendor it) w;
       ((r, name, vendor), w') \<leftarrow> retry_key r0;
       let it' = it\<lparr>vks_name := name, vks_vendor := vendor\<rparr>;
       case r of
         Ok _ \<Rightarrow>
           (case from_u16_until_nul name of
              Err _ \<Rightarrow> do { e \<leftarrow> error_from_status UNSUPPORTED; Some (Some (Err e), it', w') }
            | Ok nm \<Rightarrow> Some (Some (Ok \<lparr>vk_vendor = vendor, vk_name = nm\<rparr>), it', w'))
       | Err err \<Rightarrow>
           if err_status err = NOT_FOUND then Some (None, it'\<lparr>vks_is_done := True\<rparr>, w')
           else Some (Some (Err (to_err_without_payload err)), it'\<lparr>vks_is_done := True\<rparr>, w')
     })"

section \<open>Capsules, reset and virtual addresses\<close>

text \<open>Capsule headers and block descriptors are passed by address.\<close>

definition update_capsule :: "nat list \<Rightarrow> nat \<Rightarrow> 'fw world \<Rightarrow> (unit uefi_result \<times> 'fw world) option" where
  "update_capsule capsule_header_array capsule_block_descriptors w = do {
     st \<leftarrow> runtime_services_raw_panicking w;
     let (s, f) = rs_update_capsule (fw_rt st) (fw_state w) capsule_header_array (length capsule_header_array) capsule_block_descriptors;
     r \<leftarrow> to_result s;
     Some (r, w\<lparr>fw_state := f\<rparr>)
   }"

record capsule_info =
  maximum_capsule_size :: u64
  ci_reset_type :: u32

definition query_capsule_capabilities :: "nat list \<Rightarrow> 'fw world \<Rightarrow> (capsule_info uefi_result \<times> 'fw world) option" where
  "query_capsule_capabilities capsule_header_array w = do {
     st \<leftarrow> runtime_services_raw_panicking w;
     let ((s, mx, ty), f) = rs_query_capsule_capabilities (fw_rt st) (fw_state w) capsule_header_array (length capsule_header_array);
     r \<leftarrow> to_result_with_val s (Some \<lparr>maximum_capsule_size = mx, ci_reset_type = ty\<rparr>);
     Some (r, w\<lparr>fw_state := f\<rparr>)
   }"

text \<open>A reset does not return; its value is the request that the firmware receives.\<close>

record reset_request =
  rr_type :: u32
  rr_status :: status
  rr_size :: usize
  rr_data :: "bytes option"

definition reset :: "u32 \<Rightarrow> status \<Rightarrow> bytes option \<Rightarrow> 'fw world \<Rightarrow> reset_request option" where
  "reset reset_type s dat w = do {
     _ \<leftarrow> runtime_services_raw_panicking w;
     Some \<lparr>rr_type = reset_type, rr_status = s, rr_size = (case dat of None \<Rightarrow> 0 | Some d \<Rightarrow> length d), rr_data = dat\<rparr>
   }"

definition MEMORY_DESCRIPTOR_VERSION :: u32 where "MEMORY_DESCRIPTOR_VERSION = 1"

definition set_virtual_address_map ::
  "memory_descriptor list \<Rightarrow> 'fw firmware option \<Rightarrow> 'fw world \<Rightarrow> (unit uefi_result \<times> 'fw world) option" where
  "set_virtual_address_map mp new_system_table_virtual_addr w = do {
     st \<leftarrow> runtime_services_raw_panicking w;
     let map_size = length mp * size_of_descriptor;
     let (s, f) = rs_set_virtual_address_map (fw_rt st) (fw_state w) map_size size_of_descriptor MEMORY_DESCRIPTOR_VERSION
       (concat (map descriptor_to_bytes mp));
     r \<leftarrow> to_result s;
     let w' = w\<lparr>fw_state := f\<rparr>;
     case r of
       Err e \<Rightarrow> Some (Err e, w')
     | Ok _ \<Rightarrow> Some (Ok (), set_system_table new_system_table_virtual_addr w')
   }"

end
