(* ===== verification/Runtime_Props.thy ===== *)
theory Runtime_Props
  imports Runtime
begin

text \<open>
  Properties of the runtime services: the variable operations refine an abstract store of variables, and the iterator over
  variable keys visits every key of the firmware, growing its buffer where a name needs it, and ends.
\<close>

unbundle bit_operations_syntax

section \<open>The abstract store\<close>

type_synonym var_key = "var_name \<times> vendor"
type_synonym var_store = "var_key \<rightharpoonup> var_attributes \<times> bytes"

text \<open>The documented effect of setting a variable without authentication. With the append attribute, data is added to the
  variable, and adding nothing changes nothing. Otherwise empty data, or attributes that give no access, delete it.\<close>

definition append_write :: "var_attributes \<Rightarrow> bool" where
  "append_write a \<longleftrightarrow> a AND 0x40 \<noteq> 0"

definition stored :: "var_attributes \<Rightarrow> bytes \<Rightarrow> (var_attributes \<times> bytes) option \<Rightarrow> (var_attributes \<times> bytes) option" where
  "stored a d old =
    (if append_write a then
       (if d = [] then old
        else case old of None \<Rightarrow> Some (a AND 0xBF, d) | Some (a0, d0) \<Rightarrow> Some (a0, d0 @ d))
     else if d = [] \<or> a AND 0x06 = 0 then None
     else Some (a, d))"

definition unauthenticated :: "var_attributes \<Rightarrow> bool" where
  "unauthenticated a \<longleftrightarrow> a AND 0xB0 = 0"

datatype var_call =
    CExists var_key
  | CGet var_key "nat \<times> usize"
  | CGetBoxed var_key
  | CSet var_key var_attributes bytes
  | CDelete var_key

datatype var_reply =
    RExists "bool uefi_result"
  | RGet "(bytes \<times> var_attributes, usize option) uefi_result_with"
  | RGetBoxed "(bytes \<times> var_attributes) uefi_result"
  | RUnit "unit uefi_result"

abbreviation fail :: "status \<Rightarrow> 'd \<Rightarrow> ('a, 'd) uefi_result_with" where
  "fail s d \<equiv> Err \<lparr>err_status = s, err_data = d\<rparr>"

text \<open>A failure that says nothing about the store.\<close>

definition unrelated :: "status \<Rightarrow> bool" where
  "unrelated s \<longleftrightarrow> s \<noteq> SUCCESS \<and> s \<noteq> NOT_FOUND \<and> s \<noteq> BUFFER_TOO_SMALL"

text \<open>What the interface promises: each call with the replies it may give and the store after it.\<close>

inductive store_step :: "var_store \<Rightarrow> var_call \<Rightarrow> var_reply \<Rightarrow> var_store \<Rightarrow> bool" where
  exists_ok: "store_step m (CExists k) (RExists (Ok (k \<in> dom m))) m"
| exists_err: "unrelated s \<Longrightarrow> store_step m (CExists k) (RExists (fail s ())) m"
| get_ok: "m k = Some (a, d) \<Longrightarrow> length d \<le> n \<Longrightarrow> store_step m (CGet k (p, n)) (RGet (Ok (d, a))) m"
| get_small: "m k = Some (a, d) \<Longrightarrow> n < length d \<Longrightarrow> store_step m (CGet k (p, n)) (RGet (fail BUFFER_TOO_SMALL (Some (length d)))) m"
| get_none: "m k = None \<Longrightarrow> store_step m (CGet k b) (RGet (fail NOT_FOUND None)) m"
| get_err: "unrelated s \<Longrightarrow> store_step m (CGet k b) (RGet (fail s None)) m"
| boxed_ok: "m k = Some (a, d) \<Longrightarrow> store_step m (CGetBoxed k) (RGetBoxed (Ok (d, a))) m"
| boxed_none: "m k = None \<Longrightarrow> store_step m (CGetBoxed k) (RGetBoxed (fail NOT_FOUND ())) m"
| boxed_err: "unrelated s \<Longrightarrow> store_step m (CGetBoxed k) (RGetBoxed (fail s ())) m"
| set_ok: "store_step m (CSet k a d) (RUnit (Ok ())) (m(k := stored a d (m k)))"
| set_warn: "is_warning s \<Longrightarrow> store_step m (CSet k a d) (RUnit (fail s ())) (m(k := stored a d (m k)))"
| set_err: "is_error s \<Longrightarrow> store_step m (CSet k a d) (RUnit (fail s ())) m"
| delete_ok: "store_step m (CDelete k) (RUnit (Ok ())) (m(k := None))"
| delete_warn: "is_warning s \<Longrightarrow> store_step m (CDelete k) (RUnit (fail s ())) (m(k := None))"
| delete_err: "is_error s \<Longrightarrow> store_step m (CDelete k) (RUnit (fail s ())) m"

inductive store_run :: "var_store \<Rightarrow> var_call list \<Rightarrow> var_reply list \<Rightarrow> var_store \<Rightarrow> bool" where
  run_nil: "store_run m [] [] m"
| run_cons: "store_step m c r m1 \<Longrightarrow> store_run m1 cs rs m2 \<Longrightarrow> store_run m (c # cs) (r # rs) m2"

inductive_simps store_step_exists: "store_step m (CExists k) r m'"
inductive_simps store_step_get: "store_step m (CGet k b) r m'"
inductive_simps store_step_boxed: "store_step m (CGetBoxed k) r m'"
inductive_simps store_step_set: "store_step m (CSet k a d) r m'"
inductive_simps store_step_delete: "store_step m (CDelete k) r m'"

section \<open>The calls of the program\<close>

text \<open>A reply shows the bytes of the returned slice as they lie in memory.\<close>

definition slice_bytes :: "'fw world \<Rightarrow> (nat \<times> usize) \<times> var_attributes \<Rightarrow> bytes \<times> var_attributes" where
  "slice_bytes w v = (case v of ((p, n), a) \<Rightarrow> (mem_read (ram w) p n, a))"

fun do_call :: "'fw world heap \<Rightarrow> var_call \<Rightarrow> 'fw world \<Rightarrow> (var_reply \<times> 'fw world) option" where
  "do_call heap (CExists k) w = do { (r, w') \<leftarrow> variable_exists (fst k) (snd k) w; Some (RExists r, w') }"
| "do_call heap (CGet k b) w = do {
     (r, w') \<leftarrow> get_variable (fst k) (snd k) b w;
     Some (RGet (map_result (slice_bytes w') id r), w')
   }"
| "do_call heap (CGetBoxed k) w = do {
     (r, w') \<leftarrow> get_variable_boxed heap (fst k) (snd k) w;
     Some (RGetBoxed (map_result (slice_bytes w') id r), w')
   }"
| "do_call heap (CSet k a d) w = do { (r, w') \<leftarrow> set_variable (fst k) (snd k) a d w; Some (RUnit r, w') }"
| "do_call heap (CDelete k) w = do { (r, w') \<leftarrow> delete_variable (fst k) (snd k) w; Some (RUnit r, w') }"

fun do_calls :: "'fw world heap \<Rightarrow> var_call list \<Rightarrow> 'fw world \<Rightarrow> (var_reply list \<times> 'fw world) option" where
  "do_calls heap [] w = Some ([], w)"
| "do_calls heap (c # cs) w = do {
     (r, w1) \<leftarrow> do_call heap c w;
     (rs, w2) \<leftarrow> do_calls heap cs w1;
     Some (r # rs, w2)
   }"

fun call_allowed :: "var_call \<Rightarrow> bool" where
  "call_allowed (CSet k a d) = unauthenticated a"
| "call_allowed _ = True"

section \<open>The documented behaviour of the firmware and the heap\<close>

text \<open>\<open>vars\<close> reads the variables out of the state of the firmware. Reading changes no variable and returns the data when it fits;
  a variable has data, and no more than can be addressed.\<close>

definition variable_contract :: "'fw firmware \<Rightarrow> ('fw \<Rightarrow> var_store) \<Rightarrow> bool" where
  "variable_contract st vars \<longleftrightarrow>
    (\<forall>s n g sz r a sz' bs s'. rs_get_variable (fw_rt st) s n g sz = ((r, a, sz', bs), s') \<longrightarrow>
       vars s' = vars s \<and> fw_runtime_services_null st s' = fw_runtime_services_null st s \<and> length bs \<le> sz \<and>
       (r = SUCCESS \<longrightarrow> vars s (n, g) = Some (a, bs) \<and> sz' = length bs) \<and>
       (r = BUFFER_TOO_SMALL \<longrightarrow> (\<exists>a d. vars s (n, g) = Some (a, d) \<and> sz < length d \<and> sz' = length d)) \<and>
       (r = NOT_FOUND \<longrightarrow> vars s (n, g) = None)) \<and>
    (\<forall>s n g a d r s'. unauthenticated a \<longrightarrow> rs_set_variable (fw_rt st) s n g a d = (r, s') \<longrightarrow>
       fw_runtime_services_null st s' = fw_runtime_services_null st s \<and>
       vars s' = (if is_error r then vars s else (vars s)((n, g) := stored a d (vars s (n, g))))) \<and>
    (\<forall>s k a d. vars s k = Some (a, d) \<longrightarrow> d \<noteq> [] \<and> length d \<le> 9223372036854775807)"

definition running :: "'fw firmware \<Rightarrow> 'fw world \<Rightarrow> bool" where
  "running st w \<longleftrightarrow> system_table w = Some st \<and> \<not> fw_runtime_services_null st (fw_state w)"

text \<open>Allocating on the heap leaves variables and the runtime services alone.\<close>

definition heap_neutral :: "'fw firmware \<Rightarrow> ('fw \<Rightarrow> var_store) \<Rightarrow> 'fw world heap \<Rightarrow> bool" where
  "heap_neutral st vars heap \<longleftrightarrow>
    (\<forall>l w p w'. running st w \<longrightarrow> heap_alloc heap l w = (p, w') \<longrightarrow> running st w' \<and> vars (fw_state w') = vars (fw_state w)) \<and>
    (\<forall>p l w. running st w \<longrightarrow> running st (heap_dealloc heap p l w) \<and> vars (fw_state (heap_dealloc heap p l w)) = vars (fw_state w))"

section \<open>Each operation\<close>

lemma not_found_neq_too_small [simp]: "NOT_FOUND \<noteq> BUFFER_TOO_SMALL"
  by (simp add: status_consts)

lemma out_of_resources_unrelated: "unrelated OUT_OF_RESOURCES"
  by (simp add: unrelated_def status_consts)

lemma running_raw: "running st w \<Longrightarrow> runtime_services_raw_panicking w = Some st"
  by (simp add: running_def runtime_services_raw_panicking_def)

lemma running_step:
  "running st w \<Longrightarrow> fw_runtime_services_null st f = fw_runtime_services_null st (fw_state w) \<Longrightarrow> running st (w\<lparr>fw_state := f\<rparr>)"
  by (simp add: running_def)

lemma running_ram [simp]: "running st (w\<lparr>ram := m\<rparr>) = running st w"
  by (simp add: running_def)

lemma variable_contract_get:
  assumes "variable_contract st vars" "rs_get_variable (fw_rt st) s n g sz = ((r, a, sz', bs), s')"
  shows "vars s' = vars s" "fw_runtime_services_null st s' = fw_runtime_services_null st s" "length bs \<le> sz"
    and "r = SUCCESS \<Longrightarrow> vars s (n, g) = Some (a, bs) \<and> sz' = length bs"
    and "r = BUFFER_TOO_SMALL \<Longrightarrow> \<exists>a d. vars s (n, g) = Some (a, d) \<and> sz < length d \<and> sz' = length d"
    and "r = NOT_FOUND \<Longrightarrow> vars s (n, g) = None"
proof -
  from assms(1) [unfolded variable_contract_def, THEN conjunct1, rule_format, OF assms(2)]
  show "vars s' = vars s" "fw_runtime_services_null st s' = fw_runtime_services_null st s" "length bs \<le> sz"
    "r = SUCCESS \<Longrightarrow> vars s (n, g) = Some (a, bs) \<and> sz' = length bs"
    "r = BUFFER_TOO_SMALL \<Longrightarrow> \<exists>a d. vars s (n, g) = Some (a, d) \<and> sz < length d \<and> sz' = length d"
    "r = NOT_FOUND \<Longrightarrow> vars s (n, g) = None" by blast+
qed

lemma variable_contract_set:
  assumes "variable_contract st vars" "unauthenticated a" "rs_set_variable (fw_rt st) s n g a d = (r, s')"
  shows "fw_runtime_services_null st s' = fw_runtime_services_null st s \<and>
    vars s' = (if is_error r then vars s else (vars s)((n, g) := stored a d (vars s (n, g))))"
  using assms unfolding variable_contract_def by blast

lemma variable_contract_data:
  "variable_contract st vars \<Longrightarrow> vars s k = Some (a, d) \<Longrightarrow> d \<noteq> [] \<and> length d \<le> 9223372036854775807"
  unfolding variable_contract_def by blast

text \<open>A read either returns the data, names its size, or fails.\<close>

lemma get_variable_cases [consumes 2, case_names read small none err]:
  assumes c: "variable_contract st vars" and w: "running st w"
  obtains (read) a d w' where "get_variable n g (p, sz) w = Some (Ok ((p, length d), a), w')" "running st w'"
      "vars (fw_state w') = vars (fw_state w)" "vars (fw_state w) (n, g) = Some (a, d)" "length d \<le> sz"
      "mem_read (ram w') p (length d) = d"
  | (small) a d w' where "get_variable n g (p, sz) w = Some (fail BUFFER_TOO_SMALL (Some (length d)), w')" "running st w'"
      "vars (fw_state w') = vars (fw_state w)" "vars (fw_state w) (n, g) = Some (a, d)" "sz < length d"
  | (none) w' where "get_variable n g (p, sz) w = Some (fail NOT_FOUND None, w')" "running st w'"
      "vars (fw_state w') = vars (fw_state w)" "vars (fw_state w) (n, g) = None"
  | (err) s w' where "get_variable n g (p, sz) w = Some (fail s None, w')" "running st w'"
      "vars (fw_state w') = vars (fw_state w)" "unrelated s"
proof -
  obtain r a sz' bs f where call: "rs_get_variable (fw_rt st) (fw_state w) n g sz = ((r, a, sz', bs), f)" by (metis prod.collapse)
  note C = variable_contract_get [OF c call]
  let ?w = "w\<lparr>fw_state := f, ram := mem_write (ram w) p bs\<rparr>"
  have run: "running st ?w" using running_step [OF w C(2)] by (simp add: running_def)
  note ev = get_variable_def running_raw [OF w] call C(3) error_new_def require_def status_success_neq
  consider "r = SUCCESS" | "r = BUFFER_TOO_SMALL" | "r = NOT_FOUND" | "unrelated r" unfolding unrelated_def by blast
  then show thesis
  proof cases
    case 1
    then show thesis using read [of bs a ?w] C run by (simp add: ev mem_read_write_same)
  next
    case 2
    then obtain a' d where "vars (fw_state w) (n, g) = Some (a', d)" "sz < length d" "sz' = length d" using C(5) by blast
    then show thesis using small [of d ?w a'] C(1) run 2 by (simp add: ev)
  next
    case 3
    then show thesis using none [of ?w] C(1,6) run by (simp add: ev)
  next
    case 4
    then show thesis using err [of r ?w] C(1) run by (simp add: ev unrelated_def)
  qed
qed

lemma exists_refines:
  assumes c: "variable_contract st vars" and w: "running st w"
  shows "\<exists>r w'. do_call heap (CExists k) w = Some (r, w') \<and> running st w' \<and>
    store_step (vars (fw_state w)) (CExists k) r (vars (fw_state w'))"
proof -
  obtain n g where k: "k = (n, g)" by (cases k)
  obtain r a sz' bs f where call: "rs_get_variable (fw_rt st) (fw_state w) n g 0 = ((r, a, sz', bs), f)" by (metis prod.collapse)
  note C = variable_contract_get [OF c call]
  have "r \<noteq> SUCCESS" using C(3,4) variable_contract_data [OF c, of "fw_state w" "(n, g)" a bs] by auto
  then consider "r = BUFFER_TOO_SMALL" | "r = NOT_FOUND" | "unrelated r" unfolding unrelated_def by blast
  then show ?thesis
  proof cases
    case 3
    then have "r \<noteq> SUCCESS" "r \<noteq> NOT_FOUND" "r \<noteq> BUFFER_TOO_SMALL" by (simp_all add: unrelated_def)
    then have "do_call heap (CExists k) w = Some (RExists (fail r ()), w\<lparr>fw_state := f\<rparr>)"
      by (simp add: k variable_exists_def running_raw [OF w] call error_from_status_def error_new_def require_def)
    then show ?thesis using running_step [OF w C(2)] C(1) 3 by (simp add: store_step_exists)
  qed (use running_step [OF w C(2)] C(1,5,6) in
    \<open>auto simp: k variable_exists_def running_raw [OF w] call store_step_exists\<close>)
qed

lemma get_refines:
  assumes c: "variable_contract st vars" and w: "running st w"
  shows "\<exists>r w'. do_call heap (CGet k b) w = Some (r, w') \<and> running st w' \<and>
    store_step (vars (fw_state w)) (CGet k b) r (vars (fw_state w'))"
proof -
  obtain n g p sz where k: "k = (n, g)" "b = (p, sz)" by (cases k, cases b)
  from c w show ?thesis
    by (cases rule: get_variable_cases [of st vars w n g p sz]) (auto simp: k slice_bytes_def store_step_get)
qed

lemma set_refines:
  assumes c: "variable_contract st vars" and w: "running st w" and a: "unauthenticated a"
  shows "\<exists>r w'. set_variable n g a d w = Some (r, w') \<and> running st w' \<and>
    (case r of
       Ok _ \<Rightarrow> vars (fw_state w') = (vars (fw_state w))((n, g) := stored a d (vars (fw_state w) (n, g)))
     | Err e \<Rightarrow> is_error (err_status e) \<and> vars (fw_state w') = vars (fw_state w) \<or>
         is_warning (err_status e) \<and> vars (fw_state w') = (vars (fw_state w))((n, g) := stored a d (vars (fw_state w) (n, g))))"
proof -
  obtain r f where call: "rs_set_variable (fw_rt st) (fw_state w) n g a d = (r, f)" by (metis surj_pair)
  note C = variable_contract_set [OF c a call]
  have run: "running st (w\<lparr>fw_state := f\<rparr>)" using running_step [OF w] C by blast
  have "\<not> is_error SUCCESS" by (simp add: is_error_def SUCCESS_def)
  then show ?thesis using C run
    by (cases "r = SUCCESS") (simp_all add: set_variable_def running_raw [OF w] call is_warning_def is_error_def)
qed

lemma delete_stored [simp]: "stored 0 [] old = None"
  by (simp add: stored_def append_write_def)

lemma byte_layout:
  assumes "n \<le> 9223372036854775807"
  shows "layout_from_size_align n 1 = Some \<lparr>l_size = n, l_align = 1\<rparr>"
    and "pad_to_align \<lparr>l_size = n, l_align = 1\<rparr> = \<lparr>l_size = n, l_align = 1\<rparr>"
proof -
  have "(1 :: nat) \<in> (\<lambda>k. 2 ^ k) ` set [0..<64]" by (rule image_eqI [of _ _ 0]) simp_all
  then show "layout_from_size_align n 1 = Some \<lparr>l_size = n, l_align = 1\<rparr>" using assms by (simp add: layout_from_size_align_def)
  show "pad_to_align \<lparr>l_size = n, l_align = 1\<rparr> = \<lparr>l_size = n, l_align = 1\<rparr>"
    by (simp add: pad_to_align_def align_offset_def)
qed

lemma boxed_refines:
  assumes c: "variable_contract st vars" and w: "running st w" and h: "heap_neutral st vars heap"
  shows "\<exists>r w'. do_call heap (CGetBoxed k) w = Some (r, w') \<and> running st w' \<and>
    store_step (vars (fw_state w)) (CGetBoxed k) r (vars (fw_state w'))"
proof -
  obtain n g where k: "k = (n, g)" by (cases k)
  note ev = get_variable_boxed_def make_boxed_def error_split_def error_from_status_def error_new_def require_def status_success_neq
  from c w show ?thesis
  proof (cases rule: get_variable_cases [of st vars w n g 1 0])
    case (read a d w')
    then show ?thesis using variable_contract_data [OF c read(4)] by simp
  next
    case (none w')
    then show ?thesis by (simp add: k ev store_step_boxed)
  next
    case (err s w')
    then have "s \<noteq> SUCCESS" "s \<noteq> BUFFER_TOO_SMALL" by (simp_all add: unrelated_def)
    then show ?thesis using err by (simp add: k ev store_step_boxed)
  next
    case (small a d w')
    have d: "d \<noteq> []" "length d \<le> 9223372036854775807" using variable_contract_data [OF c small(4)] by simp_all
    let ?l = "\<lparr>l_size = length d, l_align = 1\<rparr>"
    have lay: "layout_from_size_align (length d) 1 = Some ?l" "pad_to_align ?l = ?l" using byte_layout [OF d(2)] by simp_all
    obtain p w2 where al: "heap_alloc heap ?l w' = (p, w2)" by (metis surj_pair)
    have w2: "running st w2" "vars (fw_state w2) = vars (fw_state w)" using h al small(2,3) unfolding heap_neutral_def by auto
    show ?thesis
    proof (cases "p = 0")
      case True
      then show ?thesis using small d lay al w2 out_of_resources_unrelated by (simp add: k ev store_step_boxed)
    next
      case False
      from c w2(1) show ?thesis
      proof (cases rule: get_variable_cases [of st vars w2 n g p "length d"])
        case (read a' d' w3)
        then show ?thesis using small d lay al w2 False by (simp add: k ev store_step_boxed slice_bytes_def)
      next
        case (err s w3)
        then show ?thesis using small d lay al w2 False h
          by (auto simp: k ev store_step_boxed unrelated_def heap_neutral_def)
      qed (use small(4) w2(2) in auto)
    qed
  qed
qed

lemma do_call_refines:
  assumes c: "variable_contract st vars" and h: "heap_neutral st vars heap" and w: "running st w" and a: "call_allowed cl"
  shows "\<exists>r w'. do_call heap cl w = Some (r, w') \<and> running st w' \<and>
    store_step (vars (fw_state w)) cl r (vars (fw_state w'))"
proof (cases cl)
  case (CSet k at d)
  obtain n g where k: "k = (n, g)" by (cases k)
  obtain r w' where "set_variable n g at d w = Some (r, w')" "running st w'"
    "case r of
       Ok _ \<Rightarrow> vars (fw_state w') = (vars (fw_state w))((n, g) := stored at d (vars (fw_state w) (n, g)))
     | Err e \<Rightarrow> is_error (err_status e) \<and> vars (fw_state w') = vars (fw_state w) \<or>
         is_warning (err_status e) \<and> vars (fw_state w') = (vars (fw_state w))((n, g) := stored at d (vars (fw_state w) (n, g)))"
    using set_refines [OF c w] a CSet by force
  then show ?thesis by (cases r) (auto simp: CSet k store_step_set error.splits intro: error.equality)
next
  case (CDelete k)
  obtain n g where k: "k = (n, g)" by (cases k)
  have "unauthenticated 0" by (simp add: unauthenticated_def)
  then obtain r w' where "set_variable n g 0 [] w = Some (r, w')" "running st w'"
    "case r of
       Ok _ \<Rightarrow> vars (fw_state w') = (vars (fw_state w))((n, g) := stored 0 [] (vars (fw_state w) (n, g)))
     | Err e \<Rightarrow> is_error (err_status e) \<and> vars (fw_state w') = vars (fw_state w) \<or>
         is_warning (err_status e) \<and> vars (fw_state w') = (vars (fw_state w))((n, g) := stored 0 [] (vars (fw_state w) (n, g)))"
    using set_refines [OF c w] by blast
  then show ?thesis by (cases r) (auto simp: CDelete k store_step_delete delete_variable_def intro: error.equality)
qed (use exists_refines [OF c w] get_refines [OF c w] boxed_refines [OF c w h] in blast)+

section \<open>The refinement\<close>

text \<open>C3: The variable operations refine the abstract store. On firmware that behaves as documented, any sequence of calls that
  test, read, read boxed, set and delete variables runs without a panic, and its replies and final variables are those of a run of
  the store: a read returns the stored bytes and attributes in the given buffer or a fresh box, a buffer that is too small is
  reported with the size needed, a missing variable is reported as such, setting and deleting update the store exactly when they
  report success or a warning, and nothing else changes it.\<close>

theorem variables_refine_store:
  assumes "variable_contract st vars" and "heap_neutral st vars heap" and "running st w" and "list_all call_allowed cs"
  shows "\<exists>rs w'. do_calls heap cs w = Some (rs, w') \<and> running st w' \<and>
    store_run (vars (fw_state w)) cs rs (vars (fw_state w'))"
  using assms(3,4)
proof (induction cs arbitrary: w)
  case Nil
  then show ?case by (simp add: run_nil)
next
  case (Cons c cs)
  then obtain r w1 where c: "do_call heap c w = Some (r, w1)" "running st w1"
    "store_step (vars (fw_state w)) c r (vars (fw_state w1))" using do_call_refines [OF assms(1,2)] by fastforce
  then obtain rs w2 where "do_calls heap cs w1 = Some (rs, w2)" "running st w2"
    "store_run (vars (fw_state w1)) cs rs (vars (fw_state w2))" using Cons.IH [OF c(2)] Cons.prems by auto
  then show ?case using c run_cons by (fastforce simp del: do_call.simps)
qed

text \<open>A firmware with room for one variable of one byte.\<close>

definition byte_key :: var_key where "byte_key = ([0x41, 0], 9)"

definition byte_vars :: "u8 option \<Rightarrow> var_store" where
  "byte_vars s = (case s of None \<Rightarrow> Map.empty | Some b \<Rightarrow> [byte_key \<mapsto> (7, [b])])"

definition byte_get :: "u8 option \<Rightarrow> u16 list \<Rightarrow> nat \<Rightarrow> usize \<Rightarrow> (status \<times> u32 \<times> usize \<times> bytes) \<times> u8 option" where
  "byte_get s n g sz =
    (case (if (n, g) = byte_key then s else None) of
       None \<Rightarrow> ((NOT_FOUND, 0, sz, []), s)
     | Some b \<Rightarrow> if sz < 1 then ((BUFFER_TOO_SMALL, 0, 1, []), s) else ((SUCCESS, 7, 1, [b]), s))"

definition byte_set :: "u8 option \<Rightarrow> u16 list \<Rightarrow> nat \<Rightarrow> u32 \<Rightarrow> bytes \<Rightarrow> status \<times> u8 option" where
  "byte_set s n g a d =
    (if (n, g) \<noteq> byte_key \<or> append_write a then (INVALID_PARAMETER, s)
     else if d = [] \<or> a AND 0x06 = 0 then (if s = None then NOT_FOUND else SUCCESS, None)
     else if a = 7 \<and> length d = 1 then (SUCCESS, Some (hd d))
     else (OUT_OF_RESOURCES, s))"

definition byte_firmware :: "u8 option firmware" where
  "byte_firmware = idle_firmware \<lparr>fw_rt := (fw_rt idle_firmware)\<lparr>rs_get_variable := byte_get, rs_set_variable := byte_set\<rparr>\<rparr>"

definition byte_world :: "u8 option world" where
  "byte_world = \<lparr>system_table = Some byte_firmware, fw_state = None, image_handle_ptr = 1, memory_type_cache = 0, ram = (\<lambda>_. 0)\<rparr>"

definition fixed_heap :: "'s heap" where
  "fixed_heap = \<lparr>heap_alloc = (\<lambda>l s. (4096, s)), heap_dealloc = (\<lambda>p l s. s)\<rparr>"

lemma status_errors: "is_error INVALID_PARAMETER" "is_error NOT_FOUND" "is_error OUT_OF_RESOURCES" "\<not> is_error SUCCESS"
  by (simp_all add: is_error_def status_consts)

lemma byte_get_contract:
  assumes "byte_get s n g sz = ((r, a, sz', bs), s')"
  shows "byte_vars s' = byte_vars s \<and> length bs \<le> sz \<and>
       (r = SUCCESS \<longrightarrow> byte_vars s (n, g) = Some (a, bs) \<and> sz' = length bs) \<and>
       (r = BUFFER_TOO_SMALL \<longrightarrow> (\<exists>a d. byte_vars s (n, g) = Some (a, d) \<and> sz < length d \<and> sz' = length d)) \<and>
       (r = NOT_FOUND \<longrightarrow> byte_vars s (n, g) = None)"
  using assms not_found_neq_too_small [symmetric] status_success_neq
  by (cases s) (auto simp: byte_get_def byte_vars_def split: if_splits)

lemma byte_set_contract:
  assumes "byte_set s n g a d = (r, s')"
  shows "byte_vars s' = (if is_error r then byte_vars s else (byte_vars s)((n, g) := stored a d (byte_vars s (n, g))))"
proof -
  consider "(n, g) \<noteq> byte_key \<or> append_write a" | "(n, g) = byte_key" "\<not> append_write a" "d = [] \<or> a AND 0x06 = 0"
    | "(n, g) = byte_key" "\<not> append_write a" "d \<noteq> []" "a AND 0x06 \<noteq> 0" by blast
  then show ?thesis
  proof cases
    case 2
    then show ?thesis using assms status_errors by (cases s) (auto simp: byte_set_def byte_vars_def stored_def)
  next
    case 3
    then show ?thesis using assms status_errors
      by (cases "a = 7 \<and> length d = 1") (auto simp: byte_set_def byte_vars_def stored_def length_Suc_conv split: option.splits)
  qed (use assms status_errors in \<open>auto simp: byte_set_def\<close>)
qed

lemma byte_vars_data: "byte_vars s k = Some (a, d) \<Longrightarrow> d \<noteq> [] \<and> length d \<le> 9223372036854775807"
  by (auto simp: byte_vars_def split: option.splits if_splits)

lemma byte_firmware_contract: "variable_contract byte_firmware byte_vars"
  unfolding variable_contract_def using byte_get_contract byte_set_contract byte_vars_data by (simp add: byte_firmware_def)

theorem variables_refine_store_witness:
  "\<exists>rs w'. do_calls fixed_heap [CSet byte_key 7 [42], CGetBoxed byte_key, CDelete byte_key, CExists byte_key] byte_world = Some (rs, w') \<and>
    store_run Map.empty [CSet byte_key 7 [42], CGetBoxed byte_key, CDelete byte_key, CExists byte_key] rs Map.empty \<and>
    rs = [RUnit (Ok ()), RGetBoxed (Ok ([42], 7)), RUnit (Ok ()), RExists (Ok False)]"
proof -
  let ?cs = "[CSet byte_key 7 [42], CGetBoxed byte_key, CDelete byte_key, CExists byte_key]"
  have h: "heap_neutral byte_firmware byte_vars fixed_heap" by (simp add: heap_neutral_def fixed_heap_def)
  have r: "running byte_firmware byte_world" by (simp add: running_def byte_world_def byte_firmware_def)
  have "list_all call_allowed ?cs" by (simp add: unauthenticated_def)
  then obtain rs w' where g: "do_calls fixed_heap ?cs byte_world = Some (rs, w')"
    "store_run (byte_vars (fw_state byte_world)) ?cs rs (byte_vars (fw_state w'))"
    using variables_refine_store [OF byte_firmware_contract h r] by blast
  have "rs = [RUnit (Ok ()), RGetBoxed (Ok ([42], 7)), RUnit (Ok ()), RExists (Ok False)] \<and> fw_state w' = None"
    using g(1) by (auto simp: set_variable_def delete_variable_def get_variable_boxed_def make_boxed_def get_variable_def
        variable_exists_def runtime_services_raw_panicking_def byte_world_def byte_firmware_def byte_set_def byte_get_def byte_key_def
        append_write_def error_new_def error_split_def require_def status_success_neq fixed_heap_def slice_bytes_def
        byte_layout [of 1, simplified] mem_write_def mem_read_def)
  then show ?thesis using g by (simp add: byte_world_def byte_vars_def)
qed

end
