(* ===== verification/Variable_Keys.thy ===== *)
theory Variable_Keys
  imports Runtime_Props
begin

text \<open>
  The iterator \<open>VariableKeys\<close>: over firmware that enumerates its variables as documented it yields every key once, in
  the order of the firmware, whatever the length of the names, and then ends.
\<close>

section \<open>The documented enumeration\<close>

text \<open>\<open>keys\<close> lists the keys of the firmware, names without terminator. \<open>following\<close> is the part of the list after a key.\<close>

type_synonym key_list = "(u16 list \<times> vendor) list"

fun following :: "u16 list \<times> vendor \<Rightarrow> key_list \<Rightarrow> key_list option" where
  "following k [] = None"
| "following k (x # xs) = (if x = k then Some xs else following k xs)"

definition keys_after :: "u16 list \<Rightarrow> vendor \<Rightarrow> key_list \<Rightarrow> key_list option" where
  "keys_after b g ks =
    (let n = takeWhile (\<lambda>c. c \<noteq> 0) b in if n = [] then Some ks else following (n, g) ks)"

definition key_fits :: "u16 list \<Rightarrow> bool" where
  "key_fits n \<longleftrightarrow> n \<noteq> [] \<and> 0 \<notin> set n \<and> length n < 4611686018427387903"

text \<open>An empty name asks for the first key, any other for the one after it; a buffer without room for the name is left alone and
  the size in bytes that it needs is returned.\<close>

definition key_contract :: "'fw firmware \<Rightarrow> ('fw \<Rightarrow> key_list) \<Rightarrow> bool" where
  "key_contract st keys \<longleftrightarrow>
    (\<forall>s. distinct (keys s) \<and> (\<forall>(n, g) \<in> set (keys s). key_fits n)) \<and>
    (\<forall>s b g ks r sz b' g' s'. 0 \<in> set b \<longrightarrow> keys_after b g (keys s) = Some ks \<longrightarrow>
       rs_get_next_variable_name (fw_rt st) s (length b * 2) b g = ((r, sz, b', g'), s') \<longrightarrow>
       keys s' = keys s \<and> fw_runtime_services_null st s' = fw_runtime_services_null st s \<and>
       (case ks of
          [] \<Rightarrow> r = NOT_FOUND \<and> length b' = length b
        | (n, h) # _ \<Rightarrow>
            if length b \<le> length n then r = BUFFER_TOO_SMALL \<and> sz = (length n + 1) * 2 \<and> b' = b \<and> g' = g
            else r = SUCCESS \<and> b' = overwrite b 0 (n @ [0]) \<and> g' = h))"

section \<open>Items and states\<close>

definition key_item :: "u16 list \<times> vendor \<Rightarrow> variable_key uefi_result" where
  "key_item k = (if list_all ucs2 (fst k) then Ok \<lparr>vk_vendor = snd k, vk_name = fst k @ [0]\<rparr> else fail UNSUPPORTED ())"

definition vks_remaining :: "('fw \<Rightarrow> key_list) \<Rightarrow> variable_keys \<times> 'fw world \<Rightarrow> variable_key uefi_result list" where
  "vks_remaining keys itw = (case itw of (it, w) \<Rightarrow>
     if vks_is_done it then [] else map key_item (the (keys_after (vks_name it) (vks_vendor it) (keys (fw_state w)))))"

definition vks_valid :: "'fw firmware \<Rightarrow> ('fw \<Rightarrow> key_list) \<Rightarrow> variable_keys \<times> 'fw world \<Rightarrow> bool" where
  "vks_valid st keys itw \<longleftrightarrow> (case itw of (it, w) \<Rightarrow> key_contract st keys \<and> running st w \<and>
     (vks_is_done it \<or> 0 \<in> set (vks_name it) \<and> keys_after (vks_name it) (vks_vendor it) (keys (fw_state w)) \<noteq> None))"

section \<open>Lemmas\<close>

lemma following_subset: "following k ks = Some xs \<Longrightarrow> set xs \<subseteq> set ks"
  by (induction ks) (auto split: if_splits)

lemma following_step: "distinct ks \<Longrightarrow> following k ks = Some (x # xs) \<Longrightarrow> following x ks = Some xs"
proof (induction ks)
  case (Cons y ys)
  show ?case
  proof (cases "y = k")
    case True
    then show ?thesis using Cons.prems by auto
  next
    case False
    then have f: "following k ys = Some (x # xs)" using Cons.prems by simp
    then have "y \<noteq> x" using following_subset [OF f] Cons.prems by auto
    then show ?thesis using Cons.IH f Cons.prems by simp
  qed
qed simp

lemma takeWhile_terminated: "0 \<notin> set n \<Longrightarrow> takeWhile (\<lambda>c. c \<noteq> 0) (n @ 0 # r) = (n :: u16 list)"
  by (induction n) auto

lemma overwrite_start: "length ys \<le> length xs \<Longrightarrow> overwrite xs 0 ys = ys @ drop (length ys) xs"
  by (simp add: overwrite_def)

lemma keys_after_cases:
  assumes "keys_after b g ks = Some xs"
  obtains (first) "xs = ks" | (later) n where "following (n, g) ks = Some xs"
proof (cases "takeWhile (\<lambda>c. c \<noteq> 0) b = []")
  case True
  then show thesis using assms first by (simp add: keys_after_def)
next
  case False
  then show thesis using assms later by (simp add: keys_after_def)
qed

lemma keys_after_step:
  assumes "distinct ks" "keys_after b g ks = Some ((n, h) # xs)" "key_fits n"
  shows "keys_after (n @ 0 # r) h ks = Some xs"
proof -
  from assms(2) have "following (n, h) ks = Some xs"
  proof (cases rule: keys_after_cases)
    case first
    from first [symmetric] show ?thesis by simp
  next
    case (later m)
    then show ?thesis by (rule following_step [OF assms(1)])
  qed
  then show ?thesis using assms(3) takeWhile_terminated [of n r] by (simp add: keys_after_def key_fits_def)
qed

lemma keys_after_fits:
  assumes "\<forall>(n, g) \<in> set ks. key_fits n" "keys_after b g ks = Some ((n, h) # xs)"
  shows "key_fits n"
proof -
  from assms(2) have "set ((n, h) # xs) \<subseteq> set ks"
  proof (cases rule: keys_after_cases)
    case first
    from first [symmetric] show ?thesis by simp
  qed (rule following_subset)
  then show ?thesis using assms(1) by auto
qed

lemma keys_after_grow:
  assumes "0 \<in> set b"
  shows "keys_after (b @ r) g ks = keys_after b g ks"
proof -
  have "takeWhile (\<lambda>c. c \<noteq> 0) (b @ r) = takeWhile (\<lambda>c. c \<noteq> 0) b" by (rule takeWhile_append1 [OF assms]) simp
  then show ?thesis by (simp add: keys_after_def)
qed

lemma until_nul_item:
  assumes "0 \<notin> set n"
  shows "list_all ucs2 n \<Longrightarrow> from_u16_until_nul (n @ 0 # r) = Ok (n @ [0])"
    and "\<not> list_all ucs2 n \<Longrightarrow> \<exists>e. from_u16_until_nul (n @ 0 # r) = Err e"
proof -
  let ?bad = "\<lambda>c. \<not> ucs2 c \<or> c = 0"
  have eq: "from_u16_until_nul (n @ 0 # r) = (case position ?bad (n @ 0 # r) of
       None \<Rightarrow> Err UntilNul_NoNul
     | Some i \<Rightarrow> if ucs2 ((n @ 0 # r) ! i) then Ok (take (i + 1) (n @ 0 # r)) else Err (UntilNul_InvalidChar i))"
    unfolding from_u16_until_nul_def by (rule from_u16_until_nul_loop_eq [of _ "[]"]) simp_all
  show "from_u16_until_nul (n @ 0 # r) = Ok (n @ [0])" if "list_all ucs2 n"
  proof -
    have "position ?bad (n @ 0 # r) = Some (length n)"
      using that assms by (auto simp: position_Some_iff nth_append list_all_length in_set_conv_nth)
    then show ?thesis by (simp add: eq)
  qed
  show "\<exists>e. from_u16_until_nul (n @ 0 # r) = Err e" if na: "\<not> list_all ucs2 n"
  proof (cases "position ?bad (n @ 0 # r)")
    case (Some i)
    obtain j where j: "j < length n" "\<not> ucs2 (n ! j)" using na by (auto simp: list_all_length)
    have i: "?bad ((n @ 0 # r) ! i)" "\<forall>k < i. \<not> ?bad ((n @ 0 # r) ! k)" using Some by (auto simp: position_Some_iff)
    have "i \<le> j" using i(2) j by (metis linorder_not_less nth_append)
    then have "(n @ 0 # r) ! i = n ! i" "i < length n" using j(1) by (simp_all add: nth_append)
    then have "\<not> ucs2 ((n @ 0 # r) ! i)" using i(1) assms by (metis nth_mem)
    then show ?thesis unfolding eq Some by simp
  next
    case None
    then show ?thesis unfolding eq by simp
  qed
qed

lemma key_contract_next:
  assumes "key_contract st keys" "0 \<in> set b" "keys_after b g (keys s) = Some ks"
    and "rs_get_next_variable_name (fw_rt st) s (length b * 2) b g = ((r, sz, b', g'), s')"
  shows "keys s' = keys s" "fw_runtime_services_null st s' = fw_runtime_services_null st s"
    and "case ks of
          [] \<Rightarrow> r = NOT_FOUND \<and> length b' = length b
        | (n, h) # _ \<Rightarrow>
            if length b \<le> length n then r = BUFFER_TOO_SMALL \<and> sz = (length n + 1) * 2 \<and> b' = b \<and> g' = g
            else r = SUCCESS \<and> b' = overwrite b 0 (n @ [0]) \<and> g' = h"
proof -
  from assms(1) [unfolded key_contract_def, THEN conjunct2, rule_format, OF assms(2-4)]
  show "keys s' = keys s" "fw_runtime_services_null st s' = fw_runtime_services_null st s"
    "case ks of
          [] \<Rightarrow> r = NOT_FOUND \<and> length b' = length b
        | (n, h) # _ \<Rightarrow>
            if length b \<le> length n then r = BUFFER_TOO_SMALL \<and> sz = (length n + 1) * 2 \<and> b' = b \<and> g' = g
            else r = SUCCESS \<and> b' = overwrite b 0 (n @ [0]) \<and> g' = h" by blast+
qed

text \<open>One call: the end, a buffer that is too small, or the next key at the start of the buffer.\<close>

lemma next_key_end:
  assumes c: "key_contract st keys" and w: "running st w" and b: "0 \<in> set b" "keys_after b g (keys (fw_state w)) = Some []"
  shows "\<exists>b' g' w'. get_next_variable_key b g w = Some ((fail NOT_FOUND None, b', g'), w') \<and> running st w'"
proof -
  obtain r sz b' g' f where call: "rs_get_next_variable_name (fw_rt st) (fw_state w) (length b * 2) b g = ((r, sz, b', g'), f)"
    by (metis prod.collapse)
  note C = key_contract_next [OF c b call]
  then show ?thesis using running_step [OF w C(2)]
    by (simp add: get_next_variable_key_def running_raw [OF w] SIZE_OF_U16_def call error_new_def require_def status_success_neq)
qed

lemma next_key_small:
  assumes c: "key_contract st keys" and w: "running st w"
    and b: "0 \<in> set b" "keys_after b g (keys (fw_state w)) = Some ((n, h) # ks)" and n: "length b \<le> length n"
  shows "\<exists>w'. get_next_variable_key b g w = Some ((fail BUFFER_TOO_SMALL (Some (length n + 1)), b, g), w') \<and> running st w' \<and>
    keys (fw_state w') = keys (fw_state w)"
proof -
  obtain r sz b' g' f where call: "rs_get_next_variable_name (fw_rt st) (fw_state w) (length b * 2) b g = ((r, sz, b', g'), f)"
    by (metis prod.collapse)
  note C = key_contract_next [OF c b call]
  then show ?thesis using running_step [OF w C(2)] n
    by (simp add: get_next_variable_key_def running_raw [OF w] SIZE_OF_U16_def call error_new_def require_def status_success_neq)
qed

lemma next_key_ok:
  assumes c: "key_contract st keys" and w: "running st w"
    and b: "0 \<in> set b" "keys_after b g (keys (fw_state w)) = Some ((n, h) # ks)" and n: "length n < length b"
  shows "\<exists>w' r. get_next_variable_key b g w = Some ((Ok (), n @ 0 # r, h), w') \<and> running st w' \<and>
    keys (fw_state w') = keys (fw_state w)"
proof -
  obtain r sz b' g' f where call: "rs_get_next_variable_name (fw_rt st) (fw_state w) (length b * 2) b g = ((r, sz, b', g'), f)"
    by (metis prod.collapse)
  note C = key_contract_next [OF c b call]
  then have "b' = n @ 0 # drop (length n + 1) b" "r = SUCCESS" "g' = h" using n by (simp_all add: overwrite_start)
  then show ?thesis using running_step [OF w C(2)] C(1) n
    by (simp add: get_next_variable_key_def running_raw [OF w] SIZE_OF_U16_def call require_def)
qed

text \<open>With the second attempt, whichever length the name has.\<close>

lemma next_key_retry:
  assumes c: "key_contract st keys" and w: "running st w"
    and b: "0 \<in> set b" "keys_after b g (keys (fw_state w)) = Some ((n, h) # ks)" and fits: "key_fits n"
  shows "\<exists>r0 w' r. get_next_variable_key b g w = Some r0 \<and> retry_key r0 = Some ((Ok (), n @ 0 # r, h), w') \<and> running st w' \<and>
    keys (fw_state w') = keys (fw_state w)"
proof (cases "length b \<le> length n")
  case False
  then show ?thesis using next_key_ok [OF c w b] by (auto simp: retry_key_def)
next
  case True
  obtain w1 where w1: "get_next_variable_key b g w = Some ((fail BUFFER_TOO_SMALL (Some (length n + 1)), b, g), w1)"
    "running st w1" "keys (fw_state w1) = keys (fw_state w)" using next_key_small [OF c w b True] by blast
  let ?b = "b @ replicate (length n + 1 - length b) 0"
  have "vec_resize (length n + 1) b = Some ?b"
    using True fits by (simp add: vec_resize_def require_def SIZE_OF_U16_def key_fits_def)
  moreover have "0 \<in> set ?b" "keys_after ?b g (keys (fw_state w1)) = Some ((n, h) # ks)" "length n < length ?b"
    using b True w1(3) keys_after_grow by auto
  then obtain w2 r where "get_next_variable_key ?b g w1 = Some ((Ok (), n @ 0 # r, h), w2)" "running st w2"
    "keys (fw_state w2) = keys (fw_state w1)" using next_key_ok [OF c w1(2)] by blast
  ultimately show ?thesis using w1 by (auto simp: retry_key_def)
qed

lemma variable_keys_next_end:
  assumes "vks_valid st keys (it, w)" "vks_remaining keys (it, w) = []"
  shows "\<exists>s'. variable_keys_next (it, w) = Some (None, s') \<and> vks_valid st keys s' \<and> vks_remaining keys s' = []"
proof (cases "vks_is_done it")
  case True
  then show ?thesis using assms by (simp add: variable_keys_next_def)
next
  case False
  then have v: "key_contract st keys" "running st w" "0 \<in> set (vks_name it)"
    "keys_after (vks_name it) (vks_vendor it) (keys (fw_state w)) = Some []"
    using assms by (auto simp: vks_valid_def vks_remaining_def)
  obtain b g w' where call: "get_next_variable_key (vks_name it) (vks_vendor it) w = Some ((fail NOT_FOUND None, b, g), w')"
    "running st w'" using next_key_end [OF v] by blast
  let ?it = "it\<lparr>vks_name := b, vks_vendor := g, vks_is_done := True\<rparr>"
  have "variable_keys_next (it, w) = Some (None, ?it, w')" using False call(1) by (simp add: variable_keys_next_def retry_key_def)
  moreover have "vks_valid st keys (?it, w')" "vks_remaining keys (?it, w') = []"
    using v(1) call(2) by (simp_all add: vks_valid_def vks_remaining_def)
  ultimately show ?thesis by blast
qed

lemma variable_keys_next_item:
  assumes "vks_valid st keys (it, w)" "vks_remaining keys (it, w) = x # xs"
  shows "\<exists>s'. variable_keys_next (it, w) = Some (Some x, s') \<and> vks_valid st keys s' \<and> vks_remaining keys s' = xs"
proof -
  have nd: "\<not> vks_is_done it" using assms(2) by (auto simp: vks_remaining_def)
  then obtain n h ks where v: "key_contract st keys" "running st w" "0 \<in> set (vks_name it)"
    "keys_after (vks_name it) (vks_vendor it) (keys (fw_state w)) = Some ((n, h) # ks)" "x = key_item (n, h)" "xs = map key_item ks"
    using assms by (auto simp: vks_valid_def vks_remaining_def map_eq_Cons_conv)
  have d: "distinct (keys (fw_state w))" and fits: "key_fits n"
    using v(1) keys_after_fits [OF _ v(4)] by (simp_all add: key_contract_def)
  obtain r0 w' r where call: "get_next_variable_key (vks_name it) (vks_vendor it) w = Some r0"
    "retry_key r0 = Some ((Ok (), n @ 0 # r, h), w')" "running st w'" "keys (fw_state w') = keys (fw_state w)"
    using next_key_retry [OF v(1-4) fits] by blast
  let ?it = "it\<lparr>vks_name := n @ 0 # r, vks_vendor := h\<rparr>"
  have "keys_after (n @ 0 # r) h (keys (fw_state w')) = Some ks" using keys_after_step [OF d v(4) fits] call(4) by simp
  then have "vks_valid st keys (?it, w')" "vks_remaining keys (?it, w') = xs"
    using nd v(1,6) call(3) by (simp_all add: vks_valid_def vks_remaining_def)
  moreover have "variable_keys_next (it, w) = Some (Some x, ?it, w')"
    using nd call(1,2) fits until_nul_item [of n r] v(5)
    by (auto simp: variable_keys_next_def key_item_def key_fits_def error_from_status_def error_new_def require_def status_success_neq)
  ultimately show ?thesis by blast
qed

interpretation vki: rust_iterator variable_keys_next "vks_remaining keys" "vks_valid st keys" for st keys
proof
  fix s x xs
  show "\<exists>s'. variable_keys_next s = Some (None, s') \<and> vks_valid st keys s' \<and> vks_remaining keys s' = []"
    if "vks_valid st keys s" "vks_remaining keys s = []"
    using variable_keys_next_end that by (cases s) blast
  show "\<exists>s'. variable_keys_next s = Some (Some x, s') \<and> vks_valid st keys s' \<and> vks_remaining keys s' = xs"
    if "vks_valid st keys s" "vks_remaining keys s = x # xs"
    using variable_keys_next_item that by (cases s) blast
qed

section \<open>Property\<close>

text \<open>C12: Enumerating variables is complete and ends. On firmware that enumerates its keys as documented, a loop over
  \<open>variable_keys()\<close> terminates without a panic and yields exactly one item for each key, in the order of the firmware,
  whatever the length of the names: a buffer that is too small is grown and the call repeated. A key whose name is not valid
  UCS-2 gives an error item, and the enumeration goes on behind it.\<close>

theorem variable_keys_complete:
  assumes "key_contract st keys" and "running st w"
  shows "collect_iter variable_keys_next (variable_keys_new, w) = Some (map key_item (keys (fw_state w)))"
proof -
  have "vks_valid st keys (variable_keys_new, w)" "vks_remaining keys (variable_keys_new, w) = map key_item (keys (fw_state w))"
    using assms by (simp_all add: vks_valid_def vks_remaining_def variable_keys_new_def keys_after_def)
  then show ?thesis using vki.collect by metis
qed

text \<open>A firmware with three variables: a name of one unit, one that outgrows the first buffer, and one that is no valid string.\<close>

definition three_keys :: key_list where
  "three_keys = [([0x41], 1), (replicate 600 0x42, 2), ([0xD800], 3)]"

definition three_firmware :: "unit firmware" where
  "three_firmware = idle_firmware \<lparr>fw_rt := (fw_rt idle_firmware)\<lparr>rs_get_next_variable_name := (\<lambda>s sz b g.
     case keys_after b g three_keys of
       None \<Rightarrow> ((INVALID_PARAMETER, sz, b, g), s)
     | Some [] \<Rightarrow> ((NOT_FOUND, sz, b, g), s)
     | Some ((n, h) # _) \<Rightarrow>
         if sz < (length n + 1) * 2 then ((BUFFER_TOO_SMALL, (length n + 1) * 2, b, g), s)
         else ((SUCCESS, (length n + 1) * 2, overwrite b 0 (n @ [0]), h), s))\<rparr>\<rparr>"

lemma three_firmware_contract: "key_contract three_firmware (\<lambda>_. three_keys)"
proof -
  have "distinct three_keys \<and> (\<forall>(n, g) \<in> set three_keys. key_fits n)" by (simp add: three_keys_def key_fits_def)
  then show ?thesis by (auto simp: key_contract_def three_firmware_def split: list.splits)
qed

theorem variable_keys_complete_witness:
  "collect_iter variable_keys_next (variable_keys_new,
      \<lparr>system_table = Some three_firmware, fw_state = (), image_handle_ptr = 1, memory_type_cache = 0, ram = (\<lambda>_. 0)\<rparr>) =
    Some [Ok \<lparr>vk_vendor = 1, vk_name = [0x41, 0]\<rparr>, Ok \<lparr>vk_vendor = 2, vk_name = replicate 600 0x42 @ [0]\<rparr>, fail UNSUPPORTED ()]"
proof -
  let ?w = "\<lparr>system_table = Some three_firmware, fw_state = (), image_handle_ptr = 1, memory_type_cache = 0, ram = (\<lambda>_. 0)\<rparr>"
  have "running three_firmware ?w" by (simp add: running_def three_firmware_def)
  note variable_keys_complete [OF three_firmware_contract this]
  moreover have "ucs2 0x41" "ucs2 0x42" "\<not> ucs2 0xD800" by (simp_all add: ucs2_def is_rchar_def)
  ultimately show ?thesis by (simp add: three_keys_def key_item_def list_all_iff)
qed

end
