(* ===== verification/File_Proto.thy ===== *)
theory File_Proto
  imports Mem_Util Strings_Props
begin

text \<open>
  Files: the file protocol of \<open>uefi/src/proto/media/file\<close> (\<open>mod.rs\<close>, \<open>regular.rs\<close>,
  \<open>dir.rs\<close>, \<open>info.rs\<close>) and the volume of \<open>uefi/src/proto/media/fs.rs\<close>.

  The driver behind the protocol is a parameter: a record of functions on the state of the volume. A file handle is the address of the
  protocol instance. Buffers that are borrowed slices are lists of bytes; buffers that end up as boxed data are addresses in memory.
\<close>

unbundle bit_operations_syntax

section \<open>The driver and the state\<close>

record 's file_protocol =
  fp_open_volume :: "'s \<Rightarrow> (status \<times> nat) \<times> 's"
  fp_open :: "'s \<Rightarrow> nat \<Rightarrow> char16 list \<Rightarrow> u64 \<Rightarrow> u64 \<Rightarrow> (status \<times> nat) \<times> 's"
  fp_close :: "'s \<Rightarrow> nat \<Rightarrow> status \<times> 's"
  fp_delete :: "'s \<Rightarrow> nat \<Rightarrow> status \<times> 's"
  fp_read :: "'s \<Rightarrow> nat \<Rightarrow> usize \<Rightarrow> (status \<times> usize \<times> bytes) \<times> 's"
  fp_write :: "'s \<Rightarrow> nat \<Rightarrow> bytes \<Rightarrow> (status \<times> usize) \<times> 's"
  fp_get_position :: "'s \<Rightarrow> nat \<Rightarrow> (status \<times> u64) \<times> 's"
  fp_set_position :: "'s \<Rightarrow> nat \<Rightarrow> u64 \<Rightarrow> status \<times> 's"
  fp_get_info :: "'s \<Rightarrow> nat \<Rightarrow> nat \<Rightarrow> usize \<Rightarrow> (status \<times> usize \<times> bytes) \<times> 's"
  fp_set_info :: "'s \<Rightarrow> nat \<Rightarrow> nat \<Rightarrow> bytes \<Rightarrow> status \<times> 's"
  fp_flush :: "'s \<Rightarrow> nat \<Rightarrow> status \<times> 's"

record 's file_world =
  vol :: 's
  vmem :: "nat \<Rightarrow> u8"

section \<open>Information about files\<close>

record info_type =
  it_guid :: nat
  it_align :: nat
  it_name_offset :: nat

definition FILE_INFO :: info_type where
  "FILE_INFO = \<lparr>it_guid = 0x09576e926d3f11d28e3900a0c969723b, it_align = 8, it_name_offset = 80\<rparr>"

definition FILE_SYSTEM_INFO :: info_type where
  "FILE_SYSTEM_INFO = \<lparr>it_guid = 0x09576e936d3f11d28e3900a0c969723b, it_align = 8, it_name_offset = 36\<rparr>"

definition FILE_SYSTEM_VOLUME_LABEL :: info_type where
  "FILE_SYSTEM_VOLUME_LABEL = \<lparr>it_guid = 0xdb47d7d3fe8111d39a350090273fc14d, it_align = 2, it_name_offset = 0\<rparr>"

text \<open>A reference to an information structure is its address and the length of its name, terminator included. The length is found by
  walking the memory to the terminator.\<close>

partial_function (option) mem_strlen :: "(nat \<Rightarrow> u8) \<Rightarrow> nat \<Rightarrow> usize \<Rightarrow> usize option" where
  [code]: "mem_strlen m p n =
    (if u16_from_le (mem_read m (p + 2 * n) 2) = NUL_16 then Some n else mem_strlen m p (n + 1))"

definition from_uefi :: "info_type \<Rightarrow> (nat \<Rightarrow> u8) \<Rightarrow> nat \<Rightarrow> (nat \<times> usize) option" where
  "from_uefi it m p = do {
     n \<leftarrow> mem_strlen m (p + it_name_offset it) 0;
     Some (p, n + 1)
   }"

definition info_layout :: "info_type \<Rightarrow> usize \<Rightarrow> layout option" where
  "info_layout it name_len = do {
     l \<leftarrow> layout_from_size_align (it_name_offset it + 2 * name_len) (it_align it);
     Some (pad_to_align l)
   }"

datatype file_info_creation_error = InsufficientStorage usize

text \<open>The header is given by the places and values that the initialiser writes, relative to the start of the structure.\<close>

fun write_fields :: "(nat \<times> bytes) list \<Rightarrow> nat \<Rightarrow> (nat \<Rightarrow> u8) \<Rightarrow> nat \<Rightarrow> u8" where
  "write_fields [] p m = m"
| "write_fields ((off, v) # fs) p m = write_fields fs p (mem_write m (p + off) v)"

definition new_impl ::
  "info_type \<Rightarrow> nat \<times> usize \<Rightarrow> char16 list \<Rightarrow> (u64 \<Rightarrow> (nat \<times> bytes) list) \<Rightarrow> (nat \<Rightarrow> u8) \<Rightarrow>
    ((nat \<times> usize, file_info_creation_error) result \<times> (nat \<Rightarrow> u8)) option" where
  "new_impl it storage name init m = do {
     let name_length_ucs2 = length name;
     let name_size = 2 * length name;
     s \<leftarrow> uadd (it_name_offset it) name_size;
     info_size \<leftarrow> round_up_to_alignment (it_align it) s;
     case align_buf (it_align it) storage of
       None \<Rightarrow> Some (Err (InsufficientStorage info_size), m)
     | Some storage' \<Rightarrow> do {
         assert_aligned (it_align it) storage';
         if snd storage' < info_size then Some (Err (InsufficientStorage info_size), m)
         else do {
           let m1 = write_fields (init (word_of_nat info_size)) (fst storage') m;
           let m2 = mem_write m1 (fst storage' + it_name_offset it) (concat (map u16_to_le name));
           Some (Ok (fst storage', name_length_ucs2), m2)
         }
       }
   }"

definition file_info_new ::
  "nat \<times> usize \<Rightarrow> u64 \<Rightarrow> u64 \<Rightarrow> raw_time \<Rightarrow> raw_time \<Rightarrow> raw_time \<Rightarrow> u64 \<Rightarrow> char16 list \<Rightarrow> (nat \<Rightarrow> u8) \<Rightarrow>
    ((nat \<times> usize, file_info_creation_error) result \<times> (nat \<Rightarrow> u8)) option" where
  "file_info_new storage file_size physical_size create_time last_access_time modification_time attribute file_name m =
     new_impl FILE_INFO storage file_name (\<lambda>info_size.
       [(0, u64_to_le info_size), (8, u64_to_le file_size), (16, u64_to_le physical_size), (24, time_to_bytes create_time),
        (40, time_to_bytes last_access_time), (56, time_to_bytes modification_time), (72, u64_to_le attribute)]) m"

definition file_system_info_new ::
  "nat \<times> usize \<Rightarrow> bool \<Rightarrow> u64 \<Rightarrow> u64 \<Rightarrow> u32 \<Rightarrow> char16 list \<Rightarrow> (nat \<Rightarrow> u8) \<Rightarrow>
    ((nat \<times> usize, file_info_creation_error) result \<times> (nat \<Rightarrow> u8)) option" where
  "file_system_info_new storage read_only volume_size free_space block_size volume_label m =
     new_impl FILE_SYSTEM_INFO storage volume_label (\<lambda>info_size.
       [(0, u64_to_le info_size), (8, [of_bool read_only]), (16, u64_to_le volume_size), (24, u64_to_le free_space),
        (32, u32_to_le block_size)]) m"

definition volume_label_new ::
  "nat \<times> usize \<Rightarrow> char16 list \<Rightarrow> (nat \<Rightarrow> u8) \<Rightarrow> ((nat \<times> usize, file_info_creation_error) result \<times> (nat \<Rightarrow> u8)) option" where
  "volume_label_new storage volume_label m = new_impl FILE_SYSTEM_VOLUME_LABEL storage volume_label (\<lambda>_. []) m"

text \<open>The accessors read the fields at their offsets.\<close>

definition file_info_file_size :: "(nat \<Rightarrow> u8) \<Rightarrow> nat \<times> usize \<Rightarrow> u64" where
  "file_info_file_size m info = u64_from_le (mem_read m (fst info + 8) 8)"

definition file_info_physical_size :: "(nat \<Rightarrow> u8) \<Rightarrow> nat \<times> usize \<Rightarrow> u64" where
  "file_info_physical_size m info = u64_from_le (mem_read m (fst info + 16) 8)"

definition file_info_attribute :: "(nat \<Rightarrow> u8) \<Rightarrow> nat \<times> usize \<Rightarrow> u64" where
  "file_info_attribute m info = u64_from_le (mem_read m (fst info + 72) 8)"

fun units_of :: "bytes \<Rightarrow> char16 list" where
  "units_of (a # b # bs) = u16_from_le [a, b] # units_of bs"
| "units_of _ = []"

definition info_name :: "info_type \<Rightarrow> (nat \<Rightarrow> u8) \<Rightarrow> nat \<times> usize \<Rightarrow> char16 list option" where
  "info_name it m info = do {
     n \<leftarrow> mem_strlen m (fst info + it_name_offset it) 0;
     Some (units_of (mem_read m (fst info + it_name_offset it) (2 * (n + 1))))
   }"

definition FILE_ATTRIBUTE_DIRECTORY :: u64 where "FILE_ATTRIBUTE_DIRECTORY = 0x10"

definition file_info_is_directory :: "(nat \<Rightarrow> u8) \<Rightarrow> nat \<times> usize \<Rightarrow> bool" where
  "file_info_is_directory m info = (file_info_attribute m info AND FILE_ATTRIBUTE_DIRECTORY = FILE_ATTRIBUTE_DIRECTORY)"

definition file_info_is_regular_file :: "(nat \<Rightarrow> u8) \<Rightarrow> nat \<times> usize \<Rightarrow> bool" where
  "file_info_is_regular_file m info = (\<not> file_info_is_directory m info)"

section \<open>Handles\<close>

definition open_volume :: "'s file_protocol \<Rightarrow> 's file_world \<Rightarrow> (nat uefi_result \<times> 's file_world) option" where
  "open_volume fp w = do {
     let ((s, p), v) = fp_open_volume fp (vol w);
     r \<leftarrow> to_result_with_val s (Some p);
     Some (r, w\<lparr>vol := v\<rparr>)
   }"

text \<open>Reaching the function table through a null handle is undefined.\<close>

definition imp :: "nat \<Rightarrow> unit option" where
  "imp h = require (h \<noteq> 0)"

datatype file_mode = ModeRead | ModeReadWrite | ModeCreateReadWrite

fun file_mode_bits :: "file_mode \<Rightarrow> u64" where
  "file_mode_bits ModeRead = 1"
| "file_mode_bits ModeReadWrite = 2 OR 1"
| "file_mode_bits ModeCreateReadWrite = push_bit 63 1 OR 2 OR 1"

definition file_open ::
  "'s file_protocol \<Rightarrow> nat \<Rightarrow> char16 list \<Rightarrow> file_mode \<Rightarrow> u64 \<Rightarrow> 's file_world \<Rightarrow> (nat uefi_result \<times> 's file_world) option" where
  "file_open fp h filename open_mode attributes w = do {
     imp h;
     let ((s, p), v) = fp_open fp (vol w) h filename (file_mode_bits open_mode) attributes;
     r \<leftarrow> to_result_with_val s (Some p);
     Some (r, w\<lparr>vol := v\<rparr>)
   }"

definition file_delete :: "'s file_protocol \<Rightarrow> nat \<Rightarrow> 's file_world \<Rightarrow> (unit uefi_result \<times> 's file_world) option" where
  "file_delete fp h w = do {
     imp h;
     let (s, v) = fp_delete fp (vol w) h;
     r \<leftarrow> to_result s;
     Some (r, w\<lparr>vol := v\<rparr>)
   }"

definition file_drop :: "'s file_protocol \<Rightarrow> nat \<Rightarrow> 's file_world \<Rightarrow> 's file_world option" where
  "file_drop fp h w = do {
     imp h;
     let (s, v) = fp_close fp (vol w) h;
     r \<leftarrow> to_result s;
     require (is_ok r);
     Some (w\<lparr>vol := v\<rparr>)
   }"

definition get_info ::
  "'s file_protocol \<Rightarrow> info_type \<Rightarrow> nat \<Rightarrow> (nat \<times> usize, 's file_world) fetch" where
  "get_info fp it h buffer w = do {
     assert_aligned (it_align it) buffer;
     imp h;
     let ((s, buffer_size, written), v) = fp_get_info fp (vol w) h (it_guid it) (snd buffer);
     require (length written \<le> snd buffer);
     let w' = w\<lparr>vol := v, vmem := mem_write (vmem w) (fst buffer) written\<rparr>;
     r \<leftarrow> to_result_with s (from_uefi it (vmem w') (fst buffer)) (\<lambda>s. if s = BUFFER_TOO_SMALL then Some buffer_size else None);
     Some (r, w')
   }"

definition get_boxed_info ::
  "'s file_protocol \<Rightarrow> 's file_world heap \<Rightarrow> info_type \<Rightarrow> nat \<Rightarrow> 's file_world \<Rightarrow> ((nat \<times> usize) uefi_result \<times> 's file_world) option" where
  "get_boxed_info fp heap it h w = make_boxed heap (it_align it) (get_info fp it h) w"

definition box_drop :: "'s file_world heap \<Rightarrow> info_type \<Rightarrow> nat \<times> usize \<Rightarrow> 's file_world \<Rightarrow> 's file_world option" where
  "box_drop heap it info w = do {
     l \<leftarrow> info_layout it (snd info);
     Some (heap_dealloc heap (fst info) l w)
   }"

definition set_info :: "'s file_protocol \<Rightarrow> info_type \<Rightarrow> nat \<Rightarrow> nat \<times> usize \<Rightarrow> 's file_world \<Rightarrow> (unit uefi_result \<times> 's file_world) option" where
  "set_info fp it h info w = do {
     imp h;
     l \<leftarrow> info_layout it (snd info);
     let (s, v) = fp_set_info fp (vol w) h (it_guid it) (mem_read (vmem w) (fst info) (l_size l));
     r \<leftarrow> to_result s;
     Some (r, w\<lparr>vol := v\<rparr>)
   }"

definition file_flush :: "'s file_protocol \<Rightarrow> nat \<Rightarrow> 's file_world \<Rightarrow> (unit uefi_result \<times> 's file_world) option" where
  "file_flush fp h w = do {
     imp h;
     let (s, v) = fp_flush fp (vol w) h;
     r \<leftarrow> to_result s;
     Some (r, w\<lparr>vol := v\<rparr>)
   }"

definition is_regular_file :: "'s file_protocol \<Rightarrow> nat \<Rightarrow> 's file_world \<Rightarrow> (bool uefi_result \<times> 's file_world) option" where
  "is_regular_file fp h w = do {
     require (h \<noteq> 0);
     let ((s, _), v) = fp_get_position fp (vol w) h;
     let w' = w\<lparr>vol := v\<rparr>;
     if s = SUCCESS then Some (Ok True, w')
     else if s = UNSUPPORTED then Some (Ok False, w')
     else do { e \<leftarrow> error_from_status s; Some (Err e, w') }
   }"

definition handle_is_directory :: "'s file_protocol \<Rightarrow> nat \<Rightarrow> 's file_world \<Rightarrow> (bool uefi_result \<times> 's file_world) option" where
  "handle_is_directory fp h w = do { (r, w') \<leftarrow> is_regular_file fp h w; Some (map_ok Not r, w') }"

text \<open>A handle that is not returned is dropped.\<close>

datatype file_type = Regular nat | Dir nat

definition into_type :: "'s file_protocol \<Rightarrow> nat \<Rightarrow> 's file_world \<Rightarrow> (file_type uefi_result \<times> 's file_world) option" where
  "into_type fp h w = do {
     (r, w1) \<leftarrow> is_regular_file fp h w;
     case r of
       Ok is_file \<Rightarrow> Some (Ok (if is_file then Regular h else Dir h), w1)
     | Err e \<Rightarrow> do { w2 \<leftarrow> file_drop fp h w1; Some (Err e, w2) }
   }"

definition into_directory :: "'s file_protocol \<Rightarrow> nat \<Rightarrow> 's file_world \<Rightarrow> (nat option \<times> 's file_world) option" where
  "into_directory fp h w = do {
     (r, w1) \<leftarrow> into_type fp h w;
     case r of
       Ok (Dir d) \<Rightarrow> Some (Some d, w1)
     | Ok (Regular f) \<Rightarrow> do { w2 \<leftarrow> file_drop fp f w1; Some (None, w2) }
     | Err _ \<Rightarrow> Some (None, w1)
   }"

definition into_regular_file :: "'s file_protocol \<Rightarrow> nat \<Rightarrow> 's file_world \<Rightarrow> (nat option \<times> 's file_world) option" where
  "into_regular_file fp h w = do {
     (r, w1) \<leftarrow> into_type fp h w;
     case r of
       Ok (Regular f) \<Rightarrow> Some (Some f, w1)
     | Ok (Dir d) \<Rightarrow> do { w2 \<leftarrow> file_drop fp d w1; Some (None, w2) }
     | Err _ \<Rightarrow> Some (None, w1)
   }"

section \<open>Regular files\<close>

text \<open>The buffer is written from the number of bytes read so far on; a driver that writes more than was asked for is undefined.\<close>

partial_function (option) read_chunked_loop ::
  "usize \<Rightarrow> ('w \<Rightarrow> usize \<Rightarrow> (status \<times> usize \<times> bytes) \<times> 'w) \<Rightarrow> bytes \<Rightarrow> usize \<Rightarrow> usize \<Rightarrow> 'w \<Rightarrow>
    ((usize uefi_result \<times> bytes) \<times> 'w) option" where
  [code]: "read_chunked_loop chunk_size read buffer remaining_size total_read_size w =
    (if 0 < remaining_size then
       (let requested_read_size = Orderings.min remaining_size chunk_size in
        case read w requested_read_size of ((s, read_size, written), w1) \<Rightarrow> do {
          require (length written \<le> requested_read_size);
          let buffer1 = overwrite buffer total_read_size written;
          if is_success s then do {
            total1 \<leftarrow> uadd total_read_size read_size;
            remaining1 \<leftarrow> usub remaining_size read_size;
            if read_size < requested_read_size then Some ((Ok total1, buffer1), w1)
            else read_chunked_loop chunk_size read buffer1 remaining1 total1 w1
          } else do { e \<leftarrow> error_new s (); Some ((Err e, buffer1), w1) }
        })
     else Some ((Ok total_read_size, buffer), w))"

definition read_chunked ::
  "bytes \<Rightarrow> usize \<Rightarrow> ('w \<Rightarrow> usize \<Rightarrow> (status \<times> usize \<times> bytes) \<times> 'w) \<Rightarrow> 'w \<Rightarrow> ((usize uefi_result \<times> bytes) \<times> 'w) option" where
  "read_chunked buffer chunk_size read w = read_chunked_loop chunk_size read buffer (length buffer) 0 w"

definition READ_CHUNK :: usize where "READ_CHUNK = 1024 * 1024"

definition driver_read :: "'s file_protocol \<Rightarrow> nat \<Rightarrow> 's file_world \<Rightarrow> usize \<Rightarrow> (status \<times> usize \<times> bytes) \<times> 's file_world" where
  "driver_read fp h w n = (case fp_read fp (vol w) h n of (r, v) \<Rightarrow> (r, w\<lparr>vol := v\<rparr>))"

definition file_read :: "'s file_protocol \<Rightarrow> nat \<Rightarrow> bytes \<Rightarrow> 's file_world \<Rightarrow> ((usize uefi_result \<times> bytes) \<times> 's file_world) option" where
  "file_read fp h buffer w = do {
     imp h;
     read_chunked buffer READ_CHUNK (driver_read fp h) w
   }"

definition read_unchunked :: "'s file_protocol \<Rightarrow> nat \<Rightarrow> (usize, 's file_world) fetch" where
  "read_unchunked fp h buffer w = do {
     imp h;
     let ((s, buffer_size, written), v) = fp_read fp (vol w) h (snd buffer);
     require (length written \<le> snd buffer);
     let w' = w\<lparr>vol := v, vmem := mem_write (vmem w) (fst buffer) written\<rparr>;
     r \<leftarrow> to_result_with s (Some buffer_size) (\<lambda>s. if s = BUFFER_TOO_SMALL then Some buffer_size else None);
     Some (r, w')
   }"

definition file_write :: "'s file_protocol \<Rightarrow> nat \<Rightarrow> bytes \<Rightarrow> 's file_world \<Rightarrow> ((unit, usize) uefi_result_with \<times> 's file_world) option" where
  "file_write fp h buffer w = do {
     imp h;
     let ((s, buffer_size), v) = fp_write fp (vol w) h buffer;
     r \<leftarrow> to_result_with_err s (\<lambda>_. buffer_size);
     Some (r, w\<lparr>vol := v\<rparr>)
   }"

definition file_get_position :: "'s file_protocol \<Rightarrow> nat \<Rightarrow> 's file_world \<Rightarrow> (u64 uefi_result \<times> 's file_world) option" where
  "file_get_position fp h w = do {
     imp h;
     let ((s, pos), v) = fp_get_position fp (vol w) h;
     r \<leftarrow> to_result_with_val s (Some pos);
     Some (r, w\<lparr>vol := v\<rparr>)
   }"

definition file_set_position :: "'s file_protocol \<Rightarrow> nat \<Rightarrow> u64 \<Rightarrow> 's file_world \<Rightarrow> (unit uefi_result \<times> 's file_world) option" where
  "file_set_position fp h pos w = do {
     imp h;
     let (s, v) = fp_set_position fp (vol w) h pos;
     r \<leftarrow> to_result s;
     Some (r, w\<lparr>vol := v\<rparr>)
   }"

section \<open>Directories\<close>

definition read_entry :: "'s file_protocol \<Rightarrow> nat \<Rightarrow> ((nat \<times> usize) option, 's file_world) fetch" where
  "read_entry fp h buffer w = do {
     assert_aligned (it_align FILE_INFO) buffer;
     (r, w') \<leftarrow> read_unchunked fp h buffer w;
     case r of
       Err e \<Rightarrow> Some (Err e, w')
     | Ok read_bytes \<Rightarrow>
         if read_bytes = 0 then Some (Ok None, w')
         else do { info \<leftarrow> from_uefi FILE_INFO (vmem w') (fst buffer); Some (Ok (Some info), w') }
   }"

definition expect_entry :: "'s file_protocol \<Rightarrow> nat \<Rightarrow> (nat \<times> usize, 's file_world) fetch" where
  "expect_entry fp h buffer w = do {
     (r, w') \<leftarrow> read_entry fp h buffer w;
     case r of
       Err e \<Rightarrow> Some (Err e, w')
     | Ok maybe_info \<Rightarrow> do { info \<leftarrow> maybe_info; Some (Ok info, w') }
   }"

text \<open>The first call has an empty slice, which lies at a dangling address.\<close>

definition read_entry_boxed ::
  "'s file_protocol \<Rightarrow> 's file_world heap \<Rightarrow> nat \<Rightarrow> 's file_world \<Rightarrow> ((nat \<times> usize) option uefi_result \<times> 's file_world) option" where
  "read_entry_boxed fp heap h w = do {
     (r0, w1) \<leftarrow> read_entry fp h (1, 0) w;
     if r0 = Ok None then Some (Ok None, w1)
     else do {
       (r, w2) \<leftarrow> make_boxed heap (it_align FILE_INFO) (expect_entry fp h) w1;
       Some (map_ok Some r, w2)
     }
   }"

definition reset_entry_readout :: "'s file_protocol \<Rightarrow> nat \<Rightarrow> 's file_world \<Rightarrow> (unit uefi_result \<times> 's file_world) option" where
  "reset_entry_readout fp h w = file_set_position fp h 0 w"

end
