(* ===== verification/File_System.thy ===== *)
theory File_System
  imports File_Proto Fs_Path
begin

text \<open>
  The high-level file system of \<open>uefi/src/fs/file_system/fs.rs\<close> with its errors (\<open>error.rs\<close>) and the
  directory iterator (\<open>uefi/src/fs/dir_entry_iter.rs\<close>), over the file protocol.

  Handles and boxes are closed where Rust drops them: a block that owns one is written with \<open>closing\<close> or
  \<open>boxed\<close>, which run the block and drop the value on every way out. Paths are null-terminated strings.
\<close>

section \<open>Errors\<close>

datatype io_error_context = CantDeleteDirectory | CantDeleteFile | FlushFailure | CantOpenVolume | Metadata | OpenError
  | ReadFailure | WriteFailure | NotADirectory | NotAFile

record io_error =
  io_path :: "char16 list"
  io_context :: io_error_context
  io_uefi_error :: "unit error"

text \<open>The payload of a UTF-8 error is the bytes that were not valid.\<close>

datatype fs_error = FsIo io_error | FsPath path_error | FsUtf8 bytes

type_synonym 'a fs_result = "('a, fs_error) result"

definition io_err :: "char16 list \<Rightarrow> io_error_context \<Rightarrow> unit error \<Rightarrow> fs_error option" where
  "io_err path ctx e = do {
     p \<leftarrow> to_path_buf path;
     Some (FsIo \<lparr>io_path = p, io_context = ctx, io_uefi_error = e\<rparr>)
   }"

definition io_status :: "char16 list \<Rightarrow> io_error_context \<Rightarrow> status \<Rightarrow> fs_error option" where
  "io_status path ctx s = do { e \<leftarrow> error_from_status s; io_err path ctx e }"

text \<open>\<open>map_err\<close> into an input or output error, the operator \<open>?\<close>, and blocks that own a handle or a box.\<close>

definition io_map ::
  "char16 list \<Rightarrow> io_error_context \<Rightarrow> (('a, 'd) uefi_result_with \<times> 'w) option \<Rightarrow> ('a fs_result \<times> 'w) option" where
  "io_map path ctx m = do {
     (r, w) \<leftarrow> m;
     case r of
       Ok a \<Rightarrow> Some (Ok a, w)
     | Err e \<Rightarrow> do { x \<leftarrow> io_err path ctx (to_err_without_payload e); Some (Err x, w) }
   }"

definition try_res ::
  "(('a, 'e) result \<times> 'w) option \<Rightarrow> ('a \<Rightarrow> 'w \<Rightarrow> (('b, 'e) result \<times> 'w) option) \<Rightarrow> (('b, 'e) result \<times> 'w) option" where
  "try_res m k = do {
     (r, w) \<leftarrow> m;
     case r of Err e \<Rightarrow> Some (Err e, w) | Ok a \<Rightarrow> k a w
   }"

definition closing ::
  "'s file_protocol \<Rightarrow> nat \<Rightarrow> ('s file_world \<Rightarrow> ('a \<times> 's file_world) option) \<Rightarrow> 's file_world \<Rightarrow> ('a \<times> 's file_world) option" where
  "closing fp h body w = do {
     (r, w1) \<leftarrow> body w;
     w2 \<leftarrow> file_drop fp h w1;
     Some (r, w2)
   }"

definition boxed ::
  "'s file_world heap \<Rightarrow> nat \<times> usize \<Rightarrow> ('s file_world \<Rightarrow> ('a \<times> 's file_world) option) \<Rightarrow> 's file_world \<Rightarrow> ('a \<times> 's file_world) option"
where
  "boxed heap info body w = do {
     (r, w1) \<leftarrow> body w;
     w2 \<leftarrow> box_drop heap FILE_INFO info w1;
     Some (r, w2)
   }"

section \<open>Opening\<close>

definition fs_open_root :: "'s file_protocol \<Rightarrow> 's file_world \<Rightarrow> (nat fs_result \<times> 's file_world) option" where
  "fs_open_root fp w = do {
     (r, w1) \<leftarrow> open_volume fp w;
     case r of
       Ok h \<Rightarrow> Some (Ok h, w1)
     | Err e \<Rightarrow> do {
         path \<leftarrow> pathbuf_push pathbuf_new SEPARATOR_STR;
         Some (Err (FsIo \<lparr>io_path = path, io_context = CantOpenVolume, io_uefi_error = e\<rparr>), w1)
       }
   }"

definition fs_open ::
  "'s file_protocol \<Rightarrow> char16 list \<Rightarrow> file_mode \<Rightarrow> bool \<Rightarrow> 's file_world \<Rightarrow> (nat fs_result \<times> 's file_world) option" where
  "fs_open fp path mode create_dir w = do {
     v \<leftarrow> validate_path path;
     case v of
       Err e \<Rightarrow> Some (Err (FsPath e), w)
     | Ok _ \<Rightarrow>
         (let attr = (if mode = ModeCreateReadWrite \<and> create_dir then FILE_ATTRIBUTE_DIRECTORY else 0) in
          try_res (fs_open_root fp w) (\<lambda>root. closing fp root (\<lambda>w. io_map path OpenError (file_open fp root path mode attr w))))
   }"

text \<open>The error argument of \<open>ok_or\<close> is built in any case.\<close>

definition fs_regular_file ::
  "'s file_protocol \<Rightarrow> char16 list \<Rightarrow> io_error_context \<Rightarrow> nat \<Rightarrow> 's file_world \<Rightarrow> (nat fs_result \<times> 's file_world) option" where
  "fs_regular_file fp path ctx h w = do {
     (f, w1) \<leftarrow> into_regular_file fp h w;
     e \<leftarrow> io_status path ctx INVALID_PARAMETER;
     Some (ok_or e f, w1)
   }"

definition fs_directory :: "'s file_protocol \<Rightarrow> char16 list \<Rightarrow> nat \<Rightarrow> 's file_world \<Rightarrow> (nat fs_result \<times> 's file_world) option" where
  "fs_directory fp path h w = do {
     (d, w1) \<leftarrow> into_directory fp h w;
     e \<leftarrow> io_status path NotADirectory INVALID_PARAMETER;
     Some (ok_or e d, w1)
   }"

section \<open>Queries\<close>

definition try_exists :: "'s file_protocol \<Rightarrow> char16 list \<Rightarrow> 's file_world \<Rightarrow> (bool fs_result \<times> 's file_world) option" where
  "try_exists fp path w = do {
     (r, w1) \<leftarrow> fs_open fp path ModeRead False w;
     case r of
       Ok h \<Rightarrow> do { w2 \<leftarrow> file_drop fp h w1; Some (Ok True, w2) }
     | Err (FsIo err) \<Rightarrow>
         if err_status (io_uefi_error err) = NOT_FOUND then Some (Ok False, w1) else Some (Err (FsIo err), w1)
     | Err err \<Rightarrow> Some (Err err, w1)
   }"

definition fs_metadata ::
  "'s file_protocol \<Rightarrow> 's file_world heap \<Rightarrow> char16 list \<Rightarrow> 's file_world \<Rightarrow> ((nat \<times> usize) fs_result \<times> 's file_world) option" where
  "fs_metadata fp heap path w =
     try_res (fs_open fp path ModeRead False w) (\<lambda>file. closing fp file (\<lambda>w. io_map path Metadata (get_boxed_info fp heap FILE_INFO file w)))"

text \<open>A vector of the size of the file; its capacity must fit a signed machine word.\<close>

definition zeroed_vec :: "u64 \<Rightarrow> bytes option" where
  "zeroed_vec n = do { require (unat n \<le> 9223372036854775807); Some (replicate (unat n) 0) }"

definition fs_read ::
  "'s file_protocol \<Rightarrow> 's file_world heap \<Rightarrow> char16 list \<Rightarrow> 's file_world \<Rightarrow> (bytes fs_result \<times> 's file_world) option" where
  "fs_read fp heap path w =
     try_res (try_res (fs_open fp path ModeRead False w) (fs_regular_file fp path NotAFile)) (\<lambda>file. closing fp file (\<lambda>w.
       try_res (io_map path Metadata (get_boxed_info fp heap FILE_INFO file w)) (\<lambda>info. boxed heap info (\<lambda>w. do {
         vec \<leftarrow> zeroed_vec (file_info_file_size (vmem w) info);
         ((r, vec'), w1) \<leftarrow> file_read fp file vec w;
         try_res (io_map path ReadFailure (Some (r, w1))) (\<lambda>read_bytes w2. Some (Ok vec', w2))
       }))))"

definition fs_read_dir :: "'s file_protocol \<Rightarrow> char16 list \<Rightarrow> 's file_world \<Rightarrow> (nat fs_result \<times> 's file_world) option" where
  "fs_read_dir fp path w = try_res (fs_open fp path ModeRead False w) (fs_directory fp path)"

text \<open>\<open>String::from_utf8\<close>.\<close>

definition utf8_cont :: "u8 \<Rightarrow> bool" where
  "utf8_cont b \<longleftrightarrow> 0x80 \<le> b \<and> b < 0xC0"

fun utf8_next :: "bytes \<Rightarrow> (rchar \<times> bytes) option" where
  "utf8_next bs =
    (case bs of
       [] \<Rightarrow> None
     | b0 # r0 \<Rightarrow>
         if b0 < 0x80 then Some (unat b0, r0)
         else if 0xC2 \<le> b0 \<and> b0 < 0xE0 then
           (case r0 of
              b1 # r1 \<Rightarrow> if utf8_cont b1 then Some ((unat b0 mod 32) * 64 + unat b1 mod 64, r1) else None
            | _ \<Rightarrow> None)
         else if 0xE0 \<le> b0 \<and> b0 < 0xF0 then
           (case r0 of
              b1 # b2 # r2 \<Rightarrow>
                (let c = (unat b0 mod 16) * 4096 + (unat b1 mod 64) * 64 + unat b2 mod 64
                 in if utf8_cont b1 \<and> utf8_cont b2 \<and> 0x800 \<le> c \<and> is_rchar c then Some (c, r2) else None)
            | _ \<Rightarrow> None)
         else if 0xF0 \<le> b0 \<and> b0 < 0xF5 then
           (case r0 of
              b1 # b2 # b3 # r3 \<Rightarrow>
                (let c = (unat b0 mod 8) * 262144 + (unat b1 mod 64) * 4096 + (unat b2 mod 64) * 64 + unat b3 mod 64
                 in if utf8_cont b1 \<and> utf8_cont b2 \<and> utf8_cont b3 \<and> 0x10000 \<le> c \<and> is_rchar c then Some (c, r3) else None)
            | _ \<Rightarrow> None)
         else None)"

fun from_utf8_fuel :: "nat \<Rightarrow> bytes \<Rightarrow> rstr option" where
  "from_utf8_fuel n [] = Some []"
| "from_utf8_fuel 0 _ = None"
| "from_utf8_fuel (Suc n) bs = do {
     (c, r) \<leftarrow> utf8_next bs;
     cs \<leftarrow> from_utf8_fuel n r;
     Some (c # cs)
   }"

definition fs_read_to_string ::
  "'s file_protocol \<Rightarrow> 's file_world heap \<Rightarrow> char16 list \<Rightarrow> 's file_world \<Rightarrow> (rstr fs_result \<times> 's file_world) option" where
  "fs_read_to_string fp heap path w =
     try_res (fs_read fp heap path w) (\<lambda>bs w1. Some (ok_or (FsUtf8 bs) (from_utf8_fuel (length bs) bs), w1))"

section \<open>Creating and removing\<close>

definition create_dir :: "'s file_protocol \<Rightarrow> char16 list \<Rightarrow> 's file_world \<Rightarrow> (unit fs_result \<times> 's file_world) option" where
  "create_dir fp path w =
     try_res (fs_open fp path ModeCreateReadWrite True w) (\<lambda>h w1. do { w2 \<leftarrow> file_drop fp h w1; Some (Ok (), w2) })"

text \<open>The path and its parents, the longest first.\<close>

partial_function (option) collect_parents :: "char16 list \<Rightarrow> char16 list list option" where
  [code]: "collect_parents path = do {
     parent \<leftarrow> path_parent path;
     case parent of
       None \<Rightarrow> Some [path]
     | Some p \<Rightarrow> do { ps \<leftarrow> collect_parents p; Some (path # ps) }
   }"

fun create_missing :: "'s file_protocol \<Rightarrow> char16 list list \<Rightarrow> 's file_world \<Rightarrow> (unit fs_result \<times> 's file_world) option" where
  "create_missing fp [] w = Some (Ok (), w)"
| "create_missing fp (p # ps) w =
     try_res (try_exists fp p w) (\<lambda>found w1.
       if found then create_missing fp ps w1
       else try_res (create_dir fp p w1) (\<lambda>_. create_missing fp ps))"

definition create_dir_all :: "'s file_protocol \<Rightarrow> char16 list \<Rightarrow> 's file_world \<Rightarrow> (unit fs_result \<times> 's file_world) option" where
  "create_dir_all fp path w = do {
     p \<leftarrow> to_path_buf path;
     dirs_to_create \<leftarrow> collect_parents p;
     create_missing fp (rev dirs_to_create) w
   }"

text \<open>The type of the handle must be known: \<open>into_type().unwrap()\<close>.\<close>

definition remove_dir :: "'s file_protocol \<Rightarrow> char16 list \<Rightarrow> 's file_world \<Rightarrow> (unit fs_result \<times> 's file_world) option" where
  "remove_dir fp path w =
     try_res (fs_open fp path ModeReadWrite False w) (\<lambda>h w1. do {
       (r, w2) \<leftarrow> into_type fp h w1;
       case r of
         Err _ \<Rightarrow> None
       | Ok (Dir dir) \<Rightarrow> io_map path CantDeleteDirectory (file_delete fp dir w2)
       | Ok (Regular f) \<Rightarrow> do {
           e \<leftarrow> io_status path NotADirectory INVALID_PARAMETER;
           w3 \<leftarrow> file_drop fp f w2;
           Some (Err e, w3)
         }
     })"

definition remove_file :: "'s file_protocol \<Rightarrow> char16 list \<Rightarrow> 's file_world \<Rightarrow> (unit fs_result \<times> 's file_world) option" where
  "remove_file fp path w =
     try_res (fs_open fp path ModeReadWrite False w) (\<lambda>h w1. do {
       (r, w2) \<leftarrow> into_type fp h w1;
       case r of
         Err _ \<Rightarrow> None
       | Ok (Regular f) \<Rightarrow> io_map path CantDeleteFile (file_delete fp f w2)
       | Ok (Dir d) \<Rightarrow> do {
           e \<leftarrow> io_status path NotAFile INVALID_PARAMETER;
           w3 \<leftarrow> file_drop fp d w2;
           Some (Err e, w3)
         }
     })"

definition directory_iter_next ::
  "'s file_protocol \<Rightarrow> 's file_world heap \<Rightarrow> nat \<Rightarrow> 's file_world \<Rightarrow> ((nat \<times> usize) uefi_result option \<times> 's file_world) option" where
  "directory_iter_next fp heap dir w = do {
     (e, w1) \<leftarrow> read_entry_boxed fp heap dir w;
     case e of
       Ok None \<Rightarrow> Some (None, w1)
     | Ok (Some info) \<Rightarrow> Some (Some (Ok info), w1)
     | Err err \<Rightarrow> Some (Some (Err err), w1)
   }"

definition COMMON_SKIP_DIRS :: "char16 list list" where
  "COMMON_SKIP_DIRS = [[0x2E, 0], [0x2E, 0x2E, 0]]"

text \<open>Removing a directory with its contents and the loop over its entries call each other: a task is either of them.\<close>

datatype rda_task = RdaDir "char16 list" | RdaEntries "char16 list" nat

definition abs_entry_path :: "char16 list \<Rightarrow> char16 list \<Rightarrow> char16 list option" where
  "abs_entry_path path name = do {
     p \<leftarrow> pathbuf_push pathbuf_new path;
     pathbuf_push p name
   }"

partial_function (option) rda_run ::
  "'s file_protocol \<Rightarrow> 's file_world heap \<Rightarrow> rda_task \<Rightarrow> 's file_world \<Rightarrow> (unit fs_result \<times> 's file_world) option" where
  [code]: "rda_run fp heap task w =
    (case task of
       RdaDir path \<Rightarrow> do {
         (d, w1) \<leftarrow> fs_read_dir fp path w;
         case d of
           Err e \<Rightarrow> Some (Err e, w1)
         | Ok dir \<Rightarrow> do {
             (r, w2) \<leftarrow> rda_run fp heap (RdaEntries path dir) w1;
             w3 \<leftarrow> file_drop fp dir w2;
             case r of
               Err e \<Rightarrow> Some (Err e, w3)
             | Ok _ \<Rightarrow> remove_dir fp path w3
           }
       }
     | RdaEntries path dir \<Rightarrow> do {
         (it, w1) \<leftarrow> directory_iter_next fp heap dir w;
         case it of
           None \<Rightarrow> Some (Ok (), w1)
         | Some (Err _) \<Rightarrow> rda_run fp heap (RdaEntries path dir) w1
         | Some (Ok info) \<Rightarrow> do {
             name \<leftarrow> info_name FILE_INFO (vmem w1) info;
             if name \<in> set COMMON_SKIP_DIRS then do {
               w2 \<leftarrow> box_drop heap FILE_INFO info w1;
               rda_run fp heap (RdaEntries path dir) w2
             } else do {
               p \<leftarrow> abs_entry_path path name;
               (r, w2) \<leftarrow> (if file_info_is_directory (vmem w1) info then rda_run fp heap (RdaDir p) w1 else remove_file fp p w1);
               w3 \<leftarrow> box_drop heap FILE_INFO info w2;
               case r of
                 Err e \<Rightarrow> Some (Err e, w3)
               | Ok _ \<Rightarrow> rda_run fp heap (RdaEntries path dir) w3
             }
           }
       })"

definition remove_dir_all ::
  "'s file_protocol \<Rightarrow> 's file_world heap \<Rightarrow> char16 list \<Rightarrow> 's file_world \<Rightarrow> (unit fs_result \<times> 's file_world) option" where
  "remove_dir_all fp heap path w = rda_run fp heap (RdaDir path) w"

section \<open>Writing and copying\<close>

definition fs_write ::
  "'s file_protocol \<Rightarrow> char16 list \<Rightarrow> bytes \<Rightarrow> 's file_world \<Rightarrow> (unit fs_result \<times> 's file_world) option" where
  "fs_write fp path content w =
     try_res (try_exists fp path w) (\<lambda>found w1.
     try_res (if found then remove_file fp path w1 else Some (Ok (), w1)) (\<lambda>_ w2.
     try_res (fs_open fp path ModeCreateReadWrite False w2) (\<lambda>h w3. do {
       (f, w4) \<leftarrow> into_regular_file fp h w3;
       handle \<leftarrow> f;
       closing fp handle (\<lambda>w.
         try_res (io_map path WriteFailure (file_write fp handle content w)) (\<lambda>_ w.
         try_res (io_map path FlushFailure (file_flush fp handle w)) (\<lambda>_ w. Some (Ok (), w)))) w4
     })))"

definition COPY_CHUNK :: usize where "COPY_CHUNK = 1024 * 1024"

partial_function (option) copy_loop ::
  "'s file_protocol \<Rightarrow> nat \<Rightarrow> nat \<Rightarrow> char16 list \<Rightarrow> char16 list \<Rightarrow> bytes \<Rightarrow> nat \<Rightarrow> 's file_world \<Rightarrow> (unit fs_result \<times> 's file_world) option"
where
  [code]: "copy_loop fp src dest src_path dest_path chunk remaining_size w =
    (if 0 < remaining_size then do {
       ((r, chunk1), w1) \<leftarrow> file_read fp src chunk w;
       case r of
         Err e \<Rightarrow> do { x \<leftarrow> io_err src_path ReadFailure e; Some (Err x, w1) }
       | Ok num_bytes_read \<Rightarrow>
           if num_bytes_read = 0 then do { x \<leftarrow> io_status src_path ReadFailure ABORTED; Some (Err x, w1) }
           else do {
             part \<leftarrow> get_range chunk1 0 num_bytes_read;
             (r2, w2) \<leftarrow> io_map dest_path WriteFailure (file_write fp dest part w1);
             case r2 of
               Err x \<Rightarrow> Some (Err x, w2)
             | Ok _ \<Rightarrow> do {
                 remaining1 \<leftarrow> usub remaining_size num_bytes_read;
                 copy_loop fp src dest src_path dest_path chunk1 remaining1 w2
               }
           }
     } else Some (Ok (), w))"

text \<open>The result of removing the destination is ignored.\<close>

definition fs_copy ::
  "'s file_protocol \<Rightarrow> 's file_world heap \<Rightarrow> char16 list \<Rightarrow> char16 list \<Rightarrow> 's file_world \<Rightarrow> (unit fs_result \<times> 's file_world) option" where
  "fs_copy fp heap src_path dest_path w =
     try_res (try_res (fs_open fp src_path ModeRead False w) (fs_regular_file fp src_path NotAFile)) (\<lambda>src. closing fp src (\<lambda>w.
       try_res (try_res (io_map src_path Metadata (get_boxed_info fp heap FILE_INFO src w)) (\<lambda>info.
           boxed heap info (\<lambda>w. Some (Ok (unat (file_info_file_size (vmem w) info)), w)))) (\<lambda>src_size w1. do {
         (_, w2) \<leftarrow> remove_file fp dest_path w1;
         try_res (try_res (fs_open fp dest_path ModeCreateReadWrite False w2) (fs_regular_file fp dest_path OpenError))
           (\<lambda>dest. closing fp dest (\<lambda>w.
             try_res (copy_loop fp src dest src_path dest_path (replicate COPY_CHUNK 0) src_size w) (\<lambda>_ w.
             try_res (io_map dest_path FlushFailure (file_flush fp dest w)) (\<lambda>_ w. Some (Ok (), w)))))
       })))"

definition fs_rename ::
  "'s file_protocol \<Rightarrow> 's file_world heap \<Rightarrow> char16 list \<Rightarrow> char16 list \<Rightarrow> 's file_world \<Rightarrow> (unit fs_result \<times> 's file_world) option" where
  "fs_rename fp heap src_path dest_path w = try_res (fs_copy fp heap src_path dest_path w) (\<lambda>_. remove_file fp src_path)"

end
