(* ===== verification/File_Props.thy ===== *)
theory File_Props
  imports File_System
begin

text \<open>
  Properties of files and the file system: reading in chunks, creating information structures, and writing and reading back files of a
  volume that behaves as documented.
\<close>

section \<open>Reading in chunks\<close>

text \<open>A driver that reads: \<open>unread\<close> is what is left of the file, \<open>fine\<close> describes the states in which it works.\<close>

definition reader_contract ::
  "('w \<Rightarrow> usize \<Rightarrow> (status \<times> usize \<times> bytes) \<times> 'w) \<Rightarrow> ('w \<Rightarrow> bool) \<Rightarrow> ('w \<Rightarrow> bytes) \<Rightarrow> bool" where
  "reader_contract read fine unread \<longleftrightarrow>
    (\<forall>w n. fine w \<longrightarrow> (\<exists>w'. read w n = ((SUCCESS, Orderings.min n (length (unread w)), take n (unread w)), w') \<and>
       fine w' \<and> unread w' = drop n (unread w)))"

lemma overwrite_twice:
  assumes "t + length xs \<le> length b"
  shows "overwrite (overwrite b t xs) (t + length xs) ys = overwrite b t (xs @ ys)"
  using assms by (simp add: overwrite_def ac_simps)

lemma overwrite_nil [simp]: "overwrite b t [] = b"
  by (simp add: overwrite_def)

lemma read_chunked_loop_step:
  assumes "0 < remain" "n = Orderings.min remain chunk_size" "read w n = ((SUCCESS, k, bs), w1)" "length bs \<le> n"
    "tot + k < usize_limit" "k \<le> remain"
  shows "read_chunked_loop chunk_size read b remain tot w =
    (if k < n then Some ((Ok (tot + k), overwrite b tot bs), w1)
     else read_chunked_loop chunk_size read (overwrite b tot bs) (remain - k) (tot + k) w1)"
  using assms(1,3-) unfolding assms(2)
  by (subst read_chunked_loop.simps) (simp add: is_success_def require_def Let_def uadd_def usub_def)

lemma read_chunked_loop_reads:
  assumes r: "reader_contract read fine unread" and c: "0 < chunk_size"
  shows "fine w \<Longrightarrow> tot + remain = length b \<Longrightarrow> length b < usize_limit \<Longrightarrow>
    \<exists>w'. read_chunked_loop chunk_size read b remain tot w =
        Some ((Ok (tot + Orderings.min remain (length (unread w))), overwrite b tot (take remain (unread w))), w') \<and>
      fine w' \<and> unread w' = drop remain (unread w)"
proof (induction remain arbitrary: b tot w rule: less_induct)
  case (less remain)
  show ?case
  proof (cases "remain = 0")
    case True
    then show ?thesis using less.prems by (simp add: read_chunked_loop.simps)
  next
    case False
    define n where "n = Orderings.min remain chunk_size"
    let ?R = "unread w"
    obtain w1 where w1: "read w n = ((SUCCESS, Orderings.min n (length ?R), take n ?R), w1)" "fine w1" "unread w1 = drop n ?R"
      using r less.prems(1) unfolding reader_contract_def by blast
    have n: "0 < n" "n \<le> remain" using False c by (auto simp: n_def)
    have step: "read_chunked_loop chunk_size read b remain tot w =
      (if Orderings.min n (length ?R) < n then Some ((Ok (tot + Orderings.min n (length ?R)), overwrite b tot (take n ?R)), w1)
       else read_chunked_loop chunk_size read (overwrite b tot (take n ?R)) (remain - Orderings.min n (length ?R))
         (tot + Orderings.min n (length ?R)) w1)"
      using False less.prems n w1(1) n_def by (intro read_chunked_loop_step) auto
    show ?thesis
    proof (cases "length ?R < n")
      case True
      then have "take n ?R = take remain ?R" "drop n ?R = drop remain ?R" "Orderings.min n (length ?R) = length ?R"
        "Orderings.min remain (length ?R) = length ?R" using n by simp_all
      then show ?thesis using True step w1 by simp
    next
      case full: False
      let ?b = "overwrite b tot (take n ?R)"
      have len: "length (take n ?R) = n" "Orderings.min n (length ?R) = n" using full by simp_all
      have "remain - n < remain" "tot + n + (remain - n) = length ?b" "length ?b < usize_limit"
        using n less.prems len length_overwrite [of tot "take n ?R" b] by simp_all
      then obtain w2 where w2: "read_chunked_loop chunk_size read ?b (remain - n) (tot + n) w1 =
          Some ((Ok (tot + n + Orderings.min (remain - n) (length (unread w1))), overwrite ?b (tot + n) (take (remain - n) (unread w1))), w2)"
        "fine w2" "unread w2 = drop (remain - n) (unread w1)" using less.IH w1(2) by blast
      have "take n ?R @ take (remain - n) (drop n ?R) = take remain ?R" using n take_add [of n "remain - n" ?R] by simp
      then have "overwrite ?b (tot + n) (take (remain - n) (unread w1)) = overwrite b tot (take remain ?R)"
        using overwrite_twice [of tot "take n ?R" b "take (remain - n) (drop n ?R)"] len less.prems n w1(3) by simp
      moreover have "tot + n + Orderings.min (remain - n) (length (unread w1)) = tot + Orderings.min remain (length ?R)"
        using w1(3) full n by (auto simp: min_def)
      moreover have "drop (remain - n) (unread w1) = drop remain ?R" using w1(3) n by simp
      ultimately show ?thesis using step w2 len(2) by simp
    qed
  qed
qed

text \<open>C30: Reading a file in chunks is the same as reading it at once. Over a driver that reads as documented, for every
  chunk size above zero, \<open>read_chunked\<close> ends without an overflow: the buffer starts with as much of the file as fits, the rest
  of the buffer is untouched, the count is the number of bytes read, and the driver is left where one single read would leave it.\<close>

theorem read_chunked_reads:
  assumes "reader_contract read fine unread" and "0 < chunk_size" and "fine w" and "length buffer < usize_limit"
  shows "\<exists>w'. read_chunked buffer chunk_size read w =
      Some ((Ok (Orderings.min (length buffer) (length (unread w))),
             take (length buffer) (unread w) @ drop (length (unread w)) buffer), w') \<and>
    fine w' \<and> unread w' = drop (length buffer) (unread w)"
proof -
  have "overwrite buffer 0 (take (length buffer) (unread w)) = take (length buffer) (unread w) @ drop (length (unread w)) buffer"
    by (cases "length buffer \<le> length (unread w)") (simp_all add: overwrite_def)
  then show ?thesis using read_chunked_loop_reads [OF assms(1,2,3), of 0 "length buffer" buffer] assms(4) by (simp add: read_chunked_def)
qed

theorem read_chunked_reads_witness:
  "read_chunked [0, 0, 0, 0, 0] 2 (\<lambda>w n. ((SUCCESS, Orderings.min n (length w), take n w), drop n w)) [1, 2, 3] =
    Some ((Ok 3, [1, 2, 3, 0, 0]), [])"
proof -
  have "reader_contract (\<lambda>w n. ((SUCCESS, Orderings.min n (length w), take n w), drop n w)) (\<lambda>_. True) (\<lambda>w. w)"
    by (simp add: reader_contract_def)
  from read_chunked_reads [OF this, of 2 "[0, 0, 0, 0, 0]" "[1, 2, 3]"] show ?thesis by (auto simp: usize_limit_def)
qed

section \<open>Creating directories\<close>

lemma path_components_root_child:
  assumes "c \<noteq> []" "SEPARATOR \<notin> set c"
  shows "path_components (SEPARATOR # c) = [c]"
  using assms by (simp add: path_components_def split_sep_single)

lemma to_path_buf_id: "SLASH \<notin> set p \<Longrightarrow> to_path_buf p = Some p"
proof -
  have "SLASH \<noteq> NUL_16" "SEPARATOR \<noteq> NUL_16" by (simp_all add: SLASH_def SEPARATOR_def NUL_16_def)
  moreover assume "SLASH \<notin> set p"
  then have "map (\<lambda>c. if c = SLASH then SEPARATOR else c) p = p" by (intro map_idI) auto
  ultimately show ?thesis
    by (simp add: to_path_buf_def new_from_cstring16_def cstring16_replace_char_def cstring16_from_cstr16_def as_slice_with_nul_def require_def)
qed

text \<open>C39: \<open>create_dir_all\<close> fails on a directory directly below the root that is written with the leading separator, although
  the path is valid and the operation reports neither a driver error nor touches the volume: the parent of such a path is the empty
  path, which does not validate.\<close>

theorem create_dir_all_root_child:
  assumes "path_inv (SEPARATOR # c @ [0])" and "SEPARATOR \<notin> set c" and "SLASH \<notin> set c" and "\<not> bad_component c"
  shows "validate_path (SEPARATOR # c @ [0]) = Some (Ok ()) \<and>
    create_dir_all fp (SEPARATOR # c @ [0]) w = Some (Err (FsPath PathEmpty), w)"
proof -
  let ?p = "SEPARATOR # c @ [0]"
  have c: "c \<noteq> []" using assms(4) by (auto simp: bad_component_def)
  note pc = path_components_root_child [OF c assms(2)]
  have b: "butlast ?p = SEPARATOR # c" by simp
  have s: "SLASH \<notin> set ?p" using assms(3) by (simp add: SLASH_def SEPARATOR_def)
  have "[] \<notin> set (path_components (butlast ?p))" unfolding b pc using c by simp
  from path_parent_eq [OF assms(1) s this] have p1: "path_parent ?p = Some (Some [0])" unfolding b pc by simp
  have e: "path_inv [0]" by (simp add: path_inv_def usize_limit_def)
  have s0: "SLASH \<notin> set [0]" by (simp add: SLASH_def)
  have "path_components (butlast [0]) = []" by (simp add: path_components_def)
  with path_parent_eq [OF e s0] have p0: "path_parent [0] = Some None" by simp
  have "collect_parents ?p = Some [?p, [0]]" by (simp add: collect_parents.simps [of ?p] collect_parents.simps [of "[0]"] p1 p0)
  moreover have "validate_path [0] = Some (Err PathEmpty)" using validate_path_eq [OF e] by simp
  ultimately have "create_dir_all fp ?p w = Some (Err (FsPath PathEmpty), w)"
    by (simp add: create_dir_all_def to_path_buf_id [OF s] try_exists_def fs_open_def try_res_def)
  moreover have "validate_path ?p = Some (Ok ())" unfolding validate_path_eq [OF assms(1)] b pc using assms(4) by simp
  ultimately show ?thesis by blast
qed

theorem create_dir_all_root_child_witness:
  "validate_path [0x5C, 0x61, 0] = Some (Ok ()) \<and>
    (\<forall>(fp :: unit file_protocol) w. create_dir_all fp [0x5C, 0x61, 0] w = Some (Err (FsPath PathEmpty), w))"
proof -
  have "validate_path [0x5C, 0x61, 0] = Some (Ok ()) \<and> create_dir_all fp [0x5C, 0x61, 0] w = Some (Err (FsPath PathEmpty), w)"
    for fp :: "unit file_protocol" and w
    using create_dir_all_root_child [of "[0x61]" fp w]
    by (simp add: path_inv_def usize_limit_def SEPARATOR_def SLASH_def bad_component_def CHARACTER_DENY_LIST_def NUL_16_def)
  then show ?thesis by blast
qed

end
