(* ===== verification/Fs_Volume.thy ===== *)
theory Fs_Volume
  imports File_Props
begin

text \<open>
  The file system over a volume that behaves as documented: what a driver promises, what each operation does to the files and the open
  handles of the volume, and that a file that was written reads back.
\<close>

section \<open>The documented behaviour of a volume\<close>

text \<open>\<open>files\<close> gives the regular files by name, \<open>opened\<close> the open handles with their positions, \<open>meta\<close> the
  information structure of a file. \<open>usable\<close> are the names of files: not those of directories, and in directories that exist.\<close>

datatype file_ref = RootRef | FileRef "char16 list" nat

type_synonym file_map = "char16 list \<rightharpoonup> bytes"
type_synonym handle_map = "nat \<rightharpoonup> file_ref"

definition opens :: "('s \<Rightarrow> file_map) \<Rightarrow> ('s \<Rightarrow> handle_map) \<Rightarrow> file_map \<Rightarrow> file_ref \<Rightarrow> 's \<Rightarrow> (status \<times> nat) \<times> 's \<Rightarrow> bool" where
  "opens files opened F x s res \<longleftrightarrow> (case res of ((r, h), s') \<Rightarrow>
     r = SUCCESS \<and> h \<noteq> 0 \<and> h \<notin> dom (opened s) \<and> opened s' = (opened s)(h \<mapsto> x) \<and> files s' = F)"

definition opening_contract :: "'s file_protocol \<Rightarrow> char16 list set \<Rightarrow> ('s \<Rightarrow> file_map) \<Rightarrow> ('s \<Rightarrow> handle_map) \<Rightarrow> bool" where
  "opening_contract fp usable files opened \<longleftrightarrow>
    (\<forall>s. opens files opened (files s) RootRef s (fp_open_volume fp s)) \<and>
    (\<forall>s root name m. opened s root = Some RootRef \<longrightarrow> name \<in> usable \<longrightarrow>
       (if name \<in> dom (files s) then opens files opened (files s) (FileRef name 0) s (fp_open fp s root name (file_mode_bits m) 0)
        else if m = ModeCreateReadWrite
          then opens files opened ((files s)(name \<mapsto> [])) (FileRef name 0) s (fp_open fp s root name (file_mode_bits m) 0)
        else \<exists>h s'. fp_open fp s root name (file_mode_bits m) 0 = ((NOT_FOUND, h), s') \<and> opened s' = opened s \<and> files s' = files s)) \<and>
    (\<forall>s h. h \<in> dom (opened s) \<longrightarrow> (\<exists>s'. fp_close fp s h = (SUCCESS, s') \<and> opened s' = (opened s)(h := None) \<and> files s' = files s))"

text \<open>No file grows beyond \<open>cap\<close> bytes.\<close>

definition meta_inv :: "(char16 list \<Rightarrow> bytes \<Rightarrow> bytes) \<Rightarrow> char16 list \<Rightarrow> bytes \<Rightarrow> bool" where
  "meta_inv meta name d \<longleftrightarrow>
    u64_from_le (take 8 (drop 8 (meta name d))) = word_of_nat (length d) \<and> length d \<le> 9223372036854775807 \<and>
    length (meta name d) \<le> 9223372036854775800 \<and>
    (\<exists>n. 82 + 2 * n \<le> length (meta name d) \<and> take 2 (drop (80 + 2 * n) (meta name d)) = [0, 0])"

definition file_contract ::
  "'s file_protocol \<Rightarrow> ('s \<Rightarrow> file_map) \<Rightarrow> ('s \<Rightarrow> handle_map) \<Rightarrow> (char16 list \<Rightarrow> bytes \<Rightarrow> bytes) \<Rightarrow> nat \<Rightarrow> bool" where
  "file_contract fp files opened meta cap \<longleftrightarrow>
    (\<forall>s h name pos d. opened s h = Some (FileRef name pos) \<longrightarrow> files s name = Some d \<longrightarrow>
      meta_inv meta name d \<and>
      (\<exists>s'. fp_delete fp s h = (SUCCESS, s') \<and> opened s' = (opened s)(h := None) \<and> files s' = (files s)(name := None)) \<and>
      (\<exists>p s'. fp_get_position fp s h = ((SUCCESS, p), s') \<and> opened s' = opened s \<and> files s' = files s) \<and>
      (\<forall>n. \<exists>s'. fp_get_info fp s h (it_guid FILE_INFO) n =
          (if n < length (meta name d) then (BUFFER_TOO_SMALL, length (meta name d), []) else (SUCCESS, length (meta name d), meta name d), s') \<and>
          opened s' = opened s \<and> files s' = files s) \<and>
      (\<forall>n. \<exists>s'. fp_read fp s h n = ((SUCCESS, Orderings.min n (length (drop pos d)), take n (drop pos d)), s') \<and>
          opened s' = (opened s)(h \<mapsto> FileRef name (pos + Orderings.min n (length (drop pos d)))) \<and> files s' = files s) \<and>
      (\<forall>bs. pos = length d \<longrightarrow> length (d @ bs) \<le> cap \<longrightarrow> (\<exists>s'. fp_write fp s h bs = ((SUCCESS, length bs), s') \<and>
          opened s' = (opened s)(h \<mapsto> FileRef name (pos + length bs)) \<and> files s' = (files s)(name \<mapsto> d @ bs))) \<and>
      (\<exists>s'. fp_flush fp s h = (SUCCESS, s') \<and> opened s' = opened s \<and> files s' = files s))"

definition heap_works :: "'s file_world heap \<Rightarrow> bool" where
  "heap_works heap \<longleftrightarrow>
    (\<forall>l w. 0 < l_align l \<longrightarrow> (\<exists>p w'. heap_alloc heap l w = (p, w') \<and> p \<noteq> 0 \<and> p mod l_align l = 0 \<and> vol w' = vol w)) \<and>
    (\<forall>p l w. vol (heap_dealloc heap p l w) = vol w)"

definition view :: "('s \<Rightarrow> file_map) \<Rightarrow> ('s \<Rightarrow> handle_map) \<Rightarrow> 's file_world \<Rightarrow> file_map \<times> handle_map" where
  "view files opened w = (files (vol w), opened (vol w))"

section \<open>Handles\<close>

lemma vol_upd: "vol (w\<lparr>vol := s\<rparr>) = s"
  by simp

lemma open_volume_view:
  assumes c: "opening_contract fp usable files opened" and v: "view files opened w = (F, Os)"
  shows "\<exists>h w'. open_volume fp w = Some (Ok h, w') \<and> h \<noteq> 0 \<and> h \<notin> dom Os \<and> view files opened w' = (F, Os(h \<mapsto> RootRef))"
proof -
  obtain r h s' where call: "fp_open_volume fp (vol w) = ((r, h), s')" by (metis surj_pair)
  have "opens files opened (files (vol w)) RootRef (vol w) ((r, h), s')" using c call unfolding opening_contract_def by metis
  then show ?thesis using v call by (simp add: opens_def open_volume_def view_def)
qed

lemma file_drop_view:
  assumes c: "opening_contract fp usable files opened" and v: "view files opened w = (F, Os)" and h: "h \<in> dom Os" "h \<noteq> 0"
  shows "\<exists>w'. file_drop fp h w = Some w' \<and> view files opened w' = (F, Os(h := None))"
proof -
  have "h \<in> dom (opened (vol w))" using v h by (simp add: view_def)
  then obtain s' where "fp_close fp (vol w) h = (SUCCESS, s')" "opened s' = (opened (vol w))(h := None)" "files s' = files (vol w)"
    using c unfolding opening_contract_def by blast
  then show ?thesis using v h by (simp add: file_drop_def imp_def require_def view_def)
qed

text \<open>A block that owns a handle: what it returns is returned, and the handle is closed.\<close>

lemma closing_view:
  assumes c: "opening_contract fp usable files opened" and b: "body w = Some (r, w1)"
    and v: "view files opened w1 = (F, Os)" and h: "h \<in> dom Os" "h \<noteq> 0"
  shows "\<exists>w'. closing fp h body w = Some (r, w') \<and> view files opened w' = (F, Os(h := None))"
  using file_drop_view [OF c v h] b by (auto simp: closing_def)

lemma file_open_view:
  assumes c: "opening_contract fp usable files opened" and v: "view files opened w = (F, Os)"
    and root: "Os root = Some RootRef" "root \<noteq> 0" and n: "name \<in> usable"
  shows "if name \<in> dom F \<or> m = ModeCreateReadWrite
    then \<exists>h w'. file_open fp root name m 0 w = Some (Ok h, w') \<and> h \<noteq> 0 \<and> h \<notin> dom Os \<and>
      view files opened w' = (if name \<in> dom F then F else F(name \<mapsto> []), Os(h \<mapsto> FileRef name 0))
    else \<exists>w'. file_open fp root name m 0 w = Some (Err \<lparr>err_status = NOT_FOUND, err_data = ()\<rparr>, w') \<and> view files opened w' = (F, Os)"
proof -
  obtain r h s' where call: "fp_open fp (vol w) root name (file_mode_bits m) 0 = ((r, h), s')" by (metis surj_pair)
  have FO: "files (vol w) = F" "opened (vol w) = Os" using v by (simp_all add: view_def)
  have C: "if name \<in> dom F then opens files opened F (FileRef name 0) (vol w) ((r, h), s')
      else if m = ModeCreateReadWrite then opens files opened (F(name \<mapsto> [])) (FileRef name 0) (vol w) ((r, h), s')
      else r = NOT_FOUND \<and> opened s' = Os \<and> files s' = F"
    using c [unfolded opening_contract_def, THEN conjunct2, THEN conjunct1, rule_format, of "vol w" root name m] root n FO call
    by (auto split: if_splits)
  then show ?thesis using FO root call
    by (auto simp: file_open_def imp_def require_def opens_def view_def status_success_neq split: if_splits)
qed

lemma to_path_buf_total: "\<exists>p. to_path_buf path = Some p"
  by (simp add: to_path_buf_def new_from_cstring16_def cstring16_replace_char_def require_def SLASH_def SEPARATOR_def NUL_16_def)

section \<open>Opening and removing\<close>

text \<open>Opening a path opens and closes the root around it.\<close>

lemma fs_open_view:
  assumes c: "opening_contract fp usable files opened" and v: "view files opened w = (F, Os)"
    and p: "validate_path path = Some (Ok ())" "path \<in> usable"
  shows "if path \<in> dom F \<or> m = ModeCreateReadWrite
    then \<exists>h w'. fs_open fp path m False w = Some (Ok h, w') \<and> h \<noteq> 0 \<and> h \<notin> dom Os \<and>
      view files opened w' = (if path \<in> dom F then F else F(path \<mapsto> []), Os(h \<mapsto> FileRef path 0))
    else \<exists>x w'. fs_open fp path m False w = Some (Err (FsIo x), w') \<and> err_status (io_uefi_error x) = NOT_FOUND \<and>
      view files opened w' = (F, Os)"
proof -
  obtain root w1 where r: "open_volume fp w = Some (Ok root, w1)" "root \<noteq> 0" "root \<notin> dom Os"
    "view files opened w1 = (F, Os(root \<mapsto> RootRef))" using open_volume_view [OF c v] by blast
  let ?O = "Os(root \<mapsto> RootRef)"
  have root: "?O root = Some RootRef" by simp
  note fo = file_open_view [OF c r(4) root r(2) p(2), of m]
  have go: "fs_open fp path m False w = closing fp root (\<lambda>w. io_map path OpenError (file_open fp root path m 0 w)) w1"
    by (simp add: fs_open_def p(1) fs_open_root_def r(1) try_res_def)
  show ?thesis
  proof (cases "path \<in> dom F \<or> m = ModeCreateReadWrite")
    case True
    then obtain h w2 where h: "file_open fp root path m 0 w1 = Some (Ok h, w2)" "h \<noteq> 0" "h \<notin> dom ?O"
      "view files opened w2 = (if path \<in> dom F then F else F(path \<mapsto> []), ?O(h \<mapsto> FileRef path 0))" using fo by auto
    have "(?O(h \<mapsto> FileRef path 0))(root := None) = Os(h \<mapsto> FileRef path 0)" "h \<notin> dom Os"
      using h(3) r(3) by (auto simp: fun_eq_iff domIff)
    moreover have "\<exists>w3. closing fp root (\<lambda>w. io_map path OpenError (file_open fp root path m 0 w)) w1 = Some (Ok h, w3) \<and>
        view files opened w3 = (if path \<in> dom F then F else F(path \<mapsto> []), (?O(h \<mapsto> FileRef path 0))(root := None))"
      using h r(2) by (intro closing_view [OF c]) (auto simp: io_map_def)
    ultimately show ?thesis using True go h(2) by auto
  next
    case False
    then obtain w2 where w2: "file_open fp root path m 0 w1 = Some (Err \<lparr>err_status = NOT_FOUND, err_data = ()\<rparr>, w2)"
      "view files opened w2 = (F, ?O)" using fo by auto
    obtain q where q: "to_path_buf path = Some q" using to_path_buf_total by blast
    let ?x = "\<lparr>io_path = q, io_context = OpenError, io_uefi_error = \<lparr>err_status = NOT_FOUND, err_data = ()\<rparr>\<rparr>"
    have "?O(root := None) = Os" using r(3) by (auto simp: fun_eq_iff domIff)
    moreover have "\<exists>w3. closing fp root (\<lambda>w. io_map path OpenError (file_open fp root path m 0 w)) w1 = Some (Err (FsIo ?x), w3) \<and>
        view files opened w3 = (F, ?O(root := None))"
      using w2 r(2) q by (intro closing_view [OF c]) (auto simp: io_map_def io_err_def to_err_without_payload_def)
    ultimately show ?thesis using False go by auto
  qed
qed

lemma file_contractD:
  assumes "file_contract fp files opened meta cap" "view files opened w = (F, Os)" "Os h = Some (FileRef name pos)" "F name = Some d"
  shows "meta_inv meta name d"
    and "\<exists>s'. fp_delete fp (vol w) h = (SUCCESS, s') \<and> opened s' = Os(h := None) \<and> files s' = F(name := None)"
    and "\<exists>p s'. fp_get_position fp (vol w) h = ((SUCCESS, p), s') \<and> opened s' = Os \<and> files s' = F"
    and "\<exists>s'. fp_get_info fp (vol w) h (it_guid FILE_INFO) n =
          (if n < length (meta name d) then (BUFFER_TOO_SMALL, length (meta name d), []) else (SUCCESS, length (meta name d), meta name d), s') \<and>
          opened s' = Os \<and> files s' = F"
    and "\<exists>s'. fp_read fp (vol w) h n = ((SUCCESS, Orderings.min n (length (drop pos d)), take n (drop pos d)), s') \<and>
          opened s' = Os(h \<mapsto> FileRef name (pos + Orderings.min n (length (drop pos d)))) \<and> files s' = F"
    and "pos = length d \<Longrightarrow> length (d @ bs) \<le> cap \<Longrightarrow> \<exists>s'. fp_write fp (vol w) h bs = ((SUCCESS, length bs), s') \<and>
          opened s' = Os(h \<mapsto> FileRef name (pos + length bs)) \<and> files s' = F(name \<mapsto> d @ bs)"
    and "\<exists>s'. fp_flush fp (vol w) h = (SUCCESS, s') \<and> opened s' = Os \<and> files s' = F"
proof -
  have FO: "files (vol w) = F" "opened (vol w) = Os" using assms(2) by (simp_all add: view_def)
  have "opened (vol w) h = Some (FileRef name pos)" "files (vol w) name = Some d" using FO assms(3,4) by simp_all
  note C = assms(1) [unfolded file_contract_def, rule_format, OF this, unfolded FO]
  show "meta_inv meta name d"
    "\<exists>s'. fp_delete fp (vol w) h = (SUCCESS, s') \<and> opened s' = Os(h := None) \<and> files s' = F(name := None)"
    "\<exists>p s'. fp_get_position fp (vol w) h = ((SUCCESS, p), s') \<and> opened s' = Os \<and> files s' = F"
    "\<exists>s'. fp_get_info fp (vol w) h (it_guid FILE_INFO) n =
          (if n < length (meta name d) then (BUFFER_TOO_SMALL, length (meta name d), []) else (SUCCESS, length (meta name d), meta name d), s') \<and>
          opened s' = Os \<and> files s' = F"
    "\<exists>s'. fp_read fp (vol w) h n = ((SUCCESS, Orderings.min n (length (drop pos d)), take n (drop pos d)), s') \<and>
          opened s' = Os(h \<mapsto> FileRef name (pos + Orderings.min n (length (drop pos d)))) \<and> files s' = F"
    "pos = length d \<Longrightarrow> length (d @ bs) \<le> cap \<Longrightarrow> \<exists>s'. fp_write fp (vol w) h bs = ((SUCCESS, length bs), s') \<and>
          opened s' = Os(h \<mapsto> FileRef name (pos + length bs)) \<and> files s' = F(name \<mapsto> d @ bs)"
    "\<exists>s'. fp_flush fp (vol w) h = (SUCCESS, s') \<and> opened s' = Os \<and> files s' = F"
    using C by blast+
qed

lemma into_type_view:
  assumes f: "file_contract fp files opened meta cap" and v: "view files opened w = (F, Os)"
    and h: "Os h = Some (FileRef name pos)" "F name = Some d" "h \<noteq> 0"
  shows "\<exists>w'. into_type fp h w = Some (Ok (Regular h), w') \<and> view files opened w' = (F, Os)"
  using file_contractD(3) [OF f v h(1,2)] h(3)
  by (auto simp: into_type_def is_regular_file_def require_def view_def)

lemma into_regular_file_view:
  assumes "file_contract fp files opened meta cap" "view files opened w = (F, Os)" "Os h = Some (FileRef name pos)" "F name = Some d" "h \<noteq> 0"
  shows "\<exists>w'. into_regular_file fp h w = Some (Some h, w') \<and> view files opened w' = (F, Os)"
  using into_type_view [OF assms] by (auto simp: into_regular_file_def)

lemma handle_closed: "h \<notin> dom Os \<Longrightarrow> Os(h := None) = Os" "h \<notin> dom Os \<Longrightarrow> (Os(h \<mapsto> x))(h := None) = Os"
  by (auto simp: fun_eq_iff domIff)

lemma try_exists_view:
  assumes c: "opening_contract fp usable files opened" and v: "view files opened w = (F, Os)"
    and p: "validate_path path = Some (Ok ())" "path \<in> usable"
  shows "\<exists>w'. try_exists fp path w = Some (Ok (path \<in> dom F), w') \<and> view files opened w' = (F, Os)"
proof (cases "path \<in> dom F")
  case True
  then obtain h w1 where h: "fs_open fp path ModeRead False w = Some (Ok h, w1)" "h \<noteq> 0" "h \<notin> dom Os"
    "view files opened w1 = (F, Os(h \<mapsto> FileRef path 0))" using fs_open_view [OF c v p, of ModeRead] by auto
  then show ?thesis using file_drop_view [OF c h(4) _ h(2)] True handle_closed(2) [OF h(3)] by (auto simp: try_exists_def)
next
  case False
  then show ?thesis using fs_open_view [OF c v p, of ModeRead] by (auto simp: try_exists_def)
qed

lemma remove_file_view:
  assumes c: "opening_contract fp usable files opened" and f: "file_contract fp files opened meta cap"
    and v: "view files opened w = (F, Os)" and p: "validate_path path = Some (Ok ())" "path \<in> usable" and d: "F path = Some d"
  shows "\<exists>w'. remove_file fp path w = Some (Ok (), w') \<and> view files opened w' = (F(path := None), Os)"
proof -
  have "path \<in> dom F" using d by blast
  then obtain h w1 where h: "fs_open fp path ModeReadWrite False w = Some (Ok h, w1)" "h \<noteq> 0" "h \<notin> dom Os"
    "view files opened w1 = (F, Os(h \<mapsto> FileRef path 0))" using fs_open_view [OF c v p, of ModeReadWrite] by auto
  have hp: "(Os(h \<mapsto> FileRef path 0)) h = Some (FileRef path 0)" by simp
  obtain w2 where w2: "into_type fp h w1 = Some (Ok (Regular h), w2)" "view files opened w2 = (F, Os(h \<mapsto> FileRef path 0))"
    using into_type_view [OF f h(4) hp d h(2)] by blast
  obtain s' where "fp_delete fp (vol w2) h = (SUCCESS, s')" "opened s' = Os" "files s' = F(path := None)"
    using file_contractD(2) [OF f w2(2) hp d] unfolding handle_closed(2) [OF h(3)] by blast
  then show ?thesis using h(1,2) w2(1)
    by (simp add: remove_file_def try_res_def file_delete_def imp_def require_def io_map_def view_def)
qed

section \<open>Writing\<close>

text \<open>Writing to a fresh file appends, then the data is flushed and the handle closed.\<close>

lemma fs_write_view:
  assumes c: "opening_contract fp usable files opened" and f: "file_contract fp files opened meta cap"
    and v: "view files opened w = (F, Os)" and p: "validate_path path = Some (Ok ())" "path \<in> usable"
    and room: "length content \<le> cap"
  shows "\<exists>w'. fs_write fp path content w = Some (Ok (), w') \<and> view files opened w' = (F(path \<mapsto> content), Os)"
proof -
  obtain w1 where w1: "try_exists fp path w = Some (Ok (path \<in> dom F), w1)" "view files opened w1 = (F, Os)"
    using try_exists_view [OF c v p] by blast
  obtain w2 where w2: "(if path \<in> dom F then remove_file fp path w1 else Some (Ok (), w1)) = Some (Ok (), w2)"
    "view files opened w2 = (F(path := None), Os)"
  proof (cases "path \<in> dom F")
    case True
    then obtain d where "F path = Some d" by blast
    from remove_file_view [OF c f w1(2) p this] show thesis using that True by auto
  next
    case False
    then have "F(path := None) = F" by (auto simp: fun_eq_iff domIff)
    then show thesis using that [of w1] False w1(2) by simp
  qed
  obtain h w3 where h: "fs_open fp path ModeCreateReadWrite False w2 = Some (Ok h, w3)" "h \<noteq> 0" "h \<notin> dom Os"
    "view files opened w3 = (F(path \<mapsto> []), Os(h \<mapsto> FileRef path 0))"
    using fs_open_view [OF c w2(2) p, of ModeCreateReadWrite] by auto
  have hp: "(Os(h \<mapsto> FileRef path n)) h = Some (FileRef path n)" for n by simp
  have fp: "(F(path \<mapsto> x)) path = Some x" for x by simp
  obtain w4 where w4: "into_regular_file fp h w3 = Some (Some h, w4)" "view files opened w4 = (F(path \<mapsto> []), Os(h \<mapsto> FileRef path 0))"
    using into_regular_file_view [OF f h(4) hp fp h(2)] by blast
  have upd: "(F(path \<mapsto> []))(path \<mapsto> [] @ content) = F(path \<mapsto> content)"
    "(Os(h \<mapsto> FileRef path 0))(h \<mapsto> FileRef path (0 + length content)) = Os(h \<mapsto> FileRef path (length content))" by simp_all
  have nil: "(0 :: nat) = length ([] :: bytes)" by simp
  have room': "length ([] @ content) \<le> cap" using room by simp
  obtain s5 where s5: "fp_write fp (vol w4) h content = ((SUCCESS, length content), s5)"
    "opened s5 = Os(h \<mapsto> FileRef path (length content))" "files s5 = F(path \<mapsto> content)"
    using file_contractD(6) [OF f w4(2) hp fp nil, of content] room' unfolding upd by blast
  have v5: "view files opened (w4\<lparr>vol := s5\<rparr>) = (F(path \<mapsto> content), Os(h \<mapsto> FileRef path (length content)))"
    using s5(2,3) by (simp add: view_def)
  obtain s6 where s6: "fp_flush fp s5 h = (SUCCESS, s6)"
    "opened s6 = Os(h \<mapsto> FileRef path (length content))" "files s6 = F(path \<mapsto> content)"
    using file_contractD(7) [OF f v5 hp fp] unfolding vol_upd by blast
  have v6: "view files opened (w4\<lparr>vol := s6\<rparr>) = (F(path \<mapsto> content), Os(h \<mapsto> FileRef path (length content)))"
    using s6(2,3) by (simp add: view_def)
  let ?body = "\<lambda>w. try_res (io_map path WriteFailure (file_write fp h content w)) (\<lambda>_ w.
      try_res (io_map path FlushFailure (file_flush fp h w)) (\<lambda>_ w. Some (Ok (), w)))"
  have "?body w4 = Some (Ok (), w4\<lparr>vol := s6\<rparr>)"
    using s5(1) s6(1) h(2) by (simp add: try_res_def io_map_def file_write_def file_flush_def imp_def require_def)
  moreover have "h \<in> dom (Os(h \<mapsto> FileRef path (length content)))" by simp
  ultimately obtain w7 where "closing fp h ?body w4 = Some (Ok (), w7)" "view files opened w7 = (F(path \<mapsto> content), Os)"
    using closing_view [where body = ?body, OF c _ v6 _ h(2)] unfolding handle_closed(2) [OF h(3)] by blast
  then show ?thesis using w1 w2 h(1) w4(1) by (simp add: fs_write_def try_res_def)
qed

section \<open>Reading\<close>

lemma mem_strlen_found:
  assumes "u16_from_le (mem_read m (p + 2 * n) 2) = NUL_16" "i \<le> n"
  shows "\<exists>k \<le> n. mem_strlen m p i = Some k"
  using assms(2)
proof (induction "n - i" arbitrary: i)
  case 0
  then show ?case using assms(1) by (auto simp: mem_strlen.simps [of m p i])
next
  case (Suc j)
  show ?case
  proof (cases "u16_from_le (mem_read m (p + 2 * i) 2) = NUL_16")
    case True
    then show ?thesis using Suc.prems by (auto simp: mem_strlen.simps [of m p i])
  next
    case False
    then have "mem_strlen m p i = mem_strlen m p (i + 1)" by (simp add: mem_strlen.simps [of m p i])
    then show ?thesis using Suc.hyps(1) [of "i + 1"] Suc.hyps(2) by simp
  qed
qed

lemma mem_read_write_part:
  assumes "off + n \<le> length bs"
  shows "mem_read (mem_write m p bs) (p + off) n = take n (drop off bs)"
  using assms by (intro nth_equalityI) (simp_all add: mem_read_def mem_write_def)

lemma info_from_uefi:
  assumes "meta_inv meta name d" "m' = mem_write m p (meta name d)"
  shows "\<exists>k l. from_uefi FILE_INFO m' p = Some (p, k) \<and> info_layout FILE_INFO k = Some l \<and>
    file_info_file_size m' (p, k) = word_of_nat (length d)"
proof -
  obtain n where n: "82 + 2 * n \<le> length (meta name d)" "take 2 (drop (80 + 2 * n) (meta name d)) = [0, 0]"
    using assms(1) by (auto simp: meta_inv_def)
  have "u16_from_le (mem_read m' (p + 80 + 2 * n) 2) = NUL_16"
    using mem_read_write_part [of "80 + 2 * n" 2 "meta name d" m p] n assms(2)
    by (simp add: add.assoc u16_from_le_def NUL_16_def)
  from mem_strlen_found [OF this, of 0] obtain k where k: "k \<le> n" "mem_strlen m' (p + 80) 0 = Some k" by auto
  have len: "length (meta name d) \<le> 9223372036854775800" using assms(1) by (simp add: meta_inv_def)
  have "(8 :: nat) \<in> (\<lambda>k. 2 ^ k) ` set [0..<64]" by (rule image_eqI [of _ _ 3]) simp_all
  then have "\<exists>l. info_layout FILE_INFO (k + 1) = Some l"
    using k(1) n(1) len by (simp add: info_layout_def layout_from_size_align_def FILE_INFO_def)
  moreover have "file_info_file_size m' (p, k + 1) = word_of_nat (length d)"
    using assms n(1) mem_read_write_part [of 8 8 "meta name d" m p] by (simp add: file_info_file_size_def meta_inv_def)
  ultimately show ?thesis using k(2) by (auto simp: from_uefi_def FILE_INFO_def)
qed

lemma get_info_small:
  assumes f: "file_contract fp files opened meta cap" and v: "view files opened w = (F, Os)"
    and h: "Os h = Some (FileRef name pos)" "F name = Some d" "h \<noteq> 0"
  shows "\<exists>w'. get_info fp FILE_INFO h (1, 0) w =
      Some (Err \<lparr>err_status = BUFFER_TOO_SMALL, err_data = Some (length (meta name d))\<rparr>, w') \<and> view files opened w' = (F, Os)"
proof -
  have "0 < length (meta name d)" using file_contractD(1) [OF f v h(1,2)] by (auto simp: meta_inv_def)
  then show ?thesis using file_contractD(4) [OF f v h(1,2), of 0] h(3)
    by (auto simp: get_info_def assert_aligned_def imp_def require_def view_def status_success_neq)
qed

lemma get_info_full:
  assumes f: "file_contract fp files opened meta cap" and v: "view files opened w = (F, Os)"
    and h: "Os h = Some (FileRef name pos)" "F name = Some d" "h \<noteq> 0" and p: "p mod 8 = 0"
  shows "\<exists>k l w'. get_info fp FILE_INFO h (p, length (meta name d)) w = Some (Ok (p, k), w') \<and> view files opened w' = (F, Os) \<and>
    info_layout FILE_INFO k = Some l \<and> file_info_file_size (vmem w') (p, k) = word_of_nat (length d)"
proof -
  let ?m = "mem_write (vmem w) p (meta name d)"
  obtain k l where kl: "from_uefi FILE_INFO ?m p = Some (p, k)" "info_layout FILE_INFO k = Some l"
    "file_info_file_size ?m (p, k) = word_of_nat (length d)" using info_from_uefi [OF file_contractD(1) [OF f v h(1,2)] refl] by blast
  obtain s' where s': "fp_get_info fp (vol w) h (it_guid FILE_INFO) (length (meta name d)) = ((SUCCESS, length (meta name d), meta name d), s')"
    "opened s' = Os" "files s' = F" using file_contractD(4) [OF f v h(1,2), of "length (meta name d)"] by auto
  have "assert_aligned (it_align FILE_INFO) (p, length (meta name d)) = Some ()"
    using p by (simp add: assert_aligned_def require_def align_offset_def FILE_INFO_def)
  then have "get_info fp FILE_INFO h (p, length (meta name d)) w = Some (Ok (p, k), w\<lparr>vol := s', vmem := ?m\<rparr>)"
    using s' h(3) kl(1) by (simp add: get_info_def imp_def require_def)
  then show ?thesis using kl(2,3) s' by (auto simp: view_def)
qed

lemma get_boxed_info_view:
  assumes f: "file_contract fp files opened meta cap" and hp: "heap_works heap" and v: "view files opened w = (F, Os)"
    and h: "Os h = Some (FileRef name pos)" "F name = Some d" "h \<noteq> 0"
  shows "\<exists>info l w'. get_boxed_info fp heap FILE_INFO h w = Some (Ok info, w') \<and> view files opened w' = (F, Os) \<and>
    info_layout FILE_INFO (snd info) = Some l \<and> file_info_file_size (vmem w') info = word_of_nat (length d)"
proof -
  let ?n = "length (meta name d)"
  obtain w1 where w1: "get_info fp FILE_INFO h (1, 0) w = Some (Err \<lparr>err_status = BUFFER_TOO_SMALL, err_data = Some ?n\<rparr>, w1)"
    "view files opened w1 = (F, Os)" using get_info_small [OF f v h] by blast
  have n: "?n \<le> 9223372036854775800" "0 < ?n" using file_contractD(1) [OF f v h(1,2)] by (auto simp: meta_inv_def)
  have "(8 :: nat) \<in> (\<lambda>k. 2 ^ k) ` set [0..<64]" by (rule image_eqI [of _ _ 3]) simp_all
  then have lay: "layout_from_size_align ?n 8 = Some \<lparr>l_size = ?n, l_align = 8\<rparr>" using n by (simp add: layout_from_size_align_def)
  let ?l = "pad_to_align \<lparr>l_size = ?n, l_align = 8\<rparr>"
  have l: "l_align ?l = 8" "0 < l_size ?l" using n(2) by (simp_all add: pad_to_align_def)
  obtain p w2 where w2: "heap_alloc heap ?l w1 = (p, w2)" "p \<noteq> 0" "p mod 8 = 0" "vol w2 = vol w1"
    using hp [unfolded heap_works_def, THEN conjunct1, rule_format, of ?l w1] l(1) by auto
  have v2: "view files opened w2 = (F, Os)" using w1(2) w2(4) by (simp add: view_def)
  obtain k l' w3 where w3: "get_info fp FILE_INFO h (p, ?n) w2 = Some (Ok (p, k), w3)" "view files opened w3 = (F, Os)"
    "info_layout FILE_INFO k = Some l'" "file_info_file_size (vmem w3) (p, k) = word_of_nat (length d)"
    using get_info_full [OF f v2 h w2(3)] by blast
  have "it_align FILE_INFO = 8" by (simp add: FILE_INFO_def)
  then have "get_boxed_info fp heap FILE_INFO h w = Some (Ok (p, k), w3)"
    using w1(1) lay l(2) w2(1,2) w3(1) by (simp add: get_boxed_info_def make_boxed_def error_split_def require_def)
  then show ?thesis using w3 by auto
qed

lemma file_read_view:
  assumes f: "file_contract fp files opened meta cap" and v: "view files opened w = (F, Os(h \<mapsto> FileRef name 0))"
    and d: "F name = Some d" "h \<noteq> 0" "length d < usize_limit"
  shows "\<exists>w' pos. file_read fp h (replicate (length d) 0) w = Some ((Ok (length d), d), w') \<and>
    view files opened w' = (F, Os(h \<mapsto> FileRef name pos))"
proof -
  let ?fine = "\<lambda>w. \<exists>pos. view files opened w = (F, Os(h \<mapsto> FileRef name pos))"
  let ?unread = "\<lambda>w. case opened (vol w) h of Some (FileRef n pos) \<Rightarrow> drop pos d | _ \<Rightarrow> []"
  have un: "?unread w = drop pos d" if "view files opened w = (F, Os(h \<mapsto> FileRef name pos))" for w pos
    using that by (simp add: view_def)
  have step: "\<exists>w'. driver_read fp h w n = ((SUCCESS, Orderings.min n (length (?unread w)), take n (?unread w)), w') \<and>
      ?fine w' \<and> ?unread w' = drop n (?unread w)" if w: "view files opened w = (F, Os(h \<mapsto> FileRef name pos))" for w n pos
  proof -
    have hp: "(Os(h \<mapsto> FileRef name pos)) h = Some (FileRef name pos)" by simp
    let ?k = "Orderings.min n (length (drop pos d))"
    have upd: "(Os(h \<mapsto> FileRef name pos))(h \<mapsto> FileRef name (pos + ?k)) = Os(h \<mapsto> FileRef name (pos + ?k))" by simp
    obtain s' where s': "fp_read fp (vol w) h n = ((SUCCESS, ?k, take n (drop pos d)), s')"
      "opened s' = Os(h \<mapsto> FileRef name (pos + ?k))" "files s' = F"
      using file_contractD(5) [OF f w hp d(1), of n] unfolding upd by blast
    have v': "view files opened (w\<lparr>vol := s'\<rparr>) = (F, Os(h \<mapsto> FileRef name (pos + ?k)))" using s'(2,3) by (simp add: view_def)
    have "drop (pos + ?k) d = drop n (drop pos d)" by (simp add: min_def add.commute)
    then show ?thesis using s'(1) un [OF w] un [OF v'] v' by (auto simp: driver_read_def)
  qed
  have rc: "reader_contract (driver_read fp h) ?fine ?unread" unfolding reader_contract_def using step by blast
  have "0 < READ_CHUNK" by (simp add: READ_CHUNK_def)
  from read_chunked_loop_reads [OF rc this, of w 0 "length d" "replicate (length d) 0"] v un [OF v] d(2,3)
  show ?thesis by (auto simp: file_read_def imp_def require_def read_chunked_def overwrite_def)
qed

lemma fs_read_view:
  assumes c: "opening_contract fp usable files opened" and f: "file_contract fp files opened meta cap" and hw: "heap_works heap"
    and v: "view files opened w = (F, Os)" and p: "validate_path path = Some (Ok ())" "path \<in> usable" and d: "F path = Some d"
  shows "\<exists>w'. fs_read fp heap path w = Some (Ok d, w') \<and> view files opened w' = (F, Os)"
proof -
  have "path \<in> dom F" using d by blast
  then obtain h w1 where h: "fs_open fp path ModeRead False w = Some (Ok h, w1)" "h \<noteq> 0" "h \<notin> dom Os"
    "view files opened w1 = (F, Os(h \<mapsto> FileRef path 0))" using fs_open_view [OF c v p, of ModeRead] by auto
  have hp: "(Os(h \<mapsto> FileRef path 0)) h = Some (FileRef path 0)" by simp
  obtain w2 where w2: "into_regular_file fp h w1 = Some (Some h, w2)" "view files opened w2 = (F, Os(h \<mapsto> FileRef path 0))"
    using into_regular_file_view [OF f h(4) hp d h(2)] by blast
  obtain q where "to_path_buf path = Some q" using to_path_buf_total by blast
  then have reg: "try_res (fs_open fp path ModeRead False w) (fs_regular_file fp path NotAFile) = Some (Ok h, w2)"
    using h(1) w2(1) by (simp add: try_res_def fs_regular_file_def io_status_def io_err_def error_from_status_def error_new_def
        require_def status_success_neq)
  obtain info l w3 where w3: "get_boxed_info fp heap FILE_INFO h w2 = Some (Ok info, w3)"
    "view files opened w3 = (F, Os(h \<mapsto> FileRef path 0))" "info_layout FILE_INFO (snd info) = Some l"
    "file_info_file_size (vmem w3) info = word_of_nat (length d)" using get_boxed_info_view [OF f hw w2(2) hp d h(2)] by blast
  have len: "length d \<le> 9223372036854775807" using file_contractD(1) [OF f w2(2) hp d] by (simp add: meta_inv_def)
  then have "length d < usize_limit" by (simp add: usize_limit_def)
  then obtain w4 pos where w4: "file_read fp h (replicate (length d) 0) w3 = Some ((Ok (length d), d), w4)"
    "view files opened w4 = (F, Os(h \<mapsto> FileRef path pos))" using file_read_view [OF f w3(2) d h(2)] by blast
  have "unat (word_of_nat (length d) :: u64) = length d" using len by (simp add: unat_of_nat)
  then have vec: "zeroed_vec (file_info_file_size (vmem w3) info) = Some (replicate (length d) 0)"
    using w3(4) len by (simp add: zeroed_vec_def require_def)
  define body where "body = (\<lambda>w. try_res (io_map path Metadata (get_boxed_info fp heap FILE_INFO h w)) (\<lambda>info. boxed heap info (\<lambda>w. do {
      vec \<leftarrow> zeroed_vec (file_info_file_size (vmem w) info);
      ((r, vec'), w1) \<leftarrow> file_read fp h vec w;
      try_res (io_map path ReadFailure (Some (r, w1))) (\<lambda>read_bytes w2. Some (Ok vec', w2)) })))"
  let ?w5 = "heap_dealloc heap (fst info) l w4"
  have "body w2 = Some (Ok d, ?w5)"
    using w3(1,3) vec w4(1) by (simp add: body_def try_res_def io_map_def boxed_def box_drop_def)
  moreover have "view files opened ?w5 = (F, Os(h \<mapsto> FileRef path pos))"
    using hw w4(2) by (simp add: heap_works_def view_def)
  moreover have "h \<in> dom (Os(h \<mapsto> FileRef path pos))" by simp
  ultimately obtain w6 where "closing fp h body w2 = Some (Ok d, w6)" "view files opened w6 = (F, Os)"
    using closing_view [where body = body and Os = "Os(h \<mapsto> FileRef path pos)", OF c _ _ _ h(2)]
    unfolding handle_closed(2) [OF h(3)] by blast
  then show ?thesis using reg unfolding fs_read_def by (auto simp: try_res_def body_def)
qed

section \<open>Property\<close>

text \<open>C4: A file that was written reads back, and no handle is leaked. On a volume that behaves as documented, writing content
  that it has room for to a path that validates and names a file, whether or not it exists, succeeds: the volume then holds exactly the given content under that
  name, all other files are as before, and so are the open handles. Reading the path then returns the content and changes neither files
  nor handles; the same holds for any file that is there.\<close>

theorem write_read_roundtrip:
  assumes "opening_contract fp usable files opened" and "file_contract fp files opened meta cap" and "heap_works heap"
    and "validate_path path = Some (Ok ())" and "path \<in> usable" and "length content \<le> cap"
  shows "\<exists>w1 w2. fs_write fp path content w = Some (Ok (), w1) \<and>
    files (vol w1) = (files (vol w))(path \<mapsto> content) \<and> opened (vol w1) = opened (vol w) \<and>
    fs_read fp heap path w1 = Some (Ok content, w2) \<and> files (vol w2) = files (vol w1) \<and> opened (vol w2) = opened (vol w)"
proof -
  obtain w1 where w1: "fs_write fp path content w = Some (Ok (), w1)"
    "view files opened w1 = ((files (vol w))(path \<mapsto> content), opened (vol w))"
    using fs_write_view [OF assms(1,2) _ assms(4-6), of w "files (vol w)" "opened (vol w)"] by (auto simp: view_def)
  have "((files (vol w))(path \<mapsto> content)) path = Some content" by simp
  from fs_read_view [OF assms(1-3) w1(2) assms(4,5) this] show ?thesis using w1 by (auto simp: view_def fun_upd_def)
qed

text \<open>A volume in memory, with files of at most a hundred bytes.\<close>

record ram_volume =
  rv_files :: file_map
  rv_open :: "(nat \<times> file_ref) list"

definition rv_view :: "ram_volume \<Rightarrow> file_map" where
  "rv_view s n = (case rv_files s n of None \<Rightarrow> None | Some d \<Rightarrow> if length d \<le> 100 then Some d else None)"

definition rv_handles :: "ram_volume \<Rightarrow> handle_map" where
  "rv_handles s = map_of (rv_open s)"

definition rv_meta :: "char16 list \<Rightarrow> bytes \<Rightarrow> bytes" where
  "rv_meta name d = replicate 8 0 @ u64_to_le (word_of_nat (length d)) @ replicate 66 0"

definition rv_fresh :: "ram_volume \<Rightarrow> nat" where
  "rv_fresh s = Suc (sum_list (map fst (rv_open s)))"

definition rv_add :: "file_ref \<Rightarrow> ram_volume \<Rightarrow> (status \<times> nat) \<times> ram_volume" where
  "rv_add x s = ((SUCCESS, rv_fresh s), s\<lparr>rv_open := (rv_fresh s, x) # rv_open s\<rparr>)"

definition rv_file :: "ram_volume \<Rightarrow> nat \<Rightarrow> (char16 list \<times> nat \<times> bytes) option" where
  "rv_file s h = (case rv_handles s h of Some (FileRef n p) \<Rightarrow> map_option (\<lambda>d. (n, p, d)) (rv_view s n) | _ \<Rightarrow> None)"

definition rv_without :: "nat \<Rightarrow> (nat \<times> file_ref) list \<Rightarrow> (nat \<times> file_ref) list" where
  "rv_without h xs = filter (\<lambda>kv. fst kv \<noteq> h) xs"

definition rv_driver :: "ram_volume file_protocol" where
  "rv_driver = \<lparr>
     fp_open_volume = rv_add RootRef,
     fp_open = (\<lambda>s root n m a.
       if n \<in> dom (rv_view s) then rv_add (FileRef n 0) s
       else if m = file_mode_bits ModeCreateReadWrite then rv_add (FileRef n 0) (s\<lparr>rv_files := (rv_files s)(n \<mapsto> [])\<rparr>)
       else ((NOT_FOUND, 0), s)),
     fp_close = (\<lambda>s h. (SUCCESS, s\<lparr>rv_open := rv_without h (rv_open s)\<rparr>)),
     fp_delete = (\<lambda>s h. case rv_file s h of
         None \<Rightarrow> (UNSUPPORTED, s)
       | Some (n, p, d) \<Rightarrow> (SUCCESS, s\<lparr>rv_files := (rv_files s)(n := None), rv_open := rv_without h (rv_open s)\<rparr>)),
     fp_read = (\<lambda>s h k. case rv_file s h of
         None \<Rightarrow> ((UNSUPPORTED, 0, []), s)
       | Some (n, p, d) \<Rightarrow> ((SUCCESS, Orderings.min k (length (drop p d)), take k (drop p d)),
           s\<lparr>rv_open := (h, FileRef n (p + Orderings.min k (length (drop p d)))) # rv_open s\<rparr>)),
     fp_write = (\<lambda>s h bs. case rv_file s h of
         None \<Rightarrow> ((UNSUPPORTED, 0), s)
       | Some (n, p, d) \<Rightarrow>
           if length (d @ bs) \<le> 100
           then ((SUCCESS, length bs), s\<lparr>rv_files := (rv_files s)(n \<mapsto> d @ bs), rv_open := (h, FileRef n (p + length bs)) # rv_open s\<rparr>)
           else ((OUT_OF_RESOURCES, 0), s)),
     fp_get_position = (\<lambda>s h. ((SUCCESS, 0), s)),
     fp_set_position = (\<lambda>s h p. (UNSUPPORTED, s)),
     fp_get_info = (\<lambda>s h g k. case rv_file s h of
         None \<Rightarrow> ((UNSUPPORTED, 0, []), s)
       | Some (n, p, d) \<Rightarrow>
           (if k < length (rv_meta n d) then (BUFFER_TOO_SMALL, length (rv_meta n d), []) else (SUCCESS, length (rv_meta n d), rv_meta n d), s)),
     fp_set_info = (\<lambda>s h g bs. (UNSUPPORTED, s)),
     fp_flush = (\<lambda>s h. (SUCCESS, s))\<rparr>"

lemma rv_fresh_new: "rv_fresh s \<notin> dom (rv_handles s)"
proof
  assume "rv_fresh s \<in> dom (rv_handles s)"
  then have "rv_fresh s \<in> fst ` set (rv_open s)" by (simp add: rv_handles_def dom_map_of_conv_image_fst)
  then have "rv_fresh s \<le> sum_list (map fst (rv_open s))" by (intro member_le_sum_list) simp_all
  then show False by (simp add: rv_fresh_def)
qed

lemma rv_without_handles [simp]: "map_of (rv_without h xs) = (map_of xs)(h := None)"
  by (induction xs) (auto simp: rv_without_def)

lemma rv_view_update: "length d \<le> 100 \<Longrightarrow> rv_view (s\<lparr>rv_files := (rv_files s)(n \<mapsto> d)\<rparr>) = (rv_view s)(n \<mapsto> d)"
  "rv_view (s\<lparr>rv_files := (rv_files s)(n := None)\<rparr>) = (rv_view s)(n := None)"
  "rv_view (s\<lparr>rv_open := x\<rparr>) = rv_view s"
  by (auto simp: rv_view_def fun_eq_iff)

lemma rv_opening: "opening_contract rv_driver UNIV rv_view rv_handles"
proof -
  have add: "opens rv_view rv_handles F x s (rv_add x s')" if "rv_view s' = F" "rv_open s' = rv_open s" for F x s s'
    using that rv_fresh_new [of s] by (auto simp: opens_def rv_add_def rv_fresh_def rv_handles_def rv_view_update)
  have "file_mode_bits m = file_mode_bits ModeCreateReadWrite \<longleftrightarrow> m = ModeCreateReadWrite" for m by (cases m) simp_all
  then show ?thesis unfolding opening_contract_def
    by (auto simp: rv_driver_def rv_view_update rv_handles_def intro!: add)
qed

lemma rv_meta_ok:
  assumes "length d \<le> 100"
  shows "meta_inv rv_meta n d"
proof -
  have "take 8 (drop 8 (rv_meta n d)) = u64_to_le (word_of_nat (length d))"
    by (simp add: rv_meta_def u64c.encode_length)
  moreover have "take 2 (drop (80 + 2 * 0) (rv_meta n d)) = [0, 0]"
    by (simp add: rv_meta_def u64c.encode_length) (simp add: numeral_2_eq_2)
  moreover have "length (rv_meta n d) = 82" by (simp add: rv_meta_def u64c.encode_length)
  ultimately have m: "u64_from_le (take 8 (drop 8 (rv_meta n d))) = word_of_nat (length d)"
    "82 + 2 * 0 \<le> length (rv_meta n d)" "take 2 (drop (80 + 2 * 0) (rv_meta n d)) = [0, 0]" "length (rv_meta n d) \<le> 9223372036854775800"
    by (simp_all only: u64c.decode_encode)
  have "length d \<le> 9223372036854775807" using assms by simp
  then show ?thesis unfolding meta_inv_def using m by blast
qed

lemma rv_file_contract: "file_contract rv_driver rv_view rv_handles rv_meta 100"
  unfolding file_contract_def
proof (intro allI impI)
  fix s h n p d
  assume a: "rv_handles s h = Some (FileRef n p)" "rv_view s n = Some d"
  then have f: "rv_file s h = Some (n, p, d)" by (simp add: rv_file_def)
  have d: "length d \<le> 100" using a(2) by (auto simp: rv_view_def split: option.splits if_splits)
  have w: "length (d @ bs) \<le> 100 \<Longrightarrow> rv_view (s\<lparr>rv_files := (rv_files s)(n \<mapsto> d @ bs), rv_open := x\<rparr>) = (rv_view s)(n \<mapsto> d @ bs)" for bs x
    using rv_view_update(1) [of "d @ bs" s n] by (simp add: rv_view_def fun_eq_iff)
  have u: "rv_view (s\<lparr>rv_files := (rv_files s)(n := None), rv_open := x\<rparr>) = (rv_view s)(n := None)" for x
    using rv_view_update(2) [of s n] by (simp add: rv_view_def fun_eq_iff)
  show "meta_inv rv_meta n d \<and>
    (\<exists>s'. fp_delete rv_driver s h = (SUCCESS, s') \<and> rv_handles s' = (rv_handles s)(h := None) \<and> rv_view s' = (rv_view s)(n := None)) \<and>
    (\<exists>p s'. fp_get_position rv_driver s h = ((SUCCESS, p), s') \<and> rv_handles s' = rv_handles s \<and> rv_view s' = rv_view s) \<and>
    (\<forall>k. \<exists>s'. fp_get_info rv_driver s h (it_guid FILE_INFO) k =
        (if k < length (rv_meta n d) then (BUFFER_TOO_SMALL, length (rv_meta n d), []) else (SUCCESS, length (rv_meta n d), rv_meta n d), s') \<and>
        rv_handles s' = rv_handles s \<and> rv_view s' = rv_view s) \<and>
    (\<forall>k. \<exists>s'. fp_read rv_driver s h k = ((SUCCESS, Orderings.min k (length (drop p d)), take k (drop p d)), s') \<and>
        rv_handles s' = (rv_handles s)(h \<mapsto> FileRef n (p + Orderings.min k (length (drop p d)))) \<and> rv_view s' = rv_view s) \<and>
    (\<forall>bs. p = length d \<longrightarrow> length (d @ bs) \<le> 100 \<longrightarrow> (\<exists>s'. fp_write rv_driver s h bs = ((SUCCESS, length bs), s') \<and>
        rv_handles s' = (rv_handles s)(h \<mapsto> FileRef n (p + length bs)) \<and> rv_view s' = (rv_view s)(n \<mapsto> d @ bs))) \<and>
    (\<exists>s'. fp_flush rv_driver s h = (SUCCESS, s') \<and> rv_handles s' = rv_handles s \<and> rv_view s' = rv_view s)"
    by (intro conjI allI impI)
      (use f d w u rv_meta_ok in \<open>simp_all add: rv_driver_def rv_handles_def rv_view_update(3)\<close>)
qed

definition vol_heap :: "'s file_world heap" where
  "vol_heap = \<lparr>heap_alloc = (\<lambda>l w. (l_align l, w)), heap_dealloc = (\<lambda>p l w. w)\<rparr>"

theorem write_read_roundtrip_witness:
  "\<exists>w1 w2. fs_write rv_driver [0x61, 0] [1, 2, 3] \<lparr>vol = \<lparr>rv_files = [[0x62, 0] \<mapsto> [9]], rv_open = []\<rparr>, vmem = (\<lambda>_. 0)\<rparr> = Some (Ok (), w1) \<and>
    fs_read rv_driver vol_heap [0x61, 0] w1 = Some (Ok [1, 2, 3], w2) \<and> rv_handles (vol w2) = Map.empty \<and>
    rv_view (vol w2) [0x62, 0] = Some [9]"
proof -
  let ?w = "\<lparr>vol = \<lparr>rv_files = [[0x62, 0] \<mapsto> [9]], rv_open = []\<rparr>, vmem = (\<lambda>_. 0)\<rparr>"
  have h: "heap_works vol_heap" by (simp add: heap_works_def vol_heap_def)
  have v: "validate_path [0x61, 0] = Some (Ok ())"
    using validate_path_eq [of "[0x61, 0]"] by (simp add: path_inv_def path_components_def SEPARATOR_def usize_limit_def bad_component_def
        CHARACTER_DENY_LIST_def NUL_16_def)
  have i: "rv_handles (vol ?w) = Map.empty" "rv_view (vol ?w) [0x62, 0] = Some [9]" by (simp_all add: rv_handles_def rv_view_def)
  have "length [1 :: u8, 2, 3] \<le> 100" by simp
  from write_read_roundtrip [OF rv_opening rv_file_contract h v UNIV_I this, of ?w] obtain w1 w2 where
    "fs_write rv_driver [0x61, 0] [1, 2, 3] ?w = Some (Ok (), w1)" "rv_view (vol w1) = (rv_view (vol ?w))([0x61, 0] \<mapsto> [1, 2, 3])"
    "fs_read rv_driver vol_heap [0x61, 0] w1 = Some (Ok [1, 2, 3], w2)" "rv_view (vol w2) = rv_view (vol w1)"
    "rv_handles (vol w2) = rv_handles (vol ?w)" by blast
  then show ?thesis using i by (intro exI [of _ w1] exI [of _ w2]) simp
qed

end
