(* ===== verification/Gop.thy ===== *)
theory Gop
  imports Mem_Util
begin

text \<open>
  Graphics output: \<open>uefi/src/proto/console/gop.rs\<close>. The driver is a parameter, a record of functions on the state of the
  firmware. A call of its block transfer is recorded with all parameters, so that the checks in front of it can be related to what the
  driver is allowed to touch.
\<close>

unbundle bit_operations_syntax

section \<open>Modes\<close>

record raw_mode_info =
  mi_version :: u32
  horizontal_resolution :: u32
  vertical_resolution :: u32
  mi_pixel_format :: u32
  pixel_information :: "u32 \<times> u32 \<times> u32 \<times> u32"
  pixels_per_scan_line :: u32

record gop_mode =
  max_mode :: u32
  gm_mode :: u32
  gm_info :: raw_mode_info
  frame_buffer_base :: nat
  frame_buffer_size :: usize

datatype pixel_format = Rgb | Bgr | Bitmask | BltOnly

definition resolution :: "raw_mode_info \<Rightarrow> (usize \<times> usize) option" where
  "resolution i = do {
     h \<leftarrow> usize_from_u32 (horizontal_resolution i);
     v \<leftarrow> usize_from_u32 (vertical_resolution i);
     Some (h, v)
   }"

definition pixel_format_of :: "raw_mode_info \<Rightarrow> pixel_format option" where
  "pixel_format_of i =
    (if mi_pixel_format i = 0 then Some Rgb
     else if mi_pixel_format i = 1 then Some Bgr
     else if mi_pixel_format i = 2 then Some Bitmask
     else if mi_pixel_format i = 3 then Some BltOnly
     else None)"

definition pixel_bitmask :: "raw_mode_info \<Rightarrow> (u32 \<times> u32 \<times> u32 \<times> u32) option option" where
  "pixel_bitmask i = do {
     f \<leftarrow> pixel_format_of i;
     Some (case f of Bitmask \<Rightarrow> Some (pixel_information i) | _ \<Rightarrow> None)
   }"

definition stride :: "raw_mode_info \<Rightarrow> usize option" where
  "stride i = usize_from_u32 (pixels_per_scan_line i)"

record video_mode =
  vm_index :: u32
  vm_info_sz :: usize
  vm_info :: raw_mode_info

section \<open>Pixels and operations\<close>

record blt_pixel =
  px_blue :: u8
  px_green :: u8
  px_red :: u8
  px_reserved :: u8

definition blt_pixel_new :: "u8 \<Rightarrow> u8 \<Rightarrow> u8 \<Rightarrow> blt_pixel" where
  "blt_pixel_new red green blue = \<lparr>px_blue = blue, px_green = green, px_red = red, px_reserved = 0\<rparr>"

definition blt_pixel_from_u32 :: "u32 \<Rightarrow> blt_pixel" where
  "blt_pixel_from_u32 color =
    \<lparr>px_blue = ucast (color AND 0x0000FF), px_green = ucast (drop_bit 8 (color AND 0x00FF00)),
     px_red = ucast (drop_bit 16 (color AND 0xFF0000)), px_reserved = 0\<rparr>"

definition SIZE_OF_BLT_PIXEL :: usize where "SIZE_OF_BLT_PIXEL = 4"

datatype blt_region = Full | SubRectangle "usize \<times> usize" usize

datatype blt_op =
    VideoFill blt_pixel "usize \<times> usize" "usize \<times> usize"
  | VideoToBltBuffer "blt_pixel list" "usize \<times> usize" blt_region "usize \<times> usize"
  | BufferToVideo "blt_pixel list" blt_region "usize \<times> usize" "usize \<times> usize"
  | VideoToVideo "usize \<times> usize" "usize \<times> usize" "usize \<times> usize"

datatype blt_operation = BLT_VIDEO_FILL | BLT_VIDEO_TO_BLT_BUFFER | BLT_BUFFER_TO_VIDEO | BLT_VIDEO_TO_VIDEO

text \<open>The parameters of the driver's block transfer. The buffer of a fill is the one colour; copying inside video memory has none.\<close>

record blt_call =
  bc_buffer :: "blt_pixel list"
  bc_operation :: blt_operation
  bc_source_x :: usize
  bc_source_y :: usize
  bc_destination_x :: usize
  bc_destination_y :: usize
  bc_width :: usize
  bc_height :: usize
  bc_delta :: usize

record 'fw gop_protocol =
  gp_mode :: "'fw \<Rightarrow> gop_mode"
  gp_query_mode :: "'fw \<Rightarrow> u32 \<Rightarrow> (status \<times> usize \<times> nat) \<times> 'fw"
  gp_info_at :: "'fw \<Rightarrow> nat \<Rightarrow> raw_mode_info"
  gp_set_mode :: "'fw \<Rightarrow> u32 \<Rightarrow> status \<times> 'fw"
  gp_blt :: "'fw \<Rightarrow> blt_call \<Rightarrow> (status \<times> blt_pixel list) \<times> 'fw"

section \<open>The protocol\<close>

definition current_mode_info :: "'fw gop_protocol \<Rightarrow> 'fw world \<Rightarrow> raw_mode_info" where
  "current_mode_info gop w = gm_info (gp_mode gop (fw_state w))"

text \<open>The information lies in a pool buffer of the driver; it is copied and the buffer freed.\<close>

definition query_mode :: "'fw gop_protocol \<Rightarrow> u32 \<Rightarrow> 'fw world \<Rightarrow> (video_mode uefi_result \<times> 'fw world) option" where
  "query_mode gop index w = do {
     let ((s, info_sz, info_heap_ptr), f) = gp_query_mode gop (fw_state w) index;
     let w1 = w\<lparr>fw_state := f\<rparr>;
     if s = SUCCESS then do {
       require (info_heap_ptr \<noteq> 0);
       let info = gp_info_at gop f info_heap_ptr;
       (r, w2) \<leftarrow> free_pool info_heap_ptr w1;
       require (is_ok r);
       Some (Ok \<lparr>vm_index = index, vm_info_sz = info_sz, vm_info = info\<rparr>, w2)
     } else do { e \<leftarrow> error_from_status s; Some (Err e, w1) }
   }"

record mode_iter =
  mit_current :: u32
  mit_max :: u32

definition modes :: "'fw gop_protocol \<Rightarrow> 'fw world \<Rightarrow> mode_iter" where
  "modes gop w = \<lparr>mit_current = 0, mit_max = max_mode (gp_mode gop (fw_state w))\<rparr>"

text \<open>A mode that cannot be queried is skipped by a recursive call.\<close>

partial_function (option) mode_iter_next ::
  "'fw gop_protocol \<Rightarrow> mode_iter \<times> 'fw world \<Rightarrow> (video_mode option \<times> mode_iter \<times> 'fw world) option" where
  [code]: "mode_iter_next gop itw = (case itw of (it, w) \<Rightarrow>
     if mit_current it < mit_max it then do {
       (m, w1) \<leftarrow> query_mode gop (mit_current it) w;
       let it1 = it\<lparr>mit_current := mit_current it + 1\<rparr>;
       case m of
         Ok v \<Rightarrow> Some (Some v, it1, w1)
       | Err _ \<Rightarrow> mode_iter_next gop (it1, w1)
     } else Some (None, it, w))"

definition mode_iter_size_hint :: "mode_iter \<Rightarrow> (usize \<times> usize option) option" where
  "mode_iter_size_hint it = do {
     require (mit_current it \<le> mit_max it);
     Some (unat (mit_max it - mit_current it), Some (unat (mit_max it - mit_current it)))
   }"

definition set_mode :: "'fw gop_protocol \<Rightarrow> video_mode \<Rightarrow> 'fw world \<Rightarrow> (unit uefi_result \<times> 'fw world) option" where
  "set_mode gop m w = do {
     let (s, f) = gp_set_mode gop (fw_state w) (vm_index m);
     r \<leftarrow> to_result s;
     Some (r, w\<lparr>fw_state := f\<rparr>)
   }"

section \<open>Block transfer\<close>

definition check_framebuffer_region :: "'fw gop_protocol \<Rightarrow> usize \<times> usize \<Rightarrow> usize \<times> usize \<Rightarrow> 'fw world \<Rightarrow> unit option" where
  "check_framebuffer_region gop coords dims w = do {
     (width, height) \<leftarrow> resolution (current_mode_info gop w);
     require (saturating_add (fst coords) (fst dims) \<le> width);
     require (saturating_add (snd coords) (snd dims) \<le> height)
   }"

fun check_blt_buffer_region :: "blt_region \<Rightarrow> usize \<times> usize \<Rightarrow> usize \<Rightarrow> unit option" where
  "check_blt_buffer_region Full dims buf_length = require (saturating_mul (snd dims) (fst dims) \<le> buf_length)"
| "check_blt_buffer_region (SubRectangle (x, y) px_stride) dims buf_length = do {
     require (saturating_add x (fst dims) \<le> px_stride);
     require (saturating_mul (saturating_add y (snd dims)) px_stride \<le> buf_length)
   }"

text \<open>The driver is called with the recorded parameters; reading from video memory changes the buffer.\<close>

definition call_blt :: "'fw gop_protocol \<Rightarrow> blt_call \<Rightarrow> 'fw world \<Rightarrow> ((unit uefi_result \<times> blt_pixel list) \<times> 'fw world) option" where
  "call_blt gop c w = do {
     let ((s, buffer), f) = gp_blt gop (fw_state w) c;
     r \<leftarrow> to_result s;
     Some ((r, buffer), w\<lparr>fw_state := f\<rparr>)
   }"

fun region_params :: "blt_region \<Rightarrow> (usize \<times> usize \<times> usize) option" where
  "region_params Full = Some (0, 0, 0)"
| "region_params (SubRectangle (x, y) px_stride) = do { d \<leftarrow> umul px_stride SIZE_OF_BLT_PIXEL; Some (x, y, d) }"

fun blt_params :: "'fw gop_protocol \<Rightarrow> blt_op \<Rightarrow> 'fw world \<Rightarrow> blt_call option" where
  "blt_params gop (VideoFill color (dest_x, dest_y) (width, height)) w = do {
     check_framebuffer_region gop (dest_x, dest_y) (width, height) w;
     Some \<lparr>bc_buffer = [color], bc_operation = BLT_VIDEO_FILL, bc_source_x = 0, bc_source_y = 0,
       bc_destination_x = dest_x, bc_destination_y = dest_y, bc_width = width, bc_height = height, bc_delta = 0\<rparr>
   }"
| "blt_params gop (VideoToBltBuffer buffer (src_x, src_y) dest_region (width, height)) w = do {
     check_framebuffer_region gop (src_x, src_y) (width, height) w;
     check_blt_buffer_region dest_region (width, height) (length buffer);
     (dest_x, dest_y, delta) \<leftarrow> region_params dest_region;
     Some \<lparr>bc_buffer = buffer, bc_operation = BLT_VIDEO_TO_BLT_BUFFER, bc_source_x = src_x, bc_source_y = src_y,
       bc_destination_x = dest_x, bc_destination_y = dest_y, bc_width = width, bc_height = height, bc_delta = delta\<rparr>
   }"
| "blt_params gop (BufferToVideo buffer src_region (dest_x, dest_y) (width, height)) w = do {
     check_blt_buffer_region src_region (width, height) (length buffer);
     check_framebuffer_region gop (dest_x, dest_y) (width, height) w;
     (src_x, src_y, delta) \<leftarrow> region_params src_region;
     Some \<lparr>bc_buffer = buffer, bc_operation = BLT_BUFFER_TO_VIDEO, bc_source_x = src_x, bc_source_y = src_y,
       bc_destination_x = dest_x, bc_destination_y = dest_y, bc_width = width, bc_height = height, bc_delta = delta\<rparr>
   }"
| "blt_params gop (VideoToVideo (src_x, src_y) (dest_x, dest_y) (width, height)) w = do {
     check_framebuffer_region gop (src_x, src_y) (width, height) w;
     check_framebuffer_region gop (dest_x, dest_y) (width, height) w;
     Some \<lparr>bc_buffer = [], bc_operation = BLT_VIDEO_TO_VIDEO, bc_source_x = src_x, bc_source_y = src_y,
       bc_destination_x = dest_x, bc_destination_y = dest_y, bc_width = width, bc_height = height, bc_delta = 0\<rparr>
   }"

definition blt :: "'fw gop_protocol \<Rightarrow> blt_op \<Rightarrow> 'fw world \<Rightarrow> ((unit uefi_result \<times> blt_pixel list) \<times> 'fw world) option" where
  "blt gop op w = do {
     c \<leftarrow> blt_params gop op w;
     call_blt gop c w
   }"

section \<open>The frame buffer\<close>

record frame_buffer =
  fb_base :: nat
  fb_size :: usize

definition get_frame_buffer :: "'fw gop_protocol \<Rightarrow> 'fw world \<Rightarrow> frame_buffer option" where
  "get_frame_buffer gop w = do {
     f \<leftarrow> pixel_format_of (current_mode_info gop w);
     require (f \<noteq> BltOnly);
     Some \<lparr>fb_base = frame_buffer_base (gp_mode gop (fw_state w)), fb_size = frame_buffer_size (gp_mode gop (fw_state w))\<rparr>
   }"

definition fb_write_byte :: "frame_buffer \<Rightarrow> usize \<Rightarrow> u8 \<Rightarrow> 'fw world \<Rightarrow> 'fw world option" where
  "fb_write_byte fb index val w = do {
     require (index < fb_size fb);
     Some (w\<lparr>ram := mem_write (ram w) (fb_base fb + index) [val]\<rparr>)
   }"

definition fb_read_byte :: "frame_buffer \<Rightarrow> usize \<Rightarrow> 'fw world \<Rightarrow> u8 option" where
  "fb_read_byte fb index w = do {
     require (index < fb_size fb);
     Some (ram w (fb_base fb + index))
   }"

text \<open>A value is its bytes, or the reader of its bytes with their number.\<close>

definition fb_write_value :: "frame_buffer \<Rightarrow> usize \<Rightarrow> bytes \<Rightarrow> 'fw world \<Rightarrow> 'fw world option" where
  "fb_write_value fb index val w = do {
     require (saturating_add index (length val) \<le> fb_size fb);
     Some (w\<lparr>ram := mem_write (ram w) (fb_base fb + index) val\<rparr>)
   }"

definition fb_read_value :: "nat \<Rightarrow> (bytes \<Rightarrow> 'a) \<Rightarrow> frame_buffer \<Rightarrow> usize \<Rightarrow> 'fw world \<Rightarrow> 'a option" where
  "fb_read_value sz decode fb index w = do {
     require (saturating_add index sz \<le> fb_size fb);
     Some (decode (mem_read (ram w) (fb_base fb + index) sz))
   }"

section \<open>What the driver touches\<close>

text \<open>The documented geometry of a block transfer: rectangles of video memory, and cells of the buffer whose rows are
  \<open>delta\<close> bytes apart, or as wide as the rectangle when \<open>delta\<close> is zero.\<close>

definition rect :: "usize \<Rightarrow> usize \<Rightarrow> usize \<Rightarrow> usize \<Rightarrow> (usize \<times> usize) set" where
  "rect x y w h = {x..<x + w} \<times> {y..<y + h}"

definition cells :: "usize \<Rightarrow> usize \<Rightarrow> usize \<Rightarrow> usize \<Rightarrow> usize \<Rightarrow> usize set" where
  "cells row x y w h = (\<lambda>(i, j). j * row + i) ` rect x y w h"

definition row_length :: "blt_call \<Rightarrow> usize" where
  "row_length c = (if bc_delta c = 0 then bc_width c else bc_delta c div SIZE_OF_BLT_PIXEL)"

definition touched_video :: "blt_call \<Rightarrow> (usize \<times> usize) set" where
  "touched_video c = (case bc_operation c of
     BLT_VIDEO_FILL \<Rightarrow> rect (bc_destination_x c) (bc_destination_y c) (bc_width c) (bc_height c)
   | BLT_VIDEO_TO_BLT_BUFFER \<Rightarrow> rect (bc_source_x c) (bc_source_y c) (bc_width c) (bc_height c)
   | BLT_BUFFER_TO_VIDEO \<Rightarrow> rect (bc_destination_x c) (bc_destination_y c) (bc_width c) (bc_height c)
   | BLT_VIDEO_TO_VIDEO \<Rightarrow> rect (bc_source_x c) (bc_source_y c) (bc_width c) (bc_height c) \<union>
       rect (bc_destination_x c) (bc_destination_y c) (bc_width c) (bc_height c))"

definition touched_buffer :: "blt_call \<Rightarrow> usize set" where
  "touched_buffer c = (case bc_operation c of
     BLT_VIDEO_FILL \<Rightarrow> {0}
   | BLT_VIDEO_TO_BLT_BUFFER \<Rightarrow> cells (row_length c) (bc_destination_x c) (bc_destination_y c) (bc_width c) (bc_height c)
   | BLT_BUFFER_TO_VIDEO \<Rightarrow> cells (row_length c) (bc_source_x c) (bc_source_y c) (bc_width c) (bc_height c)
   | BLT_VIDEO_TO_VIDEO \<Rightarrow> {})"

definition screen :: "raw_mode_info \<Rightarrow> (usize \<times> usize) set" where
  "screen i = {..<unat (horizontal_resolution i)} \<times> {..<unat (vertical_resolution i)}"

lemma resolution_eq [simp]: "resolution i = Some (unat (horizontal_resolution i), unat (vertical_resolution i))"
  by (simp add: resolution_def)

lemma u32_below_limit: "unat (v :: u32) < usize_limit - 1"
  using unsigned_less [of v, where ?'a = nat] by (simp add: usize_limit_def)

lemma check_framebuffer_region_rect:
  assumes "check_framebuffer_region gop (x, y) (wd, h) w = Some u"
  shows "rect x y wd h \<subseteq> screen (current_mode_info gop w)"
proof -
  have "saturating_add x wd \<le> unat (horizontal_resolution (current_mode_info gop w))"
    "saturating_add y h \<le> unat (vertical_resolution (current_mode_info gop w))"
    using assms by (auto simp: check_framebuffer_region_def require_def split: if_splits)
  then have "x + wd \<le> unat (horizontal_resolution (current_mode_info gop w))" "y + h \<le> unat (vertical_resolution (current_mode_info gop w))"
    unfolding saturating_add_le [OF u32_below_limit] .
  then show ?thesis by (auto simp: rect_def screen_def)
qed

lemma cells_bound:
  assumes "x + wd \<le> row" "(y + h) * row \<le> n"
  shows "cells row x y wd h \<subseteq> {..<n}"
proof -
  have "j * row + i < n" if "i < x + wd" "j < y + h" for i j
  proof -
    have "j * row + i < (j + 1) * row" using that(1) assms(1) by simp
    also have "\<dots> \<le> (y + h) * row" using that(2) by (intro mult_le_mono1) simp
    finally show ?thesis using assms(2) by simp
  qed
  then show ?thesis by (auto simp: cells_def rect_def)
qed

lemma check_blt_buffer_region_cells:
  assumes "check_blt_buffer_region region (wd, h) n = Some u" "region_params region = Some (x, y, d)" "n < usize_limit - 1"
    and "row = (if d = 0 then wd else d div SIZE_OF_BLT_PIXEL)"
  shows "cells row x y wd h \<subseteq> {..<n}"
proof (cases region)
  case Full
  then have "h * wd \<le> n" using assms(1) saturating_mul_le [OF assms(3)] by (simp add: mult.commute)
  then show ?thesis using cells_bound [of 0 wd wd 0 h n] Full assms(2,4) by simp
next
  case (SubRectangle coords s)
  obtain cx cy where xy: "coords = (cx, cy)" by (cases coords)
  have p: "cx = x" "cy = y" "d = s * SIZE_OF_BLT_PIXEL" using assms(2) SubRectangle xy by (auto simp: umul_def split: if_splits)
  have sat: "saturating_add x wd \<le> s" "saturating_mul (saturating_add y h) s \<le> n" using assms(1) SubRectangle xy p by (auto simp: require_def split: if_splits)
  show ?thesis
  proof (cases "wd = 0 \<or> h = 0")
    case True
    then show ?thesis by (auto simp: cells_def rect_def)
  next
    case False
    then have "0 < s" "0 < saturating_add y h" using sat(1) by (auto simp: saturating_add_def usize_limit_def min_def split: if_splits)
    have yh: "saturating_add y h * s \<le> n" using sat(2) unfolding saturating_mul_le [OF assms(3)] .
    then have "s \<le> n" "saturating_add y h \<le> n" using \<open>0 < s\<close> \<open>0 < saturating_add y h\<close>
      by (metis (no_types) le_trans mult.commute mult_le_mono1 nat_mult_1 Suc_leI One_nat_def)+
    then have "x + wd \<le> s" "saturating_add y h = y + h"
      using saturating_add_le [of s x wd] sat(1) assms(3) by (auto simp: saturating_add_def min_def split: if_splits)
    moreover have "row = s" using assms(4) p \<open>0 < s\<close> by (simp add: SIZE_OF_BLT_PIXEL_def)
    ultimately show ?thesis using cells_bound yh by simp
  qed
qed

section \<open>Property\<close>

text \<open>C7: The checks in front of a block transfer are enough for memory safety, whatever coordinates the caller passes.
  Whenever \<open>blt\<close> reaches the driver, every pixel of video memory that the documented transfer touches lies on the screen of the
  current mode, and every cell of the buffer that it reads or writes lies inside the buffer of the caller, for all four operations, for
  whole buffers and for sub-rectangles; no wrap-around of the sums and products in the checks defeats them. The only assumption is that
  of every slice in Rust: it has at most \<open>isize::MAX\<close> bytes.\<close>

theorem blt_in_bounds:
  assumes "blt_params gop op w = Some c" and "length (bc_buffer c) * SIZE_OF_BLT_PIXEL \<le> 9223372036854775807"
  shows "touched_video c \<subseteq> screen (current_mode_info gop w) \<and> touched_buffer c \<subseteq> {..<length (bc_buffer c)}"
proof -
  have len: "length (bc_buffer c) < usize_limit - 1" using assms(2) by (simp add: SIZE_OF_BLT_PIXEL_def usize_limit_def)
  show ?thesis
  proof (cases op)
    case (VideoFill color dest dims)
    then show ?thesis using assms(1) check_framebuffer_region_rect [of gop _ _ _ _ w]
      by (cases dest; cases dims) (fastforce simp: touched_video_def touched_buffer_def bind_eq_Some_conv)
  next
    case (VideoToVideo src dest dims)
    then show ?thesis using assms(1) check_framebuffer_region_rect [of gop _ _ _ _ w]
      by (cases src; cases dest; cases dims) (fastforce simp: touched_video_def touched_buffer_def bind_eq_Some_conv)
  next
    case (VideoToBltBuffer buffer src region dims)
    obtain sx sy wd h where p: "src = (sx, sy)" "dims = (wd, h)" by (cases src, cases dims)
    obtain u u' x y d where r: "check_framebuffer_region gop (sx, sy) (wd, h) w = Some u"
      "check_blt_buffer_region region (wd, h) (length buffer) = Some u'" "region_params region = Some (x, y, d)"
      "c = \<lparr>bc_buffer = buffer, bc_operation = BLT_VIDEO_TO_BLT_BUFFER, bc_source_x = sx, bc_source_y = sy,
        bc_destination_x = x, bc_destination_y = y, bc_width = wd, bc_height = h, bc_delta = d\<rparr>"
      using assms(1) VideoToBltBuffer p by (auto simp: bind_eq_Some_conv)
    show ?thesis using check_framebuffer_region_rect [OF r(1)] check_blt_buffer_region_cells [OF r(2,3) _ refl] len r(4)
      by (cases "d = 0") (simp_all add: touched_video_def touched_buffer_def row_length_def)
  next
    case (BufferToVideo buffer region dest dims)
    obtain dx dy wd h where p: "dest = (dx, dy)" "dims = (wd, h)" by (cases dest, cases dims)
    obtain u u' x y d where r: "check_framebuffer_region gop (dx, dy) (wd, h) w = Some u"
      "check_blt_buffer_region region (wd, h) (length buffer) = Some u'" "region_params region = Some (x, y, d)"
      "c = \<lparr>bc_buffer = buffer, bc_operation = BLT_BUFFER_TO_VIDEO, bc_source_x = x, bc_source_y = y,
        bc_destination_x = dx, bc_destination_y = dy, bc_width = wd, bc_height = h, bc_delta = d\<rparr>"
      using assms(1) BufferToVideo p by (auto simp: bind_eq_Some_conv)
    show ?thesis using check_framebuffer_region_rect [OF r(1)] check_blt_buffer_region_cells [OF r(2,3) _ refl] len r(4)
      by (cases "d = 0") (simp_all add: touched_video_def touched_buffer_def row_length_def)
  qed
qed

text \<open>A screen of four by three pixels, and a sub-rectangle of two by two in a buffer with rows of three.\<close>

definition small_gop :: "unit gop_protocol" where
  "small_gop = \<lparr>gp_mode = (\<lambda>_. \<lparr>max_mode = 1, gm_mode = 0,
       gm_info = \<lparr>mi_version = 0, horizontal_resolution = 4, vertical_resolution = 3, mi_pixel_format = 1,
         pixel_information = (0, 0, 0, 0), pixels_per_scan_line = 4\<rparr>, frame_buffer_base = 4096, frame_buffer_size = 48\<rparr>),
     gp_query_mode = (\<lambda>s i. ((UNSUPPORTED, 0, 0), s)),
     gp_info_at = (\<lambda>s p. \<lparr>mi_version = 0, horizontal_resolution = 4, vertical_resolution = 3, mi_pixel_format = 1,
         pixel_information = (0, 0, 0, 0), pixels_per_scan_line = 4\<rparr>),
     gp_set_mode = (\<lambda>s i. (SUCCESS, s)), gp_blt = (\<lambda>s c. ((SUCCESS, bc_buffer c), s))\<rparr>"

definition small_world :: "unit world" where
  "small_world = \<lparr>system_table = None, fw_state = (), image_handle_ptr = 1, memory_type_cache = 0, ram = (\<lambda>_. 0)\<rparr>"

theorem blt_in_bounds_witness:
  "\<exists>c. blt_params small_gop (VideoToBltBuffer (replicate 9 (blt_pixel_new 0 0 0)) (2, 1) (SubRectangle (1, 1) 3) (2, 2)) small_world = Some c \<and>
    touched_buffer c \<subseteq> {..<9} \<and> touched_video c \<subseteq> {..<4} \<times> {..<3} \<and>
    blt_params small_gop (VideoFill (blt_pixel_new 0 0 0) (3, 0) (18446744073709551615, 1)) small_world = None"
proof -
  let ?op = "VideoToBltBuffer (replicate 9 (blt_pixel_new 0 0 0)) (2, 1) (SubRectangle (1, 1) 3) (2, 2)"
  have ev: "unat (horizontal_resolution (current_mode_info small_gop small_world)) = 4"
    "unat (vertical_resolution (current_mode_info small_gop small_world)) = 3"
    by (simp_all add: current_mode_info_def small_gop_def small_world_def)
  note defs = check_framebuffer_region_def ev saturating_add_def saturating_mul_def usize_limit_def require_def umul_def SIZE_OF_BLT_PIXEL_def
  obtain c where c: "blt_params small_gop ?op small_world = Some c" "bc_buffer c = replicate 9 (blt_pixel_new 0 0 0)"
    by (simp add: defs)
  have "blt_params small_gop (VideoFill (blt_pixel_new 0 0 0) (3, 0) (18446744073709551615, 1)) small_world = None" by (simp add: defs)
  moreover have "length (bc_buffer c) * SIZE_OF_BLT_PIXEL \<le> 9223372036854775807" using c(2) by (simp add: SIZE_OF_BLT_PIXEL_def)
  from blt_in_bounds [OF c(1) this] have "touched_buffer c \<subseteq> {..<9}" "touched_video c \<subseteq> {..<4} \<times> {..<3}"
    using c(2) by (simp_all add: screen_def current_mode_info_def small_gop_def small_world_def)
  ultimately show ?thesis using c(1) by blast
qed

end
