(* ===== verification/Device_Nodes.thy ===== *)
theory Device_Nodes
  imports Device_Path
begin

text \<open>
  Typed device path nodes (\<open>uefi/src/proto/device_path/device_path_gen.rs\<close>): the templates that
  the generated conversions follow, and the nodes of the modules \<open>hardware\<close> and \<open>acpi\<close>. The
  modules \<open>messaging\<close>, \<open>media\<close> and \<open>bios_boot_spec\<close> follow in \<open>Device_Nodes_Messaging\<close>
  and \<open>Device_Nodes_Media\<close>.

  A node type has a packed structure that is laid over the bytes of a node, and a structure from which a
  node is built. Where both have the same fields one record stands for both; a reserved field, which has no
  accessor, is not part of it. A reference to the packed structure is the value that its accessors
  return. Enumerations and bit sets over an integer are that integer, a GUID is its sixteen bytes in
  memory, and an unaligned slice is the list of its elements.
\<close>

section \<open>Types and sub-types\<close>

text \<open>The constants of \<open>DeviceType\<close> and \<open>DeviceSubType\<close>; those of the end nodes are in
  \<open>Device_Path\<close>.\<close>

datatype device_type_name = HARDWARE | ACPI | MESSAGING | MEDIA | BIOS_BOOT_SPEC

primrec DeviceType :: "device_type_name \<Rightarrow> u8" where
  "DeviceType HARDWARE = 0x01"
| "DeviceType ACPI = 0x02"
| "DeviceType MESSAGING = 0x03"
| "DeviceType MEDIA = 0x04"
| "DeviceType BIOS_BOOT_SPEC = 0x05"

datatype device_sub_type_name =
    HARDWARE_PCI | HARDWARE_PCCARD | HARDWARE_MEMORY_MAPPED | HARDWARE_VENDOR
  | HARDWARE_CONTROLLER | HARDWARE_BMC | ACPI_ACPI | ACPI_EXPANDED | ACPI_ADR | ACPI_NVDIMM
  | MESSAGING_ATAPI | MESSAGING_SCSI | MESSAGING_FIBRE_CHANNEL | MESSAGING_1394
  | MESSAGING_USB | MESSAGING_I2O | MESSAGING_INFINIBAND | MESSAGING_VENDOR
  | MESSAGING_MAC_ADDRESS | MESSAGING_IPV4 | MESSAGING_IPV6 | MESSAGING_UART
  | MESSAGING_USB_CLASS | MESSAGING_USB_WWID | MESSAGING_DEVICE_LOGICAL_UNIT | MESSAGING_SATA
  | MESSAGING_ISCSI | MESSAGING_VLAN | MESSAGING_FIBRE_CHANNEL_EX | MESSAGING_SCSI_SAS_EX
  | MESSAGING_NVME_NAMESPACE | MESSAGING_URI | MESSAGING_UFS | MESSAGING_SD
  | MESSAGING_BLUETOOTH | MESSAGING_WIFI | MESSAGING_EMMC | MESSAGING_BLUETOOTH_LE
  | MESSAGING_DNS | MESSAGING_NVDIMM_NAMESPACE | MESSAGING_REST_SERVICE
  | MESSAGING_NVME_OF_NAMESPACE | MEDIA_HARD_DRIVE | MEDIA_CD_ROM | MEDIA_VENDOR
  | MEDIA_FILE_PATH | MEDIA_PROTOCOL | MEDIA_PIWG_FIRMWARE_FILE | MEDIA_PIWG_FIRMWARE_VOLUME
  | MEDIA_RELATIVE_OFFSET_RANGE | MEDIA_RAM_DISK | BIOS_BOOT_SPECIFICATION

primrec DeviceSubType :: "device_sub_type_name \<Rightarrow> u8" where
  "DeviceSubType HARDWARE_PCI = 1"
| "DeviceSubType HARDWARE_PCCARD = 2"
| "DeviceSubType HARDWARE_MEMORY_MAPPED = 3"
| "DeviceSubType HARDWARE_VENDOR = 4"
| "DeviceSubType HARDWARE_CONTROLLER = 5"
| "DeviceSubType HARDWARE_BMC = 6"
| "DeviceSubType ACPI_ACPI = 1"
| "DeviceSubType ACPI_EXPANDED = 2"
| "DeviceSubType ACPI_ADR = 3"
| "DeviceSubType ACPI_NVDIMM = 4"
| "DeviceSubType MESSAGING_ATAPI = 1"
| "DeviceSubType MESSAGING_SCSI = 2"
| "DeviceSubType MESSAGING_FIBRE_CHANNEL = 3"
| "DeviceSubType MESSAGING_1394 = 4"
| "DeviceSubType MESSAGING_USB = 5"
| "DeviceSubType MESSAGING_I2O = 6"
| "DeviceSubType MESSAGING_INFINIBAND = 9"
| "DeviceSubType MESSAGING_VENDOR = 10"
| "DeviceSubType MESSAGING_MAC_ADDRESS = 11"
| "DeviceSubType MESSAGING_IPV4 = 12"
| "DeviceSubType MESSAGING_IPV6 = 13"
| "DeviceSubType MESSAGING_UART = 14"
| "DeviceSubType MESSAGING_USB_CLASS = 15"
| "DeviceSubType MESSAGING_USB_WWID = 16"
| "DeviceSubType MESSAGING_DEVICE_LOGICAL_UNIT = 17"
| "DeviceSubType MESSAGING_SATA = 18"
| "DeviceSubType MESSAGING_ISCSI = 19"
| "DeviceSubType MESSAGING_VLAN = 20"
| "DeviceSubType MESSAGING_FIBRE_CHANNEL_EX = 21"
| "DeviceSubType MESSAGING_SCSI_SAS_EX = 22"
| "DeviceSubType MESSAGING_NVME_NAMESPACE = 23"
| "DeviceSubType MESSAGING_URI = 24"
| "DeviceSubType MESSAGING_UFS = 25"
| "DeviceSubType MESSAGING_SD = 26"
| "DeviceSubType MESSAGING_BLUETOOTH = 27"
| "DeviceSubType MESSAGING_WIFI = 28"
| "DeviceSubType MESSAGING_EMMC = 29"
| "DeviceSubType MESSAGING_BLUETOOTH_LE = 30"
| "DeviceSubType MESSAGING_DNS = 31"
| "DeviceSubType MESSAGING_NVDIMM_NAMESPACE = 32"
| "DeviceSubType MESSAGING_REST_SERVICE = 33"
| "DeviceSubType MESSAGING_NVME_OF_NAMESPACE = 34"
| "DeviceSubType MEDIA_HARD_DRIVE = 1"
| "DeviceSubType MEDIA_CD_ROM = 2"
| "DeviceSubType MEDIA_VENDOR = 3"
| "DeviceSubType MEDIA_FILE_PATH = 4"
| "DeviceSubType MEDIA_PROTOCOL = 5"
| "DeviceSubType MEDIA_PIWG_FIRMWARE_FILE = 6"
| "DeviceSubType MEDIA_PIWG_FIRMWARE_VOLUME = 7"
| "DeviceSubType MEDIA_RELATIVE_OFFSET_RANGE = 8"
| "DeviceSubType MEDIA_RAM_DISK = 9"
| "DeviceSubType BIOS_BOOT_SPECIFICATION = 1"

section \<open>Conversion of a node to its type\<close>

datatype node_conversion_error = DifferentType | InvalidNodeLength | UnsupportedType

type_synonym guid = bytes

definition size_of_val :: "device_path_node \<Rightarrow> usize" where
  "size_of_val n = HEADER_SIZE + length (node_data n)"

text \<open>\<open>TryFrom<&DevicePathNode>\<close> as it is generated for a structure of fixed size, and for one that
  ends in a slice. The structure is laid over the bytes of the node.\<close>

definition cast_sized ::
  "u8 \<Rightarrow> u8 \<Rightarrow> usize \<Rightarrow> (bytes \<Rightarrow> 'v) \<Rightarrow> device_path_node \<Rightarrow> ('v, node_conversion_error) result" where
  "cast_sized ty sub struct_size view node =
    (if device_type node \<noteq> ty \<or> node_sub_type node \<noteq> sub then Err DifferentType
     else if size_of_val node \<noteq> struct_size then Err InvalidNodeLength
     else Ok (view (node_bytes node)))"

definition cast_unsized ::
  "u8 \<Rightarrow> u8 \<Rightarrow> usize \<Rightarrow> usize \<Rightarrow> (usize \<Rightarrow> bytes \<Rightarrow> 'v) \<Rightarrow> device_path_node \<Rightarrow> ('v, node_conversion_error) result" where
  "cast_unsized ty sub static_size elem_size view node =
    (if device_type node \<noteq> ty \<or> node_sub_type node \<noteq> sub then Err DifferentType
     else case usub (size_of_val node) static_size of
       None \<Rightarrow> Err InvalidNodeLength
     | Some dst_size \<Rightarrow>
         if dst_size mod elem_size \<noteq> 0 then Err InvalidNodeLength
         else Ok (view (dst_size div elem_size) (node_bytes node)))"

text \<open>The fields of a packed structure, by their offset.\<close>

abbreviation u8_at :: "nat \<Rightarrow> bytes \<Rightarrow> u8" where
  "u8_at off bs \<equiv> read_field 1 hd off bs"

abbreviation u16_at :: "nat \<Rightarrow> bytes \<Rightarrow> u16" where
  "u16_at off bs \<equiv> read_field 2 u16_from_le off bs"

abbreviation u32_at :: "nat \<Rightarrow> bytes \<Rightarrow> u32" where
  "u32_at off bs \<equiv> read_field 4 u32_from_le off bs"

abbreviation u64_at :: "nat \<Rightarrow> bytes \<Rightarrow> u64" where
  "u64_at off bs \<equiv> read_field 8 u64_from_le off bs"

abbreviation array_at :: "nat \<Rightarrow> nat \<Rightarrow> bytes \<Rightarrow> bytes" where
  "array_at len off bs \<equiv> read_field len (\<lambda>b. b) off bs"

definition slice_at :: "nat \<Rightarrow> (bytes \<Rightarrow> 'a) \<Rightarrow> usize \<Rightarrow> nat \<Rightarrow> bytes \<Rightarrow> 'a list" where
  "slice_at w dec len off bs = map (\<lambda>i. read_field w dec (off + w * i) bs) [0..<len]"

text \<open>The end nodes have no fields.\<close>

definition end_Instance_try_from :: "device_path_node \<Rightarrow> (unit, node_conversion_error) result" where
  "end_Instance_try_from = cast_sized DEVICE_TYPE_END END_INSTANCE 4 (\<lambda>bs. ())"

definition end_Entire_try_from :: "device_path_node \<Rightarrow> (unit, node_conversion_error) result" where
  "end_Entire_try_from = cast_sized DEVICE_TYPE_END END_ENTIRE 4 (\<lambda>bs. ())"

section \<open>Hardware nodes\<close>

record hardware_Pci =
  Pci_function :: u8
  Pci_device :: u8

definition hardware_Pci_try_from :: "device_path_node \<Rightarrow> (hardware_Pci, node_conversion_error) result" where
  "hardware_Pci_try_from = cast_sized (DeviceType HARDWARE) (DeviceSubType HARDWARE_PCI) 6
    (\<lambda>bs. \<lparr>Pci_function = u8_at 4 bs,
       Pci_device = u8_at 5 bs\<rparr>)"

definition hardware_Pci_build :: "hardware_Pci \<Rightarrow> build_node" where
  "hardware_Pci_build x = generated_node (Some 6) (DeviceType HARDWARE) (DeviceSubType HARDWARE_PCI)
    [(4, [Pci_function x]), (5, [Pci_device x])]"

record hardware_Pccard =
  Pccard_function :: u8

definition hardware_Pccard_try_from :: "device_path_node \<Rightarrow> (hardware_Pccard, node_conversion_error) result" where
  "hardware_Pccard_try_from = cast_sized (DeviceType HARDWARE) (DeviceSubType HARDWARE_PCCARD) 5
    (\<lambda>bs. \<lparr>Pccard_function = u8_at 4 bs\<rparr>)"

definition hardware_Pccard_build :: "hardware_Pccard \<Rightarrow> build_node" where
  "hardware_Pccard_build x = generated_node (Some 5) (DeviceType HARDWARE) (DeviceSubType HARDWARE_PCCARD)
    [(4, [Pccard_function x])]"

record hardware_MemoryMapped =
  MemoryMapped_memory_type :: u32
  MemoryMapped_start_address :: u64
  MemoryMapped_end_address :: u64

definition hardware_MemoryMapped_try_from :: "device_path_node \<Rightarrow> (hardware_MemoryMapped, node_conversion_error) result" where
  "hardware_MemoryMapped_try_from = cast_sized (DeviceType HARDWARE) (DeviceSubType HARDWARE_MEMORY_MAPPED) 24
    (\<lambda>bs. \<lparr>MemoryMapped_memory_type = u32_at 4 bs,
       MemoryMapped_start_address = u64_at 8 bs,
       MemoryMapped_end_address = u64_at 16 bs\<rparr>)"

definition hardware_MemoryMapped_build :: "hardware_MemoryMapped \<Rightarrow> build_node" where
  "hardware_MemoryMapped_build x = generated_node (Some 24) (DeviceType HARDWARE) (DeviceSubType HARDWARE_MEMORY_MAPPED)
    [(4, u32_to_le (MemoryMapped_memory_type x)),
     (8, u64_to_le (MemoryMapped_start_address x)),
     (16, u64_to_le (MemoryMapped_end_address x))]"

record hardware_Vendor =
  hardware_Vendor_vendor_guid :: guid
  hardware_Vendor_vendor_defined_data :: bytes

definition hardware_Vendor_try_from :: "device_path_node \<Rightarrow> (hardware_Vendor, node_conversion_error) result" where
  "hardware_Vendor_try_from = cast_unsized (DeviceType HARDWARE) (DeviceSubType HARDWARE_VENDOR) 20 1
    (\<lambda>n bs. \<lparr>hardware_Vendor_vendor_guid = array_at 16 4 bs,
       hardware_Vendor_vendor_defined_data = array_at n 20 bs\<rparr>)"

definition hardware_Vendor_build :: "hardware_Vendor \<Rightarrow> build_node" where
  "hardware_Vendor_build x = generated_node (uadd 20 (length (hardware_Vendor_vendor_defined_data x))) (DeviceType HARDWARE) (DeviceSubType HARDWARE_VENDOR)
    [(4, hardware_Vendor_vendor_guid x),
     (20, hardware_Vendor_vendor_defined_data x)]"

record hardware_Controller =
  Controller_controller_number :: u32

definition hardware_Controller_try_from :: "device_path_node \<Rightarrow> (hardware_Controller, node_conversion_error) result" where
  "hardware_Controller_try_from = cast_sized (DeviceType HARDWARE) (DeviceSubType HARDWARE_CONTROLLER) 8
    (\<lambda>bs. \<lparr>Controller_controller_number = u32_at 4 bs\<rparr>)"

definition hardware_Controller_build :: "hardware_Controller \<Rightarrow> build_node" where
  "hardware_Controller_build x = generated_node (Some 8) (DeviceType HARDWARE) (DeviceSubType HARDWARE_CONTROLLER)
    [(4, u32_to_le (Controller_controller_number x))]"

record hardware_Bmc =
  Bmc_interface_type :: u8
  Bmc_base_address :: u64

definition hardware_Bmc_try_from :: "device_path_node \<Rightarrow> (hardware_Bmc, node_conversion_error) result" where
  "hardware_Bmc_try_from = cast_sized (DeviceType HARDWARE) (DeviceSubType HARDWARE_BMC) 13
    (\<lambda>bs. \<lparr>Bmc_interface_type = u8_at 4 bs,
       Bmc_base_address = u64_at 5 bs\<rparr>)"

definition hardware_Bmc_build :: "hardware_Bmc \<Rightarrow> build_node" where
  "hardware_Bmc_build x = generated_node (Some 13) (DeviceType HARDWARE) (DeviceSubType HARDWARE_BMC)
    [(4, [Bmc_interface_type x]), (5, u64_to_le (Bmc_base_address x))]"

section \<open>ACPI nodes\<close>

record acpi_Acpi =
  Acpi_hid :: u32
  Acpi_uid :: u32

definition acpi_Acpi_try_from :: "device_path_node \<Rightarrow> (acpi_Acpi, node_conversion_error) result" where
  "acpi_Acpi_try_from = cast_sized (DeviceType ACPI) (DeviceSubType ACPI_ACPI) 12
    (\<lambda>bs. \<lparr>Acpi_hid = u32_at 4 bs,
       Acpi_uid = u32_at 8 bs\<rparr>)"

definition acpi_Acpi_build :: "acpi_Acpi \<Rightarrow> build_node" where
  "acpi_Acpi_build x = generated_node (Some 12) (DeviceType ACPI) (DeviceSubType ACPI_ACPI)
    [(4, u32_to_le (Acpi_hid x)), (8, u32_to_le (Acpi_uid x))]"

record acpi_Expanded =
  Expanded_hid :: u32
  Expanded_uid :: u32
  Expanded_cid :: u32
  Expanded_data :: bytes

definition acpi_Expanded_try_from :: "device_path_node \<Rightarrow> (acpi_Expanded, node_conversion_error) result" where
  "acpi_Expanded_try_from = cast_unsized (DeviceType ACPI) (DeviceSubType ACPI_EXPANDED) 16 1
    (\<lambda>n bs. \<lparr>Expanded_hid = u32_at 4 bs,
       Expanded_uid = u32_at 8 bs,
       Expanded_cid = u32_at 12 bs,
       Expanded_data = array_at n 16 bs\<rparr>)"

text \<open>The strings of an expanded ACPI node lie behind one another, each ended by a zero byte.\<close>

definition acpi_expanded_null_indices :: "bytes \<Rightarrow> nat option \<times> nat option \<times> nat option" where
  "acpi_expanded_null_indices data =
    (let zeros = filter (\<lambda>i. data ! i = 0) [0..<length data]
     in (get_at zeros 0, get_at zeros 1, get_at zeros 2))"

definition get_acpi_expanded_substr :: "bytes \<Rightarrow> usize \<Rightarrow> bytes option" where
  "get_acpi_expanded_substr data string_index =
    (let (n0, n1, n2) = acpi_expanded_null_indices data;
         len = length data;
         behind = (\<lambda>n. case n of None \<Rightarrow> len | Some i \<Rightarrow> i + 1)
     in do {
       (start, stop) \<leftarrow>
         (if string_index = 0 then Some (0, behind n0)
          else if string_index = 1 then Some (case n0 of None \<Rightarrow> (len, len) | Some i \<Rightarrow> (i + 1, behind n1))
          else if string_index = 2 then Some (case n1 of None \<Rightarrow> (len, len) | Some i \<Rightarrow> (i + 1, behind n2))
          else None);
       Some (case get_range data start stop of Some s \<Rightarrow> s | None \<Rightarrow> [])
     })"

definition expanded_hid_str :: "acpi_Expanded \<Rightarrow> bytes option" where
  "expanded_hid_str x = get_acpi_expanded_substr (Expanded_data x) 0"

definition expanded_uid_str :: "acpi_Expanded \<Rightarrow> bytes option" where
  "expanded_uid_str x = get_acpi_expanded_substr (Expanded_data x) 1"

definition expanded_cid_str :: "acpi_Expanded \<Rightarrow> bytes option" where
  "expanded_cid_str x = get_acpi_expanded_substr (Expanded_data x) 2"

record build_acpi_Expanded =
  build_Expanded_hid :: u32
  build_Expanded_uid :: u32
  build_Expanded_cid :: u32
  build_Expanded_hid_str :: bytes
  build_Expanded_uid_str :: bytes
  build_Expanded_cid_str :: bytes

definition acpi_Expanded_build :: "build_acpi_Expanded \<Rightarrow> build_node" where
  "acpi_Expanded_build x =
    (let hid_str = build_Expanded_hid_str x; uid_str = build_Expanded_uid_str x; cid_str = build_Expanded_cid_str x
     in generated_node
       (do { n \<leftarrow> uadd 16 (length hid_str); m \<leftarrow> uadd n (length uid_str); uadd m (length cid_str) })
       (DeviceType ACPI) (DeviceSubType ACPI_EXPANDED)
       [(4, u32_to_le (build_Expanded_hid x)),
        (8, u32_to_le (build_Expanded_uid x)),
        (12, u32_to_le (build_Expanded_cid x)),
        (16, hid_str),
        (16 + length hid_str, uid_str),
        (16 + (length hid_str + length uid_str), cid_str)])"

text \<open>\<open>AdrSlice::new\<close>: at least one value is required.\<close>

definition adr_slice_new :: "u32 list \<Rightarrow> u32 list option" where
  "adr_slice_new xs = (if xs = [] then None else Some xs)"

record acpi_Adr =
  Adr_adr :: "u32 list"

definition acpi_Adr_try_from :: "device_path_node \<Rightarrow> (acpi_Adr, node_conversion_error) result" where
  "acpi_Adr_try_from = cast_unsized (DeviceType ACPI) (DeviceSubType ACPI_ADR) 4 4
    (\<lambda>n bs. \<lparr>Adr_adr = slice_at 4 u32_from_le n 4 bs\<rparr>)"

definition acpi_Adr_build :: "acpi_Adr \<Rightarrow> build_node" where
  "acpi_Adr_build x = generated_node (uadd 4 (4 * length (Adr_adr x))) (DeviceType ACPI) (DeviceSubType ACPI_ADR)
    [(4, concat (map u32_to_le (Adr_adr x)))]"

record acpi_Nvdimm =
  Nvdimm_nfit_device_handle :: u32

definition acpi_Nvdimm_try_from :: "device_path_node \<Rightarrow> (acpi_Nvdimm, node_conversion_error) result" where
  "acpi_Nvdimm_try_from = cast_sized (DeviceType ACPI) (DeviceSubType ACPI_NVDIMM) 8
    (\<lambda>bs. \<lparr>Nvdimm_nfit_device_handle = u32_at 4 bs\<rparr>)"

definition acpi_Nvdimm_build :: "acpi_Nvdimm \<Rightarrow> build_node" where
  "acpi_Nvdimm_build x = generated_node (Some 8) (DeviceType ACPI) (DeviceSubType ACPI_NVDIMM)
    [(4, u32_to_le (Nvdimm_nfit_device_handle x))]"

end
