(* ===== verification/Device_Nodes_Messaging.thy ===== *)
theory Device_Nodes_Messaging
  imports Device_Nodes
begin

text \<open>
  The messaging nodes of \<open>uefi/src/proto/device_path/device_path_gen.rs\<close>: for each node type its fields,
  the conversion from an untyped node, and the build node. The conventions are those of
  \<open>Device_Nodes\<close>.
\<close>

record messaging_Atapi =
  Atapi_primary_secondary :: u8
  Atapi_master_slave :: u8
  Atapi_logical_unit_number :: u16

definition messaging_Atapi_try_from :: "device_path_node \<Rightarrow> (messaging_Atapi, node_conversion_error) result" where
  "messaging_Atapi_try_from = cast_sized (DeviceType MESSAGING) (DeviceSubType MESSAGING_ATAPI) 8
    (\<lambda>bs. \<lparr>Atapi_primary_secondary = u8_at 4 bs,
       Atapi_master_slave = u8_at 5 bs,
       Atapi_logical_unit_number = u16_at 6 bs\<rparr>)"

definition messaging_Atapi_build :: "messaging_Atapi \<Rightarrow> build_node" where
  "messaging_Atapi_build x = generated_node (Some 8) (DeviceType MESSAGING) (DeviceSubType MESSAGING_ATAPI)
    [(4, [Atapi_primary_secondary x]),
     (5, [Atapi_master_slave x]),
     (6, u16_to_le (Atapi_logical_unit_number x))]"

record messaging_Scsi =
  Scsi_target_id :: u16
  Scsi_logical_unit_number :: u16

definition messaging_Scsi_try_from :: "device_path_node \<Rightarrow> (messaging_Scsi, node_conversion_error) result" where
  "messaging_Scsi_try_from = cast_sized (DeviceType MESSAGING) (DeviceSubType MESSAGING_SCSI) 8
    (\<lambda>bs. \<lparr>Scsi_target_id = u16_at 4 bs,
       Scsi_logical_unit_number = u16_at 6 bs\<rparr>)"

definition messaging_Scsi_build :: "messaging_Scsi \<Rightarrow> build_node" where
  "messaging_Scsi_build x = generated_node (Some 8) (DeviceType MESSAGING) (DeviceSubType MESSAGING_SCSI)
    [(4, u16_to_le (Scsi_target_id x)),
     (6, u16_to_le (Scsi_logical_unit_number x))]"

record messaging_FibreChannel =
  FibreChannel_world_wide_name :: u64
  FibreChannel_logical_unit_number :: u64

definition messaging_FibreChannel_try_from :: "device_path_node \<Rightarrow> (messaging_FibreChannel, node_conversion_error) result" where
  "messaging_FibreChannel_try_from = cast_sized (DeviceType MESSAGING) (DeviceSubType MESSAGING_FIBRE_CHANNEL) 24
    (\<lambda>bs. \<lparr>FibreChannel_world_wide_name = u64_at 8 bs,
       FibreChannel_logical_unit_number = u64_at 16 bs\<rparr>)"

definition messaging_FibreChannel_build :: "messaging_FibreChannel \<Rightarrow> build_node" where
  "messaging_FibreChannel_build x = generated_node (Some 24) (DeviceType MESSAGING) (DeviceSubType MESSAGING_FIBRE_CHANNEL)
    [(4, replicate 4 0),
     (8, u64_to_le (FibreChannel_world_wide_name x)),
     (16, u64_to_le (FibreChannel_logical_unit_number x))]"

record messaging_FibreChannelEx =
  FibreChannelEx_world_wide_name :: bytes
  FibreChannelEx_logical_unit_number :: bytes

definition messaging_FibreChannelEx_try_from :: "device_path_node \<Rightarrow> (messaging_FibreChannelEx, node_conversion_error) result" where
  "messaging_FibreChannelEx_try_from = cast_sized (DeviceType MESSAGING) (DeviceSubType MESSAGING_FIBRE_CHANNEL_EX) 24
    (\<lambda>bs. \<lparr>FibreChannelEx_world_wide_name = array_at 8 8 bs,
       FibreChannelEx_logical_unit_number = array_at 8 16 bs\<rparr>)"

definition messaging_FibreChannelEx_build :: "messaging_FibreChannelEx \<Rightarrow> build_node" where
  "messaging_FibreChannelEx_build x = generated_node (Some 24) (DeviceType MESSAGING) (DeviceSubType MESSAGING_FIBRE_CHANNEL_EX)
    [(4, replicate 4 0),
     (8, FibreChannelEx_world_wide_name x),
     (16, FibreChannelEx_logical_unit_number x)]"

record messaging_Ieee1394 =
  Ieee1394_guid :: bytes

definition messaging_Ieee1394_try_from :: "device_path_node \<Rightarrow> (messaging_Ieee1394, node_conversion_error) result" where
  "messaging_Ieee1394_try_from = cast_sized (DeviceType MESSAGING) (DeviceSubType MESSAGING_1394) 16
    (\<lambda>bs. \<lparr>Ieee1394_guid = array_at 8 8 bs\<rparr>)"

definition messaging_Ieee1394_build :: "messaging_Ieee1394 \<Rightarrow> build_node" where
  "messaging_Ieee1394_build x = generated_node (Some 16) (DeviceType MESSAGING) (DeviceSubType MESSAGING_1394)
    [(4, replicate 4 0), (8, Ieee1394_guid x)]"

record messaging_Usb =
  Usb_parent_port_number :: u8
  Usb_interface :: u8

definition messaging_Usb_try_from :: "device_path_node \<Rightarrow> (messaging_Usb, node_conversion_error) result" where
  "messaging_Usb_try_from = cast_sized (DeviceType MESSAGING) (DeviceSubType MESSAGING_USB) 6
    (\<lambda>bs. \<lparr>Usb_parent_port_number = u8_at 4 bs,
       Usb_interface = u8_at 5 bs\<rparr>)"

definition messaging_Usb_build :: "messaging_Usb \<Rightarrow> build_node" where
  "messaging_Usb_build x = generated_node (Some 6) (DeviceType MESSAGING) (DeviceSubType MESSAGING_USB)
    [(4, [Usb_parent_port_number x]), (5, [Usb_interface x])]"

record messaging_Sata =
  Sata_hba_port_number :: u16
  Sata_port_multiplier_port_number :: u16
  Sata_logical_unit_number :: u16

definition messaging_Sata_try_from :: "device_path_node \<Rightarrow> (messaging_Sata, node_conversion_error) result" where
  "messaging_Sata_try_from = cast_sized (DeviceType MESSAGING) (DeviceSubType MESSAGING_SATA) 10
    (\<lambda>bs. \<lparr>Sata_hba_port_number = u16_at 4 bs,
       Sata_port_multiplier_port_number = u16_at 6 bs,
       Sata_logical_unit_number = u16_at 8 bs\<rparr>)"

definition messaging_Sata_build :: "messaging_Sata \<Rightarrow> build_node" where
  "messaging_Sata_build x = generated_node (Some 10) (DeviceType MESSAGING) (DeviceSubType MESSAGING_SATA)
    [(4, u16_to_le (Sata_hba_port_number x)),
     (6, u16_to_le (Sata_port_multiplier_port_number x)),
     (8, u16_to_le (Sata_logical_unit_number x))]"

record messaging_UsbWwid =
  UsbWwid_interface_number :: u16
  UsbWwid_device_vendor_id :: u16
  UsbWwid_device_product_id :: u16
  UsbWwid_serial_number :: "u16 list"

definition messaging_UsbWwid_try_from :: "device_path_node \<Rightarrow> (messaging_UsbWwid, node_conversion_error) result" where
  "messaging_UsbWwid_try_from = cast_unsized (DeviceType MESSAGING) (DeviceSubType MESSAGING_USB_WWID) 10 2
    (\<lambda>n bs. \<lparr>UsbWwid_interface_number = u16_at 4 bs,
       UsbWwid_device_vendor_id = u16_at 6 bs,
       UsbWwid_device_product_id = u16_at 8 bs,
       UsbWwid_serial_number = slice_at 2 u16_from_le n 10 bs\<rparr>)"

definition messaging_UsbWwid_build :: "messaging_UsbWwid \<Rightarrow> build_node" where
  "messaging_UsbWwid_build x = generated_node (uadd 10 (2 * length (UsbWwid_serial_number x))) (DeviceType MESSAGING) (DeviceSubType MESSAGING_USB_WWID)
    [(4, u16_to_le (UsbWwid_interface_number x)),
     (6, u16_to_le (UsbWwid_device_vendor_id x)),
     (8, u16_to_le (UsbWwid_device_product_id x)),
     (10, concat (map u16_to_le (UsbWwid_serial_number x)))]"

record messaging_DeviceLogicalUnit =
  DeviceLogicalUnit_logical_unit_number :: u8

definition messaging_DeviceLogicalUnit_try_from :: "device_path_node \<Rightarrow> (messaging_DeviceLogicalUnit, node_conversion_error) result" where
  "messaging_DeviceLogicalUnit_try_from = cast_sized (DeviceType MESSAGING) (DeviceSubType MESSAGING_DEVICE_LOGICAL_UNIT) 5
    (\<lambda>bs. \<lparr>DeviceLogicalUnit_logical_unit_number = u8_at 4 bs\<rparr>)"

definition messaging_DeviceLogicalUnit_build :: "messaging_DeviceLogicalUnit \<Rightarrow> build_node" where
  "messaging_DeviceLogicalUnit_build x = generated_node (Some 5) (DeviceType MESSAGING) (DeviceSubType MESSAGING_DEVICE_LOGICAL_UNIT)
    [(4, [DeviceLogicalUnit_logical_unit_number x])]"

record messaging_UsbClass =
  UsbClass_vendor_id :: u16
  UsbClass_product_id :: u16
  UsbClass_device_class :: u8
  UsbClass_device_subclass :: u8
  UsbClass_device_protocol :: u8

definition messaging_UsbClass_try_from :: "device_path_node \<Rightarrow> (messaging_UsbClass, node_conversion_error) result" where
  "messaging_UsbClass_try_from = cast_sized (DeviceType MESSAGING) (DeviceSubType MESSAGING_USB_CLASS) 11
    (\<lambda>bs. \<lparr>UsbClass_vendor_id = u16_at 4 bs,
       UsbClass_product_id = u16_at 6 bs,
       UsbClass_device_class = u8_at 8 bs,
       UsbClass_device_subclass = u8_at 9 bs,
       UsbClass_device_protocol = u8_at 10 bs\<rparr>)"

definition messaging_UsbClass_build :: "messaging_UsbClass \<Rightarrow> build_node" where
  "messaging_UsbClass_build x = generated_node (Some 11) (DeviceType MESSAGING) (DeviceSubType MESSAGING_USB_CLASS)
    [(4, u16_to_le (UsbClass_vendor_id x)),
     (6, u16_to_le (UsbClass_product_id x)),
     (8, [UsbClass_device_class x]),
     (9, [UsbClass_device_subclass x]),
     (10, [UsbClass_device_protocol x])]"

record messaging_I2o =
  I2o_target_id :: u32

definition messaging_I2o_try_from :: "device_path_node \<Rightarrow> (messaging_I2o, node_conversion_error) result" where
  "messaging_I2o_try_from = cast_sized (DeviceType MESSAGING) (DeviceSubType MESSAGING_I2O) 8
    (\<lambda>bs. \<lparr>I2o_target_id = u32_at 4 bs\<rparr>)"

definition messaging_I2o_build :: "messaging_I2o \<Rightarrow> build_node" where
  "messaging_I2o_build x = generated_node (Some 8) (DeviceType MESSAGING) (DeviceSubType MESSAGING_I2O)
    [(4, u32_to_le (I2o_target_id x))]"

record messaging_MacAddress =
  MacAddress_mac_address :: bytes
  MacAddress_interface_type :: u8

definition messaging_MacAddress_try_from :: "device_path_node \<Rightarrow> (messaging_MacAddress, node_conversion_error) result" where
  "messaging_MacAddress_try_from = cast_sized (DeviceType MESSAGING) (DeviceSubType MESSAGING_MAC_ADDRESS) 37
    (\<lambda>bs. \<lparr>MacAddress_mac_address = array_at 32 4 bs,
       MacAddress_interface_type = u8_at 36 bs\<rparr>)"

definition messaging_MacAddress_build :: "messaging_MacAddress \<Rightarrow> build_node" where
  "messaging_MacAddress_build x = generated_node (Some 37) (DeviceType MESSAGING) (DeviceSubType MESSAGING_MAC_ADDRESS)
    [(4, MacAddress_mac_address x), (36, [MacAddress_interface_type x])]"

record messaging_Ipv4 =
  Ipv4_local_ip_address :: bytes
  Ipv4_remote_ip_address :: bytes
  Ipv4_local_port :: u16
  Ipv4_remote_port :: u16
  Ipv4_protocol :: u16
  Ipv4_ip_address_origin :: u8
  Ipv4_gateway_ip_address :: bytes
  Ipv4_subnet_mask :: bytes

definition messaging_Ipv4_try_from :: "device_path_node \<Rightarrow> (messaging_Ipv4, node_conversion_error) result" where
  "messaging_Ipv4_try_from = cast_sized (DeviceType MESSAGING) (DeviceSubType MESSAGING_IPV4) 27
    (\<lambda>bs. \<lparr>Ipv4_local_ip_address = array_at 4 4 bs,
       Ipv4_remote_ip_address = array_at 4 8 bs,
       Ipv4_local_port = u16_at 12 bs,
       Ipv4_remote_port = u16_at 14 bs,
       Ipv4_protocol = u16_at 16 bs,
       Ipv4_ip_address_origin = u8_at 18 bs,
       Ipv4_gateway_ip_address = array_at 4 19 bs,
       Ipv4_subnet_mask = array_at 4 23 bs\<rparr>)"

definition messaging_Ipv4_build :: "messaging_Ipv4 \<Rightarrow> build_node" where
  "messaging_Ipv4_build x = generated_node (Some 27) (DeviceType MESSAGING) (DeviceSubType MESSAGING_IPV4)
    [(4, Ipv4_local_ip_address x),
     (8, Ipv4_remote_ip_address x),
     (12, u16_to_le (Ipv4_local_port x)),
     (14, u16_to_le (Ipv4_remote_port x)),
     (16, u16_to_le (Ipv4_protocol x)),
     (18, [Ipv4_ip_address_origin x]),
     (19, Ipv4_gateway_ip_address x),
     (23, Ipv4_subnet_mask x)]"

record messaging_Ipv6 =
  Ipv6_local_ip_address :: bytes
  Ipv6_remote_ip_address :: bytes
  Ipv6_local_port :: u16
  Ipv6_remote_port :: u16
  Ipv6_protocol :: u16
  Ipv6_ip_address_origin :: u8
  Ipv6_prefix_length :: u8
  Ipv6_gateway_ip_address :: bytes

definition messaging_Ipv6_try_from :: "device_path_node \<Rightarrow> (messaging_Ipv6, node_conversion_error) result" where
  "messaging_Ipv6_try_from = cast_sized (DeviceType MESSAGING) (DeviceSubType MESSAGING_IPV6) 60
    (\<lambda>bs. \<lparr>Ipv6_local_ip_address = array_at 16 4 bs,
       Ipv6_remote_ip_address = array_at 16 20 bs,
       Ipv6_local_port = u16_at 36 bs,
       Ipv6_remote_port = u16_at 38 bs,
       Ipv6_protocol = u16_at 40 bs,
       Ipv6_ip_address_origin = u8_at 42 bs,
       Ipv6_prefix_length = u8_at 43 bs,
       Ipv6_gateway_ip_address = array_at 16 44 bs\<rparr>)"

definition messaging_Ipv6_build :: "messaging_Ipv6 \<Rightarrow> build_node" where
  "messaging_Ipv6_build x = generated_node (Some 60) (DeviceType MESSAGING) (DeviceSubType MESSAGING_IPV6)
    [(4, Ipv6_local_ip_address x),
     (20, Ipv6_remote_ip_address x),
     (36, u16_to_le (Ipv6_local_port x)),
     (38, u16_to_le (Ipv6_remote_port x)),
     (40, u16_to_le (Ipv6_protocol x)),
     (42, [Ipv6_ip_address_origin x]),
     (43, [Ipv6_prefix_length x]),
     (44, Ipv6_gateway_ip_address x)]"

record messaging_Vlan =
  Vlan_vlan_id :: u16

definition messaging_Vlan_try_from :: "device_path_node \<Rightarrow> (messaging_Vlan, node_conversion_error) result" where
  "messaging_Vlan_try_from = cast_sized (DeviceType MESSAGING) (DeviceSubType MESSAGING_VLAN) 6
    (\<lambda>bs. \<lparr>Vlan_vlan_id = u16_at 4 bs\<rparr>)"

definition messaging_Vlan_build :: "messaging_Vlan \<Rightarrow> build_node" where
  "messaging_Vlan_build x = generated_node (Some 6) (DeviceType MESSAGING) (DeviceSubType MESSAGING_VLAN)
    [(4, u16_to_le (Vlan_vlan_id x))]"

record messaging_Infiniband =
  Infiniband_resource_flags :: u32
  Infiniband_port_gid :: bytes
  Infiniband_ioc_guid_or_service_id :: u64
  Infiniband_target_port_id :: u64
  Infiniband_device_id :: u64

definition messaging_Infiniband_try_from :: "device_path_node \<Rightarrow> (messaging_Infiniband, node_conversion_error) result" where
  "messaging_Infiniband_try_from = cast_sized (DeviceType MESSAGING) (DeviceSubType MESSAGING_INFINIBAND) 48
    (\<lambda>bs. \<lparr>Infiniband_resource_flags = u32_at 4 bs,
       Infiniband_port_gid = array_at 16 8 bs,
       Infiniband_ioc_guid_or_service_id = u64_at 24 bs,
       Infiniband_target_port_id = u64_at 32 bs,
       Infiniband_device_id = u64_at 40 bs\<rparr>)"

definition messaging_Infiniband_build :: "messaging_Infiniband \<Rightarrow> build_node" where
  "messaging_Infiniband_build x = generated_node (Some 48) (DeviceType MESSAGING) (DeviceSubType MESSAGING_INFINIBAND)
    [(4, u32_to_le (Infiniband_resource_flags x)),
     (8, Infiniband_port_gid x),
     (24, u64_to_le (Infiniband_ioc_guid_or_service_id x)),
     (32, u64_to_le (Infiniband_target_port_id x)),
     (40, u64_to_le (Infiniband_device_id x))]"

record messaging_Uart =
  Uart_baud_rate :: u64
  Uart_data_bits :: u8
  Uart_parity :: u8
  Uart_stop_bits :: u8

definition messaging_Uart_try_from :: "device_path_node \<Rightarrow> (messaging_Uart, node_conversion_error) result" where
  "messaging_Uart_try_from = cast_sized (DeviceType MESSAGING) (DeviceSubType MESSAGING_UART) 19
    (\<lambda>bs. \<lparr>Uart_baud_rate = u64_at 8 bs,
       Uart_data_bits = u8_at 16 bs,
       Uart_parity = u8_at 17 bs,
       Uart_stop_bits = u8_at 18 bs\<rparr>)"

definition messaging_Uart_build :: "messaging_Uart \<Rightarrow> build_node" where
  "messaging_Uart_build x = generated_node (Some 19) (DeviceType MESSAGING) (DeviceSubType MESSAGING_UART)
    [(4, replicate 4 0),
     (8, u64_to_le (Uart_baud_rate x)),
     (16, [Uart_data_bits x]),
     (17, [Uart_parity x]),
     (18, [Uart_stop_bits x])]"

record messaging_Vendor =
  messaging_Vendor_vendor_guid :: guid
  messaging_Vendor_vendor_defined_data :: bytes

definition messaging_Vendor_try_from :: "device_path_node \<Rightarrow> (messaging_Vendor, node_conversion_error) result" where
  "messaging_Vendor_try_from = cast_unsized (DeviceType MESSAGING) (DeviceSubType MESSAGING_VENDOR) 20 1
    (\<lambda>n bs. \<lparr>messaging_Vendor_vendor_guid = array_at 16 4 bs,
       messaging_Vendor_vendor_defined_data = array_at n 20 bs\<rparr>)"

definition messaging_Vendor_build :: "messaging_Vendor \<Rightarrow> build_node" where
  "messaging_Vendor_build x = generated_node (uadd 20 (length (messaging_Vendor_vendor_defined_data x))) (DeviceType MESSAGING) (DeviceSubType MESSAGING_VENDOR)
    [(4, messaging_Vendor_vendor_guid x),
     (20, messaging_Vendor_vendor_defined_data x)]"

record messaging_SasEx =
  SasEx_sas_address :: bytes
  SasEx_logical_unit_number :: bytes
  SasEx_info :: u16
  SasEx_relative_target_port :: u16

definition messaging_SasEx_try_from :: "device_path_node \<Rightarrow> (messaging_SasEx, node_conversion_error) result" where
  "messaging_SasEx_try_from = cast_sized (DeviceType MESSAGING) (DeviceSubType MESSAGING_SCSI_SAS_EX) 24
    (\<lambda>bs. \<lparr>SasEx_sas_address = array_at 8 4 bs,
       SasEx_logical_unit_number = array_at 8 12 bs,
       SasEx_info = u16_at 20 bs,
       SasEx_relative_target_port = u16_at 22 bs\<rparr>)"

definition messaging_SasEx_build :: "messaging_SasEx \<Rightarrow> build_node" where
  "messaging_SasEx_build x = generated_node (Some 24) (DeviceType MESSAGING) (DeviceSubType MESSAGING_SCSI_SAS_EX)
    [(4, SasEx_sas_address x),
     (12, SasEx_logical_unit_number x),
     (20, u16_to_le (SasEx_info x)),
     (22, u16_to_le (SasEx_relative_target_port x))]"

record messaging_Iscsi =
  Iscsi_protocol :: u16
  Iscsi_options :: u16
  Iscsi_logical_unit_number :: bytes
  Iscsi_target_portal_group_tag :: u16
  Iscsi_iscsi_target_name :: bytes

definition messaging_Iscsi_try_from :: "device_path_node \<Rightarrow> (messaging_Iscsi, node_conversion_error) result" where
  "messaging_Iscsi_try_from = cast_unsized (DeviceType MESSAGING) (DeviceSubType MESSAGING_ISCSI) 18 1
    (\<lambda>n bs. \<lparr>Iscsi_protocol = u16_at 4 bs,
       Iscsi_options = u16_at 6 bs,
       Iscsi_logical_unit_number = array_at 8 8 bs,
       Iscsi_target_portal_group_tag = u16_at 16 bs,
       Iscsi_iscsi_target_name = array_at n 18 bs\<rparr>)"

definition messaging_Iscsi_build :: "messaging_Iscsi \<Rightarrow> build_node" where
  "messaging_Iscsi_build x = generated_node (uadd 18 (length (Iscsi_iscsi_target_name x))) (DeviceType MESSAGING) (DeviceSubType MESSAGING_ISCSI)
    [(4, u16_to_le (Iscsi_protocol x)),
     (6, u16_to_le (Iscsi_options x)),
     (8, Iscsi_logical_unit_number x),
     (16, u16_to_le (Iscsi_target_portal_group_tag x)),
     (18, Iscsi_iscsi_target_name x)]"

record messaging_NvmeNamespace =
  NvmeNamespace_namespace_identifier :: u32
  NvmeNamespace_ieee_extended_unique_identifier :: u64

definition messaging_NvmeNamespace_try_from :: "device_path_node \<Rightarrow> (messaging_NvmeNamespace, node_conversion_error) result" where
  "messaging_NvmeNamespace_try_from = cast_sized (DeviceType MESSAGING) (DeviceSubType MESSAGING_NVME_NAMESPACE) 16
    (\<lambda>bs. \<lparr>NvmeNamespace_namespace_identifier = u32_at 4 bs,
       NvmeNamespace_ieee_extended_unique_identifier = u64_at 8 bs\<rparr>)"

definition messaging_NvmeNamespace_build :: "messaging_NvmeNamespace \<Rightarrow> build_node" where
  "messaging_NvmeNamespace_build x = generated_node (Some 16) (DeviceType MESSAGING) (DeviceSubType MESSAGING_NVME_NAMESPACE)
    [(4, u32_to_le (NvmeNamespace_namespace_identifier x)),
     (8, u64_to_le (NvmeNamespace_ieee_extended_unique_identifier x))]"

record messaging_Uri =
  Uri_value :: bytes

definition messaging_Uri_try_from :: "device_path_node \<Rightarrow> (messaging_Uri, node_conversion_error) result" where
  "messaging_Uri_try_from = cast_unsized (DeviceType MESSAGING) (DeviceSubType MESSAGING_URI) 4 1
    (\<lambda>n bs. \<lparr>Uri_value = array_at n 4 bs\<rparr>)"

definition messaging_Uri_build :: "messaging_Uri \<Rightarrow> build_node" where
  "messaging_Uri_build x = generated_node (uadd 4 (length (Uri_value x))) (DeviceType MESSAGING) (DeviceSubType MESSAGING_URI)
    [(4, Uri_value x)]"

record messaging_Ufs =
  Ufs_target_id :: u8
  Ufs_logical_unit_number :: u8

definition messaging_Ufs_try_from :: "device_path_node \<Rightarrow> (messaging_Ufs, node_conversion_error) result" where
  "messaging_Ufs_try_from = cast_sized (DeviceType MESSAGING) (DeviceSubType MESSAGING_UFS) 6
    (\<lambda>bs. \<lparr>Ufs_target_id = u8_at 4 bs,
       Ufs_logical_unit_number = u8_at 5 bs\<rparr>)"

definition messaging_Ufs_build :: "messaging_Ufs \<Rightarrow> build_node" where
  "messaging_Ufs_build x = generated_node (Some 6) (DeviceType MESSAGING) (DeviceSubType MESSAGING_UFS)
    [(4, [Ufs_target_id x]), (5, [Ufs_logical_unit_number x])]"

record messaging_Sd =
  Sd_slot_number :: u8

definition messaging_Sd_try_from :: "device_path_node \<Rightarrow> (messaging_Sd, node_conversion_error) result" where
  "messaging_Sd_try_from = cast_sized (DeviceType MESSAGING) (DeviceSubType MESSAGING_SD) 5
    (\<lambda>bs. \<lparr>Sd_slot_number = u8_at 4 bs\<rparr>)"

definition messaging_Sd_build :: "messaging_Sd \<Rightarrow> build_node" where
  "messaging_Sd_build x = generated_node (Some 5) (DeviceType MESSAGING) (DeviceSubType MESSAGING_SD)
    [(4, [Sd_slot_number x])]"

record messaging_Bluetooth =
  Bluetooth_device_address :: bytes

definition messaging_Bluetooth_try_from :: "device_path_node \<Rightarrow> (messaging_Bluetooth, node_conversion_error) result" where
  "messaging_Bluetooth_try_from = cast_sized (DeviceType MESSAGING) (DeviceSubType MESSAGING_BLUETOOTH) 10
    (\<lambda>bs. \<lparr>Bluetooth_device_address = array_at 6 4 bs\<rparr>)"

definition messaging_Bluetooth_build :: "messaging_Bluetooth \<Rightarrow> build_node" where
  "messaging_Bluetooth_build x = generated_node (Some 10) (DeviceType MESSAGING) (DeviceSubType MESSAGING_BLUETOOTH)
    [(4, Bluetooth_device_address x)]"

record messaging_Wifi =
  Wifi_ssid :: bytes

definition messaging_Wifi_try_from :: "device_path_node \<Rightarrow> (messaging_Wifi, node_conversion_error) result" where
  "messaging_Wifi_try_from = cast_sized (DeviceType MESSAGING) (DeviceSubType MESSAGING_WIFI) 36
    (\<lambda>bs. \<lparr>Wifi_ssid = array_at 32 4 bs\<rparr>)"

definition messaging_Wifi_build :: "messaging_Wifi \<Rightarrow> build_node" where
  "messaging_Wifi_build x = generated_node (Some 36) (DeviceType MESSAGING) (DeviceSubType MESSAGING_WIFI)
    [(4, Wifi_ssid x)]"

record messaging_Emmc =
  Emmc_slot_number :: u8

definition messaging_Emmc_try_from :: "device_path_node \<Rightarrow> (messaging_Emmc, node_conversion_error) result" where
  "messaging_Emmc_try_from = cast_sized (DeviceType MESSAGING) (DeviceSubType MESSAGING_EMMC) 5
    (\<lambda>bs. \<lparr>Emmc_slot_number = u8_at 4 bs\<rparr>)"

definition messaging_Emmc_build :: "messaging_Emmc \<Rightarrow> build_node" where
  "messaging_Emmc_build x = generated_node (Some 5) (DeviceType MESSAGING) (DeviceSubType MESSAGING_EMMC)
    [(4, [Emmc_slot_number x])]"

record messaging_BluetoothLe =
  BluetoothLe_device_address :: bytes
  BluetoothLe_address_type :: u8

definition messaging_BluetoothLe_try_from :: "device_path_node \<Rightarrow> (messaging_BluetoothLe, node_conversion_error) result" where
  "messaging_BluetoothLe_try_from = cast_sized (DeviceType MESSAGING) (DeviceSubType MESSAGING_BLUETOOTH_LE) 11
    (\<lambda>bs. \<lparr>BluetoothLe_device_address = array_at 6 4 bs,
       BluetoothLe_address_type = u8_at 10 bs\<rparr>)"

definition messaging_BluetoothLe_build :: "messaging_BluetoothLe \<Rightarrow> build_node" where
  "messaging_BluetoothLe_build x = generated_node (Some 11) (DeviceType MESSAGING) (DeviceSubType MESSAGING_BLUETOOTH_LE)
    [(4, BluetoothLe_device_address x), (10, [BluetoothLe_address_type x])]"

record messaging_Dns =
  Dns_address_type :: u8
  Dns_addresses :: "bytes list"

definition messaging_Dns_try_from :: "device_path_node \<Rightarrow> (messaging_Dns, node_conversion_error) result" where
  "messaging_Dns_try_from = cast_unsized (DeviceType MESSAGING) (DeviceSubType MESSAGING_DNS) 5 16
    (\<lambda>n bs. \<lparr>Dns_address_type = u8_at 4 bs,
       Dns_addresses = slice_at 16 (\<lambda>b. b) n 5 bs\<rparr>)"

definition messaging_Dns_build :: "messaging_Dns \<Rightarrow> build_node" where
  "messaging_Dns_build x = generated_node (uadd 5 (16 * length (Dns_addresses x))) (DeviceType MESSAGING) (DeviceSubType MESSAGING_DNS)
    [(4, [Dns_address_type x]), (5, concat (Dns_addresses x))]"

record messaging_NvdimmNamespace =
  NvdimmNamespace_uuid :: bytes

definition messaging_NvdimmNamespace_try_from :: "device_path_node \<Rightarrow> (messaging_NvdimmNamespace, node_conversion_error) result" where
  "messaging_NvdimmNamespace_try_from = cast_sized (DeviceType MESSAGING) (DeviceSubType MESSAGING_NVDIMM_NAMESPACE) 20
    (\<lambda>bs. \<lparr>NvdimmNamespace_uuid = array_at 16 4 bs\<rparr>)"

definition messaging_NvdimmNamespace_build :: "messaging_NvdimmNamespace \<Rightarrow> build_node" where
  "messaging_NvdimmNamespace_build x = generated_node (Some 20) (DeviceType MESSAGING) (DeviceSubType MESSAGING_NVDIMM_NAMESPACE)
    [(4, NvdimmNamespace_uuid x)]"

record messaging_RestService =
  RestService_service_type :: u8
  RestService_access_mode :: u8
  RestService_vendor_guid_and_data :: bytes

definition messaging_RestService_try_from :: "device_path_node \<Rightarrow> (messaging_RestService, node_conversion_error) result" where
  "messaging_RestService_try_from = cast_unsized (DeviceType MESSAGING) (DeviceSubType MESSAGING_REST_SERVICE) 6 1
    (\<lambda>n bs. \<lparr>RestService_service_type = u8_at 4 bs,
       RestService_access_mode = u8_at 5 bs,
       RestService_vendor_guid_and_data = array_at n 6 bs\<rparr>)"

text \<open>The vendor part of a REST service node.\<close>

definition REST_SERVICE_VENDOR :: u8 where "REST_SERVICE_VENDOR = 0xff"

definition rest_service_vendor_guid_and_data :: "messaging_RestService \<Rightarrow> (guid \<times> bytes) option" where
  "rest_service_vendor_guid_and_data x =
    (if RestService_service_type x = REST_SERVICE_VENDOR \<and> 16 \<le> length (RestService_vendor_guid_and_data x)
     then Some (take 16 (RestService_vendor_guid_and_data x), drop 16 (RestService_vendor_guid_and_data x))
     else None)"

record build_messaging_RestService =
  build_RestService_service_type :: u8
  build_RestService_access_mode :: u8
  build_RestService_vendor_guid_and_data :: "(guid \<times> bytes) option"

definition build_size_vendor_guid_and_data :: "build_messaging_RestService \<Rightarrow> usize option" where
  "build_size_vendor_guid_and_data x =
    (case build_RestService_vendor_guid_and_data x of
       Some (vendor_guid, data) \<Rightarrow> do {
         require (build_RestService_service_type x = REST_SERVICE_VENDOR);
         uadd 16 (length data)
       }
     | None \<Rightarrow> Some 0)"

text \<open>The assertion on the size of the output makes the rest of the slice behind the GUID exactly as long as
  the vendor data, which is copied to it.\<close>

definition build_vendor_guid_and_data :: "build_messaging_RestService \<Rightarrow> (usize \<times> bytes) list" where
  "build_vendor_guid_and_data x =
    (case build_RestService_vendor_guid_and_data x of
       Some (vendor_guid, data) \<Rightarrow> [(6, vendor_guid), (22, data)]
     | None \<Rightarrow> [])"

definition messaging_RestService_build :: "build_messaging_RestService \<Rightarrow> build_node" where
  "messaging_RestService_build x = generated_node
    (do { n \<leftarrow> build_size_vendor_guid_and_data x; uadd 6 n })
    (DeviceType MESSAGING) (DeviceSubType MESSAGING_REST_SERVICE)
    ([(4, [build_RestService_service_type x]), (5, [build_RestService_access_mode x])] @ build_vendor_guid_and_data x)"

record messaging_NvmeOfNamespace =
  NvmeOfNamespace_nidt :: u8
  NvmeOfNamespace_nid :: bytes
  NvmeOfNamespace_subsystem_nqn :: bytes

definition messaging_NvmeOfNamespace_try_from :: "device_path_node \<Rightarrow> (messaging_NvmeOfNamespace, node_conversion_error) result" where
  "messaging_NvmeOfNamespace_try_from = cast_unsized (DeviceType MESSAGING) (DeviceSubType MESSAGING_NVME_OF_NAMESPACE) 21 1
    (\<lambda>n bs. \<lparr>NvmeOfNamespace_nidt = u8_at 4 bs,
       NvmeOfNamespace_nid = array_at 16 5 bs,
       NvmeOfNamespace_subsystem_nqn = array_at n 21 bs\<rparr>)"

definition messaging_NvmeOfNamespace_build :: "messaging_NvmeOfNamespace \<Rightarrow> build_node" where
  "messaging_NvmeOfNamespace_build x = generated_node (uadd 21 (length (NvmeOfNamespace_subsystem_nqn x))) (DeviceType MESSAGING) (DeviceSubType MESSAGING_NVME_OF_NAMESPACE)
    [(4, [NvmeOfNamespace_nidt x]),
     (5, NvmeOfNamespace_nid x),
     (21, NvmeOfNamespace_subsystem_nqn x)]"

end
