(* ===== verification/Device_Nodes_Media.thy ===== *)
theory Device_Nodes_Media
  imports Device_Nodes_Messaging
begin

text \<open>
  The media and BIOS boot specification nodes of
  \<open>uefi/src/proto/device_path/device_path_gen.rs\<close>, and the conversion of an untyped node to the
  enumeration of all node types.
\<close>

section \<open>Media nodes\<close>

record media_HardDrive =
  HardDrive_partition_number :: u32
  HardDrive_partition_start :: u64
  HardDrive_partition_size :: u64
  HardDrive_partition_signature :: bytes
  HardDrive_partition_format :: u8
  HardDrive_signature_type :: u8

definition media_HardDrive_try_from :: "device_path_node \<Rightarrow> (media_HardDrive, node_conversion_error) result" where
  "media_HardDrive_try_from = cast_sized (DeviceType MEDIA) (DeviceSubType MEDIA_HARD_DRIVE) 42
    (\<lambda>bs. \<lparr>HardDrive_partition_number = u32_at 4 bs,
       HardDrive_partition_start = u64_at 8 bs,
       HardDrive_partition_size = u64_at 16 bs,
       HardDrive_partition_signature = array_at 16 24 bs,
       HardDrive_partition_format = u8_at 40 bs,
       HardDrive_signature_type = u8_at 41 bs\<rparr>)"

datatype partition_signature =
  NoSignature | Mbr bytes | Guid guid | Unknown (signature_type: u8) (signature: bytes)

definition hard_drive_partition_signature :: "media_HardDrive \<Rightarrow> partition_signature" where
  "hard_drive_partition_signature x =
    (let sig = HardDrive_partition_signature x; ty = HardDrive_signature_type x
     in if ty = 0 then NoSignature
        else if ty = 1 then Mbr [sig ! 0, sig ! 1, sig ! 2, sig ! 3]
        else if ty = 2 then Guid sig
        else Unknown ty sig)"

record build_media_HardDrive =
  build_HardDrive_partition_number :: u32
  build_HardDrive_partition_start :: u64
  build_HardDrive_partition_size :: u64
  build_HardDrive_partition_signature :: partition_signature
  build_HardDrive_partition_format :: u8

definition build_partition_signature :: "partition_signature \<Rightarrow> bytes" where
  "build_partition_signature s =
    (case s of
       NoSignature \<Rightarrow> replicate 16 0
     | Mbr mbr \<Rightarrow> overwrite (replicate 16 0) 0 mbr
     | Guid guid \<Rightarrow> guid
     | Unknown _ sig \<Rightarrow> sig)"

definition build_signature_type :: "partition_signature \<Rightarrow> u8" where
  "build_signature_type s =
    (case s of NoSignature \<Rightarrow> 0 | Mbr _ \<Rightarrow> 1 | Guid _ \<Rightarrow> 2 | Unknown ty _ \<Rightarrow> ty)"

definition media_HardDrive_build :: "build_media_HardDrive \<Rightarrow> build_node" where
  "media_HardDrive_build x = generated_node (Some 42) (DeviceType MEDIA) (DeviceSubType MEDIA_HARD_DRIVE)
    [(4, u32_to_le (build_HardDrive_partition_number x)),
     (8, u64_to_le (build_HardDrive_partition_start x)),
     (16, u64_to_le (build_HardDrive_partition_size x)),
     (24, build_partition_signature (build_HardDrive_partition_signature x)),
     (40, [build_HardDrive_partition_format x]),
     (41, [build_signature_type (build_HardDrive_partition_signature x)])]"

record media_CdRom =
  CdRom_boot_entry :: u32
  CdRom_partition_start :: u64
  CdRom_partition_size :: u64

definition media_CdRom_try_from :: "device_path_node \<Rightarrow> (media_CdRom, node_conversion_error) result" where
  "media_CdRom_try_from = cast_sized (DeviceType MEDIA) (DeviceSubType MEDIA_CD_ROM) 24
    (\<lambda>bs. \<lparr>CdRom_boot_entry = u32_at 4 bs,
       CdRom_partition_start = u64_at 8 bs,
       CdRom_partition_size = u64_at 16 bs\<rparr>)"

definition media_CdRom_build :: "media_CdRom \<Rightarrow> build_node" where
  "media_CdRom_build x = generated_node (Some 24) (DeviceType MEDIA) (DeviceSubType MEDIA_CD_ROM)
    [(4, u32_to_le (CdRom_boot_entry x)),
     (8, u64_to_le (CdRom_partition_start x)),
     (16, u64_to_le (CdRom_partition_size x))]"

record media_Vendor =
  media_Vendor_vendor_guid :: guid
  media_Vendor_vendor_defined_data :: bytes

definition media_Vendor_try_from :: "device_path_node \<Rightarrow> (media_Vendor, node_conversion_error) result" where
  "media_Vendor_try_from = cast_unsized (DeviceType MEDIA) (DeviceSubType MEDIA_VENDOR) 20 1
    (\<lambda>n bs. \<lparr>media_Vendor_vendor_guid = array_at 16 4 bs,
       media_Vendor_vendor_defined_data = array_at n 20 bs\<rparr>)"

definition media_Vendor_build :: "media_Vendor \<Rightarrow> build_node" where
  "media_Vendor_build x = generated_node (uadd 20 (length (media_Vendor_vendor_defined_data x))) (DeviceType MEDIA) (DeviceSubType MEDIA_VENDOR)
    [(4, media_Vendor_vendor_guid x),
     (20, media_Vendor_vendor_defined_data x)]"

record media_FilePath =
  FilePath_path_name :: "u16 list"

definition media_FilePath_try_from :: "device_path_node \<Rightarrow> (media_FilePath, node_conversion_error) result" where
  "media_FilePath_try_from = cast_unsized (DeviceType MEDIA) (DeviceSubType MEDIA_FILE_PATH) 4 2
    (\<lambda>n bs. \<lparr>FilePath_path_name = slice_at 2 u16_from_le n 4 bs\<rparr>)"

definition media_FilePath_build :: "media_FilePath \<Rightarrow> build_node" where
  "media_FilePath_build x = generated_node (uadd 4 (2 * length (FilePath_path_name x))) (DeviceType MEDIA) (DeviceSubType MEDIA_FILE_PATH)
    [(4, concat (map u16_to_le (FilePath_path_name x)))]"

record media_Protocol =
  Protocol_protocol_guid :: guid

definition media_Protocol_try_from :: "device_path_node \<Rightarrow> (media_Protocol, node_conversion_error) result" where
  "media_Protocol_try_from = cast_sized (DeviceType MEDIA) (DeviceSubType MEDIA_PROTOCOL) 20
    (\<lambda>bs. \<lparr>Protocol_protocol_guid = array_at 16 4 bs\<rparr>)"

definition media_Protocol_build :: "media_Protocol \<Rightarrow> build_node" where
  "media_Protocol_build x = generated_node (Some 20) (DeviceType MEDIA) (DeviceSubType MEDIA_PROTOCOL)
    [(4, Protocol_protocol_guid x)]"

record media_PiwgFirmwareFile =
  PiwgFirmwareFile_data :: bytes

definition media_PiwgFirmwareFile_try_from :: "device_path_node \<Rightarrow> (media_PiwgFirmwareFile, node_conversion_error) result" where
  "media_PiwgFirmwareFile_try_from = cast_unsized (DeviceType MEDIA) (DeviceSubType MEDIA_PIWG_FIRMWARE_FILE) 4 1
    (\<lambda>n bs. \<lparr>PiwgFirmwareFile_data = array_at n 4 bs\<rparr>)"

definition media_PiwgFirmwareFile_build :: "media_PiwgFirmwareFile \<Rightarrow> build_node" where
  "media_PiwgFirmwareFile_build x = generated_node (uadd 4 (length (PiwgFirmwareFile_data x))) (DeviceType MEDIA) (DeviceSubType MEDIA_PIWG_FIRMWARE_FILE)
    [(4, PiwgFirmwareFile_data x)]"

record media_PiwgFirmwareVolume =
  PiwgFirmwareVolume_data :: bytes

definition media_PiwgFirmwareVolume_try_from :: "device_path_node \<Rightarrow> (media_PiwgFirmwareVolume, node_conversion_error) result" where
  "media_PiwgFirmwareVolume_try_from = cast_unsized (DeviceType MEDIA) (DeviceSubType MEDIA_PIWG_FIRMWARE_VOLUME) 4 1
    (\<lambda>n bs. \<lparr>PiwgFirmwareVolume_data = array_at n 4 bs\<rparr>)"

definition media_PiwgFirmwareVolume_build :: "media_PiwgFirmwareVolume \<Rightarrow> build_node" where
  "media_PiwgFirmwareVolume_build x = generated_node (uadd 4 (length (PiwgFirmwareVolume_data x))) (DeviceType MEDIA) (DeviceSubType MEDIA_PIWG_FIRMWARE_VOLUME)
    [(4, PiwgFirmwareVolume_data x)]"

record media_RelativeOffsetRange =
  RelativeOffsetRange_starting_offset :: u64
  RelativeOffsetRange_ending_offset :: u64

definition media_RelativeOffsetRange_try_from :: "device_path_node \<Rightarrow> (media_RelativeOffsetRange, node_conversion_error) result" where
  "media_RelativeOffsetRange_try_from = cast_sized (DeviceType MEDIA) (DeviceSubType MEDIA_RELATIVE_OFFSET_RANGE) 24
    (\<lambda>bs. \<lparr>RelativeOffsetRange_starting_offset = u64_at 8 bs,
       RelativeOffsetRange_ending_offset = u64_at 16 bs\<rparr>)"

definition media_RelativeOffsetRange_build :: "media_RelativeOffsetRange \<Rightarrow> build_node" where
  "media_RelativeOffsetRange_build x = generated_node (Some 24) (DeviceType MEDIA) (DeviceSubType MEDIA_RELATIVE_OFFSET_RANGE)
    [(4, replicate 4 0),
     (8, u64_to_le (RelativeOffsetRange_starting_offset x)),
     (16, u64_to_le (RelativeOffsetRange_ending_offset x))]"

record media_RamDisk =
  RamDisk_starting_address :: u64
  RamDisk_ending_address :: u64
  RamDisk_disk_type :: guid
  RamDisk_disk_instance :: u16

definition media_RamDisk_try_from :: "device_path_node \<Rightarrow> (media_RamDisk, node_conversion_error) result" where
  "media_RamDisk_try_from = cast_sized (DeviceType MEDIA) (DeviceSubType MEDIA_RAM_DISK) 38
    (\<lambda>bs. \<lparr>RamDisk_starting_address = u64_at 4 bs,
       RamDisk_ending_address = u64_at 12 bs,
       RamDisk_disk_type = array_at 16 20 bs,
       RamDisk_disk_instance = u16_at 36 bs\<rparr>)"

definition media_RamDisk_build :: "media_RamDisk \<Rightarrow> build_node" where
  "media_RamDisk_build x = generated_node (Some 38) (DeviceType MEDIA) (DeviceSubType MEDIA_RAM_DISK)
    [(4, u64_to_le (RamDisk_starting_address x)),
     (12, u64_to_le (RamDisk_ending_address x)),
     (20, RamDisk_disk_type x),
     (36, u16_to_le (RamDisk_disk_instance x))]"

section \<open>BIOS boot specification nodes\<close>

record bios_boot_spec_BootSpecification =
  BootSpecification_device_type :: u16
  BootSpecification_status_flag :: u16
  BootSpecification_description_string :: bytes

definition bios_boot_spec_BootSpecification_try_from :: "device_path_node \<Rightarrow> (bios_boot_spec_BootSpecification, node_conversion_error) result" where
  "bios_boot_spec_BootSpecification_try_from = cast_unsized (DeviceType BIOS_BOOT_SPEC) (DeviceSubType BIOS_BOOT_SPECIFICATION) 8 1
    (\<lambda>n bs. \<lparr>BootSpecification_device_type = u16_at 4 bs,
       BootSpecification_status_flag = u16_at 6 bs,
       BootSpecification_description_string = array_at n 8 bs\<rparr>)"

definition bios_boot_spec_BootSpecification_build :: "bios_boot_spec_BootSpecification \<Rightarrow> build_node" where
  "bios_boot_spec_BootSpecification_build x = generated_node (uadd 8 (length (BootSpecification_description_string x))) (DeviceType BIOS_BOOT_SPEC) (DeviceSubType BIOS_BOOT_SPECIFICATION)
    [(4, u16_to_le (BootSpecification_device_type x)),
     (6, u16_to_le (BootSpecification_status_flag x)),
     (8, BootSpecification_description_string x)]"

section \<open>The enumeration of all node types\<close>

datatype device_path_node_enum =
    EndInstance
  | EndEntire
  | HardwarePci hardware_Pci
  | HardwarePccard hardware_Pccard
  | HardwareMemoryMapped hardware_MemoryMapped
  | HardwareVendor hardware_Vendor
  | HardwareController hardware_Controller
  | HardwareBmc hardware_Bmc
  | AcpiAcpi acpi_Acpi
  | AcpiExpanded acpi_Expanded
  | AcpiAdr acpi_Adr
  | AcpiNvdimm acpi_Nvdimm
  | MessagingAtapi messaging_Atapi
  | MessagingScsi messaging_Scsi
  | MessagingFibreChannel messaging_FibreChannel
  | MessagingFibreChannelEx messaging_FibreChannelEx
  | MessagingIeee1394 messaging_Ieee1394
  | MessagingUsb messaging_Usb
  | MessagingSata messaging_Sata
  | MessagingUsbWwid messaging_UsbWwid
  | MessagingDeviceLogicalUnit messaging_DeviceLogicalUnit
  | MessagingUsbClass messaging_UsbClass
  | MessagingI2o messaging_I2o
  | MessagingMacAddress messaging_MacAddress
  | MessagingIpv4 messaging_Ipv4
  | MessagingIpv6 messaging_Ipv6
  | MessagingVlan messaging_Vlan
  | MessagingInfiniband messaging_Infiniband
  | MessagingUart messaging_Uart
  | MessagingVendor messaging_Vendor
  | MessagingSasEx messaging_SasEx
  | MessagingIscsi messaging_Iscsi
  | MessagingNvmeNamespace messaging_NvmeNamespace
  | MessagingUri messaging_Uri
  | MessagingUfs messaging_Ufs
  | MessagingSd messaging_Sd
  | MessagingBluetooth messaging_Bluetooth
  | MessagingWifi messaging_Wifi
  | MessagingEmmc messaging_Emmc
  | MessagingBluetoothLe messaging_BluetoothLe
  | MessagingDns messaging_Dns
  | MessagingNvdimmNamespace messaging_NvdimmNamespace
  | MessagingRestService messaging_RestService
  | MessagingNvmeOfNamespace messaging_NvmeOfNamespace
  | MediaHardDrive media_HardDrive
  | MediaCdRom media_CdRom
  | MediaVendor media_Vendor
  | MediaFilePath media_FilePath
  | MediaProtocol media_Protocol
  | MediaPiwgFirmwareFile media_PiwgFirmwareFile
  | MediaPiwgFirmwareVolume media_PiwgFirmwareVolume
  | MediaRelativeOffsetRange media_RelativeOffsetRange
  | MediaRamDisk media_RamDisk
  | BiosBootSpecBootSpecification bios_boot_spec_BootSpecification

definition node_enum_try_from :: "device_path_node \<Rightarrow> (device_path_node_enum, node_conversion_error) result" where
  "node_enum_try_from node =
    (let ft = full_type node in
     if ft = (DEVICE_TYPE_END, END_INSTANCE) then map_ok (\<lambda>_. EndInstance) (end_Instance_try_from node)
     else if ft = (DEVICE_TYPE_END, END_ENTIRE) then map_ok (\<lambda>_. EndEntire) (end_Entire_try_from node)
     else if ft = (DeviceType HARDWARE, DeviceSubType HARDWARE_PCI) then map_ok HardwarePci (hardware_Pci_try_from node)
     else if ft = (DeviceType HARDWARE, DeviceSubType HARDWARE_PCCARD) then map_ok HardwarePccard (hardware_Pccard_try_from node)
     else if ft = (DeviceType HARDWARE, DeviceSubType HARDWARE_MEMORY_MAPPED) then map_ok HardwareMemoryMapped (hardware_MemoryMapped_try_from node)
     else if ft = (DeviceType HARDWARE, DeviceSubType HARDWARE_VENDOR) then map_ok HardwareVendor (hardware_Vendor_try_from node)
     else if ft = (DeviceType HARDWARE, DeviceSubType HARDWARE_CONTROLLER) then map_ok HardwareController (hardware_Controller_try_from node)
     else if ft = (DeviceType HARDWARE, DeviceSubType HARDWARE_BMC) then map_ok HardwareBmc (hardware_Bmc_try_from node)
     else if ft = (DeviceType ACPI, DeviceSubType ACPI_ACPI) then map_ok AcpiAcpi (acpi_Acpi_try_from node)
     else if ft = (DeviceType ACPI, DeviceSubType ACPI_EXPANDED) then map_ok AcpiExpanded (acpi_Expanded_try_from node)
     else if ft = (DeviceType ACPI, DeviceSubType ACPI_ADR) then map_ok AcpiAdr (acpi_Adr_try_from node)
     else if ft = (DeviceType ACPI, DeviceSubType ACPI_NVDIMM) then map_ok AcpiNvdimm (acpi_Nvdimm_try_from node)
     else if ft = (DeviceType MESSAGING, DeviceSubType MESSAGING_ATAPI) then map_ok MessagingAtapi (messaging_Atapi_try_from node)
     else if ft = (DeviceType MESSAGING, DeviceSubType MESSAGING_SCSI) then map_ok MessagingScsi (messaging_Scsi_try_from node)
     else if ft = (DeviceType MESSAGING, DeviceSubType MESSAGING_FIBRE_CHANNEL) then map_ok MessagingFibreChannel (messaging_FibreChannel_try_from node)
     else if ft = (DeviceType MESSAGING, DeviceSubType MESSAGING_FIBRE_CHANNEL_EX) then map_ok MessagingFibreChannelEx (messaging_FibreChannelEx_try_from node)
     else if ft = (DeviceType MESSAGING, DeviceSubType MESSAGING_1394) then map_ok MessagingIeee1394 (messaging_Ieee1394_try_from node)
     else if ft = (DeviceType MESSAGING, DeviceSubType MESSAGING_USB) then map_ok MessagingUsb (messaging_Usb_try_from node)
     else if ft = (DeviceType MESSAGING, DeviceSubType MESSAGING_SATA) then map_ok MessagingSata (messaging_Sata_try_from node)
     else if ft = (DeviceType MESSAGING, DeviceSubType MESSAGING_USB_WWID) then map_ok MessagingUsbWwid (messaging_UsbWwid_try_from node)
     else if ft = (DeviceType MESSAGING, DeviceSubType MESSAGING_DEVICE_LOGICAL_UNIT) then map_ok MessagingDeviceLogicalUnit (messaging_DeviceLogicalUnit_try_from node)
     else if ft = (DeviceType MESSAGING, DeviceSubType MESSAGING_USB_CLASS) then map_ok MessagingUsbClass (messaging_UsbClass_try_from node)
     else if ft = (DeviceType MESSAGING, DeviceSubType MESSAGING_I2O) then map_ok MessagingI2o (messaging_I2o_try_from node)
     else if ft = (DeviceType MESSAGING, DeviceSubType MESSAGING_MAC_ADDRESS) then map_ok MessagingMacAddress (messaging_MacAddress_try_from node)
     else if ft = (DeviceType MESSAGING, DeviceSubType MESSAGING_IPV4) then map_ok MessagingIpv4 (messaging_Ipv4_try_from node)
     else if ft = (DeviceType MESSAGING, DeviceSubType MESSAGING_IPV6) then map_ok MessagingIpv6 (messaging_Ipv6_try_from node)
     else if ft = (DeviceType MESSAGING, DeviceSubType MESSAGING_VLAN) then map_ok MessagingVlan (messaging_Vlan_try_from node)
     else if ft = (DeviceType MESSAGING, DeviceSubType MESSAGING_INFINIBAND) then map_ok MessagingInfiniband (messaging_Infiniband_try_from node)
     else if ft = (DeviceType MESSAGING, DeviceSubType MESSAGING_UART) then map_ok MessagingUart (messaging_Uart_try_from node)
     else if ft = (DeviceType MESSAGING, DeviceSubType MESSAGING_VENDOR) then map_ok MessagingVendor (messaging_Vendor_try_from node)
     else if ft = (DeviceType MESSAGING, DeviceSubType MESSAGING_SCSI_SAS_EX) then map_ok MessagingSasEx (messaging_SasEx_try_from node)
     else if ft = (DeviceType MESSAGING, DeviceSubType MESSAGING_ISCSI) then map_ok MessagingIscsi (messaging_Iscsi_try_from node)
     else if ft = (DeviceType MESSAGING, DeviceSubType MESSAGING_NVME_NAMESPACE) then map_ok MessagingNvmeNamespace (messaging_NvmeNamespace_try_from node)
     else if ft = (DeviceType MESSAGING, DeviceSubType MESSAGING_URI) then map_ok MessagingUri (messaging_Uri_try_from node)
     else if ft = (DeviceType MESSAGING, DeviceSubType MESSAGING_UFS) then map_ok MessagingUfs (messaging_Ufs_try_from node)
     else if ft = (DeviceType MESSAGING, DeviceSubType MESSAGING_SD) then map_ok MessagingSd (messaging_Sd_try_from node)
     else if ft = (DeviceType MESSAGING, DeviceSubType MESSAGING_BLUETOOTH) then map_ok MessagingBluetooth (messaging_Bluetooth_try_from node)
     else if ft = (DeviceType MESSAGING, DeviceSubType MESSAGING_WIFI) then map_ok MessagingWifi (messaging_Wifi_try_from node)
     else if ft = (DeviceType MESSAGING, DeviceSubType MESSAGING_EMMC) then map_ok MessagingEmmc (messaging_Emmc_try_from node)
     else if ft = (DeviceType MESSAGING, DeviceSubType MESSAGING_BLUETOOTH_LE) then map_ok MessagingBluetoothLe (messaging_BluetoothLe_try_from node)
     else if ft = (DeviceType MESSAGING, DeviceSubType MESSAGING_DNS) then map_ok MessagingDns (messaging_Dns_try_from node)
     else if ft = (DeviceType MESSAGING, DeviceSubType MESSAGING_NVDIMM_NAMESPACE) then map_ok MessagingNvdimmNamespace (messaging_NvdimmNamespace_try_from node)
     else if ft = (DeviceType MESSAGING, DeviceSubType MESSAGING_REST_SERVICE) then map_ok MessagingRestService (messaging_RestService_try_from node)
     else if ft = (DeviceType MESSAGING, DeviceSubType MESSAGING_NVME_OF_NAMESPACE) then map_ok MessagingNvmeOfNamespace (messaging_NvmeOfNamespace_try_from node)
     else if ft = (DeviceType MEDIA, DeviceSubType MEDIA_HARD_DRIVE) then map_ok MediaHardDrive (media_HardDrive_try_from node)
     else if ft = (DeviceType MEDIA, DeviceSubType MEDIA_CD_ROM) then map_ok MediaCdRom (media_CdRom_try_from node)
     else if ft = (DeviceType MEDIA, DeviceSubType MEDIA_VENDOR) then map_ok MediaVendor (media_Vendor_try_from node)
     else if ft = (DeviceType MEDIA, DeviceSubType MEDIA_FILE_PATH) then map_ok MediaFilePath (media_FilePath_try_from node)
     else if ft = (DeviceType MEDIA, DeviceSubType MEDIA_PROTOCOL) then map_ok MediaProtocol (media_Protocol_try_from node)
     else if ft = (DeviceType MEDIA, DeviceSubType MEDIA_PIWG_FIRMWARE_FILE) then map_ok MediaPiwgFirmwareFile (media_PiwgFirmwareFile_try_from node)
     else if ft = (DeviceType MEDIA, DeviceSubType MEDIA_PIWG_FIRMWARE_VOLUME) then map_ok MediaPiwgFirmwareVolume (media_PiwgFirmwareVolume_try_from node)
     else if ft = (DeviceType MEDIA, DeviceSubType MEDIA_RELATIVE_OFFSET_RANGE) then map_ok MediaRelativeOffsetRange (media_RelativeOffsetRange_try_from node)
     else if ft = (DeviceType MEDIA, DeviceSubType MEDIA_RAM_DISK) then map_ok MediaRamDisk (media_RamDisk_try_from node)
     else if ft = (DeviceType BIOS_BOOT_SPEC, DeviceSubType BIOS_BOOT_SPECIFICATION) then map_ok BiosBootSpecBootSpecification (bios_boot_spec_BootSpecification_try_from node)
     else Err UnsupportedType)"

definition as_enum :: "device_path_node \<Rightarrow> (device_path_node_enum, node_conversion_error) result" where
  "as_enum node = node_enum_try_from node"

end
