(* ===== verification/Device_Node_Types.thy ===== *)
theory Device_Node_Types
  imports Device_Nodes_Media Device_Path_Props
begin

text \<open>
  The contract of a node type, \<open>typed_node\<close>: only nodes of its type and sub-type are converted, and
  what its build node writes is converted back to the value it was built from. It is proved once for each
  of the two templates that the generated file follows, and interpreted for each of its node types.
\<close>

named_theorems node_reads \<open>reading the fields of a packed structure\<close>

section \<open>Reading packed fields\<close>

lemma read_skip [node_reads]:
  "length f \<le> off \<Longrightarrow> read_field w dec off (f @ rest) = read_field w dec (off - length f) rest"
  by (simp add: read_field_def)

lemma read_skip_byte [node_reads]:
  "0 < off \<Longrightarrow> read_field w dec off (b # rest) = read_field w dec (off - 1) rest"
  by (simp add: read_field_def drop_Cons')

lemma read_byte [node_reads]: "read_field (Suc 0) hd 0 (b # rest) = b"
  by (simp add: read_field_def)

context wire_codec
begin

lemma read_first: "read_field width decode 0 (encode x @ rest) = x" "read_field width decode 0 (encode x) = x"
  by (simp_all add: read_field_def encode_length decode_encode)

lemma read_element:
  "i < length xs \<Longrightarrow> read_field width decode (width * i) (concat (map encode xs)) = xs ! i"
proof (induction xs arbitrary: i)
  case (Cons x xs)
  then show ?case
    by (cases i) (simp_all add: read_first encode_length read_skip)
qed simp

lemma length_elements: "length (concat (map encode xs)) = width * length xs"
  by (induction xs) (simp_all add: encode_length)

lemma read_slice: "slice_at width decode (length xs) 0 (concat (map encode xs)) = xs"
  by (rule nth_equalityI) (simp_all add: slice_at_def read_element)

end

interpretation u8c: wire_codec 1 "\<lambda>x. [x]" hd
  by unfold_locales simp_all

lemma slice_skip [node_reads]:
  "length f \<le> off \<Longrightarrow> slice_at w dec n off (f @ rest) = slice_at w dec n (off - length f) rest"
  by (simp add: slice_at_def node_reads)

lemma slice_skip_byte [node_reads]:
  "0 < off \<Longrightarrow> slice_at w dec n off (b # rest) = slice_at w dec n (off - 1) rest"
  by (simp add: slice_at_def node_reads)

lemma array_first [node_reads]:
  "length a = n \<Longrightarrow> read_field n (\<lambda>b. b) 0 (a @ rest) = a" "length a = n \<Longrightarrow> read_field n (\<lambda>b. b) 0 a = a"
  by (simp_all add: read_field_def)

lemma arrays_read [node_reads]:
  assumes "\<forall>a \<in> set as. length a = 16"
  shows "slice_at 16 (\<lambda>b. b) (length as) 0 (concat as) = as" "length (concat as) = 16 * length as"
proof -
  have "i < length as \<Longrightarrow> read_field 16 (\<lambda>b. b) (16 * i) (concat as) = as ! i" for i using assms
  proof (induction as arbitrary: i)
    case (Cons a as)
    then show ?case by (cases i) (simp_all add: node_reads)
  qed simp
  then show "slice_at 16 (\<lambda>b. b) (length as) 0 (concat as) = as"
    by (intro nth_equalityI) (simp_all add: slice_at_def)
  show "length (concat as) = 16 * length as" using assms by (induction as) simp_all
qed

lemmas [node_reads] =
  u8c.read_first u16c.read_first u32c.read_first u64c.read_first
  u16c.read_slice u32c.read_slice u16c.length_elements u32c.length_elements
  u16c.encode_length u32c.encode_length u64c.encode_length

section \<open>The contract of a node type\<close>

text \<open>A typed image: the build node writes a node of the given type which the conversion reads as \<open>v\<close>,
  unless the node does not fit into the 16-bit length field.\<close>

definition typed_image ::
  "build_node \<Rightarrow> (device_path_node \<Rightarrow> ('v, node_conversion_error) result) \<Rightarrow> u8 \<times> u8 \<Rightarrow> 'v \<Rightarrow> bool" where
  "typed_image bn try_from tag v \<longleftrightarrow>
    size_in_bytes bn = Some (Err NodeTooBig) \<or>
    (\<exists>n. wf_node n \<and> builds bn (node_bytes n) \<and> full_type n = tag \<and> try_from n = Ok v)"

locale typed_node =
  fixes try_from :: "device_path_node \<Rightarrow> ('v, node_conversion_error) result"
    and build_of :: "'b \<Rightarrow> build_node" and ok_value :: "'b \<Rightarrow> bool" and view :: "'b \<Rightarrow> 'v"
    and tag :: "u8 \<times> u8"
  assumes other_type: "full_type n \<noteq> tag \<Longrightarrow> try_from n = Err DifferentType"
    and own_type: "full_type n = tag \<Longrightarrow> try_from n \<noteq> Err DifferentType \<and> try_from n \<noteq> Err UnsupportedType"
    and image: "ok_value b \<Longrightarrow> typed_image (build_of b) try_from tag (view b)"
begin

lemma converts_iff: "try_from n = Ok v \<Longrightarrow> full_type n = tag"
  using other_type by force

lemma image_enum:
  assumes "ok_value b" "\<And>n. full_type n = tag \<Longrightarrow> enum n = map_ok f (try_from n)"
  shows "typed_image (build_of b) enum tag (f (view b))"
  using image [OF assms(1)] assms(2) by (fastforce simp: typed_image_def)

end

text \<open>The template of the build nodes: fields that lie behind one another from offset 4 on, up to the
  announced size, make an image.\<close>

fun consecutive :: "nat \<Rightarrow> (usize \<times> bytes) list \<Rightarrow> bool" where
  "consecutive off [] \<longleftrightarrow> True"
| "consecutive off ((p, bs) # ws) \<longleftrightarrow> p = off \<and> consecutive (off + length bs) ws"

abbreviation payload :: "(usize \<times> bytes) list \<Rightarrow> bytes" where
  "payload ws \<equiv> concat (map snd ws)"

lemma write_all_consecutive:
  assumes "consecutive off ws" "length out = off + length (payload ws)"
  shows "write_all ws out = Some (take off out @ payload ws)"
  using assms
proof (induction ws arbitrary: off out)
  case (Cons w ws)
  obtain o' bs where w: "w = (o', bs)" by fastforce
  have "length (overwrite out off bs) = (off + length bs) + length (payload ws)"
    using Cons.prems w by simp
  moreover have "take (off + length bs) (overwrite out off bs) = take off out @ bs"
    using Cons.prems w by (simp add: overwrite_def)
  ultimately show ?case using Cons.IH [of "off + length bs" "overwrite out off bs"] Cons.prems w by simp
qed simp

lemma generated_node_image:
  assumes "node_size = Some (4 + length (payload ws))" "consecutive 4 ws"
    and "\<And>len. try_from \<lparr>node_header = header_new ty sub len, node_data = payload ws\<rparr> = Ok v"
  shows "typed_image (generated_node node_size ty sub ws) try_from (ty, sub) v"
proof (cases "4 + length (payload ws) < 2 ^ 16")
  case True
  define len :: u16 where "len = word_of_nat (4 + length (payload ws))"
  define n where "n = \<lparr>node_header = header_new ty sub len, node_data = payload ws\<rparr>"
  have len: "unat len = 4 + length (payload ws)" using True unfolding len_def by (subst unat_of_nat) simp
  have size: "length (node_bytes n) = 4 + length (payload ws)" by (simp add: n_def node_bytes_def HEADER_SIZE_def)
  have "write_all ((0, header_to_bytes (header_new ty sub len)) # ws) out = Some (node_bytes n)"
    if "length out = 4 + length (payload ws)" for out
    using write_all_consecutive [of 0 "(0, header_to_bytes (header_new ty sub len)) # ws" out] assms(2) that
    by (simp add: n_def node_bytes_def HEADER_SIZE_def)
  moreover have "u16_try_from (4 + length (payload ws)) = Ok len" using True by (simp add: u16_try_from_def len_def)
  ultimately have "builds (generated_node node_size ty sub ws) (node_bytes n)"
    using True len assms(1) unfolding builds_def size
    by (simp add: generated_node_def del: write_all.simps) (simp add: len_def)
  moreover have "wf_node n" using len by (simp add: n_def wf_node_def node_length_def HEADER_SIZE_def)
  moreover have "full_type n = (ty, sub)"
    by (simp add: n_def full_type_def device_type_def node_sub_type_def header_new_def)
  ultimately show ?thesis using assms(3) [of len] unfolding typed_image_def n_def by blast
next
  case False
  then show ?thesis using assms(1) by (simp add: typed_image_def generated_node_def u16_try_from_def)
qed

text \<open>The conversions on a node with the right type.\<close>

lemma cast_other_type:
  "full_type n \<noteq> (ty, sub) \<Longrightarrow> cast_sized ty sub s v n = Err DifferentType"
  "full_type n \<noteq> (ty, sub) \<Longrightarrow> cast_unsized ty sub s e w n = Err DifferentType"
  by (auto simp: cast_sized_def cast_unsized_def full_type_def)

lemma cast_own_type:
  "full_type n = (ty, sub) \<Longrightarrow> cast_sized ty sub s v n = (if size_of_val n = s then Ok (v (node_bytes n)) else Err InvalidNodeLength)"
  "full_type n = (ty, sub) \<Longrightarrow> cast_unsized ty sub s e w n =
    (if s \<le> size_of_val n \<and> e dvd size_of_val n - s then Ok (w ((size_of_val n - s) div e) (node_bytes n)) else Err InvalidNodeLength)"
  by (auto simp: cast_sized_def cast_unsized_def full_type_def usub_def dvd_eq_mod_eq_0)

lemma cast_written:
  "cast_sized ty sub s v \<lparr>node_header = header_new ty sub len, node_data = d\<rparr> =
    (if 4 + length d = s then Ok (v (header_to_bytes (header_new ty sub len) @ d)) else Err InvalidNodeLength)"
  "cast_unsized ty sub s e w \<lparr>node_header = header_new ty sub len, node_data = d\<rparr> =
    (if s \<le> 4 + length d \<and> e dvd 4 + length d - s
     then Ok (w ((4 + length d - s) div e) (header_to_bytes (header_new ty sub len) @ d)) else Err InvalidNodeLength)"
  by (simp_all add: cast_own_type full_type_def device_type_def node_sub_type_def size_of_val_def node_bytes_def HEADER_SIZE_def)

text \<open>A type generated from the two templates keeps the contract.\<close>

lemma typed_sized:
  assumes "\<And>x. build_of x = generated_node (node_size x) ty sub (ws x)" "try_from = cast_sized ty sub s v"
    and "\<And>x. ok_value x \<Longrightarrow> node_size x = Some s \<and> 4 + length (payload (ws x)) = s \<and> consecutive 4 (ws x)"
    and "\<And>x h. ok_value x \<Longrightarrow> length h = 4 \<Longrightarrow> v (h @ payload (ws x)) = view x"
  shows "typed_node try_from build_of ok_value view (ty, sub)"
proof unfold_locales
  fix b assume b: "ok_value b"
  show "typed_image (build_of b) try_from (ty, sub) (view b)"
    unfolding assms(1)
    by (rule generated_node_image) (use assms(2,4) assms(3) [OF b] b in \<open>simp_all add: cast_written HEADER_SIZE_def\<close>)
qed (use assms(2) in \<open>simp_all add: cast_other_type cast_own_type\<close>)

lemma typed_unsized:
  assumes "\<And>x. build_of x = generated_node (node_size x) ty sub (ws x)" "try_from = cast_unsized ty sub s e w"
    and "\<And>x. ok_value x \<Longrightarrow> node_size x = Some (s + e * len x) \<and> 4 + length (payload (ws x)) = s + e * len x \<and> consecutive 4 (ws x)"
    and "\<And>x h. ok_value x \<Longrightarrow> length h = 4 \<Longrightarrow> w (len x) (h @ payload (ws x)) = view x" "0 < e"
  shows "typed_node try_from build_of ok_value view (ty, sub)"
proof unfold_locales
  fix b assume b: "ok_value b"
  show "typed_image (build_of b) try_from (ty, sub) (view b)"
    unfolding assms(1)
    by (rule generated_node_image) (use assms(2,4,5) assms(3) [OF b] b in \<open>simp_all add: cast_written HEADER_SIZE_def\<close>)
qed (use assms(2) in \<open>simp_all add: cast_other_type cast_own_type\<close>)

section \<open>The node types of the generated file\<close>

text \<open>The values that can be built: arrays have their length, and the vendor part of a REST service node is
  only given for the vendor service type.\<close>

definition valid_signature :: "partition_signature \<Rightarrow> bool" where
  "valid_signature s \<longleftrightarrow>
    (case s of NoSignature \<Rightarrow> True | Mbr m \<Rightarrow> length m = 4 | Guid g \<Rightarrow> length g = 16 | Unknown _ sig \<Rightarrow> length sig = 16)"

definition vendor_part :: "build_messaging_RestService \<Rightarrow> bytes" where
  "vendor_part x = (case build_RestService_vendor_guid_and_data x of None \<Rightarrow> [] | Some (g, d) \<Rightarrow> g @ d)"

definition valid_vendor_part :: "build_messaging_RestService \<Rightarrow> bool" where
  "valid_vendor_part x \<longleftrightarrow>
    (case build_RestService_vendor_guid_and_data x of
       None \<Rightarrow> True
     | Some (g, d) \<Rightarrow> build_RestService_service_type x = REST_SERVICE_VENDOR \<and> length g = 16 \<and> 22 + length d < usize_limit)"

lemma length_build_partition_signature:
  "valid_signature s \<Longrightarrow> length (build_partition_signature s) = 16"
  by (auto simp: valid_signature_def build_partition_signature_def split: partition_signature.splits)

interpretation end_instance: typed_node end_Instance_try_from "\<lambda>x. end_instance" "\<lambda>x. True" "\<lambda>x. ()" "(DEVICE_TYPE_END, END_INSTANCE)"
  by (rule typed_sized [OF end_instance_def end_Instance_try_from_def]) simp_all

interpretation end_entire: typed_node end_Entire_try_from "\<lambda>x. end_entire" "\<lambda>x. True" "\<lambda>x. ()" "(DEVICE_TYPE_END, END_ENTIRE)"
  by (rule typed_sized [OF end_entire_def end_Entire_try_from_def]) simp_all

interpretation hardware_pci: typed_node hardware_Pci_try_from hardware_Pci_build
  "\<lambda>x. True"
  "\<lambda>x. x" "(DeviceType HARDWARE, DeviceSubType HARDWARE_PCI)"
  by (rule typed_sized [OF hardware_Pci_build_def hardware_Pci_try_from_def])
    (simp_all add: node_reads hardware_Pci.equality)

interpretation hardware_pccard: typed_node hardware_Pccard_try_from hardware_Pccard_build
  "\<lambda>x. True"
  "\<lambda>x. x" "(DeviceType HARDWARE, DeviceSubType HARDWARE_PCCARD)"
  by (rule typed_sized [OF hardware_Pccard_build_def hardware_Pccard_try_from_def])
    (simp_all add: node_reads hardware_Pccard.equality)

interpretation hardware_memorymapped: typed_node hardware_MemoryMapped_try_from hardware_MemoryMapped_build
  "\<lambda>x. True"
  "\<lambda>x. x" "(DeviceType HARDWARE, DeviceSubType HARDWARE_MEMORY_MAPPED)"
  by (rule typed_sized [OF hardware_MemoryMapped_build_def hardware_MemoryMapped_try_from_def])
    (simp_all add: node_reads hardware_MemoryMapped.equality)

interpretation hardware_vendor: typed_node hardware_Vendor_try_from hardware_Vendor_build
  "\<lambda>x. length (hardware_Vendor_vendor_guid x) = 16 \<and> 20 + length (hardware_Vendor_vendor_defined_data x) < usize_limit"
  "\<lambda>x. x" "(DeviceType HARDWARE, DeviceSubType HARDWARE_VENDOR)"
  by (rule typed_unsized [OF hardware_Vendor_build_def hardware_Vendor_try_from_def, where len = "\<lambda>x. length (hardware_Vendor_vendor_defined_data x)"])
    (simp_all add: node_reads uadd_def hardware_Vendor.equality)

interpretation hardware_controller: typed_node hardware_Controller_try_from hardware_Controller_build
  "\<lambda>x. True"
  "\<lambda>x. x" "(DeviceType HARDWARE, DeviceSubType HARDWARE_CONTROLLER)"
  by (rule typed_sized [OF hardware_Controller_build_def hardware_Controller_try_from_def])
    (simp_all add: node_reads hardware_Controller.equality)

interpretation hardware_bmc: typed_node hardware_Bmc_try_from hardware_Bmc_build
  "\<lambda>x. True"
  "\<lambda>x. x" "(DeviceType HARDWARE, DeviceSubType HARDWARE_BMC)"
  by (rule typed_sized [OF hardware_Bmc_build_def hardware_Bmc_try_from_def])
    (simp_all add: node_reads hardware_Bmc.equality)

interpretation acpi_acpi: typed_node acpi_Acpi_try_from acpi_Acpi_build
  "\<lambda>x. True"
  "\<lambda>x. x" "(DeviceType ACPI, DeviceSubType ACPI_ACPI)"
  by (rule typed_sized [OF acpi_Acpi_build_def acpi_Acpi_try_from_def])
    (simp_all add: node_reads acpi_Acpi.equality)

definition acpi_Expanded_view :: "build_acpi_Expanded \<Rightarrow> acpi_Expanded" where
  "acpi_Expanded_view x = \<lparr>Expanded_hid = build_Expanded_hid x, Expanded_uid = build_Expanded_uid x, Expanded_cid = build_Expanded_cid x,
     Expanded_data = build_Expanded_hid_str x @ build_Expanded_uid_str x @ build_Expanded_cid_str x\<rparr>"

interpretation acpi_expanded: typed_node acpi_Expanded_try_from acpi_Expanded_build
  "\<lambda>x. 16 + length (build_Expanded_hid_str x) + length (build_Expanded_uid_str x) + length (build_Expanded_cid_str x) < usize_limit"
  acpi_Expanded_view "(DeviceType ACPI, DeviceSubType ACPI_EXPANDED)"
  by (rule typed_unsized [OF acpi_Expanded_build_def [unfolded Let_def] acpi_Expanded_try_from_def, where len = "\<lambda>x. length (build_Expanded_hid_str x) + length (build_Expanded_uid_str x) + length (build_Expanded_cid_str x)"])
    (simp_all add: node_reads acpi_Expanded_view_def Let_def uadd_def)

interpretation acpi_adr: typed_node acpi_Adr_try_from acpi_Adr_build
  "\<lambda>x. 4 + 4 * length (Adr_adr x) < usize_limit"
  "\<lambda>x. x" "(DeviceType ACPI, DeviceSubType ACPI_ADR)"
  by (rule typed_unsized [OF acpi_Adr_build_def acpi_Adr_try_from_def, where len = "\<lambda>x. length (Adr_adr x)"])
    (simp_all add: node_reads uadd_def acpi_Adr.equality)

interpretation acpi_nvdimm: typed_node acpi_Nvdimm_try_from acpi_Nvdimm_build
  "\<lambda>x. True"
  "\<lambda>x. x" "(DeviceType ACPI, DeviceSubType ACPI_NVDIMM)"
  by (rule typed_sized [OF acpi_Nvdimm_build_def acpi_Nvdimm_try_from_def])
    (simp_all add: node_reads acpi_Nvdimm.equality)

interpretation messaging_atapi: typed_node messaging_Atapi_try_from messaging_Atapi_build
  "\<lambda>x. True"
  "\<lambda>x. x" "(DeviceType MESSAGING, DeviceSubType MESSAGING_ATAPI)"
  by (rule typed_sized [OF messaging_Atapi_build_def messaging_Atapi_try_from_def])
    (simp_all add: node_reads messaging_Atapi.equality)

interpretation messaging_scsi: typed_node messaging_Scsi_try_from messaging_Scsi_build
  "\<lambda>x. True"
  "\<lambda>x. x" "(DeviceType MESSAGING, DeviceSubType MESSAGING_SCSI)"
  by (rule typed_sized [OF messaging_Scsi_build_def messaging_Scsi_try_from_def])
    (simp_all add: node_reads messaging_Scsi.equality)

interpretation messaging_fibrechannel: typed_node messaging_FibreChannel_try_from messaging_FibreChannel_build
  "\<lambda>x. True"
  "\<lambda>x. x" "(DeviceType MESSAGING, DeviceSubType MESSAGING_FIBRE_CHANNEL)"
  by (rule typed_sized [OF messaging_FibreChannel_build_def messaging_FibreChannel_try_from_def])
    (simp_all add: node_reads messaging_FibreChannel.equality)

interpretation messaging_fibrechannelex: typed_node messaging_FibreChannelEx_try_from messaging_FibreChannelEx_build
  "\<lambda>x. length (FibreChannelEx_world_wide_name x) = 8 \<and> length (FibreChannelEx_logical_unit_number x) = 8"
  "\<lambda>x. x" "(DeviceType MESSAGING, DeviceSubType MESSAGING_FIBRE_CHANNEL_EX)"
  by (rule typed_sized [OF messaging_FibreChannelEx_build_def messaging_FibreChannelEx_try_from_def])
    (simp_all add: node_reads messaging_FibreChannelEx.equality)

interpretation messaging_ieee1394: typed_node messaging_Ieee1394_try_from messaging_Ieee1394_build
  "\<lambda>x. length (Ieee1394_guid x) = 8"
  "\<lambda>x. x" "(DeviceType MESSAGING, DeviceSubType MESSAGING_1394)"
  by (rule typed_sized [OF messaging_Ieee1394_build_def messaging_Ieee1394_try_from_def])
    (simp_all add: node_reads messaging_Ieee1394.equality)

interpretation messaging_usb: typed_node messaging_Usb_try_from messaging_Usb_build
  "\<lambda>x. True"
  "\<lambda>x. x" "(DeviceType MESSAGING, DeviceSubType MESSAGING_USB)"
  by (rule typed_sized [OF messaging_Usb_build_def messaging_Usb_try_from_def])
    (simp_all add: node_reads messaging_Usb.equality)

interpretation messaging_sata: typed_node messaging_Sata_try_from messaging_Sata_build
  "\<lambda>x. True"
  "\<lambda>x. x" "(DeviceType MESSAGING, DeviceSubType MESSAGING_SATA)"
  by (rule typed_sized [OF messaging_Sata_build_def messaging_Sata_try_from_def])
    (simp_all add: node_reads messaging_Sata.equality)

interpretation messaging_usbwwid: typed_node messaging_UsbWwid_try_from messaging_UsbWwid_build
  "\<lambda>x. 10 + 2 * length (UsbWwid_serial_number x) < usize_limit"
  "\<lambda>x. x" "(DeviceType MESSAGING, DeviceSubType MESSAGING_USB_WWID)"
  by (rule typed_unsized [OF messaging_UsbWwid_build_def messaging_UsbWwid_try_from_def, where len = "\<lambda>x. length (UsbWwid_serial_number x)"])
    (simp_all add: node_reads uadd_def messaging_UsbWwid.equality)

interpretation messaging_devicelogicalunit: typed_node messaging_DeviceLogicalUnit_try_from messaging_DeviceLogicalUnit_build
  "\<lambda>x. True"
  "\<lambda>x. x" "(DeviceType MESSAGING, DeviceSubType MESSAGING_DEVICE_LOGICAL_UNIT)"
  by (rule typed_sized [OF messaging_DeviceLogicalUnit_build_def messaging_DeviceLogicalUnit_try_from_def])
    (simp_all add: node_reads messaging_DeviceLogicalUnit.equality)

interpretation messaging_usbclass: typed_node messaging_UsbClass_try_from messaging_UsbClass_build
  "\<lambda>x. True"
  "\<lambda>x. x" "(DeviceType MESSAGING, DeviceSubType MESSAGING_USB_CLASS)"
  by (rule typed_sized [OF messaging_UsbClass_build_def messaging_UsbClass_try_from_def])
    (simp_all add: node_reads messaging_UsbClass.equality)

interpretation messaging_i2o: typed_node messaging_I2o_try_from messaging_I2o_build
  "\<lambda>x. True"
  "\<lambda>x. x" "(DeviceType MESSAGING, DeviceSubType MESSAGING_I2O)"
  by (rule typed_sized [OF messaging_I2o_build_def messaging_I2o_try_from_def])
    (simp_all add: node_reads messaging_I2o.equality)

interpretation messaging_macaddress: typed_node messaging_MacAddress_try_from messaging_MacAddress_build
  "\<lambda>x. length (MacAddress_mac_address x) = 32"
  "\<lambda>x. x" "(DeviceType MESSAGING, DeviceSubType MESSAGING_MAC_ADDRESS)"
  by (rule typed_sized [OF messaging_MacAddress_build_def messaging_MacAddress_try_from_def])
    (simp_all add: node_reads messaging_MacAddress.equality)

interpretation messaging_ipv4: typed_node messaging_Ipv4_try_from messaging_Ipv4_build
  "\<lambda>x. length (Ipv4_local_ip_address x) = 4 \<and> length (Ipv4_remote_ip_address x) = 4 \<and> length (Ipv4_gateway_ip_address x) = 4 \<and> length (Ipv4_subnet_mask x) = 4"
  "\<lambda>x. x" "(DeviceType MESSAGING, DeviceSubType MESSAGING_IPV4)"
  by (rule typed_sized [OF messaging_Ipv4_build_def messaging_Ipv4_try_from_def])
    (simp_all add: node_reads messaging_Ipv4.equality)

interpretation messaging_ipv6: typed_node messaging_Ipv6_try_from messaging_Ipv6_build
  "\<lambda>x. length (Ipv6_local_ip_address x) = 16 \<and> length (Ipv6_remote_ip_address x) = 16 \<and> length (Ipv6_gateway_ip_address x) = 16"
  "\<lambda>x. x" "(DeviceType MESSAGING, DeviceSubType MESSAGING_IPV6)"
  by (rule typed_sized [OF messaging_Ipv6_build_def messaging_Ipv6_try_from_def])
    (simp_all add: node_reads messaging_Ipv6.equality)

interpretation messaging_vlan: typed_node messaging_Vlan_try_from messaging_Vlan_build
  "\<lambda>x. True"
  "\<lambda>x. x" "(DeviceType MESSAGING, DeviceSubType MESSAGING_VLAN)"
  by (rule typed_sized [OF messaging_Vlan_build_def messaging_Vlan_try_from_def])
    (simp_all add: node_reads messaging_Vlan.equality)

interpretation messaging_infiniband: typed_node messaging_Infiniband_try_from messaging_Infiniband_build
  "\<lambda>x. length (Infiniband_port_gid x) = 16"
  "\<lambda>x. x" "(DeviceType MESSAGING, DeviceSubType MESSAGING_INFINIBAND)"
  by (rule typed_sized [OF messaging_Infiniband_build_def messaging_Infiniband_try_from_def])
    (simp_all add: node_reads messaging_Infiniband.equality)

interpretation messaging_uart: typed_node messaging_Uart_try_from messaging_Uart_build
  "\<lambda>x. True"
  "\<lambda>x. x" "(DeviceType MESSAGING, DeviceSubType MESSAGING_UART)"
  by (rule typed_sized [OF messaging_Uart_build_def messaging_Uart_try_from_def])
    (simp_all add: node_reads messaging_Uart.equality)

interpretation messaging_vendor: typed_node messaging_Vendor_try_from messaging_Vendor_build
  "\<lambda>x. length (messaging_Vendor_vendor_guid x) = 16 \<and> 20 + length (messaging_Vendor_vendor_defined_data x) < usize_limit"
  "\<lambda>x. x" "(DeviceType MESSAGING, DeviceSubType MESSAGING_VENDOR)"
  by (rule typed_unsized [OF messaging_Vendor_build_def messaging_Vendor_try_from_def, where len = "\<lambda>x. length (messaging_Vendor_vendor_defined_data x)"])
    (simp_all add: node_reads uadd_def messaging_Vendor.equality)

interpretation messaging_sasex: typed_node messaging_SasEx_try_from messaging_SasEx_build
  "\<lambda>x. length (SasEx_sas_address x) = 8 \<and> length (SasEx_logical_unit_number x) = 8"
  "\<lambda>x. x" "(DeviceType MESSAGING, DeviceSubType MESSAGING_SCSI_SAS_EX)"
  by (rule typed_sized [OF messaging_SasEx_build_def messaging_SasEx_try_from_def])
    (simp_all add: node_reads messaging_SasEx.equality)

interpretation messaging_iscsi: typed_node messaging_Iscsi_try_from messaging_Iscsi_build
  "\<lambda>x. length (Iscsi_logical_unit_number x) = 8 \<and> 18 + length (Iscsi_iscsi_target_name x) < usize_limit"
  "\<lambda>x. x" "(DeviceType MESSAGING, DeviceSubType MESSAGING_ISCSI)"
  by (rule typed_unsized [OF messaging_Iscsi_build_def messaging_Iscsi_try_from_def, where len = "\<lambda>x. length (Iscsi_iscsi_target_name x)"])
    (simp_all add: node_reads uadd_def messaging_Iscsi.equality)

interpretation messaging_nvmenamespace: typed_node messaging_NvmeNamespace_try_from messaging_NvmeNamespace_build
  "\<lambda>x. True"
  "\<lambda>x. x" "(DeviceType MESSAGING, DeviceSubType MESSAGING_NVME_NAMESPACE)"
  by (rule typed_sized [OF messaging_NvmeNamespace_build_def messaging_NvmeNamespace_try_from_def])
    (simp_all add: node_reads messaging_NvmeNamespace.equality)

interpretation messaging_uri: typed_node messaging_Uri_try_from messaging_Uri_build
  "\<lambda>x. 4 + length (Uri_value x) < usize_limit"
  "\<lambda>x. x" "(DeviceType MESSAGING, DeviceSubType MESSAGING_URI)"
  by (rule typed_unsized [OF messaging_Uri_build_def messaging_Uri_try_from_def, where len = "\<lambda>x. length (Uri_value x)"])
    (simp_all add: node_reads uadd_def messaging_Uri.equality)

interpretation messaging_ufs: typed_node messaging_Ufs_try_from messaging_Ufs_build
  "\<lambda>x. True"
  "\<lambda>x. x" "(DeviceType MESSAGING, DeviceSubType MESSAGING_UFS)"
  by (rule typed_sized [OF messaging_Ufs_build_def messaging_Ufs_try_from_def])
    (simp_all add: node_reads messaging_Ufs.equality)

interpretation messaging_sd: typed_node messaging_Sd_try_from messaging_Sd_build
  "\<lambda>x. True"
  "\<lambda>x. x" "(DeviceType MESSAGING, DeviceSubType MESSAGING_SD)"
  by (rule typed_sized [OF messaging_Sd_build_def messaging_Sd_try_from_def])
    (simp_all add: node_reads messaging_Sd.equality)

interpretation messaging_bluetooth: typed_node messaging_Bluetooth_try_from messaging_Bluetooth_build
  "\<lambda>x. length (Bluetooth_device_address x) = 6"
  "\<lambda>x. x" "(DeviceType MESSAGING, DeviceSubType MESSAGING_BLUETOOTH)"
  by (rule typed_sized [OF messaging_Bluetooth_build_def messaging_Bluetooth_try_from_def])
    (simp_all add: node_reads messaging_Bluetooth.equality)

interpretation messaging_wifi: typed_node messaging_Wifi_try_from messaging_Wifi_build
  "\<lambda>x. length (Wifi_ssid x) = 32"
  "\<lambda>x. x" "(DeviceType MESSAGING, DeviceSubType MESSAGING_WIFI)"
  by (rule typed_sized [OF messaging_Wifi_build_def messaging_Wifi_try_from_def])
    (simp_all add: node_reads messaging_Wifi.equality)

interpretation messaging_emmc: typed_node messaging_Emmc_try_from messaging_Emmc_build
  "\<lambda>x. True"
  "\<lambda>x. x" "(DeviceType MESSAGING, DeviceSubType MESSAGING_EMMC)"
  by (rule typed_sized [OF messaging_Emmc_build_def messaging_Emmc_try_from_def])
    (simp_all add: node_reads messaging_Emmc.equality)

interpretation messaging_bluetoothle: typed_node messaging_BluetoothLe_try_from messaging_BluetoothLe_build
  "\<lambda>x. length (BluetoothLe_device_address x) = 6"
  "\<lambda>x. x" "(DeviceType MESSAGING, DeviceSubType MESSAGING_BLUETOOTH_LE)"
  by (rule typed_sized [OF messaging_BluetoothLe_build_def messaging_BluetoothLe_try_from_def])
    (simp_all add: node_reads messaging_BluetoothLe.equality)

interpretation messaging_dns: typed_node messaging_Dns_try_from messaging_Dns_build
  "\<lambda>x. (\<forall>a \<in> set (Dns_addresses x). length a = 16) \<and> 5 + 16 * length (Dns_addresses x) < usize_limit"
  "\<lambda>x. x" "(DeviceType MESSAGING, DeviceSubType MESSAGING_DNS)"
  by (rule typed_unsized [OF messaging_Dns_build_def messaging_Dns_try_from_def, where len = "\<lambda>x. length (Dns_addresses x)"])
    (simp_all add: node_reads uadd_def messaging_Dns.equality)

interpretation messaging_nvdimmnamespace: typed_node messaging_NvdimmNamespace_try_from messaging_NvdimmNamespace_build
  "\<lambda>x. length (NvdimmNamespace_uuid x) = 16"
  "\<lambda>x. x" "(DeviceType MESSAGING, DeviceSubType MESSAGING_NVDIMM_NAMESPACE)"
  by (rule typed_sized [OF messaging_NvdimmNamespace_build_def messaging_NvdimmNamespace_try_from_def])
    (simp_all add: node_reads messaging_NvdimmNamespace.equality)

definition messaging_RestService_view :: "build_messaging_RestService \<Rightarrow> messaging_RestService" where
  "messaging_RestService_view x = \<lparr>RestService_service_type = build_RestService_service_type x, RestService_access_mode = build_RestService_access_mode x,
     RestService_vendor_guid_and_data = vendor_part x\<rparr>"

interpretation messaging_restservice: typed_node messaging_RestService_try_from messaging_RestService_build
  "\<lambda>x. valid_vendor_part x"
  messaging_RestService_view "(DeviceType MESSAGING, DeviceSubType MESSAGING_REST_SERVICE)"
  by (rule typed_unsized [OF messaging_RestService_build_def messaging_RestService_try_from_def, where len = "\<lambda>x. length (vendor_part x)"])
    (auto simp: node_reads messaging_RestService_view_def valid_vendor_part_def vendor_part_def build_size_vendor_guid_and_data_def build_vendor_guid_and_data_def uadd_def usize_limit_def split: option.splits prod.splits)

interpretation messaging_nvmeofnamespace: typed_node messaging_NvmeOfNamespace_try_from messaging_NvmeOfNamespace_build
  "\<lambda>x. length (NvmeOfNamespace_nid x) = 16 \<and> 21 + length (NvmeOfNamespace_subsystem_nqn x) < usize_limit"
  "\<lambda>x. x" "(DeviceType MESSAGING, DeviceSubType MESSAGING_NVME_OF_NAMESPACE)"
  by (rule typed_unsized [OF messaging_NvmeOfNamespace_build_def messaging_NvmeOfNamespace_try_from_def, where len = "\<lambda>x. length (NvmeOfNamespace_subsystem_nqn x)"])
    (simp_all add: node_reads uadd_def messaging_NvmeOfNamespace.equality)

definition media_HardDrive_view :: "build_media_HardDrive \<Rightarrow> media_HardDrive" where
  "media_HardDrive_view x = \<lparr>HardDrive_partition_number = build_HardDrive_partition_number x,
     HardDrive_partition_start = build_HardDrive_partition_start x, HardDrive_partition_size = build_HardDrive_partition_size x,
     HardDrive_partition_signature = build_partition_signature (build_HardDrive_partition_signature x),
     HardDrive_partition_format = build_HardDrive_partition_format x,
     HardDrive_signature_type = build_signature_type (build_HardDrive_partition_signature x)\<rparr>"

interpretation media_harddrive: typed_node media_HardDrive_try_from media_HardDrive_build
  "\<lambda>x. valid_signature (build_HardDrive_partition_signature x)"
  media_HardDrive_view "(DeviceType MEDIA, DeviceSubType MEDIA_HARD_DRIVE)"
  by (rule typed_sized [OF media_HardDrive_build_def media_HardDrive_try_from_def])
    (simp_all add: node_reads media_HardDrive_view_def length_build_partition_signature)

interpretation media_cdrom: typed_node media_CdRom_try_from media_CdRom_build
  "\<lambda>x. True"
  "\<lambda>x. x" "(DeviceType MEDIA, DeviceSubType MEDIA_CD_ROM)"
  by (rule typed_sized [OF media_CdRom_build_def media_CdRom_try_from_def])
    (simp_all add: node_reads media_CdRom.equality)

interpretation media_vendor: typed_node media_Vendor_try_from media_Vendor_build
  "\<lambda>x. length (media_Vendor_vendor_guid x) = 16 \<and> 20 + length (media_Vendor_vendor_defined_data x) < usize_limit"
  "\<lambda>x. x" "(DeviceType MEDIA, DeviceSubType MEDIA_VENDOR)"
  by (rule typed_unsized [OF media_Vendor_build_def media_Vendor_try_from_def, where len = "\<lambda>x. length (media_Vendor_vendor_defined_data x)"])
    (simp_all add: node_reads uadd_def media_Vendor.equality)

interpretation media_filepath: typed_node media_FilePath_try_from media_FilePath_build
  "\<lambda>x. 4 + 2 * length (FilePath_path_name x) < usize_limit"
  "\<lambda>x. x" "(DeviceType MEDIA, DeviceSubType MEDIA_FILE_PATH)"
  by (rule typed_unsized [OF media_FilePath_build_def media_FilePath_try_from_def, where len = "\<lambda>x. length (FilePath_path_name x)"])
    (simp_all add: node_reads uadd_def media_FilePath.equality)

interpretation media_protocol: typed_node media_Protocol_try_from media_Protocol_build
  "\<lambda>x. length (Protocol_protocol_guid x) = 16"
  "\<lambda>x. x" "(DeviceType MEDIA, DeviceSubType MEDIA_PROTOCOL)"
  by (rule typed_sized [OF media_Protocol_build_def media_Protocol_try_from_def])
    (simp_all add: node_reads media_Protocol.equality)

interpretation media_piwgfirmwarefile: typed_node media_PiwgFirmwareFile_try_from media_PiwgFirmwareFile_build
  "\<lambda>x. 4 + length (PiwgFirmwareFile_data x) < usize_limit"
  "\<lambda>x. x" "(DeviceType MEDIA, DeviceSubType MEDIA_PIWG_FIRMWARE_FILE)"
  by (rule typed_unsized [OF media_PiwgFirmwareFile_build_def media_PiwgFirmwareFile_try_from_def, where len = "\<lambda>x. length (PiwgFirmwareFile_data x)"])
    (simp_all add: node_reads uadd_def media_PiwgFirmwareFile.equality)

interpretation media_piwgfirmwarevolume: typed_node media_PiwgFirmwareVolume_try_from media_PiwgFirmwareVolume_build
  "\<lambda>x. 4 + length (PiwgFirmwareVolume_data x) < usize_limit"
  "\<lambda>x. x" "(DeviceType MEDIA, DeviceSubType MEDIA_PIWG_FIRMWARE_VOLUME)"
  by (rule typed_unsized [OF media_PiwgFirmwareVolume_build_def media_PiwgFirmwareVolume_try_from_def, where len = "\<lambda>x. length (PiwgFirmwareVolume_data x)"])
    (simp_all add: node_reads uadd_def media_PiwgFirmwareVolume.equality)

interpretation media_relativeoffsetrange: typed_node media_RelativeOffsetRange_try_from media_RelativeOffsetRange_build
  "\<lambda>x. True"
  "\<lambda>x. x" "(DeviceType MEDIA, DeviceSubType MEDIA_RELATIVE_OFFSET_RANGE)"
  by (rule typed_sized [OF media_RelativeOffsetRange_build_def media_RelativeOffsetRange_try_from_def])
    (simp_all add: node_reads media_RelativeOffsetRange.equality)

interpretation media_ramdisk: typed_node media_RamDisk_try_from media_RamDisk_build
  "\<lambda>x. length (RamDisk_disk_type x) = 16"
  "\<lambda>x. x" "(DeviceType MEDIA, DeviceSubType MEDIA_RAM_DISK)"
  by (rule typed_sized [OF media_RamDisk_build_def media_RamDisk_try_from_def])
    (simp_all add: node_reads media_RamDisk.equality)

interpretation bios_boot_spec_bootspecification: typed_node bios_boot_spec_BootSpecification_try_from bios_boot_spec_BootSpecification_build
  "\<lambda>x. 8 + length (BootSpecification_description_string x) < usize_limit"
  "\<lambda>x. x" "(DeviceType BIOS_BOOT_SPEC, DeviceSubType BIOS_BOOT_SPECIFICATION)"
  by (rule typed_unsized [OF bios_boot_spec_BootSpecification_build_def bios_boot_spec_BootSpecification_try_from_def, where len = "\<lambda>x. length (BootSpecification_description_string x)"])
    (simp_all add: node_reads uadd_def bios_boot_spec_BootSpecification.equality)

end
