(* ===== verification/Device_Enum.thy ===== *)
theory Device_Enum
  imports Device_Node_Types
begin

text \<open>
  The enumeration of all node types: every node is classified by its type and sub-type, and every build
  node of the generated file is read back as the variant it was built for.
\<close>

section \<open>The enumeration\<close>

primrec variant_tag :: "device_path_node_enum \<Rightarrow> u8 \<times> u8" where
  "variant_tag EndInstance = (DEVICE_TYPE_END, END_INSTANCE)"
| "variant_tag EndEntire = (DEVICE_TYPE_END, END_ENTIRE)"
| "variant_tag (HardwarePci x) = (DeviceType HARDWARE, DeviceSubType HARDWARE_PCI)"
| "variant_tag (HardwarePccard x) = (DeviceType HARDWARE, DeviceSubType HARDWARE_PCCARD)"
| "variant_tag (HardwareMemoryMapped x) = (DeviceType HARDWARE, DeviceSubType HARDWARE_MEMORY_MAPPED)"
| "variant_tag (HardwareVendor x) = (DeviceType HARDWARE, DeviceSubType HARDWARE_VENDOR)"
| "variant_tag (HardwareController x) = (DeviceType HARDWARE, DeviceSubType HARDWARE_CONTROLLER)"
| "variant_tag (HardwareBmc x) = (DeviceType HARDWARE, DeviceSubType HARDWARE_BMC)"
| "variant_tag (AcpiAcpi x) = (DeviceType ACPI, DeviceSubType ACPI_ACPI)"
| "variant_tag (AcpiExpanded x) = (DeviceType ACPI, DeviceSubType ACPI_EXPANDED)"
| "variant_tag (AcpiAdr x) = (DeviceType ACPI, DeviceSubType ACPI_ADR)"
| "variant_tag (AcpiNvdimm x) = (DeviceType ACPI, DeviceSubType ACPI_NVDIMM)"
| "variant_tag (MessagingAtapi x) = (DeviceType MESSAGING, DeviceSubType MESSAGING_ATAPI)"
| "variant_tag (MessagingScsi x) = (DeviceType MESSAGING, DeviceSubType MESSAGING_SCSI)"
| "variant_tag (MessagingFibreChannel x) = (DeviceType MESSAGING, DeviceSubType MESSAGING_FIBRE_CHANNEL)"
| "variant_tag (MessagingFibreChannelEx x) = (DeviceType MESSAGING, DeviceSubType MESSAGING_FIBRE_CHANNEL_EX)"
| "variant_tag (MessagingIeee1394 x) = (DeviceType MESSAGING, DeviceSubType MESSAGING_1394)"
| "variant_tag (MessagingUsb x) = (DeviceType MESSAGING, DeviceSubType MESSAGING_USB)"
| "variant_tag (MessagingSata x) = (DeviceType MESSAGING, DeviceSubType MESSAGING_SATA)"
| "variant_tag (MessagingUsbWwid x) = (DeviceType MESSAGING, DeviceSubType MESSAGING_USB_WWID)"
| "variant_tag (MessagingDeviceLogicalUnit x) = (DeviceType MESSAGING, DeviceSubType MESSAGING_DEVICE_LOGICAL_UNIT)"
| "variant_tag (MessagingUsbClass x) = (DeviceType MESSAGING, DeviceSubType MESSAGING_USB_CLASS)"
| "variant_tag (MessagingI2o x) = (DeviceType MESSAGING, DeviceSubType MESSAGING_I2O)"
| "variant_tag (MessagingMacAddress x) = (DeviceType MESSAGING, DeviceSubType MESSAGING_MAC_ADDRESS)"
| "variant_tag (MessagingIpv4 x) = (DeviceType MESSAGING, DeviceSubType MESSAGING_IPV4)"
| "variant_tag (MessagingIpv6 x) = (DeviceType MESSAGING, DeviceSubType MESSAGING_IPV6)"
| "variant_tag (MessagingVlan x) = (DeviceType MESSAGING, DeviceSubType MESSAGING_VLAN)"
| "variant_tag (MessagingInfiniband x) = (DeviceType MESSAGING, DeviceSubType MESSAGING_INFINIBAND)"
| "variant_tag (MessagingUart x) = (DeviceType MESSAGING, DeviceSubType MESSAGING_UART)"
| "variant_tag (MessagingVendor x) = (DeviceType MESSAGING, DeviceSubType MESSAGING_VENDOR)"
| "variant_tag (MessagingSasEx x) = (DeviceType MESSAGING, DeviceSubType MESSAGING_SCSI_SAS_EX)"
| "variant_tag (MessagingIscsi x) = (DeviceType MESSAGING, DeviceSubType MESSAGING_ISCSI)"
| "variant_tag (MessagingNvmeNamespace x) = (DeviceType MESSAGING, DeviceSubType MESSAGING_NVME_NAMESPACE)"
| "variant_tag (MessagingUri x) = (DeviceType MESSAGING, DeviceSubType MESSAGING_URI)"
| "variant_tag (MessagingUfs x) = (DeviceType MESSAGING, DeviceSubType MESSAGING_UFS)"
| "variant_tag (MessagingSd x) = (DeviceType MESSAGING, DeviceSubType MESSAGING_SD)"
| "variant_tag (MessagingBluetooth x) = (DeviceType MESSAGING, DeviceSubType MESSAGING_BLUETOOTH)"
| "variant_tag (MessagingWifi x) = (DeviceType MESSAGING, DeviceSubType MESSAGING_WIFI)"
| "variant_tag (MessagingEmmc x) = (DeviceType MESSAGING, DeviceSubType MESSAGING_EMMC)"
| "variant_tag (MessagingBluetoothLe x) = (DeviceType MESSAGING, DeviceSubType MESSAGING_BLUETOOTH_LE)"
| "variant_tag (MessagingDns x) = (DeviceType MESSAGING, DeviceSubType MESSAGING_DNS)"
| "variant_tag (MessagingNvdimmNamespace x) = (DeviceType MESSAGING, DeviceSubType MESSAGING_NVDIMM_NAMESPACE)"
| "variant_tag (MessagingRestService x) = (DeviceType MESSAGING, DeviceSubType MESSAGING_REST_SERVICE)"
| "variant_tag (MessagingNvmeOfNamespace x) = (DeviceType MESSAGING, DeviceSubType MESSAGING_NVME_OF_NAMESPACE)"
| "variant_tag (MediaHardDrive x) = (DeviceType MEDIA, DeviceSubType MEDIA_HARD_DRIVE)"
| "variant_tag (MediaCdRom x) = (DeviceType MEDIA, DeviceSubType MEDIA_CD_ROM)"
| "variant_tag (MediaVendor x) = (DeviceType MEDIA, DeviceSubType MEDIA_VENDOR)"
| "variant_tag (MediaFilePath x) = (DeviceType MEDIA, DeviceSubType MEDIA_FILE_PATH)"
| "variant_tag (MediaProtocol x) = (DeviceType MEDIA, DeviceSubType MEDIA_PROTOCOL)"
| "variant_tag (MediaPiwgFirmwareFile x) = (DeviceType MEDIA, DeviceSubType MEDIA_PIWG_FIRMWARE_FILE)"
| "variant_tag (MediaPiwgFirmwareVolume x) = (DeviceType MEDIA, DeviceSubType MEDIA_PIWG_FIRMWARE_VOLUME)"
| "variant_tag (MediaRelativeOffsetRange x) = (DeviceType MEDIA, DeviceSubType MEDIA_RELATIVE_OFFSET_RANGE)"
| "variant_tag (MediaRamDisk x) = (DeviceType MEDIA, DeviceSubType MEDIA_RAM_DISK)"
| "variant_tag (BiosBootSpecBootSpecification x) = (DeviceType BIOS_BOOT_SPEC, DeviceSubType BIOS_BOOT_SPECIFICATION)"

text \<open>Every node with the type and sub-type of a variant is converted as that variant.\<close>

lemma as_enum_dispatch:
  "full_type n = (DEVICE_TYPE_END, END_INSTANCE) \<Longrightarrow> as_enum n = map_ok (\<lambda>_. EndInstance) (end_Instance_try_from n)"
  "full_type n = (DEVICE_TYPE_END, END_ENTIRE) \<Longrightarrow> as_enum n = map_ok (\<lambda>_. EndEntire) (end_Entire_try_from n)"
  "full_type n = (DeviceType HARDWARE, DeviceSubType HARDWARE_PCI) \<Longrightarrow> as_enum n = map_ok HardwarePci (hardware_Pci_try_from n)"
  "full_type n = (DeviceType HARDWARE, DeviceSubType HARDWARE_PCCARD) \<Longrightarrow> as_enum n = map_ok HardwarePccard (hardware_Pccard_try_from n)"
  "full_type n = (DeviceType HARDWARE, DeviceSubType HARDWARE_MEMORY_MAPPED) \<Longrightarrow> as_enum n = map_ok HardwareMemoryMapped (hardware_MemoryMapped_try_from n)"
  "full_type n = (DeviceType HARDWARE, DeviceSubType HARDWARE_VENDOR) \<Longrightarrow> as_enum n = map_ok HardwareVendor (hardware_Vendor_try_from n)"
  "full_type n = (DeviceType HARDWARE, DeviceSubType HARDWARE_CONTROLLER) \<Longrightarrow> as_enum n = map_ok HardwareController (hardware_Controller_try_from n)"
  "full_type n = (DeviceType HARDWARE, DeviceSubType HARDWARE_BMC) \<Longrightarrow> as_enum n = map_ok HardwareBmc (hardware_Bmc_try_from n)"
  "full_type n = (DeviceType ACPI, DeviceSubType ACPI_ACPI) \<Longrightarrow> as_enum n = map_ok AcpiAcpi (acpi_Acpi_try_from n)"
  "full_type n = (DeviceType ACPI, DeviceSubType ACPI_EXPANDED) \<Longrightarrow> as_enum n = map_ok AcpiExpanded (acpi_Expanded_try_from n)"
  "full_type n = (DeviceType ACPI, DeviceSubType ACPI_ADR) \<Longrightarrow> as_enum n = map_ok AcpiAdr (acpi_Adr_try_from n)"
  "full_type n = (DeviceType ACPI, DeviceSubType ACPI_NVDIMM) \<Longrightarrow> as_enum n = map_ok AcpiNvdimm (acpi_Nvdimm_try_from n)"
  "full_type n = (DeviceType MESSAGING, DeviceSubType MESSAGING_ATAPI) \<Longrightarrow> as_enum n = map_ok MessagingAtapi (messaging_Atapi_try_from n)"
  "full_type n = (DeviceType MESSAGING, DeviceSubType MESSAGING_SCSI) \<Longrightarrow> as_enum n = map_ok MessagingScsi (messaging_Scsi_try_from n)"
  "full_type n = (DeviceType MESSAGING, DeviceSubType MESSAGING_FIBRE_CHANNEL) \<Longrightarrow> as_enum n = map_ok MessagingFibreChannel (messaging_FibreChannel_try_from n)"
  "full_type n = (DeviceType MESSAGING, DeviceSubType MESSAGING_FIBRE_CHANNEL_EX) \<Longrightarrow> as_enum n = map_ok MessagingFibreChannelEx (messaging_FibreChannelEx_try_from n)"
  "full_type n = (DeviceType MESSAGING, DeviceSubType MESSAGING_1394) \<Longrightarrow> as_enum n = map_ok MessagingIeee1394 (messaging_Ieee1394_try_from n)"
  "full_type n = (DeviceType MESSAGING, DeviceSubType MESSAGING_USB) \<Longrightarrow> as_enum n = map_ok MessagingUsb (messaging_Usb_try_from n)"
  "full_type n = (DeviceType MESSAGING, DeviceSubType MESSAGING_SATA) \<Longrightarrow> as_enum n = map_ok MessagingSata (messaging_Sata_try_from n)"
  "full_type n = (DeviceType MESSAGING, DeviceSubType MESSAGING_USB_WWID) \<Longrightarrow> as_enum n = map_ok MessagingUsbWwid (messaging_UsbWwid_try_from n)"
  "full_type n = (DeviceType MESSAGING, DeviceSubType MESSAGING_DEVICE_LOGICAL_UNIT) \<Longrightarrow> as_enum n = map_ok MessagingDeviceLogicalUnit (messaging_DeviceLogicalUnit_try_from n)"
  "full_type n = (DeviceType MESSAGING, DeviceSubType MESSAGING_USB_CLASS) \<Longrightarrow> as_enum n = map_ok MessagingUsbClass (messaging_UsbClass_try_from n)"
  "full_type n = (DeviceType MESSAGING, DeviceSubType MESSAGING_I2O) \<Longrightarrow> as_enum n = map_ok MessagingI2o (messaging_I2o_try_from n)"
  "full_type n = (DeviceType MESSAGING, DeviceSubType MESSAGING_MAC_ADDRESS) \<Longrightarrow> as_enum n = map_ok MessagingMacAddress (messaging_MacAddress_try_from n)"
  "full_type n = (DeviceType MESSAGING, DeviceSubType MESSAGING_IPV4) \<Longrightarrow> as_enum n = map_ok MessagingIpv4 (messaging_Ipv4_try_from n)"
  "full_type n = (DeviceType MESSAGING, DeviceSubType MESSAGING_IPV6) \<Longrightarrow> as_enum n = map_ok MessagingIpv6 (messaging_Ipv6_try_from n)"
  "full_type n = (DeviceType MESSAGING, DeviceSubType MESSAGING_VLAN) \<Longrightarrow> as_enum n = map_ok MessagingVlan (messaging_Vlan_try_from n)"
  "full_type n = (DeviceType MESSAGING, DeviceSubType MESSAGING_INFINIBAND) \<Longrightarrow> as_enum n = map_ok MessagingInfiniband (messaging_Infiniband_try_from n)"
  "full_type n = (DeviceType MESSAGING, DeviceSubType MESSAGING_UART) \<Longrightarrow> as_enum n = map_ok MessagingUart (messaging_Uart_try_from n)"
  "full_type n = (DeviceType MESSAGING, DeviceSubType MESSAGING_VENDOR) \<Longrightarrow> as_enum n = map_ok MessagingVendor (messaging_Vendor_try_from n)"
  "full_type n = (DeviceType MESSAGING, DeviceSubType MESSAGING_SCSI_SAS_EX) \<Longrightarrow> as_enum n = map_ok MessagingSasEx (messaging_SasEx_try_from n)"
  "full_type n = (DeviceType MESSAGING, DeviceSubType MESSAGING_ISCSI) \<Longrightarrow> as_enum n = map_ok MessagingIscsi (messaging_Iscsi_try_from n)"
  "full_type n = (DeviceType MESSAGING, DeviceSubType MESSAGING_NVME_NAMESPACE) \<Longrightarrow> as_enum n = map_ok MessagingNvmeNamespace (messaging_NvmeNamespace_try_from n)"
  "full_type n = (DeviceType MESSAGING, DeviceSubType MESSAGING_URI) \<Longrightarrow> as_enum n = map_ok MessagingUri (messaging_Uri_try_from n)"
  "full_type n = (DeviceType MESSAGING, DeviceSubType MESSAGING_UFS) \<Longrightarrow> as_enum n = map_ok MessagingUfs (messaging_Ufs_try_from n)"
  "full_type n = (DeviceType MESSAGING, DeviceSubType MESSAGING_SD) \<Longrightarrow> as_enum n = map_ok MessagingSd (messaging_Sd_try_from n)"
  "full_type n = (DeviceType MESSAGING, DeviceSubType MESSAGING_BLUETOOTH) \<Longrightarrow> as_enum n = map_ok MessagingBluetooth (messaging_Bluetooth_try_from n)"
  "full_type n = (DeviceType MESSAGING, DeviceSubType MESSAGING_WIFI) \<Longrightarrow> as_enum n = map_ok MessagingWifi (messaging_Wifi_try_from n)"
  "full_type n = (DeviceType MESSAGING, DeviceSubType MESSAGING_EMMC) \<Longrightarrow> as_enum n = map_ok MessagingEmmc (messaging_Emmc_try_from n)"
  "full_type n = (DeviceType MESSAGING, DeviceSubType MESSAGING_BLUETOOTH_LE) \<Longrightarrow> as_enum n = map_ok MessagingBluetoothLe (messaging_BluetoothLe_try_from n)"
  "full_type n = (DeviceType MESSAGING, DeviceSubType MESSAGING_DNS) \<Longrightarrow> as_enum n = map_ok MessagingDns (messaging_Dns_try_from n)"
  "full_type n = (DeviceType MESSAGING, DeviceSubType MESSAGING_NVDIMM_NAMESPACE) \<Longrightarrow> as_enum n = map_ok MessagingNvdimmNamespace (messaging_NvdimmNamespace_try_from n)"
  "full_type n = (DeviceType MESSAGING, DeviceSubType MESSAGING_REST_SERVICE) \<Longrightarrow> as_enum n = map_ok MessagingRestService (messaging_RestService_try_from n)"
  "full_type n = (DeviceType MESSAGING, DeviceSubType MESSAGING_NVME_OF_NAMESPACE) \<Longrightarrow> as_enum n = map_ok MessagingNvmeOfNamespace (messaging_NvmeOfNamespace_try_from n)"
  "full_type n = (DeviceType MEDIA, DeviceSubType MEDIA_HARD_DRIVE) \<Longrightarrow> as_enum n = map_ok MediaHardDrive (media_HardDrive_try_from n)"
  "full_type n = (DeviceType MEDIA, DeviceSubType MEDIA_CD_ROM) \<Longrightarrow> as_enum n = map_ok MediaCdRom (media_CdRom_try_from n)"
  "full_type n = (DeviceType MEDIA, DeviceSubType MEDIA_VENDOR) \<Longrightarrow> as_enum n = map_ok MediaVendor (media_Vendor_try_from n)"
  "full_type n = (DeviceType MEDIA, DeviceSubType MEDIA_FILE_PATH) \<Longrightarrow> as_enum n = map_ok MediaFilePath (media_FilePath_try_from n)"
  "full_type n = (DeviceType MEDIA, DeviceSubType MEDIA_PROTOCOL) \<Longrightarrow> as_enum n = map_ok MediaProtocol (media_Protocol_try_from n)"
  "full_type n = (DeviceType MEDIA, DeviceSubType MEDIA_PIWG_FIRMWARE_FILE) \<Longrightarrow> as_enum n = map_ok MediaPiwgFirmwareFile (media_PiwgFirmwareFile_try_from n)"
  "full_type n = (DeviceType MEDIA, DeviceSubType MEDIA_PIWG_FIRMWARE_VOLUME) \<Longrightarrow> as_enum n = map_ok MediaPiwgFirmwareVolume (media_PiwgFirmwareVolume_try_from n)"
  "full_type n = (DeviceType MEDIA, DeviceSubType MEDIA_RELATIVE_OFFSET_RANGE) \<Longrightarrow> as_enum n = map_ok MediaRelativeOffsetRange (media_RelativeOffsetRange_try_from n)"
  "full_type n = (DeviceType MEDIA, DeviceSubType MEDIA_RAM_DISK) \<Longrightarrow> as_enum n = map_ok MediaRamDisk (media_RamDisk_try_from n)"
  "full_type n = (DeviceType BIOS_BOOT_SPEC, DeviceSubType BIOS_BOOT_SPECIFICATION) \<Longrightarrow> as_enum n = map_ok BiosBootSpecBootSpecification (bios_boot_spec_BootSpecification_try_from n)"
  by (simp_all add: as_enum_def node_enum_try_from_def DEVICE_TYPE_END_def END_INSTANCE_def END_ENTIRE_def)

lemmas node_images =
  end_instance.image_enum [OF _ as_enum_dispatch(1)]
  end_entire.image_enum [OF _ as_enum_dispatch(2)]
  hardware_pci.image_enum [OF _ as_enum_dispatch(3)]
  hardware_pccard.image_enum [OF _ as_enum_dispatch(4)]
  hardware_memorymapped.image_enum [OF _ as_enum_dispatch(5)]
  hardware_vendor.image_enum [OF _ as_enum_dispatch(6)]
  hardware_controller.image_enum [OF _ as_enum_dispatch(7)]
  hardware_bmc.image_enum [OF _ as_enum_dispatch(8)]
  acpi_acpi.image_enum [OF _ as_enum_dispatch(9)]
  acpi_expanded.image_enum [OF _ as_enum_dispatch(10)]
  acpi_adr.image_enum [OF _ as_enum_dispatch(11)]
  acpi_nvdimm.image_enum [OF _ as_enum_dispatch(12)]
  messaging_atapi.image_enum [OF _ as_enum_dispatch(13)]
  messaging_scsi.image_enum [OF _ as_enum_dispatch(14)]
  messaging_fibrechannel.image_enum [OF _ as_enum_dispatch(15)]
  messaging_fibrechannelex.image_enum [OF _ as_enum_dispatch(16)]
  messaging_ieee1394.image_enum [OF _ as_enum_dispatch(17)]
  messaging_usb.image_enum [OF _ as_enum_dispatch(18)]
  messaging_sata.image_enum [OF _ as_enum_dispatch(19)]
  messaging_usbwwid.image_enum [OF _ as_enum_dispatch(20)]
  messaging_devicelogicalunit.image_enum [OF _ as_enum_dispatch(21)]
  messaging_usbclass.image_enum [OF _ as_enum_dispatch(22)]
  messaging_i2o.image_enum [OF _ as_enum_dispatch(23)]
  messaging_macaddress.image_enum [OF _ as_enum_dispatch(24)]
  messaging_ipv4.image_enum [OF _ as_enum_dispatch(25)]
  messaging_ipv6.image_enum [OF _ as_enum_dispatch(26)]
  messaging_vlan.image_enum [OF _ as_enum_dispatch(27)]
  messaging_infiniband.image_enum [OF _ as_enum_dispatch(28)]
  messaging_uart.image_enum [OF _ as_enum_dispatch(29)]
  messaging_vendor.image_enum [OF _ as_enum_dispatch(30)]
  messaging_sasex.image_enum [OF _ as_enum_dispatch(31)]
  messaging_iscsi.image_enum [OF _ as_enum_dispatch(32)]
  messaging_nvmenamespace.image_enum [OF _ as_enum_dispatch(33)]
  messaging_uri.image_enum [OF _ as_enum_dispatch(34)]
  messaging_ufs.image_enum [OF _ as_enum_dispatch(35)]
  messaging_sd.image_enum [OF _ as_enum_dispatch(36)]
  messaging_bluetooth.image_enum [OF _ as_enum_dispatch(37)]
  messaging_wifi.image_enum [OF _ as_enum_dispatch(38)]
  messaging_emmc.image_enum [OF _ as_enum_dispatch(39)]
  messaging_bluetoothle.image_enum [OF _ as_enum_dispatch(40)]
  messaging_dns.image_enum [OF _ as_enum_dispatch(41)]
  messaging_nvdimmnamespace.image_enum [OF _ as_enum_dispatch(42)]
  messaging_restservice.image_enum [OF _ as_enum_dispatch(43)]
  messaging_nvmeofnamespace.image_enum [OF _ as_enum_dispatch(44)]
  media_harddrive.image_enum [OF _ as_enum_dispatch(45)]
  media_cdrom.image_enum [OF _ as_enum_dispatch(46)]
  media_vendor.image_enum [OF _ as_enum_dispatch(47)]
  media_filepath.image_enum [OF _ as_enum_dispatch(48)]
  media_protocol.image_enum [OF _ as_enum_dispatch(49)]
  media_piwgfirmwarefile.image_enum [OF _ as_enum_dispatch(50)]
  media_piwgfirmwarevolume.image_enum [OF _ as_enum_dispatch(51)]
  media_relativeoffsetrange.image_enum [OF _ as_enum_dispatch(52)]
  media_ramdisk.image_enum [OF _ as_enum_dispatch(53)]
  bios_boot_spec_bootspecification.image_enum [OF _ as_enum_dispatch(54)]

text \<open>Which typed value a build node stands for.\<close>

inductive built_as :: "build_node \<Rightarrow> device_path_node_enum \<Rightarrow> bool" where
  EndInstanceI: "built_as end_instance EndInstance"
| EndEntireI: "built_as end_entire EndEntire"
| HardwarePciI: "built_as (hardware_Pci_build x) (HardwarePci x)"
| HardwarePccardI: "built_as (hardware_Pccard_build x) (HardwarePccard x)"
| HardwareMemoryMappedI: "built_as (hardware_MemoryMapped_build x) (HardwareMemoryMapped x)"
| HardwareVendorI: "length (hardware_Vendor_vendor_guid x) = 16 \<and> 20 + length (hardware_Vendor_vendor_defined_data x) < usize_limit \<Longrightarrow> built_as (hardware_Vendor_build x) (HardwareVendor x)"
| HardwareControllerI: "built_as (hardware_Controller_build x) (HardwareController x)"
| HardwareBmcI: "built_as (hardware_Bmc_build x) (HardwareBmc x)"
| AcpiAcpiI: "built_as (acpi_Acpi_build x) (AcpiAcpi x)"
| AcpiExpandedI: "16 + length (build_Expanded_hid_str x) + length (build_Expanded_uid_str x) + length (build_Expanded_cid_str x) < usize_limit \<Longrightarrow> built_as (acpi_Expanded_build x) (AcpiExpanded (acpi_Expanded_view x))"
| AcpiAdrI: "4 + 4 * length (Adr_adr x) < usize_limit \<Longrightarrow> built_as (acpi_Adr_build x) (AcpiAdr x)"
| AcpiNvdimmI: "built_as (acpi_Nvdimm_build x) (AcpiNvdimm x)"
| MessagingAtapiI: "built_as (messaging_Atapi_build x) (MessagingAtapi x)"
| MessagingScsiI: "built_as (messaging_Scsi_build x) (MessagingScsi x)"
| MessagingFibreChannelI: "built_as (messaging_FibreChannel_build x) (MessagingFibreChannel x)"
| MessagingFibreChannelExI: "length (FibreChannelEx_world_wide_name x) = 8 \<and> length (FibreChannelEx_logical_unit_number x) = 8 \<Longrightarrow> built_as (messaging_FibreChannelEx_build x) (MessagingFibreChannelEx x)"
| MessagingIeee1394I: "length (Ieee1394_guid x) = 8 \<Longrightarrow> built_as (messaging_Ieee1394_build x) (MessagingIeee1394 x)"
| MessagingUsbI: "built_as (messaging_Usb_build x) (MessagingUsb x)"
| MessagingSataI: "built_as (messaging_Sata_build x) (MessagingSata x)"
| MessagingUsbWwidI: "10 + 2 * length (UsbWwid_serial_number x) < usize_limit \<Longrightarrow> built_as (messaging_UsbWwid_build x) (MessagingUsbWwid x)"
| MessagingDeviceLogicalUnitI: "built_as (messaging_DeviceLogicalUnit_build x) (MessagingDeviceLogicalUnit x)"
| MessagingUsbClassI: "built_as (messaging_UsbClass_build x) (MessagingUsbClass x)"
| MessagingI2oI: "built_as (messaging_I2o_build x) (MessagingI2o x)"
| MessagingMacAddressI: "length (MacAddress_mac_address x) = 32 \<Longrightarrow> built_as (messaging_MacAddress_build x) (MessagingMacAddress x)"
| MessagingIpv4I: "length (Ipv4_local_ip_address x) = 4 \<and> length (Ipv4_remote_ip_address x) = 4 \<and> length (Ipv4_gateway_ip_address x) = 4 \<and> length (Ipv4_subnet_mask x) = 4 \<Longrightarrow> built_as (messaging_Ipv4_build x) (MessagingIpv4 x)"
| MessagingIpv6I: "length (Ipv6_local_ip_address x) = 16 \<and> length (Ipv6_remote_ip_address x) = 16 \<and> length (Ipv6_gateway_ip_address x) = 16 \<Longrightarrow> built_as (messaging_Ipv6_build x) (MessagingIpv6 x)"
| MessagingVlanI: "built_as (messaging_Vlan_build x) (MessagingVlan x)"
| MessagingInfinibandI: "length (Infiniband_port_gid x) = 16 \<Longrightarrow> built_as (messaging_Infiniband_build x) (MessagingInfiniband x)"
| MessagingUartI: "built_as (messaging_Uart_build x) (MessagingUart x)"
| MessagingVendorI: "length (messaging_Vendor_vendor_guid x) = 16 \<and> 20 + length (messaging_Vendor_vendor_defined_data x) < usize_limit \<Longrightarrow> built_as (messaging_Vendor_build x) (MessagingVendor x)"
| MessagingSasExI: "length (SasEx_sas_address x) = 8 \<and> length (SasEx_logical_unit_number x) = 8 \<Longrightarrow> built_as (messaging_SasEx_build x) (MessagingSasEx x)"
| MessagingIscsiI: "length (Iscsi_logical_unit_number x) = 8 \<and> 18 + length (Iscsi_iscsi_target_name x) < usize_limit \<Longrightarrow> built_as (messaging_Iscsi_build x) (MessagingIscsi x)"
| MessagingNvmeNamespaceI: "built_as (messaging_NvmeNamespace_build x) (MessagingNvmeNamespace x)"
| MessagingUriI: "4 + length (Uri_value x) < usize_limit \<Longrightarrow> built_as (messaging_Uri_build x) (MessagingUri x)"
| MessagingUfsI: "built_as (messaging_Ufs_build x) (MessagingUfs x)"
| MessagingSdI: "built_as (messaging_Sd_build x) (MessagingSd x)"
| MessagingBluetoothI: "length (Bluetooth_device_address x) = 6 \<Longrightarrow> built_as (messaging_Bluetooth_build x) (MessagingBluetooth x)"
| MessagingWifiI: "length (Wifi_ssid x) = 32 \<Longrightarrow> built_as (messaging_Wifi_build x) (MessagingWifi x)"
| MessagingEmmcI: "built_as (messaging_Emmc_build x) (MessagingEmmc x)"
| MessagingBluetoothLeI: "length (BluetoothLe_device_address x) = 6 \<Longrightarrow> built_as (messaging_BluetoothLe_build x) (MessagingBluetoothLe x)"
| MessagingDnsI: "(\<forall>a \<in> set (Dns_addresses x). length a = 16) \<and> 5 + 16 * length (Dns_addresses x) < usize_limit \<Longrightarrow> built_as (messaging_Dns_build x) (MessagingDns x)"
| MessagingNvdimmNamespaceI: "length (NvdimmNamespace_uuid x) = 16 \<Longrightarrow> built_as (messaging_NvdimmNamespace_build x) (MessagingNvdimmNamespace x)"
| MessagingRestServiceI: "valid_vendor_part x \<Longrightarrow> built_as (messaging_RestService_build x) (MessagingRestService (messaging_RestService_view x))"
| MessagingNvmeOfNamespaceI: "length (NvmeOfNamespace_nid x) = 16 \<and> 21 + length (NvmeOfNamespace_subsystem_nqn x) < usize_limit \<Longrightarrow> built_as (messaging_NvmeOfNamespace_build x) (MessagingNvmeOfNamespace x)"
| MediaHardDriveI: "valid_signature (build_HardDrive_partition_signature x) \<Longrightarrow> built_as (media_HardDrive_build x) (MediaHardDrive (media_HardDrive_view x))"
| MediaCdRomI: "built_as (media_CdRom_build x) (MediaCdRom x)"
| MediaVendorI: "length (media_Vendor_vendor_guid x) = 16 \<and> 20 + length (media_Vendor_vendor_defined_data x) < usize_limit \<Longrightarrow> built_as (media_Vendor_build x) (MediaVendor x)"
| MediaFilePathI: "4 + 2 * length (FilePath_path_name x) < usize_limit \<Longrightarrow> built_as (media_FilePath_build x) (MediaFilePath x)"
| MediaProtocolI: "length (Protocol_protocol_guid x) = 16 \<Longrightarrow> built_as (media_Protocol_build x) (MediaProtocol x)"
| MediaPiwgFirmwareFileI: "4 + length (PiwgFirmwareFile_data x) < usize_limit \<Longrightarrow> built_as (media_PiwgFirmwareFile_build x) (MediaPiwgFirmwareFile x)"
| MediaPiwgFirmwareVolumeI: "4 + length (PiwgFirmwareVolume_data x) < usize_limit \<Longrightarrow> built_as (media_PiwgFirmwareVolume_build x) (MediaPiwgFirmwareVolume x)"
| MediaRelativeOffsetRangeI: "built_as (media_RelativeOffsetRange_build x) (MediaRelativeOffsetRange x)"
| MediaRamDiskI: "length (RamDisk_disk_type x) = 16 \<Longrightarrow> built_as (media_RamDisk_build x) (MediaRamDisk x)"
| BiosBootSpecBootSpecificationI: "8 + length (BootSpecification_description_string x) < usize_limit \<Longrightarrow> built_as (bios_boot_spec_BootSpecification_build x) (BiosBootSpecBootSpecification x)"

lemma built_as_image: "built_as bn v \<Longrightarrow> typed_image bn as_enum (variant_tag v) v"
  by (induction rule: built_as.induct) (simp_all add: node_images del: DeviceType.simps DeviceSubType.simps)

text \<open>The conversion as a table.\<close>

definition variant_table :: "((u8 \<times> u8) \<times> (device_path_node \<Rightarrow> (device_path_node_enum, node_conversion_error) result)) list" where
  "variant_table =
    [((DEVICE_TYPE_END, END_INSTANCE), \<lambda>n. map_ok (\<lambda>_. EndInstance) (end_Instance_try_from n)),
     ((DEVICE_TYPE_END, END_ENTIRE), \<lambda>n. map_ok (\<lambda>_. EndEntire) (end_Entire_try_from n)),
     ((DeviceType HARDWARE, DeviceSubType HARDWARE_PCI), \<lambda>n. map_ok HardwarePci (hardware_Pci_try_from n)),
     ((DeviceType HARDWARE, DeviceSubType HARDWARE_PCCARD), \<lambda>n. map_ok HardwarePccard (hardware_Pccard_try_from n)),
     ((DeviceType HARDWARE, DeviceSubType HARDWARE_MEMORY_MAPPED), \<lambda>n. map_ok HardwareMemoryMapped (hardware_MemoryMapped_try_from n)),
     ((DeviceType HARDWARE, DeviceSubType HARDWARE_VENDOR), \<lambda>n. map_ok HardwareVendor (hardware_Vendor_try_from n)),
     ((DeviceType HARDWARE, DeviceSubType HARDWARE_CONTROLLER), \<lambda>n. map_ok HardwareController (hardware_Controller_try_from n)),
     ((DeviceType HARDWARE, DeviceSubType HARDWARE_BMC), \<lambda>n. map_ok HardwareBmc (hardware_Bmc_try_from n)),
     ((DeviceType ACPI, DeviceSubType ACPI_ACPI), \<lambda>n. map_ok AcpiAcpi (acpi_Acpi_try_from n)),
     ((DeviceType ACPI, DeviceSubType ACPI_EXPANDED), \<lambda>n. map_ok AcpiExpanded (acpi_Expanded_try_from n)),
     ((DeviceType ACPI, DeviceSubType ACPI_ADR), \<lambda>n. map_ok AcpiAdr (acpi_Adr_try_from n)),
     ((DeviceType ACPI, DeviceSubType ACPI_NVDIMM), \<lambda>n. map_ok AcpiNvdimm (acpi_Nvdimm_try_from n)),
     ((DeviceType MESSAGING, DeviceSubType MESSAGING_ATAPI), \<lambda>n. map_ok MessagingAtapi (messaging_Atapi_try_from n)),
     ((DeviceType MESSAGING, DeviceSubType MESSAGING_SCSI), \<lambda>n. map_ok MessagingScsi (messaging_Scsi_try_from n)),
     ((DeviceType MESSAGING, DeviceSubType MESSAGING_FIBRE_CHANNEL), \<lambda>n. map_ok MessagingFibreChannel (messaging_FibreChannel_try_from n)),
     ((DeviceType MESSAGING, DeviceSubType MESSAGING_FIBRE_CHANNEL_EX), \<lambda>n. map_ok MessagingFibreChannelEx (messaging_FibreChannelEx_try_from n)),
     ((DeviceType MESSAGING, DeviceSubType MESSAGING_1394), \<lambda>n. map_ok MessagingIeee1394 (messaging_Ieee1394_try_from n)),
     ((DeviceType MESSAGING, DeviceSubType MESSAGING_USB), \<lambda>n. map_ok MessagingUsb (messaging_Usb_try_from n)),
     ((DeviceType MESSAGING, DeviceSubType MESSAGING_SATA), \<lambda>n. map_ok MessagingSata (messaging_Sata_try_from n)),
     ((DeviceType MESSAGING, DeviceSubType MESSAGING_USB_WWID), \<lambda>n. map_ok MessagingUsbWwid (messaging_UsbWwid_try_from n)),
     ((DeviceType MESSAGING, DeviceSubType MESSAGING_DEVICE_LOGICAL_UNIT), \<lambda>n. map_ok MessagingDeviceLogicalUnit (messaging_DeviceLogicalUnit_try_from n)),
     ((DeviceType MESSAGING, DeviceSubType MESSAGING_USB_CLASS), \<lambda>n. map_ok MessagingUsbClass (messaging_UsbClass_try_from n)),
     ((DeviceType MESSAGING, DeviceSubType MESSAGING_I2O), \<lambda>n. map_ok MessagingI2o (messaging_I2o_try_from n)),
     ((DeviceType MESSAGING, DeviceSubType MESSAGING_MAC_ADDRESS), \<lambda>n. map_ok MessagingMacAddress (messaging_MacAddress_try_from n)),
     ((DeviceType MESSAGING, DeviceSubType MESSAGING_IPV4), \<lambda>n. map_ok MessagingIpv4 (messaging_Ipv4_try_from n)),
     ((DeviceType MESSAGING, DeviceSubType MESSAGING_IPV6), \<lambda>n. map_ok MessagingIpv6 (messaging_Ipv6_try_from n)),
     ((DeviceType MESSAGING, DeviceSubType MESSAGING_VLAN), \<lambda>n. map_ok MessagingVlan (messaging_Vlan_try_from n)),
     ((DeviceType MESSAGING, DeviceSubType MESSAGING_INFINIBAND), \<lambda>n. map_ok MessagingInfiniband (messaging_Infiniband_try_from n)),
     ((DeviceType MESSAGING, DeviceSubType MESSAGING_UART), \<lambda>n. map_ok MessagingUart (messaging_Uart_try_from n)),
     ((DeviceType MESSAGING, DeviceSubType MESSAGING_VENDOR), \<lambda>n. map_ok MessagingVendor (messaging_Vendor_try_from n)),
     ((DeviceType MESSAGING, DeviceSubType MESSAGING_SCSI_SAS_EX), \<lambda>n. map_ok MessagingSasEx (messaging_SasEx_try_from n)),
     ((DeviceType MESSAGING, DeviceSubType MESSAGING_ISCSI), \<lambda>n. map_ok MessagingIscsi (messaging_Iscsi_try_from n)),
     ((DeviceType MESSAGING, DeviceSubType MESSAGING_NVME_NAMESPACE), \<lambda>n. map_ok MessagingNvmeNamespace (messaging_NvmeNamespace_try_from n)),
     ((DeviceType MESSAGING, DeviceSubType MESSAGING_URI), \<lambda>n. map_ok MessagingUri (messaging_Uri_try_from n)),
     ((DeviceType MESSAGING, DeviceSubType MESSAGING_UFS), \<lambda>n. map_ok MessagingUfs (messaging_Ufs_try_from n)),
     ((DeviceType MESSAGING, DeviceSubType MESSAGING_SD), \<lambda>n. map_ok MessagingSd (messaging_Sd_try_from n)),
     ((DeviceType MESSAGING, DeviceSubType MESSAGING_BLUETOOTH), \<lambda>n. map_ok MessagingBluetooth (messaging_Bluetooth_try_from n)),
     ((DeviceType MESSAGING, DeviceSubType MESSAGING_WIFI), \<lambda>n. map_ok MessagingWifi (messaging_Wifi_try_from n)),
     ((DeviceType MESSAGING, DeviceSubType MESSAGING_EMMC), \<lambda>n. map_ok MessagingEmmc (messaging_Emmc_try_from n)),
     ((DeviceType MESSAGING, DeviceSubType MESSAGING_BLUETOOTH_LE), \<lambda>n. map_ok MessagingBluetoothLe (messaging_BluetoothLe_try_from n)),
     ((DeviceType MESSAGING, DeviceSubType MESSAGING_DNS), \<lambda>n. map_ok MessagingDns (messaging_Dns_try_from n)),
     ((DeviceType MESSAGING, DeviceSubType MESSAGING_NVDIMM_NAMESPACE), \<lambda>n. map_ok MessagingNvdimmNamespace (messaging_NvdimmNamespace_try_from n)),
     ((DeviceType MESSAGING, DeviceSubType MESSAGING_REST_SERVICE), \<lambda>n. map_ok MessagingRestService (messaging_RestService_try_from n)),
     ((DeviceType MESSAGING, DeviceSubType MESSAGING_NVME_OF_NAMESPACE), \<lambda>n. map_ok MessagingNvmeOfNamespace (messaging_NvmeOfNamespace_try_from n)),
     ((DeviceType MEDIA, DeviceSubType MEDIA_HARD_DRIVE), \<lambda>n. map_ok MediaHardDrive (media_HardDrive_try_from n)),
     ((DeviceType MEDIA, DeviceSubType MEDIA_CD_ROM), \<lambda>n. map_ok MediaCdRom (media_CdRom_try_from n)),
     ((DeviceType MEDIA, DeviceSubType MEDIA_VENDOR), \<lambda>n. map_ok MediaVendor (media_Vendor_try_from n)),
     ((DeviceType MEDIA, DeviceSubType MEDIA_FILE_PATH), \<lambda>n. map_ok MediaFilePath (media_FilePath_try_from n)),
     ((DeviceType MEDIA, DeviceSubType MEDIA_PROTOCOL), \<lambda>n. map_ok MediaProtocol (media_Protocol_try_from n)),
     ((DeviceType MEDIA, DeviceSubType MEDIA_PIWG_FIRMWARE_FILE), \<lambda>n. map_ok MediaPiwgFirmwareFile (media_PiwgFirmwareFile_try_from n)),
     ((DeviceType MEDIA, DeviceSubType MEDIA_PIWG_FIRMWARE_VOLUME), \<lambda>n. map_ok MediaPiwgFirmwareVolume (media_PiwgFirmwareVolume_try_from n)),
     ((DeviceType MEDIA, DeviceSubType MEDIA_RELATIVE_OFFSET_RANGE), \<lambda>n. map_ok MediaRelativeOffsetRange (media_RelativeOffsetRange_try_from n)),
     ((DeviceType MEDIA, DeviceSubType MEDIA_RAM_DISK), \<lambda>n. map_ok MediaRamDisk (media_RamDisk_try_from n)),
     ((DeviceType BIOS_BOOT_SPEC, DeviceSubType BIOS_BOOT_SPECIFICATION), \<lambda>n. map_ok BiosBootSpecBootSpecification (bios_boot_spec_BootSpecification_try_from n))]"

lemma as_enum_table:
  "as_enum n = (case map_of variant_table (full_type n) of None \<Rightarrow> Err UnsupportedType | Some convert \<Rightarrow> convert n)"
  by (simp add: as_enum_def node_enum_try_from_def variant_table_def DEVICE_TYPE_END_def END_INSTANCE_def END_ENTIRE_def)

text \<open>Each entry yields its own variant, or rejects the length.\<close>

definition own_variant :: "u8 \<times> u8 \<Rightarrow> (device_path_node \<Rightarrow> (device_path_node_enum, node_conversion_error) result) \<Rightarrow> bool" where
  "own_variant tag convert \<longleftrightarrow> (\<forall>n. full_type n = tag \<longrightarrow>
    convert n = Err InvalidNodeLength \<or> (\<exists>v. convert n = Ok v \<and> variant_tag v = tag))"

context typed_node
begin

lemma own_variant_entry: "(\<And>v. variant_tag (f v) = tag) \<Longrightarrow> own_variant tag (\<lambda>n. map_ok f (try_from n))"
  using own_type unfolding own_variant_def
  by (metis (full_types) map_ok.simps node_conversion_error.exhaust result.exhaust)

end

lemmas own_variant_entries =
  end_instance.own_variant_entry
  end_entire.own_variant_entry
  hardware_pci.own_variant_entry
  hardware_pccard.own_variant_entry
  hardware_memorymapped.own_variant_entry
  hardware_vendor.own_variant_entry
  hardware_controller.own_variant_entry
  hardware_bmc.own_variant_entry
  acpi_acpi.own_variant_entry
  acpi_expanded.own_variant_entry
  acpi_adr.own_variant_entry
  acpi_nvdimm.own_variant_entry
  messaging_atapi.own_variant_entry
  messaging_scsi.own_variant_entry
  messaging_fibrechannel.own_variant_entry
  messaging_fibrechannelex.own_variant_entry
  messaging_ieee1394.own_variant_entry
  messaging_usb.own_variant_entry
  messaging_sata.own_variant_entry
  messaging_usbwwid.own_variant_entry
  messaging_devicelogicalunit.own_variant_entry
  messaging_usbclass.own_variant_entry
  messaging_i2o.own_variant_entry
  messaging_macaddress.own_variant_entry
  messaging_ipv4.own_variant_entry
  messaging_ipv6.own_variant_entry
  messaging_vlan.own_variant_entry
  messaging_infiniband.own_variant_entry
  messaging_uart.own_variant_entry
  messaging_vendor.own_variant_entry
  messaging_sasex.own_variant_entry
  messaging_iscsi.own_variant_entry
  messaging_nvmenamespace.own_variant_entry
  messaging_uri.own_variant_entry
  messaging_ufs.own_variant_entry
  messaging_sd.own_variant_entry
  messaging_bluetooth.own_variant_entry
  messaging_wifi.own_variant_entry
  messaging_emmc.own_variant_entry
  messaging_bluetoothle.own_variant_entry
  messaging_dns.own_variant_entry
  messaging_nvdimmnamespace.own_variant_entry
  messaging_restservice.own_variant_entry
  messaging_nvmeofnamespace.own_variant_entry
  media_harddrive.own_variant_entry
  media_cdrom.own_variant_entry
  media_vendor.own_variant_entry
  media_filepath.own_variant_entry
  media_protocol.own_variant_entry
  media_piwgfirmwarefile.own_variant_entry
  media_piwgfirmwarevolume.own_variant_entry
  media_relativeoffsetrange.own_variant_entry
  media_ramdisk.own_variant_entry
  bios_boot_spec_bootspecification.own_variant_entry

lemma own_variant_table: "\<forall>(tag, convert) \<in> set variant_table. own_variant tag convert"
  by (simp add: variant_table_def own_variant_entries del: DeviceType.simps DeviceSubType.simps)

lemmas tags_in_range = variant_tag.simps [THEN sym, THEN range_eqI [where f = variant_tag]]

lemma variant_table_tags: "fst ` set variant_table = range variant_tag"
proof (rule equalityI)
  show "fst ` set variant_table \<subseteq> range variant_tag"
    by (simp add: variant_table_def tags_in_range del: DeviceType.simps DeviceSubType.simps)
  have "variant_tag v \<in> fst ` set variant_table" for v
    by (cases v) (simp_all add: variant_table_def del: DeviceType.simps DeviceSubType.simps)
  then show "range variant_tag \<subseteq> fst ` set variant_table" by blast
qed

text \<open>C8: The conversion of an untyped node to the enumeration is determined by its type and sub-type. A
  node whose pair is that of no variant is unsupported, any other node is converted to the variant of its
  pair or rejected because of its length, and the error \<open>DifferentType\<close> never escapes.\<close>

theorem as_enum_classifies:
  "(as_enum n = Err UnsupportedType \<longleftrightarrow> full_type n \<notin> range variant_tag) \<and>
   as_enum n \<noteq> Err DifferentType \<and>
   (case as_enum n of Ok v \<Rightarrow> variant_tag v = full_type n | Err e \<Rightarrow> e = UnsupportedType \<or> e = InvalidNodeLength)"
proof (cases "map_of variant_table (full_type n)")
  case None
  then have "full_type n \<notin> range variant_tag" by (simp add: map_of_eq_None_iff variant_table_tags)
  then show ?thesis using None by (simp add: as_enum_table)
next
  case (Some convert)
  then have "(full_type n, convert) \<in> set variant_table" by (rule map_of_SomeD)
  then have "own_variant (full_type n) convert" "full_type n \<in> range variant_tag"
    using own_variant_table variant_table_tags by force+
  then show ?thesis using Some unfolding own_variant_def by (auto simp: as_enum_table)
qed

end
