(* ===== verification/Device_Nodes_Props.thy ===== *)
theory Device_Nodes_Props
  imports Device_Enum
begin

text \<open>
  Paths of typed nodes: a path built from typed nodes is read back as the same typed nodes, and the
  composite fields of three node types survive building and reading.
\<close>

section \<open>Paths of typed nodes\<close>

text \<open>A sequence of build nodes each of which either writes a node or is too big.\<close>

lemma build_too_big:
  assumes "\<forall>b \<in> set bns. size_in_bytes b = Some (Err NodeTooBig) \<or> (\<exists>img. builds b img)"
    and "\<exists>b \<in> set bns. size_in_bytes b = Some (Err NodeTooBig)" "\<And>k. length (spare k) = k"
  shows "build spare (BuilderVec v) bns = Some (Err NodeTooBig)"
  using assms(1,2)
proof (induction bns arbitrary: v)
  case (Cons b bns)
  show ?case
  proof (cases "size_in_bytes b = Some (Err NodeTooBig)")
    case False
    then obtain img where "builds b img" using Cons.prems(1) by auto
    then have "builder_push spare (BuilderVec v) b = Some (Ok (BuilderVec (v @ img)))"
      using anyi.push_vec [of "(b, img)" spare v] assms(3) by simp
    then show ?thesis using Cons False by (simp del: builder_push.simps)
  qed simp
qed simp

lemma built_or_too_big:
  "list_all2 built_as bns vs \<Longrightarrow> \<forall>b \<in> set bns. size_in_bytes b = Some (Err NodeTooBig) \<or> (\<exists>img. builds b img)"
proof (induction bns vs rule: list_all2_induct)
  case (Cons b bns v vs)
  then show ?case using built_as_image [OF Cons.hyps(1)] by (auto simp: typed_image_def)
qed simp

lemma built_nodes:
  assumes "list_all2 built_as bns vs" "\<forall>b \<in> set bns. size_in_bytes b \<noteq> Some (Err NodeTooBig)"
  shows "\<exists>ns. list_all2 builds bns (map node_bytes ns) \<and> (\<forall>n \<in> set ns. wf_node n) \<and>
    map as_enum ns = map Ok vs \<and> map full_type ns = map variant_tag vs"
  using assms
proof (induction bns vs rule: list_all2_induct)
  case (Cons b bns v vs)
  then obtain n where "wf_node n" "builds b (node_bytes n)" "full_type n = variant_tag v" "as_enum n = Ok v"
    using built_as_image [OF Cons.hyps(1)] Cons.prems by (auto simp: typed_image_def)
  moreover obtain ns where "list_all2 builds bns (map node_bytes ns)" "\<forall>n \<in> set ns. wf_node n"
    "map as_enum ns = map Ok vs" "map full_type ns = map variant_tag vs" using Cons by auto
  ultimately show ?case by (intro exI [of _ "n # ns"]) simp
qed simp

lemma end_entire_tag: "variant_tag v = (DEVICE_TYPE_END, END_ENTIRE) \<longleftrightarrow> v = EndEntire"
  by (cases v) (simp_all add: DEVICE_TYPE_END_def END_ENTIRE_def END_INSTANCE_def)

lemma length_nodes_bytes:
  "\<forall>n \<in> set ns. wf_node n \<Longrightarrow> length (nodes_bytes ns) \<le> 65536 * length ns"
proof (induction ns)
  case (Cons n ns)
  have "unat (node_length n) < 65536" using unsigned_less [of "node_length n"] by simp
  then show ?case using Cons length_node_bytes [of n] by simp
qed simp

text \<open>C2: A path of typed nodes survives building and reading. For build nodes that stand for typed
  values, none of which is the end of the path, the builder either rejects a node that does not fit into
  the 16-bit length field, or returns a valid path; iterating over that path and converting each node
  to the enumeration gives the typed values in order.\<close>

theorem typed_path_roundtrip:
  assumes "list_all2 built_as bns vs" "EndEntire \<notin> set vs" "\<And>k. length (spare k) = k" "length bns < 2 ^ 40"
  shows "if \<exists>b \<in> set bns. size_in_bytes b = Some (Err NodeTooBig)
    then build spare (with_vec v) bns = Some (Err NodeTooBig)
    else \<exists>p ns. build spare (with_vec v) bns = Some (Ok p) \<and> path_try_from p = Some (Ok p) \<and>
      collect_iter node_next (path_node_iter p) = Some ns \<and> map as_enum ns = map Ok vs"
proof (cases "\<exists>b \<in> set bns. size_in_bytes b = Some (Err NodeTooBig)")
  case True
  then show ?thesis using build_too_big [OF built_or_too_big [OF assms(1)] True assms(3)] by (simp add: with_vec_def)
next
  case False
  then obtain ns where ns: "list_all2 builds bns (map node_bytes ns)" "\<forall>n \<in> set ns. wf_node n"
    "map as_enum ns = map Ok vs" "map full_type ns = map variant_tag vs" using built_nodes [OF assms(1)] by blast
  have "full_type n \<noteq> (DEVICE_TYPE_END, END_ENTIRE)" if "n \<in> set ns" for n
  proof -
    have "full_type n \<in> set (map variant_tag vs)" using that unfolding ns(4) [symmetric] by simp
    then obtain u where u: "u \<in> set vs" "full_type n = variant_tag u" by auto
    then have "u \<noteq> EndEntire" using assms(2) by blast
    then show ?thesis unfolding u(2) using end_entire_tag by blast
  qed
  then have inner: "inner_nodes ns" using ns(2) by (simp add: inner_nodes_def is_end_entire_def)
  let ?p = "nodes_bytes ns @ node_bytes (end_node END_ENTIRE)"
  have "length ns < 2 ^ 40" using ns(1) assms(4) by (simp add: list_all2_lengthD)
  then have len: "length ?p < usize_limit"
    using length_nodes_bytes [OF ns(2)] length_node_bytes [OF wf_end_node [of END_ENTIRE]]
    by (simp add: usize_limit_def end_node_def node_length_def)
  have "build spare (with_vec v) bns = Some (Ok ?p)"
    using build_vec [OF ns(1) assms(3)] by (simp add: with_vec_def nodes_bytes_def)
  moreover have "path_try_from ?p = Some (Ok ?p)"
    using path_try_from_end [OF inner, of "end_node END_ENTIRE" "[]"] len by simp
  moreover have "collect_iter node_next (path_node_iter ?p) = Some ns"
    using collect_path_nodes [OF inner, of "end_node END_ENTIRE"] by simp
  ultimately show ?thesis unfolding if_not_P [OF False] using ns(3) by blast
qed

theorem typed_path_roundtrip_witness:
  "\<exists>p ns. build (\<lambda>k. replicate k 0) (with_vec [])
      [acpi_Acpi_build \<lparr>Acpi_hid = 0x0a0341d0, Acpi_uid = 0\<rparr>, hardware_Pci_build \<lparr>Pci_function = 1, Pci_device = 0x1f\<rparr>,
       messaging_Sata_build \<lparr>Sata_hba_port_number = 3, Sata_port_multiplier_port_number = 0xffff, Sata_logical_unit_number = 0\<rparr>,
       media_FilePath_build \<lparr>FilePath_path_name = [0x5c, 0x61, 0]\<rparr>] = Some (Ok p) \<and>
    collect_iter node_next (path_node_iter p) = Some ns \<and>
    map as_enum ns = map Ok
      [AcpiAcpi \<lparr>Acpi_hid = 0x0a0341d0, Acpi_uid = 0\<rparr>, HardwarePci \<lparr>Pci_function = 1, Pci_device = 0x1f\<rparr>,
       MessagingSata \<lparr>Sata_hba_port_number = 3, Sata_port_multiplier_port_number = 0xffff, Sata_logical_unit_number = 0\<rparr>,
       MediaFilePath \<lparr>FilePath_path_name = [0x5c, 0x61, 0]\<rparr>]"
proof -
  let ?bns = "[acpi_Acpi_build \<lparr>Acpi_hid = 0x0a0341d0, Acpi_uid = 0\<rparr>, hardware_Pci_build \<lparr>Pci_function = 1, Pci_device = 0x1f\<rparr>,
       messaging_Sata_build \<lparr>Sata_hba_port_number = 3, Sata_port_multiplier_port_number = 0xffff, Sata_logical_unit_number = 0\<rparr>,
       media_FilePath_build \<lparr>FilePath_path_name = [0x5c, 0x61, 0]\<rparr>]"
  let ?vs = "[AcpiAcpi \<lparr>Acpi_hid = 0x0a0341d0, Acpi_uid = 0\<rparr>, HardwarePci \<lparr>Pci_function = 1, Pci_device = 0x1f\<rparr>,
       MessagingSata \<lparr>Sata_hba_port_number = 3, Sata_port_multiplier_port_number = 0xffff, Sata_logical_unit_number = 0\<rparr>,
       MediaFilePath \<lparr>FilePath_path_name = [0x5c, 0x61, 0]\<rparr>]"
  have "list_all2 built_as ?bns ?vs"
    by (auto simp: usize_limit_def intro: AcpiAcpiI HardwarePciI MessagingSataI MediaFilePathI)
  moreover have "\<forall>b \<in> set ?bns. size_in_bytes b \<noteq> Some (Err NodeTooBig)"
    by (simp add: acpi_Acpi_build_def hardware_Pci_build_def messaging_Sata_build_def media_FilePath_build_def
        generated_node_def u16_try_from_def uadd_def usize_limit_def)
  ultimately show ?thesis
    using typed_path_roundtrip [of ?bns ?vs "\<lambda>k. replicate k 0" "[]"] by auto
qed

section \<open>Composite fields\<close>

text \<open>The strings of an expanded ACPI node, each with its terminating zero.\<close>

definition nul_string :: "bytes \<Rightarrow> bool" where
  "nul_string s \<longleftrightarrow> s \<noteq> [] \<and> last s = 0 \<and> 0 \<notin> set (butlast s)"

definition zero_positions :: "bytes \<Rightarrow> nat list" where
  "zero_positions data = filter (\<lambda>i. data ! i = 0) [0..<length data]"

lemma zero_positions_append:
  "zero_positions (xs @ ys) = zero_positions xs @ map ((+) (length xs)) (zero_positions ys)"
proof -
  have upt: "[0..<length (xs @ ys)] = [0..<length xs] @ map ((+) (length xs)) [0..<length ys]"
    by (rule nth_equalityI) (auto simp: nth_append)
  have "filter (\<lambda>i. (xs @ ys) ! i = 0) [0..<length xs] = zero_positions xs"
    unfolding zero_positions_def by (rule filter_cong) (auto simp: nth_append)
  then show ?thesis unfolding zero_positions_def upt by (simp add: filter_map o_def)
qed

lemma zero_positions_nul_string: "nul_string s \<Longrightarrow> zero_positions s = [length s - 1]"
proof -
  assume s: "nul_string s"
  then have "s = butlast s @ [0]" unfolding nul_string_def by (metis append_butlast_last_id)
  moreover have "zero_positions (butlast s) = []"
    using s by (auto simp: zero_positions_def nul_string_def filter_empty_conv in_set_conv_nth)
  moreover have "zero_positions [0] = [0]" by (simp add: zero_positions_def)
  ultimately show ?thesis using zero_positions_append [of "butlast s" "[0]"] by simp
qed

lemma expanded_null_indices:
  assumes "nul_string a" "nul_string b" "nul_string c"
  shows "acpi_expanded_null_indices (a @ b @ c) =
    (Some (length a - 1), Some (length a + length b - 1), Some (length a + length b + length c - 1))"
proof -
  have pos: "0 < length a" "0 < length b" "0 < length c" using assms by (simp_all add: nul_string_def)
  have "zero_positions (a @ b @ c) = [length a - 1, length a + (length b - 1), length a + (length b + (length c - 1))]"
    using assms by (simp add: zero_positions_append zero_positions_nul_string)
  then have "zero_positions (a @ b @ c) = [length a - 1, length a + length b - 1, length a + length b + length c - 1]"
    using pos by simp
  then show ?thesis unfolding acpi_expanded_null_indices_def zero_positions_def [symmetric] by (simp add: get_at_def)
qed

lemma expanded_substrings:
  assumes "nul_string a" "nul_string b" "nul_string c"
  shows "get_acpi_expanded_substr (a @ b @ c) 0 = Some a" "get_acpi_expanded_substr (a @ b @ c) 1 = Some b"
    "get_acpi_expanded_substr (a @ b @ c) 2 = Some c"
proof -
  have "0 < length a" "0 < length b" "0 < length c" using assms by (simp_all add: nul_string_def)
  then have "length a - 1 + 1 = length a" "length a + length b - 1 + 1 = length a + length b"
    "length a + length b + length c - 1 + 1 = length a + length b + length c" by simp_all
  then show "get_acpi_expanded_substr (a @ b @ c) 0 = Some a" "get_acpi_expanded_substr (a @ b @ c) 1 = Some b"
    "get_acpi_expanded_substr (a @ b @ c) 2 = Some c"
    by (simp_all add: get_acpi_expanded_substr_def expanded_null_indices [OF assms] get_range_def del: One_nat_def)
qed

text \<open>A signature that is not an unknown one with the number of a known one.\<close>

definition canonical_signature :: "partition_signature \<Rightarrow> bool" where
  "canonical_signature s \<longleftrightarrow> (case s of Unknown ty _ \<Rightarrow> ty \<notin> {0, 1, 2} | _ \<Rightarrow> True)"

lemma partition_signature_read:
  assumes "valid_signature s" "canonical_signature s"
    and "HardDrive_partition_signature x = build_partition_signature s" "HardDrive_signature_type x = build_signature_type s"
  shows "hard_drive_partition_signature x = s"
proof (cases s)
  case (Mbr m)
  then have "length m = Suc (Suc (Suc (Suc 0)))" using assms(1) by (simp add: valid_signature_def)
  then obtain a b c d where "m = [a, b, c, d]" by (auto simp: length_Suc_conv)
  then show ?thesis using assms(3,4) Mbr
    by (simp add: hard_drive_partition_signature_def build_partition_signature_def build_signature_type_def overwrite_def)
qed (use assms in \<open>simp_all add: hard_drive_partition_signature_def build_partition_signature_def
    build_signature_type_def canonical_signature_def\<close>)



end
