(* ===== verification/Tcg_Protocol.thy ===== *)
theory Tcg_Protocol
  imports Tcg_Props
begin

text \<open>
  The calls of the TPM protocols (\<open>Tcg\<close> of \<open>uefi/src/proto/tcg/v1.rs\<close> and \<open>v2.rs\<close>). The firmware
  driver is a parameter, a record of its functions over an arbitrary state that includes the memory in
  which it keeps the event log. A slice that is passed by address is passed as its bytes, and memory the
  driver writes through a pointer is part of the result.

  The property at the end composes the calls with the event inputs and the log iterators: what was measured
  through the protocol is what the log shows.
\<close>

section \<open>Version 1\<close>

record tcg_version =
  version_major :: u8
  version_minor :: u8
  version_rev_major :: u8
  version_rev_minor :: u8

record tcg_capability =
  cap_size :: u8
  cap_structure_version :: tcg_version
  cap_protocol_spec_version :: tcg_version
  cap_hash_algorithm_bitmap :: u8
  cap_tpm_present_flag :: u8
  cap_tpm_deactivated_flag :: u8

definition tcg_capability_default :: tcg_capability where
  "tcg_capability_default =
    (let v = \<lparr>version_major = 0, version_minor = 0, version_rev_major = 0, version_rev_minor = 0\<rparr>
     in \<lparr>cap_size = 0, cap_structure_version = v, cap_protocol_spec_version = v, cap_hash_algorithm_bitmap = 0,
         cap_tpm_present_flag = 0, cap_tpm_deactivated_flag = 0\<rparr>)"

definition hash_algorithm :: "tcg_capability \<Rightarrow> u32" where
  "hash_algorithm c = ucast (cap_hash_algorithm_bitmap c)"

definition tpm_present :: "tcg_capability \<Rightarrow> bool" where
  "tpm_present c \<longleftrightarrow> cap_tpm_present_flag c \<noteq> 0"

definition tpm_deactivated :: "tcg_capability \<Rightarrow> bool" where
  "tpm_deactivated c \<longleftrightarrow> cap_tpm_deactivated_flag c \<noteq> 0"

record 's tcg_protocol =
  tp_status_check :: "'s \<Rightarrow> tcg_capability \<Rightarrow> (status \<times> tcg_capability \<times> u32 \<times> nat \<times> nat) \<times> 's"
  tp_log_event :: "'s \<Rightarrow> bytes \<Rightarrow> u32 \<Rightarrow> status \<times> 's"
  tp_pass_through :: "'s \<Rightarrow> u32 \<Rightarrow> bytes \<Rightarrow> u32 \<Rightarrow> bytes \<Rightarrow> (status \<times> bytes) \<times> 's"
  tp_hash_log_extend :: "'s \<Rightarrow> bytes option \<Rightarrow> u64 \<Rightarrow> u32 \<Rightarrow> bytes \<Rightarrow> (status \<times> bytes) \<times> 's"

record status_check_result =
  protocol_capability :: tcg_capability
  feature_flags :: u32
  status_event_log :: event_log

definition status_check :: "'s tcg_protocol \<Rightarrow> 's \<Rightarrow> (status_check_result uefi_result \<times> 's) option" where
  "status_check tp s = do {
     let ((st, capability, flags, event_log_location, event_log_last_entry), s') = tp_status_check tp s tcg_capability_default;
     if is_success st then
       Some (Ok \<lparr>protocol_capability = capability, feature_flags = flags,
         status_event_log = event_log_new event_log_location event_log_last_entry False\<rparr>, s')
     else do { e \<leftarrow> error_from_status st; Some (Err e, s') }
   }"

text \<open>An event is passed to the driver by its address, where its packed bytes are.\<close>

definition pcr_event_to_bytes :: "pcr_event \<Rightarrow> bytes" where
  "pcr_event_to_bytes e = u32_to_le (pcr_index e) @ u32_to_le (event_type e) @ pcr_digest e @
    u32_to_le (event_data_size e) @ event_data e"

definition log_event :: "'s tcg_protocol \<Rightarrow> pcr_event \<Rightarrow> 's \<Rightarrow> (unit uefi_result \<times> 's) option" where
  "log_event tp event s = do {
     let flags = 0x1;
     let (st, s') = tp_log_event tp s (pcr_event_to_bytes event) flags;
     r \<leftarrow> to_result st;
     Some (r, s')
   }"

definition ALGORITHM_SHA1 :: u16 where "ALGORITHM_SHA1 = 0x0004"

text \<open>The driver may overwrite the digest of the event; the event after the call is part of the result.\<close>

definition hash_log_extend_event_v1 ::
  "'s tcg_protocol \<Rightarrow> pcr_event \<Rightarrow> bytes option \<Rightarrow> 's \<Rightarrow> ((unit uefi_result \<times> pcr_event) \<times> 's) option" where
  "hash_log_extend_event_v1 tp event data_to_hash s = do {
     (hash_data, hash_data_len) \<leftarrow>
       (case data_to_hash of
          Some d \<Rightarrow> do { require (length d < 2 ^ 64); Some (Some d, word_of_nat (length d)) }
        | None \<Rightarrow> Some (None, 0));
     let ((st, event_bytes), s') =
       tp_hash_log_extend tp s hash_data hash_data_len (ucast ALGORITHM_SHA1) (pcr_event_to_bytes event);
     r \<leftarrow> to_result st;
     Some ((r, pcr_event_of event_bytes (length (event_data event))), s')
   }"

text \<open>Both parameter blocks must have a 32-bit size.\<close>

definition u32_block_size :: "bytes \<Rightarrow> u32 uefi_result option" where
  "u32_block_size bs =
    (if length bs < 2 ^ 32 then Some (Ok (word_of_nat (length bs)))
     else do { e \<leftarrow> error_from_status BAD_BUFFER_SIZE; Some (Err e) })"

definition pass_through_to_tpm ::
  "'s tcg_protocol \<Rightarrow> bytes \<Rightarrow> bytes \<Rightarrow> 's \<Rightarrow> ((unit uefi_result \<times> bytes) \<times> 's) option" where
  "pass_through_to_tpm tp inp out s = do {
     r1 \<leftarrow> u32_block_size inp;
     case r1 of
       Err e \<Rightarrow> Some ((Err e, out), s)
     | Ok input_len \<Rightarrow> do {
         r2 \<leftarrow> u32_block_size out;
         case r2 of
           Err e \<Rightarrow> Some ((Err e, out), s)
         | Ok output_len \<Rightarrow> do {
             let ((st, out'), s') = tp_pass_through tp s input_len inp output_len out;
             r \<leftarrow> to_result st;
             Some ((r, out'), s')
           }
       }
   }"

section \<open>Version 2\<close>

record boot_service_capability =
  bsc_size :: u8
  bsc_structure_version :: "u8 \<times> u8"
  bsc_protocol_version :: "u8 \<times> u8"
  bsc_hash_algorithm_bitmap :: u32
  bsc_supported_event_logs :: u32
  bsc_present_flag :: u8
  bsc_max_command_size :: u16
  bsc_max_response_size :: u16
  bsc_manufacturer_id :: u32
  bsc_number_of_pcr_banks :: u32
  bsc_active_pcr_banks :: u32

text \<open>The C layout of the structure has 36 bytes.\<close>

definition boot_service_capability_default :: boot_service_capability where
  "boot_service_capability_default =
    \<lparr>bsc_size = 36, bsc_structure_version = (0, 0), bsc_protocol_version = (0, 0), bsc_hash_algorithm_bitmap = 0,
     bsc_supported_event_logs = 0, bsc_present_flag = 0, bsc_max_command_size = 0, bsc_max_response_size = 0,
     bsc_manufacturer_id = 0, bsc_number_of_pcr_banks = 0, bsc_active_pcr_banks = 0\<rparr>"

definition tpm_present_v2 :: "boot_service_capability \<Rightarrow> bool" where
  "tpm_present_v2 c \<longleftrightarrow> bsc_present_flag c \<noteq> 0"

record 's tcg2_protocol =
  tp2_get_capability :: "'s \<Rightarrow> boot_service_capability \<Rightarrow> (status \<times> boot_service_capability) \<times> 's"
  tp2_get_event_log :: "'s \<Rightarrow> u32 \<Rightarrow> (status \<times> nat \<times> nat \<times> u8) \<times> 's"
  tp2_hash_log_extend_event :: "'s \<Rightarrow> u64 \<Rightarrow> bytes \<Rightarrow> u64 \<Rightarrow> bytes \<Rightarrow> status \<times> 's"
  tp2_submit_command :: "'s \<Rightarrow> u32 \<Rightarrow> bytes \<Rightarrow> u32 \<Rightarrow> bytes \<Rightarrow> (status \<times> bytes) \<times> 's"
  tp2_get_active_pcr_banks :: "'s \<Rightarrow> (status \<times> u32) \<times> 's"
  tp2_set_active_pcr_banks :: "'s \<Rightarrow> u32 \<Rightarrow> status \<times> 's"
  tp2_get_result_of_set_active_pcr_banks :: "'s \<Rightarrow> (status \<times> u32 \<times> u32) \<times> 's"
  tp2_memory :: "'s \<Rightarrow> nat \<Rightarrow> u8"

definition get_capability :: "'s tcg2_protocol \<Rightarrow> 's \<Rightarrow> (boot_service_capability uefi_result \<times> 's) option" where
  "get_capability tp s = do {
     let ((st, capability), s') = tp2_get_capability tp s boot_service_capability_default;
     r \<leftarrow> to_result_with_val st (Some capability);
     Some (r, s')
   }"

definition TCG_1_2 :: u32 where "TCG_1_2 = 0x00000001"
definition TCG_2 :: u32 where "TCG_2 = 0x00000002"

definition get_event_log_v1 :: "'s tcg2_protocol \<Rightarrow> 's \<Rightarrow> (event_log uefi_result \<times> 's) option" where
  "get_event_log_v1 tp s = do {
     let ((st, location, entry, truncated), s') = tp2_get_event_log tp s TCG_1_2;
     if is_success st then Some (Ok (event_log_new location entry (truncated \<noteq> 0)), s')
     else do { e \<leftarrow> error_from_status st; Some (Err e, s') }
   }"

definition get_event_log_v2 :: "'s tcg2_protocol \<Rightarrow> 's \<Rightarrow> (event_log uefi_result \<times> 's) option" where
  "get_event_log_v2 tp s = do {
     let ((st, location, entry, truncated), s') = tp2_get_event_log tp s TCG_2;
     if is_success st
     then Some (Ok \<lparr>log_location = location, last_entry = entry, is_truncated = (truncated \<noteq> 0)\<rparr>, s')
     else do { e \<leftarrow> error_from_status st; Some (Err e, s') }
   }"

definition pcr_event_inputs_fetch ::
  "u32 \<Rightarrow> u32 \<Rightarrow> bytes \<Rightarrow> (pcr_event_inputs, 'h \<times> (nat \<Rightarrow> u8)) fetch" where
  "pcr_event_inputs_fetch idx ty dat b s = do {
     (r, buf) \<leftarrow> pcr_event_inputs_new_in_buffer (mem_read (snd s) (fst b) (snd b)) idx ty dat;
     Some (r, (fst s, mem_write (snd s) (fst b) buf))
   }"

definition pcr_event_inputs_alignment :: usize where
  "pcr_event_inputs_alignment = 1"

definition pcr_event_inputs_new_in_box ::
  "('h \<times> (nat \<Rightarrow> u8)) heap \<Rightarrow> u32 \<Rightarrow> u32 \<Rightarrow> bytes \<Rightarrow> 'h \<times> (nat \<Rightarrow> u8) \<Rightarrow>
    (pcr_event_inputs uefi_result \<times> ('h \<times> (nat \<Rightarrow> u8))) option" where
  "pcr_event_inputs_new_in_box heap idx ty dat s =
    make_boxed heap pcr_event_inputs_alignment (pcr_event_inputs_fetch idx ty dat) s"

definition pcr_event_inputs_eq :: "pcr_event_inputs \<Rightarrow> pcr_event_inputs \<Rightarrow> bool" where
  "pcr_event_inputs_eq a b \<longleftrightarrow> inputs_size a = inputs_size b \<and> inputs_header a = inputs_header b \<and>
    inputs_event a = inputs_event b"

definition pcr_event_inputs_to_bytes :: "pcr_event_inputs \<Rightarrow> bytes" where
  "pcr_event_inputs_to_bytes e = u32_to_le (inputs_size e) @ event_header_bytes (inputs_header e) @ inputs_event e"

definition hash_log_extend_event ::
  "'s tcg2_protocol \<Rightarrow> u64 \<Rightarrow> bytes \<Rightarrow> pcr_event_inputs \<Rightarrow> 's \<Rightarrow> (unit uefi_result \<times> 's) option" where
  "hash_log_extend_event tp flags data_to_hash event s = do {
     require (length data_to_hash < 2 ^ 64);
     let (st, s') = tp2_hash_log_extend_event tp s flags data_to_hash (word_of_nat (length data_to_hash))
       (pcr_event_inputs_to_bytes event);
     r \<leftarrow> to_result st;
     Some (r, s')
   }"

definition submit_command ::
  "'s tcg2_protocol \<Rightarrow> bytes \<Rightarrow> bytes \<Rightarrow> 's \<Rightarrow> ((unit uefi_result \<times> bytes) \<times> 's) option" where
  "submit_command tp inp out s = do {
     r1 \<leftarrow> u32_block_size inp;
     case r1 of
       Err e \<Rightarrow> Some ((Err e, out), s)
     | Ok input_len \<Rightarrow> do {
         r2 \<leftarrow> u32_block_size out;
         case r2 of
           Err e \<Rightarrow> Some ((Err e, out), s)
         | Ok output_len \<Rightarrow> do {
             let ((st, out'), s') = tp2_submit_command tp s input_len inp output_len out;
             r \<leftarrow> to_result st;
             Some ((r, out'), s')
           }
       }
   }"

definition get_active_pcr_banks :: "'s tcg2_protocol \<Rightarrow> 's \<Rightarrow> (u32 uefi_result \<times> 's) option" where
  "get_active_pcr_banks tp s = do {
     let ((st, banks), s') = tp2_get_active_pcr_banks tp s;
     r \<leftarrow> to_result_with_val st (Some banks);
     Some (r, s')
   }"

definition set_active_pcr_banks :: "'s tcg2_protocol \<Rightarrow> u32 \<Rightarrow> 's \<Rightarrow> (unit uefi_result \<times> 's) option" where
  "set_active_pcr_banks tp banks s = do {
     let (st, s') = tp2_set_active_pcr_banks tp s banks;
     r \<leftarrow> to_result st;
     Some (r, s')
   }"

definition get_result_of_set_active_pcr_banks :: "'s tcg2_protocol \<Rightarrow> 's \<Rightarrow> (u32 option uefi_result \<times> 's) option" where
  "get_result_of_set_active_pcr_banks tp s = do {
     let ((st, operation_present, response), s') = tp2_get_result_of_set_active_pcr_banks tp s;
     r \<leftarrow> to_result_with_val st (Some (if operation_present = 0 then None else Some response));
     Some (r, s')
   }"

section \<open>Measurements and the log\<close>

text \<open>What the source relies on from the driver: the log lies in memory behind its header event, a query for
  it succeeds and reports the start of the last event, and a measurement that succeeds and is not restricted
  to extending a register is appended to the log. \<open>evs\<close> are the logged events.\<close>

definition EXTEND_ONLY :: u64 where "EXTEND_ONLY = 0x0000000000000001"

definition log_query_contract :: "'s tcg2_protocol \<Rightarrow> ('s \<Rightarrow> bool) \<Rightarrow> ('s \<Rightarrow> event_spec list) \<Rightarrow> pcr_event \<Rightarrow> algorithm_digest_sizes \<Rightarrow> bool" where
  "log_query_contract tp good evs hdr sizes \<longleftrightarrow>
    (\<forall>s. good s \<and> evs s \<noteq> [] \<longrightarrow> (\<forall>e \<in> set (evs s). wf_spec sizes e) \<and>
      (\<exists>loc truncated s'. tp2_get_event_log tp s TCG_2 =
          ((SUCCESS, loc, loc + length (pcr_event_bytes hdr @ spec_log_bytes (butlast (evs s))), truncated), s') \<and>
        loc \<noteq> 0 \<and> holds (tp2_memory tp s') loc (pcr_event_bytes hdr @ spec_log_bytes (evs s))))"

definition measure_contract :: "'s tcg2_protocol \<Rightarrow> ('s \<Rightarrow> bool) \<Rightarrow> ('s \<Rightarrow> event_spec list) \<Rightarrow> bool" where
  "measure_contract tp good evs \<longleftrightarrow>
    (\<forall>s flags d idx ty ev. good s \<and> 18 + length ev < 2 ^ 32 \<longrightarrow>
      (case tp2_hash_log_extend_event tp s flags d (word_of_nat (length d)) (pcr_event_inputs_to_bytes (inputs_of idx ty ev)) of
         (st, s') \<Rightarrow> good s' \<and>
           (if st = SUCCESS \<and> flags AND EXTEND_ONLY = 0
            then \<exists>ds. evs s' = evs s @ [\<lparr>es_index = idx, es_type = ty, es_digests = ds, es_data = ev\<rparr>]
            else evs s' = evs s)))"

text \<open>A client that measures: the event is built in a buffer and handed to the protocol.\<close>

record measurement =
  me_buffer :: bytes
  me_flags :: u64
  me_data :: bytes
  me_index :: u32
  me_type :: u32
  me_event :: bytes

definition measure_event :: "'s tcg2_protocol \<Rightarrow> measurement \<Rightarrow> 's \<Rightarrow> (unit uefi_result \<times> 's) option" where
  "measure_event tp me s = do {
     (r, buf) \<leftarrow> pcr_event_inputs_new_in_buffer (me_buffer me) (me_index me) (me_type me) (me_event me);
     case r of
       Err e \<Rightarrow> Some (Err (to_err_without_payload e), s)
     | Ok event \<Rightarrow> hash_log_extend_event tp (me_flags me) (me_data me) event s
   }"

fun measure_all :: "'s tcg2_protocol \<Rightarrow> measurement list \<Rightarrow> 's \<Rightarrow> (unit uefi_result list \<times> 's) option" where
  "measure_all tp [] s = Some ([], s)"
| "measure_all tp (me # mes) s = do {
     (r, s1) \<leftarrow> measure_event tp me s;
     (rs, s2) \<leftarrow> measure_all tp mes s1;
     Some (r # rs, s2)
   }"

text \<open>The event a measurement leaves in the log.\<close>

definition logged :: "measurement \<Rightarrow> unit uefi_result \<Rightarrow> (u32 \<times> u32 \<times> bytes) list" where
  "logged me r = (if r = Ok () \<and> me_flags me AND EXTEND_ONLY = 0 then [(me_index me, me_type me, me_event me)] else [])"

abbreviation spec_view :: "event_spec \<Rightarrow> u32 \<times> u32 \<times> bytes" where
  "spec_view e \<equiv> (es_index e, es_type e, es_data e)"

definition passable :: "measurement \<Rightarrow> bool" where
  "passable me \<longleftrightarrow> length (me_data me) < 2 ^ 64 \<and> length (me_event me) < usize_limit - 18"

lemma measure_event_logs:
  assumes "measure_contract tp good evs" "good s" "passable me"
  shows "\<exists>r s'. measure_event tp me s = Some (r, s') \<and> good s' \<and>
    map spec_view (evs s') = map spec_view (evs s) @ logged me r \<and> (evs s \<noteq> [] \<longrightarrow> evs s' \<noteq> [])"
proof (cases "18 + length (me_event me) \<le> length (me_buffer me) \<and> 18 + length (me_event me) < 2 ^ 32")
  case True
  let ?ev = "inputs_of (me_index me) (me_type me) (me_event me)"
  obtain st s' where c: "tp2_hash_log_extend_event tp s (me_flags me) (me_data me) (word_of_nat (length (me_data me)))
      (pcr_event_inputs_to_bytes ?ev) = (st, s')" by fastforce
  have "measure_event tp me s = do { r \<leftarrow> to_result st; Some (r, s') }"
    using True assms(3) inputs_new_in_buffer [of "me_event me" "me_buffer me" "me_index me" "me_type me"]
    by (simp add: measure_event_def passable_def hash_log_extend_event_def c)
  moreover have "good s' \<and> (if st = SUCCESS \<and> me_flags me AND EXTEND_ONLY = 0
      then \<exists>ds. evs s' = evs s @ [\<lparr>es_index = me_index me, es_type = me_type me, es_digests = ds, es_data = me_event me\<rparr>]
      else evs s' = evs s)"
    using assms(1) [unfolded measure_contract_def, THEN spec, of s, THEN spec, of "me_flags me", THEN spec, of "me_data me",
        THEN spec, of "me_index me", THEN spec, of "me_type me", THEN spec, of "me_event me"] assms(2) True by (simp add: c)
  ultimately show ?thesis by (auto simp: logged_def split: if_splits)
next
  case False
  then show ?thesis using assms(2,3) inputs_new_in_buffer [of "me_event me" "me_buffer me" "me_index me" "me_type me"]
    by (auto simp: measure_event_def passable_def logged_def)
qed

lemma measure_all_logs:
  assumes "measure_contract tp good evs" "good s" "\<forall>me \<in> set mes. passable me"
  shows "\<exists>rs s'. measure_all tp mes s = Some (rs, s') \<and> good s' \<and> length rs = length mes \<and>
    map spec_view (evs s') = map spec_view (evs s) @ concat (map2 logged mes rs) \<and> (evs s \<noteq> [] \<longrightarrow> evs s' \<noteq> [])"
  using assms(2,3)
proof (induction mes arbitrary: s)
  case (Cons me mes)
  obtain r s1 where 1: "measure_event tp me s = Some (r, s1)" "good s1"
    "map spec_view (evs s1) = map spec_view (evs s) @ logged me r" "evs s \<noteq> [] \<longrightarrow> evs s1 \<noteq> []"
    using measure_event_logs [OF assms(1) Cons.prems(1), of me] Cons.prems(2) by auto
  obtain rs s2 where 2: "measure_all tp mes s1 = Some (rs, s2)" "good s2" "length rs = length mes"
    "map spec_view (evs s2) = map spec_view (evs s1) @ concat (map2 logged mes rs)" "evs s1 \<noteq> [] \<longrightarrow> evs s2 \<noteq> []"
    using Cons.IH [OF 1(2)] Cons.prems(2) by fastforce
  then show ?case using 1 by (intro exI [of _ "r # rs"] exI [of _ s2]) simp
qed simp

text \<open>C9: What was measured is what the log shows. Against a driver that keeps its log as documented,
  a sequence of measurements returns one result each, and a log fetched afterwards is iterated to
  its end and shows the events that were there before, followed in order by exactly those that were
  measured successfully and not restricted to extending a register, with the register, type and data
  they were given.\<close>

theorem measured_events_logged:
  assumes "measure_contract tp good evs" "log_query_contract tp good evs hdr sizes"
    and "hdr = event_of 0 NO_ACTION (replicate 20 0) (header_data class ver uintn sizes vendor)"
    and "length sizes < 2 ^ 32" "length vendor < 256" "length (header_data class ver uintn sizes vendor) < 2 ^ 32"
    and "good s" "evs s \<noteq> []" "\<forall>me \<in> set mes. passable me"
  shows "\<exists>rs s' l s'' it out. measure_all tp mes s = Some (rs, s') \<and> length rs = length mes \<and>
    get_event_log_v2 tp s' = Some (Ok l, s'') \<and> event_log_v2_iter (tp2_memory tp s'') l = Some it \<and>
    collect_iter (event_log_v2_next (tp2_memory tp s'')) it = Some out \<and>
    map (\<lambda>e. (pcr_index_v2 e, event_type_v2 e, event_data_v2 e)) out =
      map spec_view (evs s) @ concat (map2 logged mes rs)"
proof -
  obtain rs s' where m: "measure_all tp mes s = Some (rs, s')" "good s'" "length rs = length mes"
    "map spec_view (evs s') = map spec_view (evs s) @ concat (map2 logged mes rs)" "evs s' \<noteq> []"
    using measure_all_logs [OF assms(1,7,9)] assms(8) by blast
  obtain loc truncated s'' where q: "\<forall>e \<in> set (evs s'). wf_spec sizes e" "tp2_get_event_log tp s' TCG_2 =
      ((SUCCESS, loc, loc + length (pcr_event_bytes hdr @ spec_log_bytes (butlast (evs s'))), truncated), s'')"
    "loc \<noteq> 0" "holds (tp2_memory tp s'') loc (pcr_event_bytes hdr @ spec_log_bytes (evs s'))"
    using assms(2) m(2,5) unfolding log_query_contract_def by blast
  let ?l = "\<lparr>log_location = loc, last_entry = loc + length (pcr_event_bytes hdr @ spec_log_bytes (butlast (evs s'))), is_truncated = (truncated \<noteq> 0)\<rparr>"
  have l: "get_event_log_v2 tp s' = Some (Ok ?l, s'')" by (simp add: get_event_log_v2_def q(2) is_success_def)
  obtain it out where it: "event_log_v2_iter (tp2_memory tp s'') ?l = Some it"
    "collect_iter (event_log_v2_next (tp2_memory tp s'')) it = Some out"
    "map (\<lambda>e. (pcr_index_v2 e, event_type_v2 e, event_data_v2 e, collect_iter digest_next (pcr_event_digests e))) out =
      map (\<lambda>s. (es_index s, es_type s, es_data s, Some (es_digests s))) (evs s')"
    using collected_events [OF assms(4-6) q(1), of ?l hdr "tp2_memory tp s''"] assms(3) q(3,4) m(5) by auto
  have "map (\<lambda>e. (pcr_index_v2 e, event_type_v2 e, event_data_v2 e)) out = map spec_view (evs s')"
    using arg_cong [OF it(3), of "map (\<lambda>(a, b, c, d). (a, b, c))"] by (simp add: comp_def)
  then have "map (\<lambda>e. (pcr_index_v2 e, event_type_v2 e, event_data_v2 e)) out = map spec_view (evs s) @ concat (map2 logged mes rs)"
    unfolding m(4) .
  then show ?thesis using m(1,3) l it(1,2) by (intro exI conjI)
qed

text \<open>A driver that keeps the documented behaviour: its state is the list of events, and it logs each of
  them with one SHA-1 digest.\<close>

definition list_sizes :: algorithm_digest_sizes where "list_sizes = [(4, 20)]"

definition list_header :: pcr_event where
  "list_header = event_of 0 NO_ACTION (replicate 20 0) (header_data 0 (2, 0, 2) 2 list_sizes [])"

definition list_good :: "event_spec list \<Rightarrow> bool" where
  "list_good es \<longleftrightarrow> (\<forall>e \<in> set es. wf_spec list_sizes e)"

definition list_tpm :: "event_spec list tcg2_protocol" where
  "list_tpm = \<lparr>
    tp2_get_capability = (\<lambda>s c. ((SUCCESS, c), s)),
    tp2_get_event_log = (\<lambda>s fmt. ((SUCCESS, 100, 100 + length (pcr_event_bytes list_header @ spec_log_bytes (butlast s)), 0), s)),
    tp2_hash_log_extend_event = (\<lambda>s flags d n bs. (SUCCESS,
      if flags AND EXTEND_ONLY = 0
      then (let ev = pcr_event_inputs_of bs (length bs - 18) in
        s @ [\<lparr>es_index = header_pcr_index (inputs_header ev), es_type = header_event_type (inputs_header ev),
              es_digests = [(4, replicate 20 1)], es_data = inputs_event ev\<rparr>])
      else s)),
    tp2_submit_command = (\<lambda>s n inp m out. ((SUCCESS, out), s)),
    tp2_get_active_pcr_banks = (\<lambda>s. ((SUCCESS, 1), s)),
    tp2_set_active_pcr_banks = (\<lambda>s banks. (SUCCESS, s)),
    tp2_get_result_of_set_active_pcr_banks = (\<lambda>s. ((SUCCESS, 0, 0), s)),
    tp2_memory = (\<lambda>s. mem_write (\<lambda>_. 0) 100 (pcr_event_bytes list_header @ spec_log_bytes s))\<rparr>"

lemma list_tpm_query: "log_query_contract list_tpm list_good (\<lambda>s. s) list_header list_sizes"
proof -
  have "holds (mem_write (\<lambda>_. 0) 100 bs) 100 bs" for bs by (rule holds_write)
  then show ?thesis unfolding log_query_contract_def list_good_def
    by (simp add: list_tpm_def del: holds_append)
qed

lemma inputs_of_to_bytes:
  "pcr_event_inputs_of (pcr_event_inputs_to_bytes (inputs_of idx ty ev)) (length ev) = inputs_of idx ty ev"
  "length (pcr_event_inputs_to_bytes (inputs_of idx ty ev)) = 18 + length ev"
  by (simp_all add: pcr_event_inputs_of_def pcr_event_inputs_to_bytes_def inputs_of_def event_header_bytes_def read_field_def)

lemma list_tpm_measure: "measure_contract list_tpm list_good (\<lambda>s. s)"
proof -
  have "wf_spec list_sizes \<lparr>es_index = idx, es_type = ty, es_digests = [(4, replicate 20 1)], es_data = ev\<rparr>"
    if "18 + length ev < 2 ^ 32" for idx ty ev
    using that by (simp add: wf_spec_def wf_digest_def list_sizes_def usize_limit_def)
  then show ?thesis unfolding measure_contract_def list_good_def
    by (simp add: list_tpm_def inputs_of_to_bytes) (simp add: inputs_of_def)
qed

theorem measured_events_logged_witness:
  "\<exists>rs s' l s'' it out.
    measure_all list_tpm
      [\<lparr>me_buffer = replicate 32 0, me_flags = 0, me_data = [1, 2, 3], me_index = 8, me_type = 13, me_event = [7, 7]\<rparr>,
       \<lparr>me_buffer = replicate 4 0, me_flags = 0, me_data = [], me_index = 9, me_type = 13, me_event = []\<rparr>]
      [\<lparr>es_index = 0, es_type = 8, es_digests = [], es_data = [5]\<rparr>] = Some (rs, s') \<and> length rs = 2 \<and>
    get_event_log_v2 list_tpm s' = Some (Ok l, s'') \<and> event_log_v2_iter (tp2_memory list_tpm s'') l = Some it \<and>
    collect_iter (event_log_v2_next (tp2_memory list_tpm s'')) it = Some out \<and>
    hd (map (\<lambda>e. (pcr_index_v2 e, event_type_v2 e, event_data_v2 e)) out) = (0, 8, [5])"
proof -
  let ?mes = "[\<lparr>me_buffer = replicate 32 0, me_flags = 0, me_data = [1, 2, 3], me_index = 8, me_type = 13, me_event = [7, 7]\<rparr>,
       \<lparr>me_buffer = replicate 4 0, me_flags = 0, me_data = [], me_index = 9, me_type = 13, me_event = []\<rparr>]"
  let ?s = "[\<lparr>es_index = 0, es_type = 8, es_digests = [], es_data = [5]\<rparr>]"
  have good: "list_good ?s" by (simp add: list_good_def wf_spec_def usize_limit_def)
  have sizes: "length list_sizes < 2 ^ 32" "length (header_data 0 (2, 0, 2) 2 list_sizes []) < 2 ^ 32"
    by (simp_all add: list_sizes_def header_data_def)
  have pass: "\<forall>me \<in> set ?mes. passable me" by (simp add: passable_def usize_limit_def)
  from measured_events_logged [OF list_tpm_measure list_tpm_query list_header_def sizes(1) _ sizes(2) good _ pass]
  obtain rs s' l s'' it out where "measure_all list_tpm ?mes ?s = Some (rs, s')" "length rs = length ?mes"
    "get_event_log_v2 list_tpm s' = Some (Ok l, s'')" "event_log_v2_iter (tp2_memory list_tpm s'') l = Some it"
    "collect_iter (event_log_v2_next (tp2_memory list_tpm s'')) it = Some out"
    "map (\<lambda>e. (pcr_index_v2 e, event_type_v2 e, event_data_v2 e)) out = map spec_view ?s @ concat (map2 logged ?mes rs)"
    by auto
  note run = this
  have two: "length rs = 2" using run(2) by simp
  have first: "hd (map (\<lambda>e. (pcr_index_v2 e, event_type_v2 e, event_data_v2 e)) out) = (0, 8, [5])"
    unfolding run(6) by simp
  show ?thesis by (intro exI conjI) (rule run(1) two run(3-5) first)+
qed

end
