(* ===== verification/Text_Parse.thy ===== *)
theory Text_Parse
  imports File_System
begin

text \<open>
  The string functions of the standard library that the protocol parsers use: splitting, \<open>str::parse\<close>
  for unsigned integers and for \<open>f32\<close>, and what \<open>from_utf8\<close> gives for ASCII bytes. A \<open>str\<close> is the list of its code points.
\<close>

section \<open>Splitting\<close>

text \<open>\<open>str::split\<close> and \<open>str::split_once\<close> at a character, \<open>slice::split_inclusive\<close> after an element.\<close>

fun str_split :: "'a \<Rightarrow> 'a list \<Rightarrow> 'a list list" where
  "str_split sep [] = [[]]"
| "str_split sep (c # cs) =
    (if c = sep then [] # str_split sep cs
     else (c # hd (str_split sep cs)) # tl (str_split sep cs))"

fun split_once :: "'a \<Rightarrow> 'a list \<Rightarrow> ('a list \<times> 'a list) option" where
  "split_once sep [] = None"
| "split_once sep (c # cs) =
    (if c = sep then Some ([], cs) else map_option (\<lambda>(a, b). (c # a, b)) (split_once sep cs))"

fun split_inclusive :: "('a \<Rightarrow> bool) \<Rightarrow> 'a list \<Rightarrow> 'a list list" where
  "split_inclusive P [] = []"
| "split_inclusive P (x # xs) =
    (if P x then [x] # split_inclusive P xs
     else case split_inclusive P xs of [] \<Rightarrow> [[x]] | y # ys \<Rightarrow> (x # y) # ys)"

section \<open>Integers\<close>

definition is_digit :: "rchar \<Rightarrow> bool" where
  "is_digit c \<longleftrightarrow> 0x30 \<le> c \<and> c \<le> 0x39"

definition digits_value :: "rstr \<Rightarrow> nat" where
  "digits_value ds = foldl (\<lambda>a c. 10 * a + (c - 0x30)) 0 ds"

text \<open>\<open>parse\<close> of an unsigned type whose values are below \<open>lim\<close>: an optional plus sign and at least one
  digit.\<close>

definition parse_uint :: "nat \<Rightarrow> rstr \<Rightarrow> nat option" where
  "parse_uint lim s =
    (let ds = (case s of c # r \<Rightarrow> if c = 0x2B then r else s | [] \<Rightarrow> [])
     in if ds \<noteq> [] \<and> list_all is_digit ds \<and> digits_value ds < lim then Some (digits_value ds) else None)"

text \<open>The decimal digits of a number, as \<open>Display\<close> prints them.\<close>

fun show_nat :: "nat \<Rightarrow> rstr" where
  "show_nat n = (if n < 10 then [0x30 + n] else show_nat (n div 10) @ [0x30 + n mod 10])"

declare show_nat.simps [simp del]

section \<open>Floating point numbers\<close>

text \<open>An \<open>f32\<close> is its 32 bits. The nearest number to the fraction \<open>num / den\<close>, ties to even: the greatest
  exponent \<open>e\<close> with \<open>2 ^ e \<le> num / den\<close> (at least that of the subnormal numbers) fixes the unit
  \<open>2 ^ (e - 23)\<close>.\<close>

definition pow2_le :: "nat \<Rightarrow> nat \<Rightarrow> int \<Rightarrow> bool" where
  "pow2_le num den e \<longleftrightarrow> (if 0 \<le> e then 2 ^ nat e * den \<le> num else den \<le> num * 2 ^ nat (- e))"

definition f32_exponent :: "nat \<Rightarrow> nat \<Rightarrow> int" where
  "f32_exponent num den = (case find (pow2_le num den) (rev [- 126..128]) of Some e \<Rightarrow> e | None \<Rightarrow> - 126)"

definition div_half_even :: "nat \<Rightarrow> nat \<Rightarrow> nat" where
  "div_half_even a b =
    (let q = a div b; r = a mod b
     in if 2 * r < b \<or> (2 * r = b \<and> even q) then q else q + 1)"

definition f32_of_fraction :: "nat \<Rightarrow> nat \<Rightarrow> u32" where
  "f32_of_fraction num den =
    (let e = f32_exponent num den;
         m = (if e \<le> 23 then div_half_even (num * 2 ^ nat (23 - e)) den else div_half_even num (den * 2 ^ nat (e - 23)));
         bits = nat (e + 126) * 2 ^ 23 + m
     in word_of_nat (min bits 0x7F800000))"

text \<open>\<open>str::parse::<f32>\<close>.\<close>

definition ascii_lower :: "rchar \<Rightarrow> rchar" where
  "ascii_lower c = (if 0x41 \<le> c \<and> c \<le> 0x5A then c + 0x20 else c)"

definition split_sign :: "rstr \<Rightarrow> bool \<times> rstr" where
  "split_sign s = (case s of c # r \<Rightarrow> if c = 0x2D then (True, r) else if c = 0x2B then (False, r) else (False, s) | [] \<Rightarrow> (False, []))"

definition parse_exponent :: "rstr \<Rightarrow> int option" where
  "parse_exponent s =
    (case s of
       [] \<Rightarrow> Some 0
     | c # r \<Rightarrow>
         (let (neg, ds) = split_sign r
          in if ascii_lower c = 0x65 \<and> ds \<noteq> [] \<and> list_all is_digit ds
             then Some (if neg then - int (digits_value ds) else int (digits_value ds)) else None))"

definition parse_number :: "rstr \<Rightarrow> u32 option" where
  "parse_number s =
    (let ip = takeWhile is_digit s; r1 = dropWhile is_digit s;
         fp = (case r1 of c # r \<Rightarrow> if c = 0x2E then takeWhile is_digit r else [] | [] \<Rightarrow> []);
         r2 = (case r1 of c # r \<Rightarrow> if c = 0x2E then dropWhile is_digit r else r1 | [] \<Rightarrow> [])
     in if ip = [] \<and> fp = [] then None
        else do {
          e \<leftarrow> parse_exponent r2;
          let ex = e - int (length fp);
          Some (if 0 \<le> ex then f32_of_fraction (digits_value (ip @ fp) * 10 ^ nat ex) 1
                else f32_of_fraction (digits_value (ip @ fp)) (10 ^ nat (- ex)))
        })"

definition parse_f32 :: "rstr \<Rightarrow> u32 option" where
  "parse_f32 s =
    (let (neg, r) = split_sign s; l = map ascii_lower r;
         magnitude =
           (if l = [0x69, 0x6E, 0x66] \<or> l = [0x69, 0x6E, 0x66, 0x69, 0x6E, 0x69, 0x74, 0x79] then Some 0x7F800000
            else if l = [0x6E, 0x61, 0x6E] then Some 0x7FC00000
            else parse_number r)
     in map_option (\<lambda>m. if neg then m OR 0x80000000 else m) magnitude)"

section \<open>Lemmas\<close>

lemma split_once_sep [simp]: "sep \<notin> set a \<Longrightarrow> split_once sep (a @ sep # b) = Some (a, b)"
  by (induction a) auto

lemma split_inclusive_piece:
  assumes "list_all (\<lambda>x. \<not> P x) a" "P z"
  shows "split_inclusive P (a @ z # b) = (a @ [z]) # split_inclusive P b"
  using assms by (induction a) simp_all

lemma show_nat_nonempty [simp]: "show_nat n \<noteq> []"
  by (subst show_nat.simps) simp

lemma show_nat_digits: "list_all is_digit (show_nat n)"
proof (induction n rule: show_nat.induct)
  case (1 n)
  have "is_digit (0x30 + k)" if "k < 10" for k using that by (simp add: is_digit_def)
  then show ?case using 1 by (subst show_nat.simps) simp
qed

lemma digits_value_show: "digits_value (show_nat n) = n"
proof (induction n rule: show_nat.induct)
  case (1 n)
  then show ?case by (subst show_nat.simps) (simp add: digits_value_def)
qed

lemma digit_not: "list_all is_digit ds \<Longrightarrow> \<not> is_digit c \<Longrightarrow> c \<notin> set ds"
  by (auto simp: list_all_iff)

lemma parse_uint_show: "parse_uint lim (show_nat n) = (if n < lim then Some n else None)"
proof -
  obtain c r where s: "show_nat n = c # r" by (cases "show_nat n") auto
  have "is_digit c" using show_nat_digits [of n] s by simp
  then have "c \<noteq> 0x2B" by (auto simp: is_digit_def)
  then show ?thesis using s show_nat_digits [of n] digits_value_show [of n] by (simp add: parse_uint_def)
qed

lemma parse_uint_bound: "parse_uint lim s = Some n \<Longrightarrow> n < lim"
  by (auto simp: parse_uint_def Let_def split: if_splits)

lemma from_utf8_ascii:
  "list_all (\<lambda>b. b < 0x80) bs \<Longrightarrow> from_utf8_fuel (length bs) bs = Some (map unat bs)"
  by (induction bs) simp_all

end
