(* ===== verification/Http.thy ===== *)
theory Http
  imports Boot_Images File_System Text_Parse
begin

text \<open>
  The HTTP protocol: \<open>uefi/src/proto/network/http.rs\<close>, the structures it passes to the driver
  (\<open>uefi-raw/src/protocol/network/http.rs\<close>), and the download routine of
  \<open>uefi-test-runner/src/proto/network/http.rs\<close>. The driver is a parameter. A token and the message it
  points to are shared with the driver until the token completes, so every driver call that can complete a
  token, polling included, takes the token and returns it changed. What a message points to is part of the
  message, except for the headers of a response, which the driver allocates in its own memory.
\<close>

section \<open>Structures\<close>

record http_v4_access_point =
  v4_use_default_addr :: bool
  v4_local_address :: bytes
  v4_local_subnet :: bytes
  v4_local_port :: u16

datatype http_access_point = AccessPointNull | Ipv4Node http_v4_access_point | Ipv6Node bytes u16

record http_config_data =
  cfg_http_version :: u32
  cfg_time_out_millisec :: u32
  cfg_local_addr_is_ipv6 :: bool
  cfg_access_point :: http_access_point

definition HTTP_VERSION_10 :: u32 where "HTTP_VERSION_10 = 0"

text \<open>A method is the 32-bit number of the newtype \<open>HttpMethod\<close>.\<close>

type_synonym http_method = u32

definition GET :: http_method where "GET = 0"
definition HEAD :: http_method where "HEAD = 5"

text \<open>The union \<open>HttpRequestOrResponse\<close>: null, or what its pointer points to.\<close>

datatype http_data = NoData | RequestData http_method "char16 list" | ResponseData u32

text \<open>Headers are an array of the program, or the address of an array of pairs of pointers.\<close>

datatype header_ref = LocalHeaders "(bytes \<times> bytes) list" | HeadersAt nat

record http_message =
  msg_data :: http_data
  msg_header_count :: usize
  msg_header :: header_ref
  msg_body_length :: usize
  msg_body :: bytes

definition http_message_default :: http_message where
  "http_message_default =
    \<lparr>msg_data = NoData, msg_header_count = 0, msg_header = HeadersAt 0, msg_body_length = 0, msg_body = []\<rparr>"

record http_token =
  tk_status :: status
  tk_message :: http_message

definition STATUS_UNSUPPORTED :: u32 where "STATUS_UNSUPPORTED = 0"
definition STATUS_200_OK :: u32 where "STATUS_200_OK = 3"

definition HTTP_GUID :: nat where "HTTP_GUID = 0x7a59b29b910b41718242a85a0df25b5b"
definition HTTP_BINDING_GUID :: nat where "HTTP_BINDING_GUID = 0xbdc8e6afd9bc4379a72ae0c4e75dae1c"

text \<open>The driver: each function takes the state of the firmware and the address of the protocol instance.\<close>

record 'fw http_services =
  hs_get_mode_data :: "'fw \<Rightarrow> nat \<Rightarrow> http_config_data \<Rightarrow> (status \<times> http_config_data) \<times> 'fw"
  hs_configure :: "'fw \<Rightarrow> nat \<Rightarrow> http_config_data \<Rightarrow> status \<times> 'fw"
  hs_request :: "'fw \<Rightarrow> nat \<Rightarrow> http_token \<Rightarrow> (status \<times> http_token) \<times> 'fw"
  hs_cancel :: "'fw \<Rightarrow> nat \<Rightarrow> http_token \<Rightarrow> (status \<times> http_token) \<times> 'fw"
  hs_response :: "'fw \<Rightarrow> nat \<Rightarrow> http_token \<Rightarrow> (status \<times> http_token) \<times> 'fw"
  hs_poll :: "'fw \<Rightarrow> nat \<Rightarrow> http_token \<Rightarrow> (status \<times> http_token) \<times> 'fw"
  hs_memory :: "'fw \<Rightarrow> nat \<Rightarrow> u8"

record 'fw binding_services =
  sb_create_child :: "'fw \<Rightarrow> nat \<Rightarrow> nat \<Rightarrow> (status \<times> nat) \<times> 'fw"
  sb_destroy_child :: "'fw \<Rightarrow> nat \<Rightarrow> nat \<Rightarrow> status \<times> 'fw"

section \<open>The protocol\<close>

definition http_status :: "status \<Rightarrow> unit uefi_result option" where
  "http_status st = (if st = SUCCESS then Some (Ok ()) else do { e \<leftarrow> error_from_status st; Some (Err e) })"

text \<open>The driver writes into the body buffer but cannot change its size.\<close>

definition in_place :: "http_token \<Rightarrow> http_token \<Rightarrow> http_token" where
  "in_place old new =
    (let b = msg_body (tk_message old); b' = msg_body (tk_message new)
     in new\<lparr>tk_message := (tk_message new)\<lparr>msg_body := take (length b) (b' @ drop (length b') b)\<rparr>\<rparr>)"

definition token_call ::
  "('fw \<Rightarrow> nat \<Rightarrow> http_token \<Rightarrow> (status \<times> http_token) \<times> 'fw) \<Rightarrow> nat \<Rightarrow> http_token \<Rightarrow> 'fw world \<Rightarrow>
    ((unit uefi_result \<times> http_token) \<times> 'fw world) option" where
  "token_call f p tk w =
    (let ((st, tk'), s) = f (fw_state w) p tk in do {
       r \<leftarrow> http_status st;
       Some ((r, in_place tk tk'), w\<lparr>fw_state := s\<rparr>)
     })"

definition http_get_mode_data ::
  "'fw http_services \<Rightarrow> nat \<Rightarrow> http_config_data \<Rightarrow> 'fw world \<Rightarrow> ((unit uefi_result \<times> http_config_data) \<times> 'fw world) option" where
  "http_get_mode_data hs p config_data w =
    (let ((st, config_data'), s) = hs_get_mode_data hs (fw_state w) p config_data in do {
       r \<leftarrow> http_status st;
       Some ((r, config_data'), w\<lparr>fw_state := s\<rparr>)
     })"

definition http_configure ::
  "'fw http_services \<Rightarrow> nat \<Rightarrow> http_config_data \<Rightarrow> 'fw world \<Rightarrow> (unit uefi_result \<times> 'fw world) option" where
  "http_configure hs p config_data w =
    (let (st, s) = hs_configure hs (fw_state w) p config_data in do {
       r \<leftarrow> http_status st;
       Some (r, w\<lparr>fw_state := s\<rparr>)
     })"

definition http_request ::
  "'fw http_services \<Rightarrow> nat \<Rightarrow> http_token \<Rightarrow> 'fw world \<Rightarrow> ((unit uefi_result \<times> http_token) \<times> 'fw world) option" where
  "http_request hs = token_call (hs_request hs)"

definition http_cancel ::
  "'fw http_services \<Rightarrow> nat \<Rightarrow> http_token \<Rightarrow> 'fw world \<Rightarrow> ((unit uefi_result \<times> http_token) \<times> 'fw world) option" where
  "http_cancel hs = token_call (hs_cancel hs)"

definition http_response ::
  "'fw http_services \<Rightarrow> nat \<Rightarrow> http_token \<Rightarrow> 'fw world \<Rightarrow> ((unit uefi_result \<times> http_token) \<times> 'fw world) option" where
  "http_response hs = token_call (hs_response hs)"

definition http_poll ::
  "'fw http_services \<Rightarrow> nat \<Rightarrow> http_token \<Rightarrow> 'fw world \<Rightarrow> ((unit uefi_result \<times> http_token) \<times> 'fw world) option" where
  "http_poll hs = token_call (hs_poll hs)"

section \<open>The service binding\<close>

definition create_child :: "'fw binding_services \<Rightarrow> nat \<Rightarrow> 'fw world \<Rightarrow> (nat uefi_result \<times> 'fw world) option" where
  "create_child sb b w =
    (let ((st, c_handle), s) = sb_create_child sb (fw_state w) b 0;
         handle = handle_from_ptr c_handle
     in if st = SUCCESS then do { h \<leftarrow> handle; Some (Ok h, w\<lparr>fw_state := s\<rparr>) }
        else do { e \<leftarrow> error_from_status st; Some (Err e, w\<lparr>fw_state := s\<rparr>) })"

definition destroy_child :: "'fw binding_services \<Rightarrow> nat \<Rightarrow> nat \<Rightarrow> 'fw world \<Rightarrow> (unit uefi_result \<times> 'fw world) option" where
  "destroy_child sb b handle w =
    (let (st, s) = sb_destroy_child sb (fw_state w) b handle in do {
       r \<leftarrow> http_status st;
       Some (r, w\<lparr>fw_state := s\<rparr>)
     })"

section \<open>The helper\<close>

record http_helper =
  hh_child :: nat
  hh_binding :: scoped_protocol
  hh_protocol :: "scoped_protocol option"

record http_helper_response =
  rsp_status :: u32
  rsp_headers :: "(rstr \<times> rstr) list"
  rsp_body :: bytes

text \<open>\<open>HttpHelper::new\<close>: the guard of the binding is dropped on every error path. \<open>with_child\<close> is
  the part behind the creation of the child.\<close>

definition with_child :: "'fw binding_services \<Rightarrow> scoped_protocol \<Rightarrow> nat \<Rightarrow> nat \<Rightarrow> 'fw world \<Rightarrow> (http_helper uefi_result \<times> 'fw world) option" where
  "with_child sb binding b child_handle w = do {
     agent \<leftarrow> image_handle w;
     (protocol_res, w1) \<leftarrow>
       open_protocol HTTP_GUID \<lparr>op_handle = child_handle, op_agent = agent, op_controller = None\<rparr> GetProtocol w;
     case protocol_res of
       Err e \<Rightarrow> do {
         (_, w2) \<leftarrow> destroy_child sb b child_handle w1;
         w3 \<leftarrow> scoped_protocol_drop binding w2;
         Some (Err e, w3)
       }
     | Ok protocol \<Rightarrow> Some (Ok \<lparr>hh_child = child_handle, hh_binding = binding, hh_protocol = Some protocol\<rparr>, w1)
   }"

definition http_helper_new :: "'fw binding_services \<Rightarrow> nat \<Rightarrow> 'fw world \<Rightarrow> (http_helper uefi_result \<times> 'fw world) option" where
  "http_helper_new sb nic_handle w = do {
     agent \<leftarrow> image_handle w;
     try_res (open_protocol HTTP_BINDING_GUID \<lparr>op_handle = nic_handle, op_agent = agent, op_controller = None\<rparr> GetProtocol w)
       (\<lambda>binding w1. do {
          b \<leftarrow> scoped_protocol_deref binding;
          (r, w2) \<leftarrow> create_child sb b w1;
          case r of
            Err e \<Rightarrow> do { w3 \<leftarrow> scoped_protocol_drop binding w2; Some (Err e, w3) }
          | Ok child_handle \<Rightarrow> with_child sb binding b child_handle w2
        })
   }"

text \<open>\<open>Drop for HttpHelper\<close>, followed by the drop of the field \<open>binding\<close>.\<close>

definition http_helper_drop :: "'fw binding_services \<Rightarrow> http_helper \<Rightarrow> 'fw world \<Rightarrow> 'fw world option" where
  "http_helper_drop sb h w = do {
     w1 \<leftarrow> (case hh_protocol h of None \<Rightarrow> Some w | Some sp \<Rightarrow> scoped_protocol_drop sp w);
     b \<leftarrow> scoped_protocol_deref (hh_binding h);
     (_, w2) \<leftarrow> destroy_child sb b (hh_child h) w1;
     scoped_protocol_drop (hh_binding h) w2
   }"

text \<open>\<open>self.protocol.as_mut().unwrap()\<close>, dereferenced.\<close>

definition helper_protocol :: "http_helper \<Rightarrow> nat option" where
  "helper_protocol h = do { sp \<leftarrow> hh_protocol h; scoped_protocol_deref sp }"

definition default_config :: http_config_data where
  "default_config = \<lparr>
     cfg_http_version = HTTP_VERSION_10,
     cfg_time_out_millisec = 10000,
     cfg_local_addr_is_ipv6 = False,
     cfg_access_point = Ipv4Node \<lparr>v4_use_default_addr = True, v4_local_address = [0, 0, 0, 0],
       v4_local_subnet = [0, 0, 0, 0], v4_local_port = 0\<rparr>\<rparr>"

definition helper_configure :: "'fw http_services \<Rightarrow> http_helper \<Rightarrow> 'fw world \<Rightarrow> (unit uefi_result \<times> 'fw world) option" where
  "helper_configure hs h w = do { p \<leftarrow> helper_protocol h; http_configure hs p default_config w }"

text \<open>The polling loop that \<open>request\<close>, \<open>response_first\<close> and \<open>response_more\<close> share. An error of
  \<open>poll\<close> returns at once; the token is then still pending.\<close>

partial_function (option) http_wait ::
  "'fw http_services \<Rightarrow> nat \<Rightarrow> http_token \<Rightarrow> 'fw world \<Rightarrow> (http_token uefi_result \<times> 'fw world) option" where
  [code]: "http_wait hs p tk w =
    (if tk_status tk \<noteq> NOT_READY then Some (Ok tk, w)
     else do {
       ((r, tk'), w') \<leftarrow> http_poll hs p tk w;
       case r of Err e \<Rightarrow> Some (Err e, w') | Ok _ \<Rightarrow> http_wait hs p tk' w'
     })"

definition send_and_wait ::
  "'fw http_services \<Rightarrow> (nat \<Rightarrow> http_token \<Rightarrow> 'fw world \<Rightarrow> ((unit uefi_result \<times> http_token) \<times> 'fw world) option) \<Rightarrow>
    http_helper \<Rightarrow> http_message \<Rightarrow> 'fw world \<Rightarrow> (http_token uefi_result \<times> 'fw world) option" where
  "send_and_wait hs call h msg w = do {
     p \<leftarrow> helper_protocol h;
     ((r, tk), w1) \<leftarrow> call p \<lparr>tk_status = NOT_READY, tk_message = msg\<rparr> w;
     case r of Err e \<Rightarrow> Some (Err e, w1) | Ok _ \<Rightarrow> http_wait hs p tk w1
   }"

definition request_message :: "http_method \<Rightarrow> char16 list \<Rightarrow> rstr \<Rightarrow> bytes option \<Rightarrow> http_message" where
  "request_message method url16 hostname body =
    http_message_default\<lparr>
      msg_data := RequestData method url16,
      msg_header_count := 1,
      msg_header := LocalHeaders [([0x48, 0x6F, 0x73, 0x74, 0], encode_utf8 hostname @ [0])],
      msg_body_length := (case body of Some b \<Rightarrow> length b | None \<Rightarrow> 0),
      msg_body := (case body of Some b \<Rightarrow> b | None \<Rightarrow> [])\<rparr>"

definition helper_request ::
  "'fw http_services \<Rightarrow> http_helper \<Rightarrow> http_method \<Rightarrow> rstr \<Rightarrow> bytes option \<Rightarrow> 'fw world \<Rightarrow> (unit uefi_result \<times> 'fw world) option" where
  "helper_request hs h method url body w = do {
     url16 \<leftarrow> (case cstring16_try_from_str url of Ok u \<Rightarrow> Some u | Err _ \<Rightarrow> None);
     case get_at (str_split 0x2F url) 2 of
       None \<Rightarrow> do { e \<leftarrow> error_from_status INVALID_PARAMETER; Some (Err e, w) }
     | Some hostname \<Rightarrow>
         try_res (send_and_wait hs (http_request hs) h (request_message method url16 hostname body) w)
           (\<lambda>tk w1. if tk_status tk \<noteq> SUCCESS then do { e \<leftarrow> error_from_status (tk_status tk); Some (Err e, w1) }
             else Some (Ok (), w1))
   }"

definition request_get :: "'fw http_services \<Rightarrow> http_helper \<Rightarrow> rstr \<Rightarrow> 'fw world \<Rightarrow> (unit uefi_result \<times> 'fw world) option" where
  "request_get hs h url w = helper_request hs h GET url None w"

definition request_head :: "'fw http_services \<Rightarrow> http_helper \<Rightarrow> rstr \<Rightarrow> 'fw world \<Rightarrow> (unit uefi_result \<times> 'fw world) option" where
  "request_head hs h url w = helper_request hs h HEAD url None w"

text \<open>\<open>CStr::from_ptr\<close> and \<open>to_str\<close>. Lower case is that of the standard library: written out for ASCII
  strings, and for others the parameter \<open>lower\<close>, which stands for the tables of Unicode.\<close>

partial_function (option) byte_strlen :: "(nat \<Rightarrow> u8) \<Rightarrow> nat \<Rightarrow> usize \<Rightarrow> usize option" where
  [code]: "byte_strlen m p n = (if m (p + n) = 0 then Some n else byte_strlen m p (n + 1))"

definition cstr_from_ptr :: "(nat \<Rightarrow> u8) \<Rightarrow> nat \<Rightarrow> bytes option" where
  "cstr_from_ptr m p = do {
     require (p \<noteq> 0);
     n \<leftarrow> byte_strlen m p 0;
     Some (mem_read m p n)
   }"

definition to_lowercase :: "(rstr \<Rightarrow> rstr) \<Rightarrow> rstr \<Rightarrow> rstr" where
  "to_lowercase lower s =
    (if list_all (\<lambda>c. c < 0x80) s then map ascii_lower s else lower s)"

definition header_at :: "(nat \<Rightarrow> u8) \<Rightarrow> header_ref \<Rightarrow> nat \<Rightarrow> (bytes \<times> bytes) option" where
  "header_at m hr i =
    (case hr of
       LocalHeaders hdrs \<Rightarrow> do {
         (n, v) \<leftarrow> get_at hdrs i;
         require (0 \<in> set n \<and> 0 \<in> set v);
         Some (takeWhile (\<lambda>b. b \<noteq> 0) n, takeWhile (\<lambda>b. b \<noteq> 0) v)
       }
     | HeadersAt a \<Rightarrow> do {
         require (a \<noteq> 0);
         n \<leftarrow> cstr_from_ptr m (unat (u64_from_le (mem_read m (a + 16 * i) 8)));
         v \<leftarrow> cstr_from_ptr m (unat (u64_from_le (mem_read m (a + 16 * i + 8) 8)));
         Some (n, v)
       })"

definition response_header :: "(rstr \<Rightarrow> rstr) \<Rightarrow> (nat \<Rightarrow> u8) \<Rightarrow> header_ref \<Rightarrow> nat \<Rightarrow> (rstr \<times> rstr) option" where
  "response_header lower m hr i = do {
     (n, v) \<leftarrow> header_at m hr i;
     name \<leftarrow> from_utf8_fuel (length n) n;
     val \<leftarrow> from_utf8_fuel (length v) v;
     Some (to_lowercase lower name, val)
   }"

definition BODY_BUFFER :: usize where "BODY_BUFFER = 16 * 1024"

definition response_first ::
  "'fw http_services \<Rightarrow> (rstr \<Rightarrow> rstr) \<Rightarrow> http_helper \<Rightarrow> bool \<Rightarrow> 'fw world \<Rightarrow> (http_helper_response uefi_result \<times> 'fw world) option" where
  "response_first hs lower h expect_body w =
    (let body = replicate (if expect_body then BODY_BUFFER else 0) 0;
         msg = http_message_default\<lparr>msg_data := ResponseData STATUS_UNSUPPORTED, msg_body_length := length body, msg_body := body\<rparr>
     in try_res (send_and_wait hs (http_response hs) h msg w)
       (\<lambda>tk w1.
          if tk_status tk \<noteq> SUCCESS \<and> tk_status tk \<noteq> HTTP_ERROR
          then do { e \<leftarrow> error_from_status (tk_status tk); Some (Err e, w1) }
          else do {
            let rx = tk_message tk;
            headers \<leftarrow> those (map (response_header lower (hs_memory hs (fw_state w1)) (msg_header rx)) [0..<msg_header_count rx]);
            part \<leftarrow> get_range (msg_body rx) 0 (msg_body_length rx);
            Some (Ok \<lparr>
              rsp_status = (case msg_data rx of ResponseData c \<Rightarrow> c | _ \<Rightarrow> STATUS_UNSUPPORTED),
              rsp_headers = headers,
              rsp_body = part\<rparr>, w1)
          }))"

definition response_more :: "'fw http_services \<Rightarrow> http_helper \<Rightarrow> 'fw world \<Rightarrow> (bytes uefi_result \<times> 'fw world) option" where
  "response_more hs h w =
    (let body = replicate BODY_BUFFER 0;
         msg = http_message_default\<lparr>msg_body_length := length body, msg_body := body\<rparr>
     in try_res (send_and_wait hs (http_response hs) h msg w)
       (\<lambda>tk w1.
          if tk_status tk \<noteq> SUCCESS then do { e \<leftarrow> error_from_status (tk_status tk); Some (Err e, w1) }
          else do {
            part \<leftarrow> get_range (msg_body (tk_message tk)) 0 (msg_body_length (tk_message tk));
            Some (Ok part, w1)
          }))"

section \<open>Downloading a resource\<close>

definition content_length :: rstr where
  "content_length = [0x63, 0x6F, 0x6E, 0x74, 0x65, 0x6E, 0x74, 0x2D, 0x6C, 0x65, 0x6E, 0x67, 0x74, 0x68]"

definition or_none ::
  "(('a, 'e) result \<times> 'w) option \<Rightarrow> ('a \<Rightarrow> 'w \<Rightarrow> ('b option \<times> 'w) option) \<Rightarrow> ('b option \<times> 'w) option" where
  "or_none m k = do {
     (r, w) \<leftarrow> m;
     case r of Err _ \<Rightarrow> Some (None, w) | Ok a \<Rightarrow> k a w
   }"

partial_function (option) fetch_more ::
  "'fw http_services \<Rightarrow> http_helper \<Rightarrow> usize \<Rightarrow> bytes \<Rightarrow> 'fw world \<Rightarrow> (bytes option \<times> 'fw world) option" where
  [code]: "fetch_more hs http cl dat w =
    (if length dat \<ge> cl then Some (Some dat, w)
     else do {
       (r, w1) \<leftarrow> response_more hs http w;
       case r of Err _ \<Rightarrow> Some (None, w1) | Ok buf \<Rightarrow> fetch_more hs http cl (dat @ buf) w1
     })"

definition fetch_rest ::
  "'fw http_services \<Rightarrow> http_helper \<Rightarrow> http_helper_response \<Rightarrow> 'fw world \<Rightarrow> (bytes option \<times> 'fw world) option" where
  "fetch_rest hs http rsp w =
    (if rsp_status rsp \<noteq> STATUS_200_OK then Some (None, w)
     else case find (\<lambda>h. fst h = content_length) (rsp_headers rsp) of
       None \<Rightarrow> Some (None, w)
     | Some cl_hdr \<Rightarrow>
         (case parse_uint usize_limit (snd cl_hdr) of
            None \<Rightarrow> Some (None, w)
          | Some cl \<Rightarrow> fetch_more hs http cl (rsp_body rsp) w))"

definition fetch_session ::
  "'fw http_services \<Rightarrow> (rstr \<Rightarrow> rstr) \<Rightarrow> http_helper \<Rightarrow> rstr \<Rightarrow> 'fw world \<Rightarrow> (bytes option \<times> 'fw world) option" where
  "fetch_session hs lower http url w =
    or_none (helper_configure hs http w) (\<lambda>_ w1.
      or_none (request_get hs http url w1) (\<lambda>_ w2.
        or_none (response_first hs lower http True w2) (\<lambda>rsp w3. fetch_rest hs http rsp w3)))"

text \<open>The helper is dropped on every path after it was created.\<close>

definition fetch_http ::
  "'fw http_services \<Rightarrow> 'fw binding_services \<Rightarrow> (rstr \<Rightarrow> rstr) \<Rightarrow> nat \<Rightarrow> rstr \<Rightarrow> 'fw world \<Rightarrow> (bytes option \<times> 'fw world) option" where
  "fetch_http hs sb lower handle url w =
    or_none (http_helper_new sb handle w) (\<lambda>http w1. do {
      (res, w2) \<leftarrow> fetch_session hs lower http url w1;
      w3 \<leftarrow> http_helper_drop sb http w2;
      Some (res, w3)
    })"

end
