(* ===== verification/Http_Props.thy ===== *)
theory Http_Props
  imports Http
begin

text \<open>
  The HTTP helper against the documented behaviour of the firmware: the service binding creates and destroys
  child handles, and the driver completes a pending token after finitely many polls. The helper leaves no
  protocol open and no child behind, and the download of a resource returns the whole resource.
\<close>

section \<open>The documented behaviour of the driver\<close>

text \<open>\<open>children\<close> are the child handles of the binding. A new child has no open protocol; a child
  can be destroyed once nothing on it is open.\<close>

definition binding_contract ::
  "'fw firmware \<Rightarrow> 'fw binding_services \<Rightarrow> ('fw \<Rightarrow> open_key multiset) \<Rightarrow> ('fw \<Rightarrow> nat set) \<Rightarrow> bool" where
  "binding_contract st sb opened children \<longleftrightarrow>
    (\<forall>s b r h s'. sb_create_child sb s b 0 = ((r, h), s') \<longrightarrow>
       fw_boot_services_null st s' = fw_boot_services_null st s \<and> opened s' = opened s \<and>
       (if r = SUCCESS
        then h \<noteq> 0 \<and> h \<notin> children s \<and> (\<forall>k \<in># opened s. fst k \<noteq> h) \<and> children s' = insert h (children s)
        else children s' = children s)) \<and>
    (\<forall>s b h r s'. sb_destroy_child sb s b h = (r, s') \<longrightarrow>
       fw_boot_services_null st s' = fw_boot_services_null st s \<and> opened s' = opened s \<and>
       (h \<in> children s \<and> (\<forall>k \<in># opened s. fst k \<noteq> h) \<longrightarrow> children s' = children s - {h})) \<and>
    (\<forall>s h g a c t r i s'. ps_open_protocol (fw_proto st) s h g a c t = ((r, i), s') \<longrightarrow> children s' = children s) \<and>
    (\<forall>s h g a c r s'. ps_close_protocol (fw_proto st) s h g a c = (r, s') \<longrightarrow> children s' = children s)"

text \<open>The connection behind a protocol instance: the pending token's task, the number of polls until it
  completes, and what the server sent that was not delivered yet. \<open>serve\<close> is the server.\<close>

datatype http_task = Idle | Transmit http_message | Receive

record http_link =
  lk_task :: http_task
  lk_wait :: nat
  lk_head :: "(u32 \<times> (bytes \<times> bytes) list) option"
  lk_rest :: bytes

definition headers_at :: "(nat \<Rightarrow> u8) \<Rightarrow> nat \<Rightarrow> (bytes \<times> bytes) list \<Rightarrow> bool" where
  "headers_at m a hdrs \<longleftrightarrow> a \<noteq> 0 \<and> (\<forall>i < length hdrs.
    (let n = unat (u64_from_le (mem_read m (a + 16 * i) 8)); v = unat (u64_from_le (mem_read m (a + 16 * i + 8) 8))
     in n \<noteq> 0 \<and> v \<noteq> 0 \<and> holds m n (fst (hdrs ! i) @ [0]) \<and> holds m v (snd (hdrs ! i) @ [0])))"

text \<open>What completes with a token: a sent message is answered by the server, and a received message holds
  the head of the answer if it was not delivered yet, and a next part of the body.\<close>

definition completed ::
  "(http_message \<Rightarrow> u32 \<times> (bytes \<times> bytes) list \<times> bytes) \<Rightarrow> (nat \<Rightarrow> u8) \<Rightarrow> http_link \<Rightarrow> http_message \<Rightarrow> http_message \<Rightarrow> http_link \<Rightarrow> bool" where
  "completed serve m lk old new lk' \<longleftrightarrow>
    (case lk_task lk of
       Idle \<Rightarrow> False
     | Transmit msg \<Rightarrow> lk_head lk' = Some (fst (serve msg), fst (snd (serve msg))) \<and> lk_rest lk' = snd (snd (serve msg))
     | Receive \<Rightarrow>
         (let n = msg_body_length new
          in n \<le> length (msg_body old) \<and> n \<le> length (lk_rest lk) \<and> length (msg_body new) = length (msg_body old) \<and>
             take n (msg_body new) = take n (lk_rest lk) \<and> lk_rest lk' = drop n (lk_rest lk) \<and> lk_head lk' = None \<and>
             (case lk_head lk of
                None \<Rightarrow> lk_rest lk \<noteq> [] \<and> msg_body old \<noteq> [] \<longrightarrow> 0 < n
              | Some (c, hdrs) \<Rightarrow> msg_data new = ResponseData c \<and> msg_header_count new = length hdrs \<and>
                  (\<exists>a. msg_header new = HeadersAt a \<and> headers_at m a hdrs))))"

definition untouched :: "'fw firmware \<Rightarrow> ('fw \<Rightarrow> open_key multiset) \<Rightarrow> ('fw \<Rightarrow> nat set) \<Rightarrow> 'fw \<Rightarrow> 'fw \<Rightarrow> bool" where
  "untouched st opened children s s' \<longleftrightarrow>
    fw_boot_services_null st s' = fw_boot_services_null st s \<and> opened s' = opened s \<and> children s' = children s"

definition http_contract ::
  "'fw firmware \<Rightarrow> 'fw http_services \<Rightarrow> ('fw \<Rightarrow> open_key multiset) \<Rightarrow> ('fw \<Rightarrow> nat set) \<Rightarrow> ('fw \<Rightarrow> nat \<Rightarrow> http_link) \<Rightarrow>
    (http_message \<Rightarrow> u32 \<times> (bytes \<times> bytes) list \<times> bytes) \<Rightarrow> bool" where
  "http_contract st hs opened children link serve \<longleftrightarrow>
    (\<forall>s h a c t r i s'. ps_open_protocol (fw_proto st) s h HTTP_GUID a c t = ((r, i), s') \<longrightarrow>
       r = SUCCESS \<longrightarrow> lk_task (link s' i) = Idle) \<and>
    (\<forall>s p c r s'. hs_configure hs s p c = (r, s') \<longrightarrow> lk_task (link s p) = Idle \<longrightarrow>
       r = SUCCESS \<and> lk_task (link s' p) = Idle \<and> untouched st opened children s s') \<and>
    (\<forall>s p tk r tk' s'. hs_request hs s p tk = ((r, tk'), s') \<longrightarrow> lk_task (link s p) = Idle \<longrightarrow>
       r = SUCCESS \<and> tk' = tk \<and> lk_task (link s' p) = Transmit (tk_message tk) \<and> untouched st opened children s s') \<and>
    (\<forall>s p tk r tk' s'. hs_response hs s p tk = ((r, tk'), s') \<longrightarrow> lk_task (link s p) = Idle \<longrightarrow>
       r = SUCCESS \<and> tk' = tk \<and> lk_task (link s' p) = Receive \<and> lk_head (link s' p) = lk_head (link s p) \<and>
       lk_rest (link s' p) = lk_rest (link s p) \<and> untouched st opened children s s') \<and>
    (\<forall>s p tk r tk' s'. hs_poll hs s p tk = ((r, tk'), s') \<longrightarrow> lk_task (link s p) \<noteq> Idle \<longrightarrow>
       r = SUCCESS \<and> untouched st opened children s s' \<and>
       (if 0 < lk_wait (link s p)
        then tk' = tk \<and> link s' p = (link s p)\<lparr>lk_wait := lk_wait (link s p) - 1\<rparr>
        else tk_status tk' = SUCCESS \<and> lk_task (link s' p) = Idle \<and>
          completed serve (hs_memory hs s') (link s p) (tk_message tk) (tk_message tk') (link s' p)))"

section \<open>Polling\<close>

definition stays :: "'fw firmware \<Rightarrow> ('fw \<Rightarrow> open_key multiset) \<Rightarrow> ('fw \<Rightarrow> nat set) \<Rightarrow> 'fw world \<Rightarrow> 'fw world \<Rightarrow> bool" where
  "stays st opened children w w' \<longleftrightarrow>
    w' = w\<lparr>fw_state := fw_state w'\<rparr> \<and> untouched st opened children (fw_state w) (fw_state w')"

lemma stays_refl [simp]: "stays st opened children w w"
  by (simp add: stays_def untouched_def)

lemma stays_step: "untouched st opened children (fw_state w) s \<Longrightarrow> stays st opened children w (w\<lparr>fw_state := s\<rparr>)"
  by (simp add: stays_def)

lemma stays_trans:
  "stays st opened children w w1 \<Longrightarrow> stays st opened children w1 w2 \<Longrightarrow> stays st opened children w w2"
  by (cases w; cases w1; cases w2) (simp add: stays_def untouched_def)

lemma stays_alive: "stays st opened children w w' \<Longrightarrow> alive st w \<Longrightarrow> alive st w'"
  by (cases w; cases w') (simp add: stays_def untouched_def alive_def)

lemma staysD:
  "stays st opened children w w' \<Longrightarrow> opened (fw_state w') = opened (fw_state w)"
  "stays st opened children w w' \<Longrightarrow> children (fw_state w') = children (fw_state w)"
  by (simp_all add: stays_def untouched_def)

lemma http_status_SUCCESS [simp]: "http_status SUCCESS = Some (Ok ())"
  by (simp add: http_status_def)

lemma in_place_same [simp]: "in_place tk tk = tk"
  by (simp add: in_place_def Let_def)

lemma in_place_fits:
  "length (msg_body (tk_message new)) = length (msg_body (tk_message old)) \<Longrightarrow> in_place old new = new"
  by (simp add: in_place_def Let_def)

lemma tk_status_in_place [simp]: "tk_status (in_place old new) = tk_status new"
  by (simp add: in_place_def Let_def)

lemma completed_cong:
  "lk_task lk = lk_task lk2 \<Longrightarrow> lk_head lk = lk_head lk2 \<Longrightarrow> lk_rest lk = lk_rest lk2 \<Longrightarrow>
    completed serve m lk old new lk' = completed serve m lk2 old new lk'"
  by (simp only: completed_def)

text \<open>A pending token completes: the loop ends, after as many polls as the driver needs.\<close>

lemma wait_completes:
  assumes c: "http_contract st hs opened children link serve"
    and t: "lk_task (link (fw_state w) p) \<noteq> Idle" "tk_status tk = NOT_READY"
  shows "\<exists>new w'. http_wait hs p tk w = Some (Ok (in_place tk new), w') \<and> stays st opened children w w' \<and>
    tk_status new = SUCCESS \<and> lk_task (link (fw_state w') p) = Idle \<and>
    completed serve (hs_memory hs (fw_state w')) (link (fw_state w) p) (tk_message tk) (tk_message new) (link (fw_state w') p)"
  using t(1)
proof (induction "lk_wait (link (fw_state w) p)" arbitrary: w)
  case 0
  obtain r new s where call: "hs_poll hs (fw_state w) p tk = ((r, new), s)" by (metis surj_pair)
  have P: "r = SUCCESS" "untouched st opened children (fw_state w) s" "tk_status new = SUCCESS" "lk_task (link s p) = Idle"
    "completed serve (hs_memory hs s) (link (fw_state w) p) (tk_message tk) (tk_message new) (link s p)"
    using c [unfolded http_contract_def, THEN conjunct2, THEN conjunct2, THEN conjunct2, THEN conjunct2, rule_format, OF call 0(2)] 0(1)
    by simp_all
  have ne: "SUCCESS \<noteq> NOT_READY" by (simp add: SUCCESS_def NOT_READY_def ERROR_BIT_def)
  have "http_poll hs p tk w = Some ((Ok (), in_place tk new), w\<lparr>fw_state := s\<rparr>)"
    using call P(1) by (simp add: http_poll_def token_call_def)
  then have "http_wait hs p tk w = Some (Ok (in_place tk new), w\<lparr>fw_state := s\<rparr>)"
    using t(2) P(3) ne by (simp add: http_wait.simps [of hs p tk] http_wait.simps [of hs p "in_place tk new"])
  then show ?case using P stays_step [OF P(2)] by auto
next
  case (Suc n)
  obtain r new s where call: "hs_poll hs (fw_state w) p tk = ((r, new), s)" by (metis surj_pair)
  have P: "r = SUCCESS" "untouched st opened children (fw_state w) s" "new = tk"
    "link s p = (link (fw_state w) p)\<lparr>lk_wait := n\<rparr>"
    using c [unfolded http_contract_def, THEN conjunct2, THEN conjunct2, THEN conjunct2, THEN conjunct2, rule_format, OF call Suc(3)]
      Suc(2) [symmetric] by simp_all
  let ?w1 = "w\<lparr>fw_state := s\<rparr>"
  have step: "http_wait hs p tk w = http_wait hs p tk ?w1"
    using call P(1,3) t(2) by (simp add: http_wait.simps [of hs p tk w] http_poll_def token_call_def)
  have h: "n = lk_wait (link (fw_state ?w1) p)" "lk_task (link (fw_state ?w1) p) \<noteq> Idle" using P(4) Suc(3) by simp_all
  from Suc(1) [OF h] obtain new' w' where I: "http_wait hs p tk ?w1 = Some (Ok (in_place tk new'), w')"
    "stays st opened children ?w1 w'" "tk_status new' = SUCCESS" "lk_task (link (fw_state w') p) = Idle"
    "completed serve (hs_memory hs (fw_state w')) (link (fw_state ?w1) p) (tk_message tk) (tk_message new') (link (fw_state w') p)"
    by blast
  have "completed serve (hs_memory hs (fw_state w')) (link (fw_state w) p) (tk_message tk) (tk_message new') (link (fw_state w') p)"
    using I(5) P(4) completed_cong [of "link (fw_state w) p" "link (fw_state ?w1) p"] by simp
  then show ?case using step I stays_trans [OF stays_step [OF P(2)] I(2)] by auto
qed

section \<open>The operations of the helper\<close>

text \<open>A helper whose protocol instance is \<open>p\<close> and idle.\<close>

definition idle_helper :: "('fw \<Rightarrow> nat \<Rightarrow> http_link) \<Rightarrow> http_helper \<Rightarrow> nat \<Rightarrow> 'fw world \<Rightarrow> bool" where
  "idle_helper link h p w \<longleftrightarrow> helper_protocol h = Some p \<and> lk_task (link (fw_state w) p) = Idle"

lemma configure_ok:
  assumes "http_contract st hs opened children link serve" "idle_helper link h p w"
  shows "\<exists>w'. helper_configure hs h w = Some (Ok (), w') \<and> stays st opened children w w' \<and> idle_helper link h p w'"
proof -
  obtain r s where call: "hs_configure hs (fw_state w) p default_config = (r, s)" by (metis surj_pair)
  have "lk_task (link (fw_state w) p) = Idle" using assms(2) by (simp add: idle_helper_def)
  from assms(1) [unfolded http_contract_def, THEN conjunct2, THEN conjunct1, rule_format, OF call this]
  show ?thesis using call assms(2) stays_step [of st opened children w s]
    by (auto simp: helper_configure_def http_configure_def idle_helper_def)
qed

lemma send_request_ok:
  assumes c: "http_contract st hs opened children link serve" and i: "idle_helper link h p w"
  shows "\<exists>tk w'. send_and_wait hs (http_request hs) h msg w = Some (Ok tk, w') \<and> stays st opened children w w' \<and>
    idle_helper link h p w' \<and> tk_status tk = SUCCESS \<and>
    lk_head (link (fw_state w') p) = Some (fst (serve msg), fst (snd (serve msg))) \<and>
    lk_rest (link (fw_state w') p) = snd (snd (serve msg))"
proof -
  define tk where "tk = \<lparr>tk_status = NOT_READY, tk_message = msg\<rparr>"
  obtain r tk' s where call: "hs_request hs (fw_state w) p tk = ((r, tk'), s)" by (metis surj_pair)
  have idle: "helper_protocol h = Some p" "lk_task (link (fw_state w) p) = Idle" using i by (simp_all add: idle_helper_def)
  note R = c [unfolded http_contract_def, THEN conjunct2, THEN conjunct2, THEN conjunct1, rule_format, OF call idle(2)]
  let ?w1 = "w\<lparr>fw_state := s\<rparr>"
  have t: "lk_task (link (fw_state ?w1) p) = Transmit msg" using R by (simp add: tk_def)
  then have ne: "lk_task (link (fw_state ?w1) p) \<noteq> Idle" "tk_status tk = NOT_READY" by (simp_all add: tk_def)
  from wait_completes [OF c ne] obtain new w' where W: "http_wait hs p tk ?w1 = Some (Ok (in_place tk new), w')"
    "stays st opened children ?w1 w'" "tk_status new = SUCCESS" "lk_task (link (fw_state w') p) = Idle"
    "completed serve (hs_memory hs (fw_state w')) (link (fw_state ?w1) p) (tk_message tk) (tk_message new) (link (fw_state w') p)"
    by blast
  have "send_and_wait hs (http_request hs) h msg w = Some (Ok (in_place tk new), w')"
    using idle(1) call R W(1) by (simp add: send_and_wait_def http_request_def token_call_def tk_def [symmetric])
  moreover have "stays st opened children w w'" using R stays_trans [OF stays_step W(2)] by simp
  moreover have "lk_head (link (fw_state w') p) = Some (fst (serve msg), fst (snd (serve msg)))"
    "lk_rest (link (fw_state w') p) = snd (snd (serve msg))" using W(5) t by (simp_all add: completed_def)
  ultimately show ?thesis using W(3,4) idle(1) by (simp add: idle_helper_def)
qed

lemma send_response_ok:
  assumes c: "http_contract st hs opened children link serve" and i: "idle_helper link h p w"
  shows "\<exists>tk w'. send_and_wait hs (http_response hs) h msg w = Some (Ok tk, w') \<and> stays st opened children w w' \<and>
    idle_helper link h p w' \<and> tk_status tk = SUCCESS \<and>
    completed serve (hs_memory hs (fw_state w')) ((link (fw_state w) p)\<lparr>lk_task := Receive\<rparr>) msg (tk_message tk) (link (fw_state w') p)"
proof -
  define tk where "tk = \<lparr>tk_status = NOT_READY, tk_message = msg\<rparr>"
  obtain r tk' s where call: "hs_response hs (fw_state w) p tk = ((r, tk'), s)" by (metis surj_pair)
  have idle: "helper_protocol h = Some p" "lk_task (link (fw_state w) p) = Idle" using i by (simp_all add: idle_helper_def)
  note R = c [unfolded http_contract_def, THEN conjunct2, THEN conjunct2, THEN conjunct2, THEN conjunct1, rule_format, OF call idle(2)]
  let ?w1 = "w\<lparr>fw_state := s\<rparr>"
  have t: "lk_task (link (fw_state ?w1) p) = Receive" using R by simp
  then have ne: "lk_task (link (fw_state ?w1) p) \<noteq> Idle" "tk_status tk = NOT_READY" by (simp_all add: tk_def)
  from wait_completes [OF c ne] obtain new w' where W: "http_wait hs p tk ?w1 = Some (Ok (in_place tk new), w')"
    "stays st opened children ?w1 w'" "tk_status new = SUCCESS" "lk_task (link (fw_state w') p) = Idle"
    "completed serve (hs_memory hs (fw_state w')) (link (fw_state ?w1) p) (tk_message tk) (tk_message new) (link (fw_state w') p)"
    by blast
  have done': "completed serve (hs_memory hs (fw_state w')) ((link (fw_state w) p)\<lparr>lk_task := Receive\<rparr>) msg (tk_message new) (link (fw_state w') p)"
    using W(5) t R completed_cong [of "(link (fw_state w) p)\<lparr>lk_task := Receive\<rparr>" "link (fw_state ?w1) p"] by (simp add: tk_def)
  then have "length (msg_body (tk_message new)) = length (msg_body (tk_message tk))"
    by (simp add: completed_def Let_def tk_def)
  then have "send_and_wait hs (http_response hs) h msg w = Some (Ok new, w')"
    using idle(1) call R W(1) by (simp add: send_and_wait_def http_response_def token_call_def tk_def [symmetric] in_place_fits)
  moreover have "stays st opened children w w'" using R stays_trans [OF stays_step W(2)] by simp
  ultimately show ?thesis using W(3,4) idle(1) done' by (simp add: idle_helper_def)
qed

text \<open>The strings of the headers.\<close>

definition decode_header :: "(rstr \<Rightarrow> rstr) \<Rightarrow> bytes \<times> bytes \<Rightarrow> (rstr \<times> rstr) option" where
  "decode_header lower nv = do {
     name \<leftarrow> from_utf8_fuel (length (fst nv)) (fst nv);
     val \<leftarrow> from_utf8_fuel (length (snd nv)) (snd nv);
     Some (to_lowercase lower name, val)
   }"

lemma byte_strlen_holds:
  assumes "holds m p (bs @ [0])" "0 \<notin> set bs" "i \<le> length bs"
  shows "byte_strlen m p i = Some (length bs)"
proof -
  have at: "m (p + k) = (bs @ [0]) ! k" if "k \<le> length bs" for k
  proof -
    have "mem_read m p (length (bs @ [0])) ! k = (bs @ [0]) ! k" using assms(1) by (simp only: holds_def)
    moreover have "mem_read m p (length (bs @ [0])) ! k = m (p + k)"
      unfolding mem_read_def using that by (subst nth_map) (simp_all del: upt_Suc)
    ultimately show ?thesis by simp
  qed
  show ?thesis using assms(3)
  proof (induction "length bs - i" arbitrary: i)
    case 0
    then have i: "i = length bs" by simp
    then have "m (p + i) = 0" using at [of i] by simp
    then show ?case by (subst byte_strlen.simps) (simp add: i)
  next
    case (Suc n)
    then have l: "i < length bs" by simp
    then have "m (p + i) = bs ! i" "bs ! i \<in> set bs" using at [of i] by (simp_all add: nth_append)
    then have "m (p + i) \<noteq> 0" using assms(2) by metis
    moreover have "byte_strlen m p (i + 1) = Some (length bs)" using Suc(1) [of "i + 1"] Suc(2) l by simp
    ultimately show ?case by (subst byte_strlen.simps) simp
  qed
qed

lemma cstr_from_ptr_holds:
  assumes "holds m p (bs @ [0])" "0 \<notin> set bs" "p \<noteq> 0"
  shows "cstr_from_ptr m p = Some bs"
proof -
  have "mem_read m p (length bs) = bs" using assms(1) by (simp add: holds_read)
  then show ?thesis using byte_strlen_holds [OF assms(1,2)] assms(3) by (simp add: cstr_from_ptr_def)
qed

lemma response_header_decodes:
  assumes "headers_at m a hdrs" "i < length hdrs" "0 \<notin> set (fst (hdrs ! i))" "0 \<notin> set (snd (hdrs ! i))"
  shows "response_header lower m (HeadersAt a) i = decode_header lower (hdrs ! i)"
proof -
  have h: "a \<noteq> 0" "unat (u64_from_le (mem_read m (a + 16 * i) 8)) \<noteq> 0" "unat (u64_from_le (mem_read m (a + 16 * i + 8) 8)) \<noteq> 0"
    "holds m (unat (u64_from_le (mem_read m (a + 16 * i) 8))) (fst (hdrs ! i) @ [0])"
    "holds m (unat (u64_from_le (mem_read m (a + 16 * i + 8) 8))) (snd (hdrs ! i) @ [0])"
    using assms(1,2) unfolding headers_at_def Let_def by blast+
  show ?thesis
    by (simp add: response_header_def header_at_def decode_header_def split_def h(1) cstr_from_ptr_holds [OF h(4) assms(3) h(2)]
      cstr_from_ptr_holds [OF h(5) assms(4) h(3)])
qed

lemma headers_decode:
  assumes "headers_at m a hdrs" "\<forall>nv \<in> set hdrs. 0 \<notin> set (fst nv) \<and> 0 \<notin> set (snd nv)"
  shows "map (response_header lower m (HeadersAt a)) [0..<length hdrs] = map (decode_header lower) hdrs"
proof (rule nth_equalityI)
  fix i assume "i < length (map (response_header lower m (HeadersAt a)) [0..<length hdrs])"
  then have i: "i < length hdrs" by simp
  then have "hdrs ! i \<in> set hdrs" by simp
  then show "map (response_header lower m (HeadersAt a)) [0..<length hdrs] ! i = map (decode_header lower) hdrs ! i"
    using response_header_decodes [OF assms(1) i] assms(2) i by simp
qed simp

lemma first_ok:
  assumes c: "http_contract st hs opened children link serve" and i: "idle_helper link h p w"
    and hd: "lk_head (link (fw_state w) p) = Some (code, hdrs)"
    and d: "\<forall>nv \<in> set hdrs. 0 \<notin> set (fst nv) \<and> 0 \<notin> set (snd nv)" "those (map (decode_header lower) hdrs) = Some dh"
  shows "\<exists>part w'. response_first hs lower h True w = Some (Ok \<lparr>rsp_status = code, rsp_headers = dh, rsp_body = part\<rparr>, w') \<and>
    stays st opened children w w' \<and> idle_helper link h p w' \<and> lk_head (link (fw_state w') p) = None \<and>
    lk_rest (link (fw_state w) p) = part @ lk_rest (link (fw_state w') p)"
proof -
  define msg where "msg = http_message_default\<lparr>msg_data := ResponseData STATUS_UNSUPPORTED, msg_body_length := BODY_BUFFER,
    msg_body := replicate BODY_BUFFER 0\<rparr>"
  from send_response_ok [OF c i, of msg] obtain tk w' where S: "send_and_wait hs (http_response hs) h msg w = Some (Ok tk, w')"
    "stays st opened children w w'" "idle_helper link h p w'" "tk_status tk = SUCCESS"
    "completed serve (hs_memory hs (fw_state w')) ((link (fw_state w) p)\<lparr>lk_task := Receive\<rparr>) msg (tk_message tk) (link (fw_state w') p)"
    by blast
  let ?n = "msg_body_length (tk_message tk)" and ?rest = "lk_rest (link (fw_state w) p)"
  have C: "?n \<le> length (msg_body (tk_message tk))" "take ?n (msg_body (tk_message tk)) = take ?n ?rest"
    "lk_rest (link (fw_state w') p) = drop ?n ?rest" "lk_head (link (fw_state w') p) = None"
    "msg_data (tk_message tk) = ResponseData code" "msg_header_count (tk_message tk) = length hdrs"
    using S(5) hd by (simp_all add: completed_def Let_def)
  obtain a where a: "msg_header (tk_message tk) = HeadersAt a" "headers_at (hs_memory hs (fw_state w')) a hdrs"
    using S(5) hd by (auto simp: completed_def Let_def)
  have "response_first hs lower h True w =
      Some (Ok \<lparr>rsp_status = code, rsp_headers = dh, rsp_body = take ?n ?rest\<rparr>, w')"
    using S(1,4) C a(1) headers_decode [OF a(2) d(1)] d(2)
    by (simp add: response_first_def msg_def [symmetric] try_res_def get_range_def)
  then show ?thesis using S(2,3) C(3,4) by auto
qed

lemma more_ok:
  assumes c: "http_contract st hs opened children link serve" and i: "idle_helper link h p w"
    and hd: "lk_head (link (fw_state w) p) = None"
  shows "\<exists>part w'. response_more hs h w = Some (Ok part, w') \<and>
    stays st opened children w w' \<and> idle_helper link h p w' \<and> lk_head (link (fw_state w') p) = None \<and>
    lk_rest (link (fw_state w) p) = part @ lk_rest (link (fw_state w') p) \<and> (lk_rest (link (fw_state w) p) \<noteq> [] \<longrightarrow> part \<noteq> [])"
proof -
  define msg where "msg = http_message_default\<lparr>msg_body_length := BODY_BUFFER, msg_body := replicate BODY_BUFFER 0\<rparr>"
  from send_response_ok [OF c i, of msg] obtain tk w' where S: "send_and_wait hs (http_response hs) h msg w = Some (Ok tk, w')"
    "stays st opened children w w'" "idle_helper link h p w'" "tk_status tk = SUCCESS"
    "completed serve (hs_memory hs (fw_state w')) ((link (fw_state w) p)\<lparr>lk_task := Receive\<rparr>) msg (tk_message tk) (link (fw_state w') p)"
    by blast
  let ?n = "msg_body_length (tk_message tk)" and ?rest = "lk_rest (link (fw_state w) p)"
  have b: "msg_body msg \<noteq> []" by (simp add: msg_def BODY_BUFFER_def)
  have C: "?n \<le> length (msg_body (tk_message tk))" "take ?n (msg_body (tk_message tk)) = take ?n ?rest"
    "lk_rest (link (fw_state w') p) = drop ?n ?rest" "lk_head (link (fw_state w') p) = None" "?rest \<noteq> [] \<longrightarrow> 0 < ?n"
    using S(5) hd b by (simp_all add: completed_def Let_def)
  have "response_more hs h w = Some (Ok (take ?n ?rest), w')"
    using S(1,4) C(1,2) by (simp add: response_more_def msg_def [symmetric] try_res_def get_range_def)
  then show ?thesis using S(2,3) C(3-5) by auto
qed

text \<open>The download loop ends with the whole body.\<close>

lemma fetch_more_ok:
  assumes c: "http_contract st hs opened children link serve"
  shows "idle_helper link h p w \<Longrightarrow> lk_head (link (fw_state w) p) = None \<Longrightarrow>
    \<exists>w'. fetch_more hs h (length (dat @ lk_rest (link (fw_state w) p))) dat w = Some (Some (dat @ lk_rest (link (fw_state w) p)), w') \<and>
      stays st opened children w w'"
proof (induction "length (lk_rest (link (fw_state w) p))" arbitrary: dat w rule: less_induct)
  case less
  let ?rest = "lk_rest (link (fw_state w) p)"
  show ?case
  proof (cases "?rest = []")
    case True
    then show ?thesis by (simp add: fetch_more.simps [of hs h "length dat" dat w])
  next
    case False
    from more_ok [OF c less(2,3)] obtain part w1 where M: "response_more hs h w = Some (Ok part, w1)"
      "stays st opened children w w1" "idle_helper link h p w1" "lk_head (link (fw_state w1) p) = None"
      "?rest = part @ lk_rest (link (fw_state w1) p)" "part \<noteq> []" using False by blast
    have "length (lk_rest (link (fw_state w1) p)) < length ?rest" using M(5,6) by simp
    from less(1) [OF this M(3,4), of "dat @ part"] obtain w2 where I:
      "fetch_more hs h (length (dat @ ?rest)) (dat @ part) w1 = Some (Some (dat @ ?rest), w2)" "stays st opened children w1 w2"
      using M(5) by auto
    have "fetch_more hs h (length (dat @ ?rest)) dat w = Some (Some (dat @ ?rest), w2)"
      using False M(1) I(1) by (simp add: fetch_more.simps [of hs h _ dat w])
    then show ?thesis using stays_trans [OF M(2) I(2)] by blast
  qed
qed

section \<open>Creating and dropping the helper\<close>

text \<open>\<open>fresh\<close> is what the firmware promises of the interfaces it opens for a protocol.\<close>

definition opens_as :: "'fw firmware \<Rightarrow> nat \<Rightarrow> ('fw \<Rightarrow> nat \<Rightarrow> bool) \<Rightarrow> bool" where
  "opens_as st g fresh \<longleftrightarrow>
    (\<forall>s h a c t r i s'. ps_open_protocol (fw_proto st) s h g a c t = ((r, i), s') \<longrightarrow> r = SUCCESS \<longrightarrow> fresh s' i)"

lemma open_get_cases:
  assumes c: "open_contract st opened" and b: "binding_contract st sb opened children" and a: "alive st w"
    and q: "opens_as st g fresh"
  shows "\<exists>r w'. open_protocol g \<lparr>op_handle = h, op_agent = ag, op_controller = None\<rparr> GetProtocol w = Some (r, w') \<and> alive st w' \<and>
    children (fw_state w') = children (fw_state w) \<and>
    (case r of
       Ok sp \<Rightarrow> (\<exists>i. sp_interface sp = Some i \<and> fresh (fw_state w') i) \<and> open_key_of sp = (h, g, ag, 0) \<and> opened (fw_state w') = add_mset (h, g, ag, 0) (opened (fw_state w))
     | Err _ \<Rightarrow> opened (fw_state w') = opened (fw_state w))"
proof -
  obtain r i f where call: "ps_open_protocol (fw_proto st) (fw_state w) h g ag 0 0x02 = ((r, i), f)" by (metis surj_pair)
  have t: "(0x02 :: u32) \<noteq> 0x04" by simp
  note C = c [unfolded open_contract_def, THEN conjunct1, rule_format, OF t call]
  have ch: "children f = children (fw_state w)"
    by (rule b [unfolded binding_contract_def, THEN conjunct2, THEN conjunct2, THEN conjunct1, rule_format, OF call])
  have al: "alive st (w\<lparr>fw_state := f\<rparr>)" using C alive_step [OF a] by blast
  show ?thesis
  proof (cases "r = SUCCESS")
    case True
    then have "fresh f i" using q call unfolding opens_as_def by blast
    then show ?thesis using True C ch al alive_raw [OF a] call by (auto simp: open_protocol_def opt_to_ptr_def open_key_of_def)
  next
    case False
    then show ?thesis using C ch al alive_raw [OF a] call by (auto simp: open_protocol_def opt_to_ptr_def)
  qed
qed

lemma create_child_cases:
  assumes b: "binding_contract st sb opened children" and a: "alive st w"
  shows "\<exists>r w'. create_child sb i w = Some (r, w') \<and> alive st w' \<and> opened (fw_state w') = opened (fw_state w) \<and>
    (case r of
       Ok h \<Rightarrow> h \<notin> children (fw_state w) \<and> (\<forall>k \<in># opened (fw_state w). fst k \<noteq> h) \<and> children (fw_state w') = insert h (children (fw_state w))
     | Err _ \<Rightarrow> children (fw_state w') = children (fw_state w))"
proof -
  obtain r h f where call: "sb_create_child sb (fw_state w) i 0 = ((r, h), f)" by (metis surj_pair)
  note C = b [unfolded binding_contract_def, THEN conjunct1, rule_format, OF call]
  have "alive st (w\<lparr>fw_state := f\<rparr>)" using C alive_step [OF a] by blast
  then show ?thesis using C call by (cases "r = SUCCESS") (auto simp: create_child_def handle_from_ptr_def)
qed

lemma destroy_child_cases:
  assumes b: "binding_contract st sb opened children" and a: "alive st w"
    and h: "h \<in> children (fw_state w)" "\<forall>k \<in># opened (fw_state w). fst k \<noteq> h"
  shows "\<exists>r w'. destroy_child sb i h w = Some (r, w') \<and> alive st w' \<and> opened (fw_state w') = opened (fw_state w) \<and>
    children (fw_state w') = children (fw_state w) - {h}"
proof -
  obtain r f where call: "sb_destroy_child sb (fw_state w) i h = (r, f)" by (metis surj_pair)
  note C = b [unfolded binding_contract_def, THEN conjunct2, THEN conjunct1, rule_format, OF call]
  have "alive st (w\<lparr>fw_state := f\<rparr>)" using C alive_step [OF a] by blast
  then show ?thesis using C h call by (cases "r = SUCCESS") (auto simp: destroy_child_def http_status_def)
qed

lemma drop_keeps_children:
  assumes b: "binding_contract st sb opened children" and a: "alive st w" and d: "scoped_protocol_drop sp w = Some w'"
  shows "children (fw_state w') = children (fw_state w)"
proof -
  obtain r f where call: "ps_close_protocol (fw_proto st) (fw_state w) (op_handle (sp_open_params sp)) (sp_guid sp)
      (op_agent (sp_open_params sp)) (opt_to_ptr (op_controller (sp_open_params sp))) = (r, f)" by (metis surj_pair)
  have "children f = children (fw_state w)"
    by (rule b [unfolded binding_contract_def, THEN conjunct2, THEN conjunct2, THEN conjunct2, rule_format, OF call])
  moreover have "fw_state w' = f"
    using d alive_raw [OF a] call by (cases "r = SUCCESS") (auto simp: scoped_protocol_drop_def)
  ultimately show ?thesis by simp
qed

text \<open>What a helper owns: two open protocols and the child, beyond what was there before.\<close>

definition helper_owns :: "http_helper \<Rightarrow> open_key multiset \<Rightarrow> nat set \<Rightarrow> open_key multiset \<Rightarrow> nat set \<Rightarrow> bool" where
  "helper_owns h ks cs ks' cs' \<longleftrightarrow>
    (\<exists>sp. hh_protocol h = Some sp \<and> sp_interface sp \<noteq> None \<and> sp_interface (hh_binding h) \<noteq> None \<and>
      ks' = add_mset (open_key_of sp) (add_mset (open_key_of (hh_binding h)) ks) \<and>
      cs' = insert (hh_child h) cs \<and> hh_child h \<notin> cs \<and>
      (\<forall>k \<in># add_mset (open_key_of (hh_binding h)) ks. fst k \<noteq> hh_child h))"

lemma helper_drop_ok:
  assumes c: "open_contract st opened" and b: "binding_contract st sb opened children" and a: "alive st w"
    and o: "helper_owns h ks cs (opened (fw_state w)) (children (fw_state w))"
  shows "\<exists>w'. http_helper_drop sb h w = Some w' \<and> alive st w' \<and> opened (fw_state w') = ks \<and> children (fw_state w') = cs"
proof -
  obtain sp where sp: "hh_protocol h = Some sp" "sp_interface (hh_binding h) \<noteq> None"
    "opened (fw_state w) = add_mset (open_key_of sp) (add_mset (open_key_of (hh_binding h)) ks)"
    "children (fw_state w) = insert (hh_child h) cs" "hh_child h \<notin> cs"
    "\<forall>k \<in># add_mset (open_key_of (hh_binding h)) ks. fst k \<noteq> hh_child h" using o unfolding helper_owns_def by blast
  obtain p where p: "scoped_protocol_deref (hh_binding h) = Some p" using sp(2) by (auto simp: scoped_protocol_deref_def)
  have "open_key_of sp \<in># opened (fw_state w)" using sp(3) by simp
  from drop_cases [OF c a this] obtain w1 where d1: "scoped_protocol_drop sp w = Some w1" "alive st w1"
    "opened (fw_state w1) = add_mset (open_key_of (hh_binding h)) ks" using sp(3) by auto
  have c1: "children (fw_state w1) = insert (hh_child h) cs" using drop_keeps_children [OF b a d1(1)] sp(4) by simp
  have "hh_child h \<in> children (fw_state w1)" "\<forall>k \<in># opened (fw_state w1). fst k \<noteq> hh_child h"
    using c1 d1(3) sp(6) by simp_all
  from destroy_child_cases [OF b d1(2) this, of p] obtain r w2 where d2: "destroy_child sb p (hh_child h) w1 = Some (r, w2)"
    "alive st w2" "opened (fw_state w2) = opened (fw_state w1)" "children (fw_state w2) = cs" using c1 sp(5) by auto
  have "open_key_of (hh_binding h) \<in># opened (fw_state w2)" using d1(3) d2(3) by simp
  from drop_cases [OF c d2(2) this] obtain w3 where d3: "scoped_protocol_drop (hh_binding h) w2 = Some w3" "alive st w3"
    "opened (fw_state w3) = ks" using d1(3) d2(3) by auto
  have "children (fw_state w3) = cs" using drop_keeps_children [OF b d2(2) d3(1)] d2(4) by simp
  then show ?thesis using sp(1) p d1(1) d2(1) d3 by (simp add: http_helper_drop_def)
qed

lemma with_child_cases:
  assumes c: "open_contract st opened" and b: "binding_contract st sb opened children" and a: "alive st w"
    and bd: "sp_interface bd \<noteq> None" "scoped_protocol_deref bd = Some p" "opened (fw_state w) = add_mset (open_key_of bd) ks"
    and ch: "ch \<notin> cs" "\<forall>k \<in># add_mset (open_key_of bd) ks. fst k \<noteq> ch" "children (fw_state w) = insert ch cs"
    and q: "opens_as st HTTP_GUID fresh"
  shows "\<exists>r w'. with_child sb bd p ch w = Some (r, w') \<and> alive st w' \<and>
    (case r of Ok h \<Rightarrow> helper_owns h ks cs (opened (fw_state w')) (children (fw_state w')) \<and> (\<exists>i. helper_protocol h = Some i \<and> fresh (fw_state w') i)
     | Err _ \<Rightarrow> opened (fw_state w') = ks \<and> children (fw_state w') = cs)"
proof -
  have img: "image_handle w = Some (image_handle_ptr w)" using a by (simp add: image_handle_def alive_def)
  from open_get_cases [OF c b a q, of ch "image_handle_ptr w"] obtain r1 w1 where
    o1: "open_protocol HTTP_GUID \<lparr>op_handle = ch, op_agent = image_handle_ptr w, op_controller = None\<rparr> GetProtocol w = Some (r1, w1)"
      "alive st w1" "children (fw_state w1) = insert ch cs" and
    r1: "case r1 of Ok sp \<Rightarrow> (\<exists>i. sp_interface sp = Some i \<and> fresh (fw_state w1) i) \<and> open_key_of sp = (ch, HTTP_GUID, image_handle_ptr w, 0) \<and>
      opened (fw_state w1) = add_mset (ch, HTTP_GUID, image_handle_ptr w, 0) (opened (fw_state w))
      | Err _ \<Rightarrow> opened (fw_state w1) = opened (fw_state w)" using ch(3) by auto
  show ?thesis
  proof (cases r1)
    case (Ok sp)
    then show ?thesis using img o1 r1 bd ch by (auto simp: with_child_def helper_owns_def helper_protocol_def scoped_protocol_deref_def)
  next
    case (Err e)
    have "ch \<in> children (fw_state w1)" "\<forall>k \<in># opened (fw_state w1). fst k \<noteq> ch" using o1(3) r1 Err bd(3) ch(2) by simp_all
    from destroy_child_cases [OF b o1(2) this, of p] obtain r2 w2 where d2: "destroy_child sb p ch w1 = Some (r2, w2)"
      "alive st w2" "opened (fw_state w2) = add_mset (open_key_of bd) ks" "children (fw_state w2) = cs"
      using o1(3) ch(1) r1 Err bd(3) by auto
    have "open_key_of bd \<in># opened (fw_state w2)" using d2(3) by simp
    from drop_cases [OF c d2(2) this] obtain w3 where d3: "scoped_protocol_drop bd w2 = Some w3" "alive st w3" "opened (fw_state w3) = ks"
      using d2(3) by auto
    then show ?thesis using img o1(1) Err d2 drop_keeps_children [OF b d2(2) d3(1)] by (simp add: with_child_def)
  qed
qed

lemma helper_new_cases:
  assumes c: "open_contract st opened" and b: "binding_contract st sb opened children" and a: "alive st w"
    and q: "opens_as st HTTP_GUID fresh"
  shows "\<exists>r w'. http_helper_new sb nic w = Some (r, w') \<and> alive st w' \<and>
    (case r of
       Ok h \<Rightarrow> helper_owns h (opened (fw_state w)) (children (fw_state w)) (opened (fw_state w')) (children (fw_state w')) \<and>
         (\<exists>i. helper_protocol h = Some i \<and> fresh (fw_state w') i)
     | Err _ \<Rightarrow> opened (fw_state w') = opened (fw_state w) \<and> children (fw_state w') = children (fw_state w))"
proof -
  let ?ks = "opened (fw_state w)" and ?cs = "children (fw_state w)"
  have img: "image_handle v = Some (image_handle_ptr v)" if "alive st v" for v using that by (simp add: image_handle_def alive_def)
  let ?op = "open_protocol HTTP_BINDING_GUID \<lparr>op_handle = nic, op_agent = image_handle_ptr w, op_controller = None\<rparr> GetProtocol w"
  have any: "opens_as st HTTP_BINDING_GUID (\<lambda>_ _. True)" by (simp add: opens_as_def)
  from open_get_cases [OF c b a any, of nic "image_handle_ptr w"] obtain r1 w1 where
    o1: "?op = Some (r1, w1)" "alive st w1" "children (fw_state w1) = ?cs" and
    r1: "case r1 of Ok sp \<Rightarrow> (\<exists>i. sp_interface sp = Some i \<and> True) \<and> open_key_of sp = (nic, HTTP_BINDING_GUID, image_handle_ptr w, 0) \<and>
      opened (fw_state w1) = add_mset (nic, HTTP_BINDING_GUID, image_handle_ptr w, 0) ?ks | Err _ \<Rightarrow> opened (fw_state w1) = ?ks" by blast
  show ?thesis
  proof (cases r1)
    case (Err e)
    then show ?thesis using img [OF a] o1 r1 by (simp add: http_helper_new_def try_res_def)
  next
    case (Ok bd)
    then have bd: "sp_interface bd \<noteq> None" "opened (fw_state w1) = add_mset (open_key_of bd) ?ks" using r1 by auto
    obtain p where p: "scoped_protocol_deref bd = Some p" using bd(1) by (auto simp: scoped_protocol_deref_def)
    have new: "http_helper_new sb nic w = (do {
        (r, w2) \<leftarrow> create_child sb p w1;
        case r of
          Err e \<Rightarrow> do { w3 \<leftarrow> scoped_protocol_drop bd w2; Some (Err e, w3) }
        | Ok ch \<Rightarrow> with_child sb bd p ch w2 })"
      using img [OF a] o1(1) Ok p by (simp add: http_helper_new_def try_res_def)
    from create_child_cases [OF b o1(2), of p, unfolded bd(2) o1(3)] obtain r2 w2 where o2: "create_child sb p w1 = Some (r2, w2)" "alive st w2"
      "opened (fw_state w2) = add_mset (open_key_of bd) ?ks" and
      r2: "case r2 of Ok h \<Rightarrow> h \<notin> ?cs \<and> (\<forall>k \<in># add_mset (open_key_of bd) ?ks. fst k \<noteq> h) \<and> children (fw_state w2) = insert h ?cs
        | Err _ \<Rightarrow> children (fw_state w2) = ?cs" by blast
    show ?thesis
    proof (cases r2)
      case (Err e)
      have "open_key_of bd \<in># opened (fw_state w2)" using o2(3) by simp
      from drop_cases [OF c o2(2) this] obtain w3 where "scoped_protocol_drop bd w2 = Some w3" "alive st w3" "opened (fw_state w3) = ?ks"
        using o2(3) by auto
      then show ?thesis using new o2(1) Err r2 drop_keeps_children [OF b o2(2)] by simp
    next
      case (Ok ch)
      then have "ch \<notin> ?cs" "\<forall>k \<in># add_mset (open_key_of bd) ?ks. fst k \<noteq> ch" "children (fw_state w2) = insert ch ?cs"
        using r2 by simp_all
      from with_child_cases [OF c b o2(2) bd(1) p o2(3) this q] show ?thesis using new o2(1) Ok by simp
    qed
  qed
qed

section \<open>One exchange\<close>

lemma session_ok:
  assumes c: "http_contract st hs opened children link serve" and i: "idle_helper link h p w"
    and url: "cstring16_try_from_str url = Ok url16" "get_at (str_split 0x2F url) 2 = Some host"
    and srv: "serve (request_message GET url16 host None) = (STATUS_200_OK, hdrs, body)"
    and d: "\<forall>nv \<in> set hdrs. 0 \<notin> set (fst nv) \<and> 0 \<notin> set (snd nv)" "those (map (decode_header lower) hdrs) = Some dh"
    and cl: "find (\<lambda>h. fst h = content_length) dh = Some cl" "parse_uint usize_limit (snd cl) = Some (length body)"
  shows "\<exists>w'. fetch_session hs lower h url w = Some (Some body, w') \<and> stays st opened children w w'"
proof -
  obtain w1 where w1: "helper_configure hs h w = Some (Ok (), w1)" "stays st opened children w w1" "idle_helper link h p w1"
    using configure_ok [OF c i] by blast
  obtain tk w2 where w2: "send_and_wait hs (http_request hs) h (request_message GET url16 host None) w1 = Some (Ok tk, w2)"
    "stays st opened children w1 w2" "idle_helper link h p w2" "tk_status tk = SUCCESS"
    "lk_head (link (fw_state w2) p) = Some (STATUS_200_OK, hdrs)" "lk_rest (link (fw_state w2) p) = body"
    using send_request_ok [OF c w1(3), of "request_message GET url16 host None"] srv by auto
  have rq: "request_get hs h url w1 = Some (Ok (), w2)"
    using url w2(1,4) by (simp add: request_get_def helper_request_def try_res_def get_at_def)
  obtain part w3 where w3: "response_first hs lower h True w2 = Some (Ok \<lparr>rsp_status = STATUS_200_OK, rsp_headers = dh, rsp_body = part\<rparr>, w3)"
    "stays st opened children w2 w3" "idle_helper link h p w3" "lk_head (link (fw_state w3) p) = None"
    "body = part @ lk_rest (link (fw_state w3) p)"
    using first_ok [OF c w2(3,5) d] w2(6) by auto
  obtain w4 where w4: "fetch_more hs h (length body) part w3 = Some (Some body, w4)" "stays st opened children w3 w4"
    using fetch_more_ok [OF c w3(3,4), of part] w3(5) by auto
  have "fetch_session hs lower h url w = Some (Some body, w4)"
    using w1(1) rq w3(1) w4(1) cl by (simp add: fetch_session_def or_none_def fetch_rest_def)
  then show ?thesis using stays_trans [OF stays_trans [OF w1(2) w2(2)] stays_trans [OF w3(2) w4(2)]] by blast
qed

section \<open>Properties\<close>

text \<open>C18: Creating the helper either fails and leaves nothing behind, with the service binding closed and no child
  created, or gives a helper that owns its two open protocols and its child; dropping the helper at any later
  moment, whatever happened to the connection in between, closes both protocols, and destroys the child after its
  protocol is closed. Neither operation panics.\<close>

theorem http_helper_no_leak:
  assumes "open_contract st opened" "binding_contract st sb opened children" "alive st w"
  shows "\<exists>r w1. http_helper_new sb nic w = Some (r, w1) \<and>
    (case r of
       Err _ \<Rightarrow> opened (fw_state w1) = opened (fw_state w) \<and> children (fw_state w1) = children (fw_state w)
     | Ok h \<Rightarrow> hh_child h \<in> children (fw_state w1) \<and> hh_child h \<notin> children (fw_state w) \<and>
         (\<forall>w2. alive st w2 \<and> opened (fw_state w2) = opened (fw_state w1) \<and> children (fw_state w2) = children (fw_state w1) \<longrightarrow>
           (\<exists>w3. http_helper_drop sb h w2 = Some w3 \<and> opened (fw_state w3) = opened (fw_state w) \<and>
             children (fw_state w3) = children (fw_state w))))"
proof -
  have any: "opens_as st HTTP_GUID (\<lambda>_ _. True)" by (simp add: opens_as_def)
  obtain r w1 where n: "http_helper_new sb nic w = Some (r, w1)" and
    R: "case r of Ok h \<Rightarrow> helper_owns h (opened (fw_state w)) (children (fw_state w)) (opened (fw_state w1)) (children (fw_state w1)) \<and>
      (\<exists>i. helper_protocol h = Some i \<and> True)
      | Err _ \<Rightarrow> opened (fw_state w1) = opened (fw_state w) \<and> children (fw_state w1) = children (fw_state w)"
    using helper_new_cases [OF assms any] by blast
  show ?thesis
  proof (cases r)
    case (Err e)
    then show ?thesis using n R by simp
  next
    case (Ok h)
    then have o: "helper_owns h (opened (fw_state w)) (children (fw_state w)) (opened (fw_state w1)) (children (fw_state w1))"
      using R by simp
    have "hh_child h \<in> children (fw_state w1)" "hh_child h \<notin> children (fw_state w)"
      using o unfolding helper_owns_def by blast+
    moreover have "\<exists>w3. http_helper_drop sb h w2 = Some w3 \<and> opened (fw_state w3) = opened (fw_state w) \<and>
        children (fw_state w3) = children (fw_state w)"
      if "alive st w2" "opened (fw_state w2) = opened (fw_state w1)" "children (fw_state w2) = children (fw_state w1)" for w2
      using helper_drop_ok [OF assms(1,2) that(1)] o that(2,3) by metis
    ultimately show ?thesis using n Ok by auto
  qed
qed

text \<open>C6: A download terminates and delivers: if the server answers the request for the URL with status 200, headers in
  UTF-8 and a content length that is the length of its body, and the driver completes every pending token after
  some finite number of polls, handing over the body in parts of its own choice, then the download returns exactly
  that body; it returns nothing only if no helper could be created. In both cases every protocol is closed again and
  no child is left.\<close>

theorem fetch_http_delivers:
  assumes "open_contract st opened" "binding_contract st sb opened children" "http_contract st hs opened children link serve"
    and "alive st w" "cstring16_try_from_str url = Ok url16" "get_at (str_split 0x2F url) 2 = Some host"
    and "serve (request_message GET url16 host None) = (STATUS_200_OK, hdrs, body)"
    and "\<forall>nv \<in> set hdrs. 0 \<notin> set (fst nv) \<and> 0 \<notin> set (snd nv)" "those (map (decode_header lower) hdrs) = Some dh"
    and "find (\<lambda>h. fst h = content_length) dh = Some cl" "parse_uint usize_limit (snd cl) = Some (length body)"
  shows "\<exists>r w'. fetch_http hs sb lower nic url w = Some (r, w') \<and>
    r = (case http_helper_new sb nic w of Some (Ok _, _) \<Rightarrow> Some body | _ \<Rightarrow> None) \<and>
    opened (fw_state w') = opened (fw_state w) \<and> children (fw_state w') = children (fw_state w)"
proof -
  note c = assms(3)
  let ?fresh = "\<lambda>s i. lk_task (link s i) = Idle"
  have q: "opens_as st HTTP_GUID ?fresh"
    unfolding opens_as_def by (rule c [unfolded http_contract_def, THEN conjunct1])
  obtain r w1 where n: "http_helper_new sb nic w = Some (r, w1)" "alive st w1" and
    R: "case r of Ok h \<Rightarrow> helper_owns h (opened (fw_state w)) (children (fw_state w)) (opened (fw_state w1)) (children (fw_state w1)) \<and>
      (\<exists>i. helper_protocol h = Some i \<and> ?fresh (fw_state w1) i)
      | Err _ \<Rightarrow> opened (fw_state w1) = opened (fw_state w) \<and> children (fw_state w1) = children (fw_state w)"
    using helper_new_cases [OF assms(1,2,4) q] by blast
  show ?thesis
  proof (cases r)
    case (Err e)
    then show ?thesis using n R by (simp add: fetch_http_def or_none_def)
  next
    case (Ok h)
    then obtain p where o: "helper_owns h (opened (fw_state w)) (children (fw_state w)) (opened (fw_state w1)) (children (fw_state w1))"
      and i: "idle_helper link h p w1" using R by (auto simp: idle_helper_def)
    from session_ok [OF c i assms(5-11)] obtain w2 where s: "fetch_session hs lower h url w1 = Some (Some body, w2)"
      "stays st opened children w1 w2" by blast
    have "helper_owns h (opened (fw_state w)) (children (fw_state w)) (opened (fw_state w2)) (children (fw_state w2))"
      using o staysD [OF s(2)] by simp
    from helper_drop_ok [OF assms(1,2) stays_alive [OF s(2) n(2)] this] obtain w3 where "http_helper_drop sb h w2 = Some w3"
      "opened (fw_state w3) = opened (fw_state w)" "children (fw_state w3) = children (fw_state w)" by blast
    then show ?thesis using n(1) Ok s(1) by (simp add: fetch_http_def or_none_def)
  qed
qed

section \<open>A firmware that keeps the contracts\<close>

text \<open>It opens everything, sends after two polls, receives after one, hands over at most three bytes at a time, and
  serves one resource of five bytes.\<close>

record demo_state =
  ds_open :: "open_key list"
  ds_children :: "nat list"
  ds_task :: http_task
  ds_wait :: nat
  ds_head :: bool
  ds_rest :: bytes

definition demo_headers :: "(bytes \<times> bytes) list" where
  "demo_headers = [([0x43, 0x6F, 0x6E, 0x74, 0x65, 0x6E, 0x74, 0x2D, 0x4C, 0x65, 0x6E, 0x67, 0x74, 0x68], [0x35])]"

definition demo_memory :: "nat \<Rightarrow> u8" where
  "demo_memory =
    mem_write (mem_write (mem_write (\<lambda>_. 0) 300 [0x35, 0]) 200 (fst (hd demo_headers) @ [0])) 100 (u64_to_le 200 @ u64_to_le 300)"

definition demo_serve :: "http_message \<Rightarrow> u32 \<times> (bytes \<times> bytes) list \<times> bytes" where
  "demo_serve msg = (STATUS_200_OK, demo_headers, [1, 2, 3, 4, 5])"

definition demo_link :: "demo_state \<Rightarrow> nat \<Rightarrow> http_link" where
  "demo_link s p = \<lparr>lk_task = ds_task s, lk_wait = ds_wait s,
    lk_head = (if ds_head s then Some (STATUS_200_OK, demo_headers) else None), lk_rest = ds_rest s\<rparr>"

definition demo_firmware :: "demo_state firmware" where
  "demo_firmware = idle_firmware\<lparr>fw_proto := (fw_proto idle_firmware)\<lparr>
     ps_open_protocol := (\<lambda>s h g a c t. if t = 4 then ((UNSUPPORTED, 0), s)
       else ((SUCCESS, 9), s\<lparr>ds_open := (h, g, a, c) # ds_open s, ds_task := Idle\<rparr>)),
     ps_close_protocol := (\<lambda>s h g a c. if (h, g, a, c) \<in> set (ds_open s)
       then (SUCCESS, s\<lparr>ds_open := remove1 (h, g, a, c) (ds_open s)\<rparr>) else (NOT_FOUND, s))\<rparr>\<rparr>"

definition demo_binding :: "demo_state binding_services" where
  "demo_binding = \<lparr>
     sb_create_child = (\<lambda>s b c. let h = Suc (sum_list (map fst (ds_open s)) + sum_list (ds_children s))
       in ((SUCCESS, h), s\<lparr>ds_children := h # ds_children s\<rparr>)),
     sb_destroy_child = (\<lambda>s b h. (SUCCESS, s\<lparr>ds_children := removeAll h (ds_children s)\<rparr>))\<rparr>"

definition demo_poll :: "demo_state \<Rightarrow> nat \<Rightarrow> http_token \<Rightarrow> (status \<times> http_token) \<times> demo_state" where
  "demo_poll s p tk =
    (if 0 < ds_wait s then ((SUCCESS, tk), s\<lparr>ds_wait := ds_wait s - 1\<rparr>)
     else case ds_task s of
       Idle \<Rightarrow> ((SUCCESS, tk), s)
     | Transmit msg \<Rightarrow> ((SUCCESS, tk\<lparr>tk_status := SUCCESS\<rparr>), s\<lparr>ds_task := Idle, ds_head := True, ds_rest := [1, 2, 3, 4, 5]\<rparr>)
     | Receive \<Rightarrow>
         (let buf = msg_body (tk_message tk); n = min 3 (min (length buf) (length (ds_rest s)))
          in ((SUCCESS, \<lparr>tk_status = SUCCESS, tk_message = \<lparr>msg_data = ResponseData STATUS_200_OK, msg_header_count = 1,
                msg_header = HeadersAt 100, msg_body_length = n, msg_body = take n (ds_rest s) @ drop n buf\<rparr>\<rparr>),
              s\<lparr>ds_task := Idle, ds_head := False, ds_rest := drop n (ds_rest s)\<rparr>)))"

definition demo_http :: "demo_state http_services" where
  "demo_http = \<lparr>
     hs_get_mode_data = (\<lambda>s p c. ((SUCCESS, c), s)),
     hs_configure = (\<lambda>s p c. (SUCCESS, s)),
     hs_request = (\<lambda>s p tk. ((SUCCESS, tk), s\<lparr>ds_task := Transmit (tk_message tk), ds_wait := 2\<rparr>)),
     hs_cancel = (\<lambda>s p tk. ((SUCCESS, tk), s)),
     hs_response = (\<lambda>s p tk. ((SUCCESS, tk), s\<lparr>ds_task := Receive, ds_wait := 1\<rparr>)),
     hs_poll = demo_poll,
     hs_memory = (\<lambda>_. demo_memory)\<rparr>"

abbreviation demo_opened :: "demo_state \<Rightarrow> open_key multiset" where
  "demo_opened s \<equiv> mset (ds_open s)"

abbreviation demo_children :: "demo_state \<Rightarrow> nat set" where
  "demo_children s \<equiv> set (ds_children s)"

definition demo_world :: "demo_state world" where
  "demo_world = \<lparr>system_table = Some demo_firmware,
     fw_state = \<lparr>ds_open = [(1, 2, 3, 0)], ds_children = [4], ds_task = Idle, ds_wait = 0, ds_head = False, ds_rest = []\<rparr>,
     image_handle_ptr = 5, memory_type_cache = 0, ram = (\<lambda>_. 0)\<rparr>"

lemma demo_open_contract: "open_contract demo_firmware demo_opened"
  unfolding open_contract_def by (auto simp: demo_firmware_def idle_firmware_def status_consts split: if_splits)

lemma demo_fresh:
  "Suc (sum_list (map fst ks) + sum_list cs) \<notin> set cs" "(k :: open_key) \<in> set ks \<Longrightarrow> fst k \<noteq> Suc (sum_list (map fst ks) + sum_list cs)"
proof -
  have "c \<le> sum_list cs" if "c \<in> set cs" for c using that by (intro member_le_sum_list) simp_all
  then show "Suc (sum_list (map fst ks) + sum_list cs) \<notin> set cs" by fastforce
  assume "k \<in> set ks"
  then have "fst k \<le> sum_list (map fst ks)" by (intro member_le_sum_list) simp_all
  then show "fst k \<noteq> Suc (sum_list (map fst ks) + sum_list cs)" by simp
qed

lemma demo_binding_contract: "binding_contract demo_firmware demo_binding demo_opened demo_children"
  unfolding binding_contract_def using demo_fresh
  by (auto simp: demo_firmware_def demo_binding_def Let_def split: if_splits)

lemma holds_write_other:
  "a + length xs \<le> b \<or> b + length bs \<le> a \<Longrightarrow> holds (mem_write m b bs) a xs = holds m a xs"
  unfolding holds_def by (rule arg_cong [of _ _ "\<lambda>ys. ys = xs"]) (auto simp: mem_read_def mem_write_def)

lemma demo_headers_at: "headers_at demo_memory 100 demo_headers"
proof -
  have "holds demo_memory 100 (u64_to_le 200 @ u64_to_le 300)" unfolding demo_memory_def by (rule holds_write)
  then have "holds demo_memory 100 (u64_to_le 200)" "holds demo_memory 108 (u64_to_le 300)"
    by (simp_all add: u64c.encode_length)
  then have "mem_read demo_memory 100 8 = u64_to_le 200" "mem_read demo_memory 108 8 = u64_to_le 300"
    by (simp_all add: holds_read u64c.encode_length)
  moreover have "holds demo_memory 200 (fst (hd demo_headers) @ [0])"
    unfolding demo_memory_def by (simp add: holds_write_other holds_write demo_headers_def u64c.encode_length del: holds_append)
  moreover have "holds demo_memory 300 (snd (hd demo_headers) @ [0])"
    unfolding demo_memory_def by (simp add: holds_write_other holds_write demo_headers_def u64c.encode_length del: holds_append)
  ultimately show ?thesis by (simp add: headers_at_def demo_headers_def u64c.decode_encode)
qed

lemma demo_link_simps [simp]: "lk_task (demo_link s p) = ds_task s" "lk_wait (demo_link s p) = ds_wait s"
  by (simp_all add: demo_link_def)

lemma demo_completed:
  assumes "ds_task s \<noteq> Idle" "ds_wait s = 0" "demo_poll s p tk = ((r, tk'), s')"
  shows "r = SUCCESS \<and> tk_status tk' = SUCCESS \<and> ds_task s' = Idle \<and> ds_open s' = ds_open s \<and> ds_children s' = ds_children s \<and>
    completed demo_serve demo_memory (demo_link s p) (tk_message tk) (tk_message tk') (demo_link s' p)"
proof (cases "ds_task s")
  case (Transmit msg)
  then show ?thesis using assms(2,3) by (auto simp: demo_poll_def completed_def demo_link_def demo_serve_def)
next
  case Receive
  define n where "n = min 3 (min (length (msg_body (tk_message tk))) (length (ds_rest s)))"
  have n: "n \<le> length (msg_body (tk_message tk))" "n \<le> length (ds_rest s)"
    "ds_rest s \<noteq> [] \<and> msg_body (tk_message tk) \<noteq> [] \<longrightarrow> 0 < n" by (auto simp: n_def)
  show ?thesis using assms(2,3) Receive n demo_headers_at
    by (auto simp: demo_poll_def Let_def completed_def demo_link_def demo_headers_def n_def [symmetric])
qed (use assms(1) in simp)

lemma demo_http_contract:
  "http_contract demo_firmware demo_http demo_opened demo_children demo_link demo_serve"
proof -
  have poll: "r = SUCCESS \<and> untouched demo_firmware demo_opened demo_children s s' \<and>
      (if 0 < lk_wait (demo_link s p) then tk' = tk \<and> demo_link s' p = (demo_link s p)\<lparr>lk_wait := lk_wait (demo_link s p) - 1\<rparr>
       else tk_status tk' = SUCCESS \<and> lk_task (demo_link s' p) = Idle \<and>
         completed demo_serve (hs_memory demo_http s') (demo_link s p) (tk_message tk) (tk_message tk') (demo_link s' p))"
    if "hs_poll demo_http s p tk = ((r, tk'), s')" "lk_task (demo_link s p) \<noteq> Idle" for s p tk r tk' s'
  proof (cases "ds_wait s = 0")
    case True
    have "ds_task s \<noteq> Idle" "demo_poll s p tk = ((r, tk'), s')" using that by (simp_all add: demo_http_def)
    from demo_completed [OF this(1) True this(2)] show ?thesis using True
      by (simp add: untouched_def demo_http_def demo_firmware_def)
  next
    case False
    then show ?thesis using that by (auto simp: demo_http_def demo_poll_def untouched_def demo_link_def demo_firmware_def)
  qed
  show ?thesis unfolding http_contract_def
    by (intro conjI)
      ((auto simp: demo_http_def demo_firmware_def demo_link_def untouched_def status_consts split: if_splits)[4], use poll in blast)
qed

lemma demo_alive: "alive demo_firmware demo_world"
  by (simp add: alive_def demo_world_def demo_firmware_def)

theorem http_helper_no_leak_witness:
  "\<exists>h w1. http_helper_new demo_binding 1 demo_world = Some (Ok h, w1) \<and> hh_child h \<in> demo_children (fw_state w1) \<and>
    (\<exists>w3. http_helper_drop demo_binding h w1 = Some w3 \<and> demo_opened (fw_state w3) = {#(1, 2, 3, 0)#} \<and> demo_children (fw_state w3) = {4})"
proof -
  have ok: "\<exists>h w1. http_helper_new demo_binding 1 demo_world = Some (Ok h, w1) \<and> alive demo_firmware w1"
    by (simp add: http_helper_new_def demo_world_def image_handle_def try_res_def open_protocol_def boot_services_raw_panicking_def
      demo_firmware_def demo_binding_def scoped_protocol_deref_def create_child_def handle_from_ptr_def with_child_def alive_def)
  then obtain h w1 where n: "http_helper_new demo_binding 1 demo_world = Some (Ok h, w1)" "alive demo_firmware w1" by blast
  from http_helper_no_leak [OF demo_open_contract demo_binding_contract demo_alive, of 1] n
  have "hh_child h \<in> demo_children (fw_state w1)" "\<exists>w3. http_helper_drop demo_binding h w1 = Some w3 \<and>
      demo_opened (fw_state w3) = demo_opened (fw_state demo_world) \<and> demo_children (fw_state w3) = demo_children (fw_state demo_world)"
    by auto
  then show ?thesis using n(1) by (simp add: demo_world_def)
qed

text \<open>The URL is \<open>a//b\<close>, whose third part is the host \<open>b\<close>.\<close>

theorem fetch_http_delivers_witness:
  "\<exists>w'. fetch_http demo_http demo_binding (\<lambda>s. s) 1 [0x61, 0x2F, 0x2F, 0x62] demo_world = Some (Some [1, 2, 3, 4, 5], w') \<and>
    demo_opened (fw_state w') = {#(1, 2, 3, 0)#} \<and> demo_children (fw_state w') = {4}"
proof -
  have url: "cstring16_try_from_str [0x61, 0x2F, 0x2F, 0x62] = Ok [0x61, 0x2F, 0x2F, 0x62, 0]"
    by (simp add: cstring16_try_from_str_def encode_utf16_def encode_utf16_char_def char16_try_from_u16_eq NUL_16_def ucs2_def is_rchar_def)
  have host: "get_at (str_split 0x2F [0x61, 0x2F, 0x2F, 0x62]) 2 = Some [0x62 :: nat]" by (simp add: get_at_def)
  have nul: "\<forall>nv \<in> set demo_headers. 0 \<notin> set (fst nv) \<and> 0 \<notin> set (snd nv)" by (simp add: demo_headers_def)
  have dec: "those (map (decode_header (\<lambda>s. s)) demo_headers) = Some [(content_length, [0x35])]"
    by (simp add: demo_headers_def decode_header_def content_length_def to_lowercase_def ascii_lower_def from_utf8_ascii)
  have cl: "find (\<lambda>h. fst h = content_length) [(content_length, [0x35 :: nat])] = Some (content_length, [0x35])" by simp
  have len: "parse_uint usize_limit (snd (content_length, [0x35])) = Some (length [1 :: u8, 2, 3, 4, 5])"
    by (simp add: parse_uint_def digits_value_def is_digit_def usize_limit_def)
  have new: "\<exists>h w1. http_helper_new demo_binding 1 demo_world = Some (Ok h, w1)"
    by (simp add: http_helper_new_def demo_world_def image_handle_def try_res_def open_protocol_def boot_services_raw_panicking_def
      demo_firmware_def demo_binding_def scoped_protocol_deref_def create_child_def handle_from_ptr_def with_child_def)
  from fetch_http_delivers [OF demo_open_contract demo_binding_contract demo_http_contract demo_alive url host demo_serve_def nul dec cl len, of 1]
  show ?thesis using new by (auto simp: demo_world_def)
qed

end
