(* ===== verification/Pxe.thy ===== *)
theory Pxe
  imports Text_Parse Mem_Util
begin

text \<open>
  The PXE base code protocol: \<open>uefi/src/proto/network/pxe.rs\<close> with the structures of
  \<open>uefi-raw/src/protocol/network/pxe.rs\<close> and the addresses of \<open>uefi/src/proto/network/mod.rs\<close>. The
  driver is a parameter; an optional reference that is passed as a null pointer when absent is an
  \<open>option\<close>, and what the driver writes through a pointer is part of its answer. The directory listings of
  TFTP and MTFTP servers are parsed by iterators over the buffer the driver filled.
\<close>

section \<open>Addresses\<close>

text \<open>An \<open>IpAddress\<close> is its 16 bytes, a \<open>MacAddress\<close> its 32 bytes.\<close>

type_synonym ip_address = bytes
type_synonym mac_address = bytes

definition ip_new_v4 :: "bytes \<Rightarrow> ip_address" where
  "ip_new_v4 a = take 4 a @ replicate 12 0"

definition ip_new_v6 :: "bytes \<Rightarrow> ip_address" where
  "ip_new_v6 a = a"

definition ip_from_raw :: "bytes \<Rightarrow> bool \<Rightarrow> ip_address" where
  "ip_from_raw a is_ipv6 = (if is_ipv6 then ip_new_v6 a else ip_new_v4 (take 4 a))"

section \<open>Structures\<close>

record pxe_server =
  srv_ty :: u16
  srv_accept_any_response :: bool
  srv_reserved :: u8
  srv_addr :: ip_address

definition server_new :: "u16 \<Rightarrow> ip_address option \<Rightarrow> pxe_server" where
  "server_new ty ip = \<lparr>
     srv_ty = ty,
     srv_accept_any_response = (ip = None),
     srv_reserved = 0,
     srv_addr = (case ip of Some a \<Rightarrow> a | None \<Rightarrow> replicate 16 0)\<rparr>"

definition server_ip_addr :: "pxe_server \<Rightarrow> ip_address option" where
  "server_ip_addr s = (if srv_accept_any_response s then None else Some (srv_addr s))"

record discover_info =
  di_use_m_cast :: bool
  di_use_b_cast :: bool
  di_use_u_cast :: bool
  di_must_use_list :: bool
  di_server_m_cast_ip :: ip_address
  di_ip_cnt :: u16
  di_srv_list :: "pxe_server list"

text \<open>The layouts: a server takes 20 bytes, and the list starts at offset 24, since addresses are aligned to 4.\<close>

definition bool_byte :: "bool \<Rightarrow> u8" where
  "bool_byte b = (if b then 1 else 0)"

definition server_bytes :: "pxe_server \<Rightarrow> bytes" where
  "server_bytes s = u16_to_le (srv_ty s) @ [bool_byte (srv_accept_any_response s), srv_reserved s] @ srv_addr s"

definition server_at :: "bytes \<Rightarrow> nat \<Rightarrow> pxe_server" where
  "server_at buf off = \<lparr>
     srv_ty = read_field 2 u16_from_le off buf,
     srv_accept_any_response = (read_field 1 hd (off + 2) buf \<noteq> 0),
     srv_reserved = read_field 1 hd (off + 3) buf,
     srv_addr = read_field 16 (\<lambda>b. b) (off + 4) buf\<rparr>"

definition discover_info_at :: "bytes \<Rightarrow> nat \<Rightarrow> discover_info" where
  "discover_info_at buf n = \<lparr>
     di_use_m_cast = (read_field 1 hd 0 buf \<noteq> 0),
     di_use_b_cast = (read_field 1 hd 1 buf \<noteq> 0),
     di_use_u_cast = (read_field 1 hd 2 buf \<noteq> 0),
     di_must_use_list = (read_field 1 hd 3 buf \<noteq> 0),
     di_server_m_cast_ip = read_field 16 (\<lambda>b. b) 4 buf,
     di_ip_cnt = read_field 2 u16_from_le 20 buf,
     di_srv_list = map (\<lambda>i. server_at buf (24 + 20 * i)) [0..<n]\<rparr>"

text \<open>\<open>DiscoverInfo::new_in_buffer\<close> on the buffer at address \<open>p\<close>. A write or a reference beyond the
  buffer and a reference that is not aligned are undefined behaviour.\<close>

definition discover_info_new ::
  "nat \<Rightarrow> bytes \<Rightarrow> bool \<Rightarrow> bool \<Rightarrow> bool \<Rightarrow> bool \<Rightarrow> ip_address \<Rightarrow> pxe_server list \<Rightarrow> (discover_info uefi_result \<times> bytes) option" where
  "discover_info_new p buffer use_m_cast use_b_cast use_u_cast must_use_list server_m_cast_ip srv_list = do {
     let server_count = length srv_list;
     require (server_count \<le> 0xFFFF);
     required_size \<leftarrow> uadd (1 * 4 + 16 + 2) (20 * server_count);
     if length buffer < required_size then do {
       e \<leftarrow> error_from_status BUFFER_TOO_SMALL;
       Some (Err e, buffer)
     } else do {
       let p0 = (buffer, 0);
       let p1 = ptr_write_unaligned_and_add p0 [bool_byte use_m_cast];
       let p2 = ptr_write_unaligned_and_add p1 [bool_byte use_b_cast];
       let p3 = ptr_write_unaligned_and_add p2 [bool_byte use_u_cast];
       let p4 = ptr_write_unaligned_and_add p3 [bool_byte must_use_list];
       let p5 = ptr_write_unaligned_and_add p4 server_m_cast_ip;
       let p6 = ptr_write_unaligned_and_add p5 (u16_to_le (word_of_nat server_count));
       let off = snd p6 + 2;
       require (off + 20 * server_count \<le> length buffer \<and> p mod 4 = 0);
       let buf = overwrite (fst p6) off (concat (map server_bytes srv_list));
       Some (Ok (discover_info_at buf server_count), buf)
     }
   }"

record mtftp_info =
  mi_m_cast_ip :: ip_address
  mi_c_port :: u16
  mi_s_port :: u16
  mi_listen_timeout :: u16
  mi_transmit_timeout :: u16

record ip_filter =
  if_filters :: u8
  if_ip_cnt :: u8
  if_reserved :: u16
  if_ip_list :: "ip_address list"

definition ip_filter_new :: "u8 \<Rightarrow> ip_address list \<Rightarrow> ip_filter option" where
  "ip_filter_new filters ips = do {
     require (length ips \<le> 8);
     Some \<lparr>if_filters = filters, if_ip_cnt = word_of_nat (length ips), if_reserved = 0,
       if_ip_list = overwrite (replicate 8 (replicate 16 0)) 0 ips\<rparr>
   }"

definition ip_filter_ip_list :: "ip_filter \<Rightarrow> ip_address list option" where
  "ip_filter_ip_list f = get_range (if_ip_list f) 0 (unat (if_ip_cnt f))"

text \<open>A packet is its 1472 bytes; the two views read the same bytes. Numbers in a DHCP packet are big-endian.\<close>

type_synonym pxe_packet = bytes

record dhcpv4_packet =
  v4_bootp_opcode :: u8
  v4_bootp_hw_type :: u8
  v4_bootp_hw_addr_len :: u8
  v4_bootp_gate_hops :: u8
  v4_bootp_ident :: u32
  v4_bootp_seconds :: u16
  v4_bootp_flags :: u16
  v4_bootp_ci_addr :: bytes
  v4_bootp_yi_addr :: bytes
  v4_bootp_si_addr :: bytes
  v4_bootp_gi_addr :: bytes
  v4_bootp_hw_addr :: bytes
  v4_bootp_srv_name :: bytes
  v4_bootp_boot_file :: bytes
  v4_dhcp_magik :: u32
  v4_dhcp_options :: bytes

definition packet_dhcpv4 :: "pxe_packet \<Rightarrow> dhcpv4_packet" where
  "packet_dhcpv4 raw = \<lparr>
     v4_bootp_opcode = read_field 1 hd 0 raw,
     v4_bootp_hw_type = read_field 1 hd 1 raw,
     v4_bootp_hw_addr_len = read_field 1 hd 2 raw,
     v4_bootp_gate_hops = read_field 1 hd 3 raw,
     v4_bootp_ident = read_field 4 u32_from_le 4 raw,
     v4_bootp_seconds = read_field 2 u16_from_le 8 raw,
     v4_bootp_flags = read_field 2 u16_from_le 10 raw,
     v4_bootp_ci_addr = read_field 4 (\<lambda>b. b) 12 raw,
     v4_bootp_yi_addr = read_field 4 (\<lambda>b. b) 16 raw,
     v4_bootp_si_addr = read_field 4 (\<lambda>b. b) 20 raw,
     v4_bootp_gi_addr = read_field 4 (\<lambda>b. b) 24 raw,
     v4_bootp_hw_addr = read_field 16 (\<lambda>b. b) 28 raw,
     v4_bootp_srv_name = read_field 64 (\<lambda>b. b) 44 raw,
     v4_bootp_boot_file = read_field 128 (\<lambda>b. b) 108 raw,
     v4_dhcp_magik = read_field 4 u32_from_le 236 raw,
     v4_dhcp_options = read_field 56 (\<lambda>b. b) 240 raw\<rparr>"

text \<open>\<open>from_be\<close> on a little-endian machine.\<close>

definition u16_from_be :: "u16 \<Rightarrow> u16" where
  "u16_from_be v = u16_from_le (rev (u16_to_le v))"

definition u32_from_be :: "u32 \<Rightarrow> u32" where
  "u32_from_be v = u32_from_le (rev (u32_to_le v))"

definition DHCP_MAGIK :: u32 where "DHCP_MAGIK = 0x63825363"
definition DHCPV4_BROADCAST :: u16 where "DHCPV4_BROADCAST = 1"

definition bootp_ident :: "dhcpv4_packet \<Rightarrow> u32" where
  "bootp_ident pk = u32_from_be (v4_bootp_ident pk)"

definition bootp_seconds :: "dhcpv4_packet \<Rightarrow> u16" where
  "bootp_seconds pk = u16_from_be (v4_bootp_seconds pk)"

definition bootp_flags :: "dhcpv4_packet \<Rightarrow> u16" where
  "bootp_flags pk = u16_from_be (v4_bootp_flags pk) AND DHCPV4_BROADCAST"

definition dhcp_magik :: "dhcpv4_packet \<Rightarrow> u32" where
  "dhcp_magik pk = u32_from_be (v4_dhcp_magik pk)"

record dhcpv6_packet =
  v6_message_type :: u8
  v6_transaction_id :: bytes
  v6_dhcp_options :: bytes

definition packet_dhcpv6 :: "pxe_packet \<Rightarrow> dhcpv6_packet" where
  "packet_dhcpv6 raw = \<lparr>
     v6_message_type = read_field 1 hd 0 raw,
     v6_transaction_id = read_field 3 (\<lambda>b. b) 1 raw,
     v6_dhcp_options = read_field 1024 (\<lambda>b. b) 4 raw\<rparr>"

definition transaction_id :: "dhcpv6_packet \<Rightarrow> u32" where
  "transaction_id pk =
    (let t = v6_transaction_id pk
     in push_bit 16 (ucast (t ! 0)) OR push_bit 8 (ucast (t ! 1)) OR ucast (t ! 2))"

section \<open>The mode\<close>

record arp_entry =
  arp_ip_addr :: ip_address
  arp_mac_addr :: mac_address

record route_entry =
  route_ip_addr :: ip_address
  route_subnet_mask :: ip_address
  route_gw_addr :: ip_address

text \<open>The bytes of an ICMP error behind its checksum start with the four bytes of the union.\<close>

record icmp_error =
  icmp_ty :: u8
  icmp_code :: u8
  icmp_checksum :: u16
  icmp_u :: u32
  icmp_data :: bytes

record tftp_error =
  te_error_code :: u8
  te_error_string :: bytes

record pxe_mode =
  mode_started :: bool
  mode_ipv6_available :: bool
  mode_ipv6_supported :: bool
  mode_using_ipv6 :: bool
  mode_bis_supported :: bool
  mode_bis_detected :: bool
  mode_auto_arp :: bool
  mode_send_guid :: bool
  mode_dhcp_discover_valid :: bool
  mode_dhcp_ack_received :: bool
  mode_proxy_offer_received :: bool
  mode_pxe_discover_valid :: bool
  mode_pxe_reply_received :: bool
  mode_pxe_bis_reply_received :: bool
  mode_icmp_error_received :: bool
  mode_tftp_error_received :: bool
  mode_make_callbacks :: bool
  mode_ttl :: u8
  mode_tos :: u8
  mode_raw_station_ip :: bytes
  mode_raw_subnet_mask :: bytes
  mode_dhcp_discover :: pxe_packet
  mode_dhcp_ack :: pxe_packet
  mode_proxy_offer :: pxe_packet
  mode_pxe_discover :: pxe_packet
  mode_pxe_reply :: pxe_packet
  mode_pxe_bis_reply :: pxe_packet
  mode_ip_filter :: ip_filter
  mode_arp_cache_entries :: u32
  mode_raw_arp_cache :: "arp_entry list"
  mode_route_table_entries :: u32
  mode_raw_route_table :: "route_entry list"
  mode_icmp_error :: icmp_error
  mode_tftp_error :: tftp_error

definition station_ip :: "pxe_mode \<Rightarrow> ip_address" where
  "station_ip m = ip_from_raw (mode_raw_station_ip m) (mode_using_ipv6 m)"

definition subnet_mask :: "pxe_mode \<Rightarrow> ip_address" where
  "subnet_mask m = ip_from_raw (mode_raw_subnet_mask m) (mode_using_ipv6 m)"

text \<open>The slices are made from the number of entries the driver reports; more than the array holds is undefined.\<close>

definition arp_cache :: "pxe_mode \<Rightarrow> arp_entry list option" where
  "arp_cache m = do {
     len \<leftarrow> usize_from_u32 (mode_arp_cache_entries m);
     require (len \<le> length (mode_raw_arp_cache m));
     Some (take len (mode_raw_arp_cache m))
   }"

definition route_table :: "pxe_mode \<Rightarrow> route_entry list option" where
  "route_table m = do {
     len \<leftarrow> usize_from_u32 (mode_route_table_entries m);
     require (len \<le> length (mode_raw_route_table m));
     Some (take len (mode_raw_route_table m))
   }"

section \<open>The driver\<close>

record mtftp_params =
  mt_operation :: u32
  mt_buffer :: "bytes option"
  mt_overwrite :: bool
  mt_buffer_size :: u64
  mt_block_size :: "usize option"
  mt_server_ip :: ip_address
  mt_filename :: "char8 list option"
  mt_info :: "mtftp_info option"
  mt_dont_use_buffer :: bool

record udp_write_params =
  uw_op_flags :: u16
  uw_dest_ip :: ip_address
  uw_dest_port :: u16
  uw_gateway_ip :: "ip_address option"
  uw_src_ip :: "ip_address option"
  uw_src_port :: "u16 option"
  uw_header_size :: "usize option"
  uw_header :: "bytes option"
  uw_buffer_size :: usize
  uw_buffer :: bytes

text \<open>Everything but the flags and the size of the header is written by the driver.\<close>

record udp_read_params =
  ur_op_flags :: u16
  ur_dest_ip :: "ip_address option"
  ur_dest_port :: "u16 option"
  ur_src_ip :: "ip_address option"
  ur_src_port :: "u16 option"
  ur_header_size :: "usize option"
  ur_header :: "bytes option"
  ur_buffer_size :: usize
  ur_buffer :: bytes

record packets_params =
  pp_dhcp_discover_valid :: "bool option"
  pp_dhcp_ack_received :: "bool option"
  pp_proxy_offer_received :: "bool option"
  pp_pxe_discover_valid :: "bool option"
  pp_pxe_reply_received :: "bool option"
  pp_pxe_bis_reply_received :: "bool option"
  pp_dhcp_discover :: "pxe_packet option"
  pp_dhcp_ack :: "pxe_packet option"
  pp_proxy_offer :: "pxe_packet option"
  pp_pxe_discover :: "pxe_packet option"
  pp_pxe_reply :: "pxe_packet option"
  pp_pxe_bis_reply :: "pxe_packet option"

record 's pxe_services =
  px_start :: "'s \<Rightarrow> bool \<Rightarrow> status \<times> 's"
  px_stop :: "'s \<Rightarrow> status \<times> 's"
  px_dhcp :: "'s \<Rightarrow> bool \<Rightarrow> status \<times> 's"
  px_discover :: "'s \<Rightarrow> u16 \<Rightarrow> u16 \<Rightarrow> bool \<Rightarrow> discover_info option \<Rightarrow> (status \<times> u16) \<times> 's"
  px_mtftp :: "'s \<Rightarrow> mtftp_params \<Rightarrow> (status \<times> u64 \<times> bytes) \<times> 's"
  px_udp_write :: "'s \<Rightarrow> udp_write_params \<Rightarrow> (status \<times> u16 option) \<times> 's"
  px_udp_read :: "'s \<Rightarrow> udp_read_params \<Rightarrow> (status \<times> udp_read_params) \<times> 's"
  px_set_ip_filter :: "'s \<Rightarrow> ip_filter \<Rightarrow> status \<times> 's"
  px_arp :: "'s \<Rightarrow> ip_address \<Rightarrow> mac_address option \<Rightarrow> (status \<times> mac_address option) \<times> 's"
  px_set_parameters ::
    "'s \<Rightarrow> bool option \<Rightarrow> bool option \<Rightarrow> u8 option \<Rightarrow> u8 option \<Rightarrow> bool option \<Rightarrow> status \<times> 's"
  px_set_station_ip :: "'s \<Rightarrow> ip_address option \<Rightarrow> ip_address option \<Rightarrow> status \<times> 's"
  px_set_packets :: "'s \<Rightarrow> packets_params \<Rightarrow> status \<times> 's"
  px_mode :: "'s \<Rightarrow> pxe_mode"

text \<open>The driver fills a buffer of the caller but cannot change its size.\<close>

definition filled :: "bytes \<Rightarrow> bytes \<Rightarrow> bytes" where
  "filled old new = take (length old) (new @ drop (length new) old)"

definition status_step :: "status \<times> 's \<Rightarrow> (unit uefi_result \<times> 's) option" where
  "status_step a = do { r \<leftarrow> to_result (fst a); Some (r, snd a) }"

section \<open>The protocol\<close>

definition pxe_start :: "'s pxe_services \<Rightarrow> bool \<Rightarrow> 's \<Rightarrow> (unit uefi_result \<times> 's) option" where
  "pxe_start px use_ipv6 s = status_step (px_start px s use_ipv6)"

definition pxe_stop :: "'s pxe_services \<Rightarrow> 's \<Rightarrow> (unit uefi_result \<times> 's) option" where
  "pxe_stop px s = status_step (px_stop px s)"

definition pxe_dhcp :: "'s pxe_services \<Rightarrow> bool \<Rightarrow> 's \<Rightarrow> (unit uefi_result \<times> 's) option" where
  "pxe_dhcp px sort_offers s = status_step (px_dhcp px s sort_offers)"

definition pxe_discover ::
  "'s pxe_services \<Rightarrow> u16 \<Rightarrow> u16 \<Rightarrow> bool \<Rightarrow> discover_info option \<Rightarrow> 's \<Rightarrow> ((unit uefi_result \<times> u16) \<times> 's) option" where
  "pxe_discover px ty layer use_bis info s =
    (let ((st, layer'), s') = px_discover px s ty layer use_bis info in do {
       r \<leftarrow> to_result st;
       Some ((r, layer'), s')
     })"

definition TFTP_GET_FILE_SIZE :: u32 where "TFTP_GET_FILE_SIZE = 1"
definition TFTP_READ_FILE :: u32 where "TFTP_READ_FILE = 2"
definition TFTP_WRITE_FILE :: u32 where "TFTP_WRITE_FILE = 3"
definition TFTP_READ_DIRECTORY :: u32 where "TFTP_READ_DIRECTORY = 4"
definition MTFTP_GET_FILE_SIZE :: u32 where "MTFTP_GET_FILE_SIZE = 5"
definition MTFTP_READ_FILE :: u32 where "MTFTP_READ_FILE = 6"
definition MTFTP_READ_DIRECTORY :: u32 where "MTFTP_READ_DIRECTORY = 7"

definition u64_from_usize :: "usize \<Rightarrow> u64 option" where
  "u64_from_usize n = do { require (n < 2 ^ 64); Some (word_of_nat n) }"

definition tftp_get_file_size ::
  "'s pxe_services \<Rightarrow> ip_address \<Rightarrow> char8 list \<Rightarrow> 's \<Rightarrow> (u64 uefi_result \<times> 's) option" where
  "tftp_get_file_size px server_ip filename s =
    (let ((st, buffer_size, _), s') = px_mtftp px s \<lparr>mt_operation = TFTP_GET_FILE_SIZE, mt_buffer = None, mt_overwrite = False,
       mt_buffer_size = 0, mt_block_size = None, mt_server_ip = server_ip, mt_filename = Some filename, mt_info = None,
       mt_dont_use_buffer = False\<rparr>
     in do { r \<leftarrow> to_result_with_val st (Some buffer_size); Some (r, s') })"

definition tftp_read_file ::
  "'s pxe_services \<Rightarrow> ip_address \<Rightarrow> char8 list \<Rightarrow> bytes option \<Rightarrow> 's \<Rightarrow> ((u64 uefi_result \<times> bytes option) \<times> 's) option" where
  "tftp_read_file px server_ip filename buffer s = do {
     size0 \<leftarrow> (case buffer of Some b \<Rightarrow> u64_from_usize (length b) | None \<Rightarrow> Some 0);
     let ((st, buffer_size, out), s') = px_mtftp px s \<lparr>mt_operation = TFTP_READ_FILE, mt_buffer = buffer, mt_overwrite = False,
       mt_buffer_size = size0, mt_block_size = None, mt_server_ip = server_ip, mt_filename = Some filename, mt_info = None,
       mt_dont_use_buffer = (buffer = None)\<rparr>;
     r \<leftarrow> to_result_with_val st (Some buffer_size);
     Some ((r, map_option (\<lambda>b. filled b out) buffer), s')
   }"

definition tftp_write_file ::
  "'s pxe_services \<Rightarrow> ip_address \<Rightarrow> char8 list \<Rightarrow> bool \<Rightarrow> bytes \<Rightarrow> 's \<Rightarrow> (unit uefi_result \<times> 's) option" where
  "tftp_write_file px server_ip filename ow buffer s = do {
     size0 \<leftarrow> u64_from_usize (length buffer);
     let ((st, _, _), s') = px_mtftp px s \<lparr>mt_operation = TFTP_WRITE_FILE, mt_buffer = Some buffer, mt_overwrite = ow,
       mt_buffer_size = size0, mt_block_size = None, mt_server_ip = server_ip, mt_filename = Some filename, mt_info = None,
       mt_dont_use_buffer = False\<rparr>;
     status_step (st, s')
   }"

section \<open>Directory listings\<close>

datatype read_dir_parse_error = ReadDirParseError

record file_date =
  fd_size :: u64
  fd_year :: u16
  fd_month :: u8
  fd_day :: u8
  fd_hour :: u8
  fd_minute :: u8
  fd_second :: u32

record tftp_file_info =
  tf_filename :: "char8 list"
  tf_date :: file_date

record mtftp_file_info =
  mf_filename :: "char8 list"
  mf_ip_address :: ip_address
  mf_date :: file_date

text \<open>The information string \<open>size year-month-day hour:minute:second\<close>, without its last byte.\<close>

definition parse_information :: "bytes \<Rightarrow> file_date option" where
  "parse_information bs = do {
     information_string \<leftarrow> from_utf8_fuel (length bs) bs;
     (size0, rest0) \<leftarrow> split_once 0x20 information_string;
     (year0, rest1) \<leftarrow> split_once 0x2D rest0;
     (month0, rest2) \<leftarrow> split_once 0x2D rest1;
     (day0, rest3) \<leftarrow> split_once 0x20 rest2;
     (hour0, rest4) \<leftarrow> split_once 0x3A rest3;
     (minute0, second0) \<leftarrow> split_once 0x3A rest4;
     sz \<leftarrow> parse_uint (2 ^ 64) size0;
     year \<leftarrow> parse_uint (2 ^ 16) year0;
     month \<leftarrow> parse_uint (2 ^ 8) month0;
     day \<leftarrow> parse_uint (2 ^ 8) day0;
     hour \<leftarrow> parse_uint (2 ^ 8) hour0;
     minute \<leftarrow> parse_uint (2 ^ 8) minute0;
     second \<leftarrow> parse_f32 second0;
     Some \<lparr>fd_size = word_of_nat sz, fd_year = word_of_nat year, fd_month = word_of_nat month, fd_day = word_of_nat day,
       fd_hour = word_of_nat hour, fd_minute = word_of_nat minute, fd_second = second\<rparr>
   }"

text \<open>\<open>parse_next\<close> on the pieces of the buffer that are left; the outer \<open>None\<close> is a panic of \<open>unwrap\<close>, the
  inner one the end of the listing.\<close>

definition tftp_parse_next ::
  "bytes list \<Rightarrow> ((tftp_file_info option, read_dir_parse_error) result \<times> bytes list) option" where
  "tftp_parse_next ps =
    (case ps of
       [] \<Rightarrow> Some (Err ReadDirParseError, [])
     | filename # ps1 \<Rightarrow>
         if filename = [0] then Some (Ok None, ps1)
         else do {
           name \<leftarrow> (case from_bytes_with_nul filename of Ok n \<Rightarrow> Some n | Err _ \<Rightarrow> None);
           case ps1 of
             [] \<Rightarrow> Some (Err ReadDirParseError, [])
           | information # ps2 \<Rightarrow>
               (case parse_information (butlast information) of
                  None \<Rightarrow> Some (Err ReadDirParseError, ps2)
                | Some d \<Rightarrow> Some (Ok (Some \<lparr>tf_filename = name, tf_date = d\<rparr>), ps2))
         })"

definition parse_octets :: "bytes \<Rightarrow> bytes option" where
  "parse_octets bs = do {
     s \<leftarrow> from_utf8_fuel (length bs) bs;
     let octets = str_split 0x2E s;
     require (length octets = 4);
     vs \<leftarrow> those (map (parse_uint (2 ^ 8)) octets);
     Some (map word_of_nat vs)
   }"

definition mtftp_parse_next ::
  "bytes list \<Rightarrow> ((mtftp_file_info option, read_dir_parse_error) result \<times> bytes list) option" where
  "mtftp_parse_next ps =
    (case ps of
       [] \<Rightarrow> Some (Err ReadDirParseError, [])
     | filename # ps1 \<Rightarrow>
         if filename = [0] then Some (Ok None, ps1)
         else do {
           name \<leftarrow> (case from_bytes_with_nul filename of Ok n \<Rightarrow> Some n | Err _ \<Rightarrow> None);
           case ps1 of
             [] \<Rightarrow> Some (Err ReadDirParseError, [])
           | multicast_ip # ps2 \<Rightarrow>
               (case parse_octets (butlast multicast_ip) of
                  None \<Rightarrow> Some (Err ReadDirParseError, ps2)
                | Some octets \<Rightarrow>
                    (case ps2 of
                       [] \<Rightarrow> Some (Err ReadDirParseError, [])
                     | information # ps3 \<Rightarrow>
                         (case parse_information (butlast information) of
                            None \<Rightarrow> Some (Err ReadDirParseError, ps3)
                          | Some d \<Rightarrow> Some (Ok (Some \<lparr>mf_filename = name, mf_ip_address = ip_new_v4 octets, mf_date = d\<rparr>), ps3))))
         })"

text \<open>\<open>from_fn(move || parse_next().transpose()).fuse()\<close>: the state is what is left, and whether the iterator has ended.\<close>

definition read_dir_next ::
  "(bytes list \<Rightarrow> (('i option, read_dir_parse_error) result \<times> bytes list) option) \<Rightarrow> bytes list \<times> bool \<Rightarrow>
    (('i, read_dir_parse_error) result option \<times> (bytes list \<times> bool)) option" where
  "read_dir_next parse_next it =
    (if snd it then Some (None, it)
     else do {
       (r, ps) \<leftarrow> parse_next (fst it);
       case r of
         Ok None \<Rightarrow> Some (None, (ps, True))
       | Ok (Some i) \<Rightarrow> Some (Some (Ok i), (ps, False))
       | Err e \<Rightarrow> Some (Some (Err e), (ps, False))
     })"

definition listing_pieces :: "bytes \<Rightarrow> u64 \<Rightarrow> (bytes list \<times> bool) option" where
  "listing_pieces buffer buffer_size = do {
     part \<leftarrow> get_range buffer 0 (unat buffer_size);
     Some (split_inclusive (\<lambda>b. b = 0) part, False)
   }"

definition tftp_read_dir ::
  "'s pxe_services \<Rightarrow> ip_address \<Rightarrow> char8 list \<Rightarrow> bytes \<Rightarrow> 's \<Rightarrow> ((bytes list \<times> bool) uefi_result \<times> 's) option" where
  "tftp_read_dir px server_ip directory_name buffer s = do {
     size0 \<leftarrow> u64_from_usize (length buffer);
     let ((st, buffer_size, out), s') = px_mtftp px s \<lparr>mt_operation = TFTP_READ_DIRECTORY, mt_buffer = Some buffer,
       mt_overwrite = False, mt_buffer_size = size0, mt_block_size = None, mt_server_ip = server_ip,
       mt_filename = Some directory_name, mt_info = None, mt_dont_use_buffer = False\<rparr>;
     r \<leftarrow> to_result st;
     case r of
       Err e \<Rightarrow> Some (Err e, s')
     | Ok _ \<Rightarrow> do { it \<leftarrow> listing_pieces (filled buffer out) buffer_size; Some (Ok it, s') }
   }"

definition mtftp_get_file_size ::
  "'s pxe_services \<Rightarrow> ip_address \<Rightarrow> char8 list \<Rightarrow> mtftp_info \<Rightarrow> 's \<Rightarrow> (u64 uefi_result \<times> 's) option" where
  "mtftp_get_file_size px server_ip filename info s =
    (let ((st, buffer_size, _), s') = px_mtftp px s \<lparr>mt_operation = MTFTP_GET_FILE_SIZE, mt_buffer = None, mt_overwrite = False,
       mt_buffer_size = 0, mt_block_size = None, mt_server_ip = server_ip, mt_filename = Some filename, mt_info = Some info,
       mt_dont_use_buffer = False\<rparr>
     in do { r \<leftarrow> to_result_with_val st (Some buffer_size); Some (r, s') })"

definition mtftp_read_file ::
  "'s pxe_services \<Rightarrow> ip_address \<Rightarrow> char8 list \<Rightarrow> bytes option \<Rightarrow> mtftp_info \<Rightarrow> 's \<Rightarrow> ((u64 uefi_result \<times> bytes option) \<times> 's) option" where
  "mtftp_read_file px server_ip filename buffer info s = do {
     size0 \<leftarrow> (case buffer of Some b \<Rightarrow> u64_from_usize (length b) | None \<Rightarrow> Some 0);
     let ((st, buffer_size, out), s') = px_mtftp px s \<lparr>mt_operation = MTFTP_READ_FILE, mt_buffer = buffer, mt_overwrite = False,
       mt_buffer_size = size0, mt_block_size = None, mt_server_ip = server_ip, mt_filename = Some filename, mt_info = Some info,
       mt_dont_use_buffer = (buffer = None)\<rparr>;
     r \<leftarrow> to_result_with_val st (Some buffer_size);
     Some ((r, map_option (\<lambda>b. filled b out) buffer), s')
   }"

definition mtftp_read_dir ::
  "'s pxe_services \<Rightarrow> ip_address \<Rightarrow> bytes \<Rightarrow> mtftp_info \<Rightarrow> 's \<Rightarrow> ((bytes list \<times> bool) uefi_result \<times> 's) option" where
  "mtftp_read_dir px server_ip buffer info s = do {
     size0 \<leftarrow> u64_from_usize (length buffer);
     let ((st, buffer_size, out), s') = px_mtftp px s \<lparr>mt_operation = MTFTP_READ_DIRECTORY, mt_buffer = Some buffer,
       mt_overwrite = False, mt_buffer_size = size0, mt_block_size = None, mt_server_ip = server_ip,
       mt_filename = None, mt_info = Some info, mt_dont_use_buffer = False\<rparr>;
     r \<leftarrow> to_result st;
     case r of
       Err e \<Rightarrow> Some (Err e, s')
     | Ok _ \<Rightarrow> do { it \<leftarrow> listing_pieces (filled buffer out) buffer_size; Some (Ok it, s') }
   }"

section \<open>Datagrams and settings\<close>

definition udp_write ::
  "'s pxe_services \<Rightarrow> u16 \<Rightarrow> ip_address \<Rightarrow> u16 \<Rightarrow> ip_address option \<Rightarrow> ip_address option \<Rightarrow> u16 option \<Rightarrow> bytes option \<Rightarrow> bytes \<Rightarrow> 's \<Rightarrow>
    ((unit uefi_result \<times> u16 option) \<times> 's) option" where
  "udp_write px op_flags dest_ip dest_port gateway_ip src_ip src_port header buffer s =
    (let ((st, src_port'), s') = px_udp_write px s \<lparr>uw_op_flags = op_flags, uw_dest_ip = dest_ip, uw_dest_port = dest_port,
       uw_gateway_ip = gateway_ip, uw_src_ip = src_ip, uw_src_port = src_port, uw_header_size = map_option length header,
       uw_header = header, uw_buffer_size = length buffer, uw_buffer = buffer\<rparr>
     in do { r \<leftarrow> to_result st; Some ((r, src_port'), s') })"

definition udp_read ::
  "'s pxe_services \<Rightarrow> u16 \<Rightarrow> ip_address option \<Rightarrow> u16 option \<Rightarrow> ip_address option \<Rightarrow> u16 option \<Rightarrow> bytes option \<Rightarrow> bytes \<Rightarrow> 's \<Rightarrow>
    ((usize uefi_result \<times> udp_read_params) \<times> 's) option" where
  "udp_read px op_flags dest_ip dest_port src_ip src_port header buffer s =
    (let ((st, out), s') = px_udp_read px s \<lparr>ur_op_flags = op_flags, ur_dest_ip = dest_ip, ur_dest_port = dest_port,
       ur_src_ip = src_ip, ur_src_port = src_port, ur_header_size = map_option length header, ur_header = header,
       ur_buffer_size = length buffer, ur_buffer = buffer\<rparr>
     in do { r \<leftarrow> to_result_with_val st (Some (ur_buffer_size out)); Some ((r, out), s') })"

definition set_ip_filter :: "'s pxe_services \<Rightarrow> ip_filter \<Rightarrow> 's \<Rightarrow> (unit uefi_result \<times> 's) option" where
  "set_ip_filter px new_filter s = status_step (px_set_ip_filter px s new_filter)"

definition pxe_arp ::
  "'s pxe_services \<Rightarrow> ip_address \<Rightarrow> mac_address option \<Rightarrow> 's \<Rightarrow> ((unit uefi_result \<times> mac_address option) \<times> 's) option" where
  "pxe_arp px ip_addr mac_addr s =
    (let ((st, mac'), s') = px_arp px s ip_addr mac_addr in do { r \<leftarrow> to_result st; Some ((r, mac'), s') })"

definition set_parameters ::
  "'s pxe_services \<Rightarrow> bool option \<Rightarrow> bool option \<Rightarrow> u8 option \<Rightarrow> u8 option \<Rightarrow> bool option \<Rightarrow> 's \<Rightarrow> (unit uefi_result \<times> 's) option" where
  "set_parameters px new_auto_arp new_send_guid new_ttl new_tos new_make_callback s =
    status_step (px_set_parameters px s new_auto_arp new_send_guid new_ttl new_tos new_make_callback)"

definition set_station_ip ::
  "'s pxe_services \<Rightarrow> ip_address option \<Rightarrow> ip_address option \<Rightarrow> 's \<Rightarrow> (unit uefi_result \<times> 's) option" where
  "set_station_ip px new_station_ip new_subnet_mask s = status_step (px_set_station_ip px s new_station_ip new_subnet_mask)"

definition set_packets :: "'s pxe_services \<Rightarrow> packets_params \<Rightarrow> 's \<Rightarrow> (unit uefi_result \<times> 's) option" where
  "set_packets px params s = status_step (px_set_packets px s params)"

end
