(* ===== verification/Pxe_Props.thy ===== *)
theory Pxe_Props
  imports Pxe
begin

text \<open>
  Properties of the PXE base code protocol: what the discovery information needs of its buffer, and that the
  directory listings of TFTP servers are read back.
\<close>

section \<open>Discovery information\<close>

lemma length_server_bytes: "length (srv_addr s) = 16 \<Longrightarrow> length (server_bytes s) = 20"
  by (simp add: server_bytes_def u16c.encode_length)

lemma length_servers:
  "\<forall>s \<in> set srv. length (srv_addr s) = 16 \<Longrightarrow> length (concat (map server_bytes srv)) = 20 * length srv"
  by (induction srv) (simp_all add: length_server_bytes)

lemma bool_byte_nonzero [simp]: "bool_byte b \<noteq> 0 \<longleftrightarrow> b"
  by (simp add: bool_byte_def)

lemma server_at_bytes:
  assumes "length (srv_addr s) = 16" "off = length pre"
  shows "server_at (pre @ server_bytes s @ post) off = s"
proof -
  obtain b0 b1 where u: "u16_to_le (srv_ty s) = [b0, b1]" by (rule u16_to_le_cases)
  have "u16_from_le [b0, b1] = srv_ty s" using u16c.decode_encode [of "srv_ty s"] u by simp
  then show ?thesis using assms by (simp add: server_at_def server_bytes_def read_field_def u)
qed

lemma servers_at_bytes:
  assumes "\<forall>s \<in> set srv. length (srv_addr s) = 16"
  shows "map (\<lambda>i. server_at (pre @ concat (map server_bytes srv) @ post) (length pre + 20 * i)) [0..<length srv] = srv"
  using assms
proof (induction srv arbitrary: pre)
  case (Cons s srv)
  have l: "length (server_bytes s) = 20" using Cons.prems by (simp add: length_server_bytes)
  have "map (\<lambda>i. server_at ((pre @ server_bytes s) @ concat (map server_bytes srv) @ post) (length (pre @ server_bytes s) + 20 * i))
      [0..<length srv] = srv" by (rule Cons.IH) (use Cons.prems in simp)
  moreover have "server_at (pre @ server_bytes s @ concat (map server_bytes srv) @ post) (length pre) = s"
    by (rule server_at_bytes) (use Cons.prems in simp_all)
  moreover have "[0..<length (s # srv)] = 0 # map Suc [0..<length srv]" by (simp add: map_Suc_upt upt_conv_Cons del: upt_Suc)
  ultimately show ?case by (simp add: l comp_def add.assoc del: upt_Suc)
qed simp

definition discover_head :: "bool \<Rightarrow> bool \<Rightarrow> bool \<Rightarrow> bool \<Rightarrow> ip_address \<Rightarrow> nat \<Rightarrow> bytes" where
  "discover_head m b u l ip n = [bool_byte m, bool_byte b, bool_byte u, bool_byte l] @ ip @ u16_to_le (word_of_nat n)"

lemma ptr_writes:
  "length (concat vs) \<le> length r \<Longrightarrow>
    foldl ptr_write_unaligned_and_add (a @ r, length a) vs =
      (a @ concat vs @ drop (length (concat vs)) r, length a + length (concat vs))"
proof (induction vs arbitrary: a r)
  case (Cons v vs)
  have "ptr_write_unaligned_and_add (a @ r, length a) v = ((a @ v) @ drop (length v) r, length (a @ v))"
    using Cons.prems by (simp add: ptr_write_unaligned_and_add_def overwrite_def)
  then show ?case using Cons.IH [of "drop (length v) r" "a @ v"] Cons.prems by (simp add: add.commute)
qed simp

lemma discover_writes:
  assumes "length ip = 16" "22 \<le> length buffer"
  shows "ptr_write_unaligned_and_add (ptr_write_unaligned_and_add (ptr_write_unaligned_and_add (ptr_write_unaligned_and_add
      (ptr_write_unaligned_and_add (ptr_write_unaligned_and_add (buffer, 0) [bool_byte m]) [bool_byte b]) [bool_byte u]) [bool_byte l])
      ip) (u16_to_le (word_of_nat n)) = (discover_head m b u l ip n @ drop 22 buffer, 22)"
  using ptr_writes [of "[[bool_byte m], [bool_byte b], [bool_byte u], [bool_byte l], ip, u16_to_le (word_of_nat n)]" buffer "[]"] assms
  by (simp add: discover_head_def u16c.encode_length)

lemma length_discover_head: "length ip = 16 \<Longrightarrow> length (discover_head m b u l ip n) = 22"
  by (simp add: discover_head_def u16c.encode_length)

lemma discover_info_at_bytes:
  assumes "length ip = 16" "\<forall>s \<in> set srv. length (srv_addr s) = 16" "length pad = 2"
  shows "discover_info_at (discover_head m b u l ip (length srv) @ pad @ concat (map server_bytes srv) @ post) (length srv) =
    \<lparr>di_use_m_cast = m, di_use_b_cast = b, di_use_u_cast = u, di_must_use_list = l, di_server_m_cast_ip = ip,
     di_ip_cnt = word_of_nat (length srv), di_srv_list = srv\<rparr>"
proof -
  let ?h = "discover_head m b u l ip (length srv)"
  have "map (\<lambda>i. server_at ((?h @ pad) @ concat (map server_bytes srv) @ post) (length (?h @ pad) + 20 * i)) [0..<length srv] = srv"
    by (rule servers_at_bytes [OF assms(2)])
  then have srv: "map (\<lambda>i. server_at (?h @ pad @ concat (map server_bytes srv) @ post) (24 + 20 * i)) [0..<length srv] = srv"
    using assms(1,3) by (simp add: length_discover_head)
  show ?thesis unfolding discover_info_at_def srv
    using assms(1) by (simp add: discover_head_def read_field_def u16c.encode_length u16c.decode_encode)
qed

section \<open>Listings\<close>

text \<open>A listing as the server sends it: per file its name and its information string, each with a null, and an empty name
  at the end.\<close>

record listing_entry =
  le_name :: bytes
  le_size :: nat
  le_year :: nat
  le_month :: nat
  le_day :: nat
  le_hour :: nat
  le_minute :: nat
  le_second :: rstr

definition info_text :: "listing_entry \<Rightarrow> rstr" where
  "info_text e = show_nat (le_size e) @ 0x20 # show_nat (le_year e) @ 0x2D # show_nat (le_month e) @ 0x2D #
     show_nat (le_day e) @ 0x20 # show_nat (le_hour e) @ 0x3A # show_nat (le_minute e) @ 0x3A # le_second e"

definition entry_bytes :: "listing_entry \<Rightarrow> bytes" where
  "entry_bytes e = le_name e @ 0 # map word_of_nat (info_text e) @ [0]"

definition listing_bytes :: "listing_entry list \<Rightarrow> bytes" where
  "listing_bytes es = concat (map entry_bytes es)"

definition entry_ok :: "listing_entry \<Rightarrow> bool" where
  "entry_ok e \<longleftrightarrow> le_name e \<noteq> [] \<and> 0 \<notin> set (le_name e) \<and> le_size e < 2 ^ 64 \<and> le_year e < 2 ^ 16 \<and> le_month e < 2 ^ 8 \<and>
     le_day e < 2 ^ 8 \<and> le_hour e < 2 ^ 8 \<and> le_minute e < 2 ^ 8 \<and> list_all (\<lambda>c. 0 < c \<and> c < 0x80) (le_second e) \<and>
     parse_f32 (le_second e) \<noteq> None"

definition entry_info :: "listing_entry \<Rightarrow> tftp_file_info" where
  "entry_info e = \<lparr>tf_filename = le_name e @ [0], tf_date = \<lparr>fd_size = word_of_nat (le_size e), fd_year = word_of_nat (le_year e),
     fd_month = word_of_nat (le_month e), fd_day = word_of_nat (le_day e), fd_hour = word_of_nat (le_hour e),
     fd_minute = word_of_nat (le_minute e), fd_second = the (parse_f32 (le_second e))\<rparr>\<rparr>"

lemma digits_ascii: "list_all is_digit ds \<Longrightarrow> list_all (\<lambda>c. 0 < c \<and> c < 0x80) ds"
  by (auto simp: list_all_iff is_digit_def)

lemma info_text_ascii: "entry_ok e \<Longrightarrow> list_all (\<lambda>c. 0 < c \<and> c < 0x80) (info_text e)"
  by (simp add: info_text_def entry_ok_def digits_ascii show_nat_digits)

lemma ascii_bytes:
  assumes "list_all (\<lambda>c. 0 < c \<and> c < 0x80) s"
  shows "list_all (\<lambda>b. b < 0x80) (map word_of_nat s :: bytes)" "map unat (map word_of_nat s :: bytes) = s" "0 \<notin> set (map word_of_nat s :: bytes)"
proof -
  have c: "unat (word_of_nat c :: u8) = c" if "c < 0x80" for c using that by (simp add: unat_of_nat)
  have u: "\<forall>c \<in> set s. unat (word_of_nat c :: u8) = c" using assms c by (simp add: list_all_iff)
  show "map unat (map word_of_nat s :: bytes) = s" using u by (simp add: map_idI)
  show "list_all (\<lambda>b. b < 0x80) (map word_of_nat s :: bytes)"
    using assms u by (simp add: list_all_iff word_less_nat_alt)
  show "0 \<notin> set (map word_of_nat s :: bytes)"
    using assms u by (auto simp: list_all_iff) (metis less_numeral_extra(3) unsigned_0)
qed

lemma sep_not_in_digits [simp]: "0x20 \<notin> set (show_nat n)" "0x2D \<notin> set (show_nat n)" "0x3A \<notin> set (show_nat n)"
  by (rule digit_not [OF show_nat_digits], simp add: is_digit_def)+

lemma parse_information_text:
  assumes "entry_ok e"
  shows "parse_information (map word_of_nat (info_text e)) = Some (tf_date (entry_info e))"
proof -
  let ?bs = "map word_of_nat (info_text e) :: bytes"
  note A = ascii_bytes [OF info_text_ascii [OF assms]]
  have "from_utf8_fuel (length ?bs) ?bs = Some (info_text e)" using from_utf8_ascii [OF A(1)] A(2) by simp
  moreover obtain f where "parse_f32 (le_second e) = Some f" using assms by (auto simp: entry_ok_def)
  ultimately show ?thesis using assms
    by (simp add: parse_information_def info_text_def entry_ok_def entry_info_def parse_uint_show)
qed

lemma entry_pieces:
  assumes "entry_ok e"
  shows "split_inclusive (\<lambda>b. b = 0) (entry_bytes e @ r) =
    (le_name e @ [0]) # (map word_of_nat (info_text e) @ [0]) # split_inclusive (\<lambda>b. b = 0) r"
proof -
  have n: "list_all (\<lambda>b. b \<noteq> 0) (le_name e)" using assms by (auto simp: entry_ok_def list_all_iff)
  have i: "list_all (\<lambda>b. b \<noteq> 0) (map word_of_nat (info_text e) :: bytes)"
    using ascii_bytes(3) [OF info_text_ascii [OF assms]] by (auto simp: list_all_iff)
  have "split_inclusive (\<lambda>b. b = 0) (le_name e @ 0 # map word_of_nat (info_text e) @ 0 # r) =
      (le_name e @ [0]) # split_inclusive (\<lambda>b. b = 0) (map word_of_nat (info_text e) @ 0 # r)"
    by (rule split_inclusive_piece) (use n in simp_all)
  moreover have "split_inclusive (\<lambda>b. b = 0) (map word_of_nat (info_text e) @ 0 # r) =
      (map word_of_nat (info_text e) @ [0]) # split_inclusive (\<lambda>b. b = 0) r"
    by (rule split_inclusive_piece) (use i in simp_all)
  ultimately show ?thesis by (simp add: entry_bytes_def)
qed

lemma name_with_nul:
  assumes "entry_ok e"
  shows "from_bytes_with_nul (le_name e @ [0]) = Ok (le_name e @ [0])" "le_name e @ [0] \<noteq> [0]"
proof -
  have "position (\<lambda>c. c = 0) (le_name e) = None" using assms by (auto simp: entry_ok_def position_None_iff)
  then have "position (\<lambda>c. c = 0) (le_name e @ [0]) = Some (length (le_name e))" by (simp add: position_append)
  then show "from_bytes_with_nul (le_name e @ [0]) = Ok (le_name e @ [0])" by (simp add: from_bytes_with_nul_def)
  show "le_name e @ [0] \<noteq> [0]" using assms by (simp add: entry_ok_def)
qed

lemma tftp_next_entry:
  assumes "entry_ok e"
  shows "read_dir_next tftp_parse_next (split_inclusive (\<lambda>b. b = 0) (entry_bytes e @ r), False) =
    Some (Some (Ok (entry_info e)), (split_inclusive (\<lambda>b. b = 0) r, False))"
  using name_with_nul [OF assms] parse_information_text [OF assms]
  by (simp add: read_dir_next_def tftp_parse_next_def entry_pieces [OF assms] entry_info_def)

text \<open>Reading the entries of a listing and then what follows.\<close>

lemma collect_listing:
  assumes "\<forall>e \<in> set es. entry_ok e"
  shows "collect_iter (read_dir_next tftp_parse_next) (split_inclusive (\<lambda>b. b = 0) (listing_bytes es @ r), False) =
    map_option ((@) (map (Ok \<circ> entry_info) es)) (collect_iter (read_dir_next tftp_parse_next) (split_inclusive (\<lambda>b. b = 0) r, False))"
  using assms
proof (induction es)
  case Nil
  then show ?case by (simp add: listing_bytes_def option.map_ident)
next
  case (Cons e es)
  let ?nxt = "read_dir_next tftp_parse_next" and ?p = "split_inclusive (\<lambda>b. b = 0)"
  have "?nxt (?p (listing_bytes (e # es) @ r), False) = Some (Some (Ok (entry_info e)), (?p (listing_bytes es @ r), False))"
    using tftp_next_entry [of e "listing_bytes es @ r"] Cons.prems by (simp add: listing_bytes_def)
  then have "collect_iter ?nxt (?p (listing_bytes (e # es) @ r), False) =
      map_option ((#) (Ok (entry_info e))) (collect_iter ?nxt (?p (listing_bytes es @ r), False))"
    by (subst collect_iter.simps) (simp add: map_option_case split: option.split bind_splits)
  then show ?case using Cons by (simp add: option.map_comp comp_def)
qed

lemma listing_end: "collect_iter (read_dir_next tftp_parse_next) (split_inclusive (\<lambda>b. b = 0) [0], False) = Some []"
  by (subst collect_iter.simps) (simp add: read_dir_next_def tftp_parse_next_def)

text \<open>An iterator that has run out of pieces repeats its error.\<close>

lemma exhausted_repeats: "read_dir_next tftp_parse_next ([], False) = Some (Some (Err ReadDirParseError), ([], False))"
  by (simp add: read_dir_next_def tftp_parse_next_def)

lemma collect_stuck:
  assumes "nxt s = Some (Some x, s)"
  shows "collect_iter nxt s = None"
proof (cases "collect_iter nxt s")
  case (Some xs)
  then have "\<exists>ys. collect_iter nxt s = Some ys \<and> xs = x # ys"
    by (subst (asm) collect_iter.simps) (auto simp: assms split: bind_splits)
  then show ?thesis using Some by auto
qed

lemma split_inclusive_rest: "xs \<noteq> [] \<Longrightarrow> z \<notin> set xs \<Longrightarrow> split_inclusive (\<lambda>b. b = z) xs = [xs]"
proof (induction xs)
  case (Cons a xs)
  then show ?case by (cases xs) auto
qed simp

section \<open>Properties\<close>

text \<open>C25: \<open>DiscoverInfo::new_in_buffer\<close> checks for two bytes less than it uses. On an aligned buffer it rejects what
  is shorter than its computed size; with one or two bytes less than the layout needs, it passes the check and
  writes or refers beyond the end of the buffer; otherwise it gives the structure with the arguments as its fields
  and leaves the bytes behind it alone.\<close>

theorem discover_info_new_bounds:
  assumes "p mod 4 = 0" "length ip = 16" "\<forall>s \<in> set srv. length (srv_addr s) = 16" "length srv \<le> 0xFFFF"
  shows "discover_info_new p buffer m b u l ip srv =
    (if length buffer < 22 + 20 * length srv then Some (Err \<lparr>err_status = BUFFER_TOO_SMALL, err_data = ()\<rparr>, buffer)
     else if length buffer < 24 + 20 * length srv then None
     else Some (Ok \<lparr>di_use_m_cast = m, di_use_b_cast = b, di_use_u_cast = u, di_must_use_list = l, di_server_m_cast_ip = ip,
         di_ip_cnt = word_of_nat (length srv), di_srv_list = srv\<rparr>,
       discover_head m b u l ip (length srv) @ take 2 (drop 22 buffer) @ concat (map server_bytes srv) @
         drop (24 + 20 * length srv) buffer))"
proof -
  let ?n = "length srv" and ?h = "discover_head m b u l ip (length srv)" and ?c = "concat (map server_bytes srv)"
  note D = discover_info_new_def Let_def uadd_def usize_limit_def error_from_status_eq status_success_neq
  show ?thesis
  proof (cases "length buffer < 24 + 20 * ?n")
    case True
    then show ?thesis using assms discover_writes [OF assms(2), of buffer m b u l ?n] by (simp add: D del: One_nat_def)
  next
    case False
    then have l: "24 \<le> length buffer" "20 * ?n \<le> length buffer - 24" by simp_all
    have w: "overwrite (?h @ drop 22 buffer) 24 ?c = ?h @ take 2 (drop 22 buffer) @ ?c @ drop (24 + 20 * ?n) buffer"
      using assms(2) l by (simp add: overwrite_def length_discover_head length_servers [OF assms(3)] drop_drop add.commute)
    have "length (take 2 (drop 22 buffer)) = 2" using l by simp
    from discover_info_at_bytes [OF assms(2,3) this] show ?thesis
      using False assms w discover_writes [OF assms(2), of buffer m b u l ?n] by (simp add: D del: One_nat_def)
  qed
qed

theorem discover_info_new_bounds_witness:
  "discover_info_new 8 (replicate 43 7) True False True False (replicate 16 1) [server_new 5 None] = None \<and>
   (\<exists>i buf. discover_info_new 8 (replicate 50 7) True False True False (replicate 16 1) [server_new 5 None] = Some (Ok i, buf) \<and>
     di_srv_list i = [server_new 5 None] \<and> length buf = 50)"
proof -
  have a: "\<forall>s \<in> set [server_new 5 None]. length (srv_addr s) = 16" by (simp add: server_new_def)
  have s: "length (server_bytes (server_new 5 None)) = 20" by (rule length_server_bytes) (simp add: server_new_def)
  show ?thesis using discover_info_new_bounds [of 8 "replicate 16 1" "[server_new 5 None]", OF _ _ a] s
    by (simp add: length_discover_head)
qed

text \<open>C17: A directory listing is read back: when the driver delivers the names and information strings of any list
  of files, each terminated, with the empty name at the end, the iterator yields exactly those files, in order, with
  their sizes and dates, and ends.\<close>

theorem tftp_listing_roundtrip:
  assumes "\<forall>e \<in> set es. entry_ok e" "length (listing_bytes es) < length buffer" "length buffer < 2 ^ 64"
    and "\<And>ps. px_mtftp px s ps = ((SUCCESS, word_of_nat (length (listing_bytes es) + 1), listing_bytes es @ [0]), s')"
  shows "\<exists>it. tftp_read_dir px server_ip dir buffer s = Some (Ok it, s') \<and>
    collect_iter (read_dir_next tftp_parse_next) it = Some (map (Ok \<circ> entry_info) es)"
proof -
  let ?l = "listing_bytes es @ [0]"
  have "unat (word_of_nat k :: u64) = k" if "k < 2 ^ 64" for k using that by (simp add: unat_of_nat)
  from this [of "length ?l"] have n: "unat (word_of_nat (length (listing_bytes es) + 1) :: u64) = length ?l"
    using assms(2,3) by simp
  have "take (length ?l) (filled buffer ?l) = ?l" "length ?l \<le> length (filled buffer ?l)"
    using assms(2) by (simp_all add: filled_def)
  then have "listing_pieces (filled buffer ?l) (word_of_nat (length (listing_bytes es) + 1)) =
      Some (split_inclusive (\<lambda>b. b = 0) ?l, False)" unfolding listing_pieces_def n by (simp add: get_range_def)
  then have "tftp_read_dir px server_ip dir buffer s = Some (Ok (split_inclusive (\<lambda>b. b = 0) ?l, False), s')"
    using assms(3,4) by (simp add: tftp_read_dir_def u64_from_usize_def del: of_nat_add)
  then show ?thesis using collect_listing [OF assms(1), of "[0]"] listing_end by simp
qed


text \<open>A listing of one file named \<open>a\<close> of 7 bytes.\<close>

definition sample_entry :: listing_entry where
  "sample_entry = \<lparr>le_name = [0x61], le_size = 7, le_year = 2024, le_month = 2, le_day = 29, le_hour = 23, le_minute = 59,
     le_second = [0x31]\<rparr>"

lemma sample_second: "parse_f32 [0x31] = Some 0x3F800000"
  by (simp add: parse_f32_def split_sign_def parse_number_def is_digit_def digits_value_def parse_exponent_def f32_of_fraction_def
    f32_exponent_def pow2_le_def div_half_even_def ascii_lower_def upto_rec1)

lemma sample_entry_ok: "entry_ok sample_entry"
  using sample_second by (simp add: entry_ok_def sample_entry_def)

definition blank_mode :: pxe_mode where
  "blank_mode = \<lparr>
     mode_started = False, mode_ipv6_available = False, mode_ipv6_supported = False, mode_using_ipv6 = False,
     mode_bis_supported = False, mode_bis_detected = False, mode_auto_arp = False, mode_send_guid = False,
     mode_dhcp_discover_valid = False, mode_dhcp_ack_received = False, mode_proxy_offer_received = False,
     mode_pxe_discover_valid = False, mode_pxe_reply_received = False, mode_pxe_bis_reply_received = False,
     mode_icmp_error_received = False, mode_tftp_error_received = False, mode_make_callbacks = False, mode_ttl = 16,
     mode_tos = 0, mode_raw_station_ip = replicate 16 0, mode_raw_subnet_mask = replicate 16 0, mode_dhcp_discover =
     replicate 1472 0, mode_dhcp_ack = replicate 1472 0, mode_proxy_offer = replicate 1472 0, mode_pxe_discover =
     replicate 1472 0, mode_pxe_reply = replicate 1472 0, mode_pxe_bis_reply = replicate 1472 0, mode_ip_filter =
     \<lparr>if_filters = 0, if_ip_cnt = 0, if_reserved = 0, if_ip_list = replicate 8 (replicate 16 0)\<rparr>,
     mode_arp_cache_entries = 0, mode_raw_arp_cache = replicate 8 \<lparr>arp_ip_addr = replicate 16 0, arp_mac_addr =
     replicate 32 0\<rparr>, mode_route_table_entries = 0, mode_raw_route_table = replicate 8 \<lparr>route_ip_addr =
     replicate 16 0, route_subnet_mask = replicate 16 0, route_gw_addr = replicate 16 0\<rparr>, mode_icmp_error =
     \<lparr>icmp_ty = 0, icmp_code = 0, icmp_checksum = 0, icmp_u = 0, icmp_data = replicate 494 0\<rparr>,
     mode_tftp_error = \<lparr>te_error_code = 0, te_error_string = replicate 127 0\<rparr>\<rparr>"

definition listing_driver :: "unit pxe_services" where
  "listing_driver = \<lparr>
     px_start = (\<lambda>s _. (SUCCESS, s)), px_stop = (\<lambda>s. (SUCCESS, s)), px_dhcp = (\<lambda>s _. (SUCCESS, s)),
     px_discover = (\<lambda>s _ layer _ _. ((UNSUPPORTED, layer), s)),
     px_mtftp = (\<lambda>s ps. ((SUCCESS, word_of_nat (length (listing_bytes [sample_entry]) + 1), listing_bytes [sample_entry] @ [0]), s)),
     px_udp_write = (\<lambda>s ps. ((UNSUPPORTED, uw_src_port ps), s)), px_udp_read = (\<lambda>s ps. ((UNSUPPORTED, ps), s)),
     px_set_ip_filter = (\<lambda>s _. (UNSUPPORTED, s)), px_arp = (\<lambda>s _ mac. ((UNSUPPORTED, mac), s)),
     px_set_parameters = (\<lambda>s _ _ _ _ _. (UNSUPPORTED, s)), px_set_station_ip = (\<lambda>s _ _. (UNSUPPORTED, s)),
     px_set_packets = (\<lambda>s _. (UNSUPPORTED, s)), px_mode = (\<lambda>_. blank_mode)\<rparr>"

theorem tftp_listing_roundtrip_witness:
  "\<exists>it. tftp_read_dir listing_driver (replicate 16 1) [0] (replicate 64 0) () = Some (Ok it, ()) \<and>
    collect_iter (read_dir_next tftp_parse_next) it = Some [Ok (entry_info sample_entry)]"
proof -
  have "length (show_nat 2024) = 4" "length (show_nat 29) = 2" "length (show_nat 23) = 2" "length (show_nat 59) = 2"
    "length (show_nat 7) = 1" "length (show_nat 2) = 1" by (simp_all add: show_nat.simps)
  then have "length (listing_bytes [sample_entry]) = 22"
    by (simp add: listing_bytes_def entry_bytes_def info_text_def sample_entry_def)
  then show ?thesis using tftp_listing_roundtrip [of "[sample_entry]" "replicate 64 0" listing_driver "()" "()"] sample_entry_ok
    by (simp add: listing_driver_def)
qed


end
