(* ===== verification/Device_Path_Text.thy ===== *)
theory Device_Path_Text
  imports Boot_Images File_System Device_Path_Props Mem_Util
begin

text \<open>
  The text and the utility protocol of device paths: \<open>proto/device_path/text.rs\<close>, \<open>proto/device_path/util.rs\<close>, the methods of
  \<open>proto/device_path/mod.rs\<close> that use them, and the pool memory they return (\<open>mem/mod.rs\<close>, \<open>data_types/strs.rs\<close>). A path
  or node that is passed to the firmware is its bytes; what the firmware returns is the address of a pool allocation, whose
  contents are read through \<open>pool_view\<close>.
\<close>

section \<open>Pool allocations\<close>

record 'fw pool_view =
  pv_units :: "'fw \<Rightarrow> nat \<Rightarrow> char16 list"
  pv_bytes :: "'fw \<Rightarrow> nat \<Rightarrow> bytes"

text \<open>A null result stands for a lack of memory.\<close>

definition pool_new :: "nat \<Rightarrow> nat uefi_result option" where
  "pool_new p = (if p = 0 then do { e \<leftarrow> error_from_status OUT_OF_RESOURCES; Some (Err e) } else Some (Ok p))"

definition pool_string_deref :: "'fw pool_view \<Rightarrow> nat \<Rightarrow> 'fw world \<Rightarrow> char16 list option" where
  "pool_string_deref pv p w = cstr16_from_ptr (pv_units pv (fw_state w) p)"

definition pool_path_deref :: "'fw pool_view \<Rightarrow> nat \<Rightarrow> 'fw world \<Rightarrow> bytes option" where
  "pool_path_deref pv p w = path_from_ffi_ptr (pv_bytes pv (fw_state w) p)"

definition pool_node_deref :: "'fw pool_view \<Rightarrow> nat \<Rightarrow> 'fw world \<Rightarrow> device_path_node option" where
  "pool_node_deref pv p w = node_from_ffi_ptr (pv_bytes pv (fw_state w) p)"

section \<open>The protocols\<close>

definition DEVICE_PATH_TO_TEXT_GUID :: nat where
  "DEVICE_PATH_TO_TEXT_GUID = 0x8b843e208132485290cc551a4e4a7f1c"

definition DEVICE_PATH_UTILITIES_GUID :: nat where
  "DEVICE_PATH_UTILITIES_GUID = 0x0379be4ed706437db037edb82fb772a4"

record 'fw to_text_services =
  tt_convert_device_node_to_text :: "'fw \<Rightarrow> bytes \<Rightarrow> bool \<Rightarrow> bool \<Rightarrow> nat \<times> 'fw"
  tt_convert_device_path_to_text :: "'fw \<Rightarrow> bytes \<Rightarrow> bool \<Rightarrow> bool \<Rightarrow> nat \<times> 'fw"

record 'fw from_text_services =
  ft_convert_text_to_device_node :: "'fw \<Rightarrow> char16 list \<Rightarrow> nat \<times> 'fw"
  ft_convert_text_to_device_path :: "'fw \<Rightarrow> char16 list \<Rightarrow> nat \<times> 'fw"

record 'fw utilities_services =
  du_get_device_path_size :: "'fw \<Rightarrow> bytes \<Rightarrow> usize"
  du_append_device_path :: "'fw \<Rightarrow> bytes \<Rightarrow> bytes \<Rightarrow> nat \<times> 'fw"
  du_append_device_node :: "'fw \<Rightarrow> bytes \<Rightarrow> bytes \<Rightarrow> nat \<times> 'fw"
  du_append_device_path_instance :: "'fw \<Rightarrow> bytes \<Rightarrow> bytes \<Rightarrow> nat \<times> 'fw"

text \<open>The functions of an interface are found at its address.\<close>

type_synonym 'p interface_at = "nat \<Rightarrow> 'p"

definition pool_call :: "nat \<times> 'fw \<Rightarrow> 'fw world \<Rightarrow> (nat uefi_result \<times> 'fw world) option" where
  "pool_call out w = do { r \<leftarrow> pool_new (fst out); Some (r, w\<lparr>fw_state := snd out\<rparr>) }"

definition convert_device_node_to_text ::
  "'fw to_text_services \<Rightarrow> device_path_node \<Rightarrow> bool \<Rightarrow> bool \<Rightarrow> 'fw world \<Rightarrow> (nat uefi_result \<times> 'fw world) option" where
  "convert_device_node_to_text tt device_node display_only allow_shortcuts w =
    pool_call (tt_convert_device_node_to_text tt (fw_state w) (node_bytes device_node) display_only allow_shortcuts) w"

definition convert_device_path_to_text ::
  "'fw to_text_services \<Rightarrow> bytes \<Rightarrow> bool \<Rightarrow> bool \<Rightarrow> 'fw world \<Rightarrow> (nat uefi_result \<times> 'fw world) option" where
  "convert_device_path_to_text tt device_path display_only allow_shortcuts w =
    pool_call (tt_convert_device_path_to_text tt (fw_state w) device_path display_only allow_shortcuts) w"

definition convert_text_to_device_node ::
  "'fw from_text_services \<Rightarrow> char16 list \<Rightarrow> 'fw world \<Rightarrow> (nat uefi_result \<times> 'fw world) option" where
  "convert_text_to_device_node ft text_device_node w = pool_call (ft_convert_text_to_device_node ft (fw_state w) text_device_node) w"

definition convert_text_to_device_path ::
  "'fw from_text_services \<Rightarrow> char16 list \<Rightarrow> 'fw world \<Rightarrow> (nat uefi_result \<times> 'fw world) option" where
  "convert_text_to_device_path ft text_device_path w = pool_call (ft_convert_text_to_device_path ft (fw_state w) text_device_path) w"

definition util_get_size :: "'fw utilities_services \<Rightarrow> bytes \<Rightarrow> 'fw world \<Rightarrow> usize" where
  "util_get_size du device_path w = du_get_device_path_size du (fw_state w) device_path"

definition util_append_path ::
  "'fw utilities_services \<Rightarrow> bytes \<Rightarrow> bytes \<Rightarrow> 'fw world \<Rightarrow> (nat uefi_result \<times> 'fw world) option" where
  "util_append_path du path0 path1 w = pool_call (du_append_device_path du (fw_state w) path0 path1) w"

definition util_append_node ::
  "'fw utilities_services \<Rightarrow> bytes \<Rightarrow> device_path_node \<Rightarrow> 'fw world \<Rightarrow> (nat uefi_result \<times> 'fw world) option" where
  "util_append_node du basepath node w = pool_call (du_append_device_node du (fw_state w) basepath (node_bytes node)) w"

definition util_append_instance ::
  "'fw utilities_services \<Rightarrow> bytes \<Rightarrow> bytes \<Rightarrow> 'fw world \<Rightarrow> (nat uefi_result \<times> 'fw world) option" where
  "util_append_instance du basepath inst w = pool_call (du_append_device_path_instance du (fw_state w) basepath inst) w"

section \<open>Opening the protocols\<close>

datatype device_path_to_text_error =
  TextCantLocateHandleBuffer "unit error" | TextNoHandle | TextCantOpenProtocol "unit error" | TextOutOfMemory

datatype device_path_utilities_error =
  UtilCantLocateHandleBuffer "unit error" | UtilNoHandle | UtilCantOpenProtocol "unit error" | UtilOutOfMemory

text \<open>The first handle of the buffer that \<open>locate_handle_buffer\<close> returns; the buffer is a temporary, freed on every path.\<close>

definition first_handle ::
  "nat \<Rightarrow> (unit error \<Rightarrow> 'e) \<Rightarrow> 'e \<Rightarrow> 'fw world \<Rightarrow> ((nat, 'e) result \<times> 'fw world) option" where
  "first_handle guid cant_locate no_handle w = do {
     (r, w1) \<leftarrow> locate_handle_buffer (ByProtocol guid) w;
     case r of
       Err e \<Rightarrow> Some (Err (cant_locate e), w1)
     | Ok hb \<Rightarrow> do {
         hs \<leftarrow> handle_buffer_deref hb w1;
         w2 \<leftarrow> handle_buffer_drop hb w1;
         Some (case hs of h # _ \<Rightarrow> Ok h | [] \<Rightarrow> Err no_handle, w2)
       }
   }"

definition open_get_protocol ::
  "nat \<Rightarrow> (unit error \<Rightarrow> 'e) \<Rightarrow> nat \<Rightarrow> 'fw world \<Rightarrow> ((scoped_protocol, 'e) result \<times> 'fw world) option" where
  "open_get_protocol guid cant_open handle w = do {
     agent \<leftarrow> image_handle w;
     (r, w1) \<leftarrow> open_protocol guid \<lparr>op_handle = handle, op_agent = agent, op_controller = None\<rparr> GetProtocol w;
     Some (case r of Ok sp \<Rightarrow> Ok sp | Err e \<Rightarrow> Err (cant_open e), w1)
   }"

definition open_text_protocol :: "'fw world \<Rightarrow> ((scoped_protocol, device_path_to_text_error) result \<times> 'fw world) option" where
  "open_text_protocol w =
    try_res (first_handle DEVICE_PATH_TO_TEXT_GUID TextCantLocateHandleBuffer TextNoHandle w)
      (open_get_protocol DEVICE_PATH_TO_TEXT_GUID TextCantOpenProtocol)"

text \<open>The search is for handles with the text protocol here too, as in the code.\<close>

definition open_utility_protocol :: "'fw world \<Rightarrow> ((scoped_protocol, device_path_utilities_error) result \<times> 'fw world) option" where
  "open_utility_protocol w =
    try_res (first_handle DEVICE_PATH_TO_TEXT_GUID UtilCantLocateHandleBuffer UtilNoHandle w)
      (open_get_protocol DEVICE_PATH_UTILITIES_GUID UtilCantOpenProtocol)"

section \<open>The methods of nodes and paths\<close>

text \<open>The text is copied and the pool string is freed; the guard of the protocol is dropped last.\<close>

definition with_text ::
  "'fw pool_view \<Rightarrow> (nat \<Rightarrow> 'fw world \<Rightarrow> (nat uefi_result \<times> 'fw world) option) \<Rightarrow> scoped_protocol \<Rightarrow> 'fw world \<Rightarrow>
    ((char16 list, device_path_to_text_error) result \<times> 'fw world) option" where
  "with_text pv convert sp w = do {
     p \<leftarrow> scoped_protocol_deref sp;
     (r, w1) \<leftarrow> convert p w;
     (res, w2) \<leftarrow> (case r of
       Err _ \<Rightarrow> Some (Err TextOutOfMemory, w1)
     | Ok pool_string \<Rightarrow> do {
         cstr16 \<leftarrow> pool_string_deref pv pool_string w1;
         w2 \<leftarrow> pool_allocation_drop pool_string w1;
         Some (Ok cstr16, w2)
       });
     w3 \<leftarrow> scoped_protocol_drop sp w2;
     Some (res, w3)
   }"

definition node_to_string ::
  "'fw to_text_services interface_at \<Rightarrow> 'fw pool_view \<Rightarrow> device_path_node \<Rightarrow> bool \<Rightarrow> bool \<Rightarrow> 'fw world \<Rightarrow>
    ((char16 list, device_path_to_text_error) result \<times> 'fw world) option" where
  "node_to_string tt pv node display_only allow_shortcuts w =
    try_res (open_text_protocol w)
      (with_text pv (\<lambda>p. convert_device_node_to_text (tt p) node display_only allow_shortcuts))"

definition path_to_string ::
  "'fw to_text_services interface_at \<Rightarrow> 'fw pool_view \<Rightarrow> bytes \<Rightarrow> bool \<Rightarrow> bool \<Rightarrow> 'fw world \<Rightarrow>
    ((char16 list, device_path_to_text_error) result \<times> 'fw world) option" where
  "path_to_string tt pv path display_only allow_shortcuts w =
    try_res (open_text_protocol w)
      (with_text pv (\<lambda>p. convert_device_path_to_text (tt p) path display_only allow_shortcuts))"

definition with_utilities ::
  "(nat \<Rightarrow> 'fw world \<Rightarrow> (nat uefi_result \<times> 'fw world) option) \<Rightarrow> scoped_protocol \<Rightarrow> 'fw world \<Rightarrow>
    ((nat, device_path_utilities_error) result \<times> 'fw world) option" where
  "with_utilities f sp w = do {
     p \<leftarrow> scoped_protocol_deref sp;
     (r, w1) \<leftarrow> f p w;
     w2 \<leftarrow> scoped_protocol_drop sp w1;
     Some (case r of Ok q \<Rightarrow> Ok q | Err _ \<Rightarrow> Err UtilOutOfMemory, w2)
   }"

definition path_append_path ::
  "'fw utilities_services interface_at \<Rightarrow> bytes \<Rightarrow> bytes \<Rightarrow> 'fw world \<Rightarrow>
    ((nat, device_path_utilities_error) result \<times> 'fw world) option" where
  "path_append_path du path right w =
    try_res (open_utility_protocol w) (with_utilities (\<lambda>p. util_append_path (du p) path right))"

definition path_append_node ::
  "'fw utilities_services interface_at \<Rightarrow> bytes \<Rightarrow> device_path_node \<Rightarrow> 'fw world \<Rightarrow>
    ((nat, device_path_utilities_error) result \<times> 'fw world) option" where
  "path_append_node du path right w =
    try_res (open_utility_protocol w) (with_utilities (\<lambda>p. util_append_node (du p) path right))"

section \<open>The documented behaviour of the firmware\<close>

text \<open>What a firmware state stands for: the open protocols, the pool allocations, the handles that support a protocol, in the
  order the firmware lists them, and whether there is memory left for the calls below.\<close>

record 'fw text_view =
  tv_opened :: "'fw \<Rightarrow> open_key multiset"
  tv_pools :: "'fw \<Rightarrow> nat set"
  tv_handles :: "'fw \<Rightarrow> nat \<Rightarrow> nat list"
  tv_enough :: "'fw \<Rightarrow> bool"

definition steady :: "'fw firmware \<Rightarrow> 'fw text_view \<Rightarrow> 'fw \<Rightarrow> 'fw \<Rightarrow> bool" where
  "steady st v s s' \<longleftrightarrow>
    fw_boot_services_null st s' = fw_boot_services_null st s \<and> tv_handles v s' = tv_handles v s \<and> tv_enough v s' = tv_enough v s"

definition handle_contract :: "'fw firmware \<Rightarrow> 'fw pool_view \<Rightarrow> 'fw text_view \<Rightarrow> bool" where
  "handle_contract st pv v \<longleftrightarrow>
    (\<forall>s g r n b s'. ps_locate_handle_buffer (fw_proto st) s 2 g 0 = ((r, n, b), s') \<longrightarrow>
       steady st v s s' \<and> tv_opened v s' = tv_opened v s \<and>
       (if tv_handles v s g = [] then r = NOT_FOUND \<and> tv_pools v s' = tv_pools v s
        else if r = SUCCESS then b \<noteq> 0 \<and> b \<notin> tv_pools v s \<and> tv_pools v s' = insert b (tv_pools v s) \<and>
          n = length (tv_handles v s g) \<and> (\<forall>i < n. ps_handle_at (fw_proto st) s' b i = tv_handles v s g ! i)
        else r = OUT_OF_RESOURCES \<and> \<not> tv_enough v s \<and> tv_pools v s' = tv_pools v s)) \<and>
    (\<forall>s p r s'. ms_free_pool (fw_mem st) s p = (r, s') \<longrightarrow> p \<in> tv_pools v s \<longrightarrow>
       r = SUCCESS \<and> steady st v s s' \<and> tv_opened v s' = tv_opened v s \<and> tv_pools v s' = tv_pools v s - {p}) \<and>
    (\<forall>s h g a r i s'. ps_open_protocol (fw_proto st) s h g a 0 0x02 = ((r, i), s') \<longrightarrow>
       steady st v s s' \<and> tv_pools v s' = tv_pools v s \<and> r = (if h \<in> set (tv_handles v s g) then SUCCESS else UNSUPPORTED)) \<and>
    (\<forall>s h g a c r s'. ps_close_protocol (fw_proto st) s h g a c = (r, s') \<longrightarrow>
       steady st v s s' \<and> tv_pools v s' = tv_pools v s \<and> pv_bytes pv s' = pv_bytes pv s)"

text \<open>A call that returns pool memory allocates it, and returns null only for a lack of memory.\<close>

definition allocates :: "'fw firmware \<Rightarrow> 'fw text_view \<Rightarrow> 'fw \<Rightarrow> nat \<Rightarrow> 'fw \<Rightarrow> bool" where
  "allocates st v s p s' \<longleftrightarrow> steady st v s s' \<and> tv_opened v s' = tv_opened v s \<and>
    (if p = 0 then \<not> tv_enough v s \<and> tv_pools v s' = tv_pools v s
     else p \<notin> tv_pools v s \<and> tv_pools v s' = insert p (tv_pools v s))"

definition text_contract ::
  "'fw firmware \<Rightarrow> 'fw to_text_services interface_at \<Rightarrow> 'fw pool_view \<Rightarrow> 'fw text_view \<Rightarrow> (bytes \<Rightarrow> bool \<Rightarrow> bool \<Rightarrow> char16 list) \<Rightarrow> bool" where
  "text_contract st tt pv v render \<longleftrightarrow>
    (\<forall>i s path d a p s'. tt_convert_device_path_to_text (tt i) s path d a = (p, s') \<longrightarrow>
       allocates st v s p s' \<and> NUL_16 \<notin> set (render path d a) \<and>
       (p \<noteq> 0 \<longrightarrow> (\<exists>rest. pv_units pv s' p = render path d a @ NUL_16 # rest)))"

definition path_of :: "device_path_node list \<Rightarrow> bytes" where
  "path_of ns = nodes_bytes ns @ node_bytes (end_node END_ENTIRE)"

definition utilities_contract ::
  "'fw firmware \<Rightarrow> 'fw utilities_services interface_at \<Rightarrow> 'fw pool_view \<Rightarrow> 'fw text_view \<Rightarrow> bool" where
  "utilities_contract st du pv v \<longleftrightarrow>
    (\<forall>i s ns ms p s'. du_append_device_path (du i) s (path_of ns) (path_of ms) = (p, s') \<longrightarrow>
       allocates st v s p s' \<and> (p \<noteq> 0 \<longrightarrow> (\<exists>rest. pv_bytes pv s' p = path_of (ns @ ms) @ rest)))"

section \<open>Lemmas\<close>

lemma steady_refl [simp]: "steady st v s s"
  by (simp add: steady_def)

lemma steady_trans: "steady st v s s1 \<Longrightarrow> steady st v s1 s2 \<Longrightarrow> steady st v s s2"
  by (simp add: steady_def)

lemma steady_alive: "steady st v (fw_state w) s \<Longrightarrow> alive st w \<Longrightarrow> alive st (w\<lparr>fw_state := s\<rparr>)"
  by (simp add: steady_def alive_def)

text \<open>Only the state of the firmware changes in a step; the views of it that the step keeps are those of \<open>steady\<close>.\<close>

definition moved :: "'fw firmware \<Rightarrow> 'fw text_view \<Rightarrow> 'fw world \<Rightarrow> 'fw world \<Rightarrow> bool" where
  "moved st v w w' \<longleftrightarrow> alive st w' \<and> steady st v (fw_state w) (fw_state w')"

lemma moved_trans: "moved st v w w1 \<Longrightarrow> moved st v w1 w2 \<Longrightarrow> moved st v w w2"
  by (simp add: moved_def steady_def)

lemma moved_step: "alive st w \<Longrightarrow> steady st v (fw_state w) s \<Longrightarrow> moved st v w (w\<lparr>fw_state := s\<rparr>)"
  by (simp add: moved_def steady_alive)

lemma handle_contract_locate:
  assumes "handle_contract st pv v" "ps_locate_handle_buffer (fw_proto st) s 2 g 0 = ((r, n, b), s')"
  shows "steady st v s s' \<and> tv_opened v s' = tv_opened v s \<and>
    (if tv_handles v s g = [] then r = NOT_FOUND \<and> tv_pools v s' = tv_pools v s
     else if r = SUCCESS then b \<noteq> 0 \<and> b \<notin> tv_pools v s \<and> tv_pools v s' = insert b (tv_pools v s) \<and>
       n = length (tv_handles v s g) \<and> (\<forall>i < n. ps_handle_at (fw_proto st) s' b i = tv_handles v s g ! i)
     else r = OUT_OF_RESOURCES \<and> \<not> tv_enough v s \<and> tv_pools v s' = tv_pools v s)"
  by (rule assms(1) [unfolded handle_contract_def, THEN conjunct1, rule_format, OF assms(2)])

lemma handle_contract_free:
  assumes "handle_contract st pv v" "ms_free_pool (fw_mem st) s p = (r, s')" "p \<in> tv_pools v s"
  shows "r = SUCCESS" "steady st v s s'" "tv_opened v s' = tv_opened v s" "tv_pools v s' = tv_pools v s - {p}"
  using assms(1) [unfolded handle_contract_def, THEN conjunct2, THEN conjunct1, rule_format, OF assms(2,3)] by blast+

lemma handle_contract_open:
  assumes "handle_contract st pv v" "ps_open_protocol (fw_proto st) s h g a 0 0x02 = ((r, i), s')"
  shows "steady st v s s'" "tv_pools v s' = tv_pools v s" "r = (if h \<in> set (tv_handles v s g) then SUCCESS else UNSUPPORTED)"
  using assms(1) [unfolded handle_contract_def, THEN conjunct2, THEN conjunct2, THEN conjunct1, rule_format, OF assms(2)] by blast+

lemma handle_contract_close:
  assumes "handle_contract st pv v" "ps_close_protocol (fw_proto st) s h g a c = (r, s')"
  shows "steady st v s s'" "tv_pools v s' = tv_pools v s" "pv_bytes pv s' = pv_bytes pv s"
  using assms(1) [unfolded handle_contract_def, THEN conjunct2, THEN conjunct2, THEN conjunct2, rule_format, OF assms(2)] by blast+

lemma free_pool_moves:
  assumes "handle_contract st pv v" "alive st w" "p \<in> tv_pools v (fw_state w)"
  obtains w' where "free_pool p w = Some (Ok (), w')" "moved st v w w'"
    "tv_opened v (fw_state w') = tv_opened v (fw_state w)" "tv_pools v (fw_state w') = tv_pools v (fw_state w) - {p}"
proof -
  obtain r s where call: "ms_free_pool (fw_mem st) (fw_state w) p = (r, s)" by (metis surj_pair)
  note C = handle_contract_free [OF assms(1) call assms(3)]
  show ?thesis
    by (rule that [of "w\<lparr>fw_state := s\<rparr>"]) (use C call alive_raw [OF assms(2)] moved_step [OF assms(2)] in \<open>simp_all add: free_pool_def\<close>)
qed

text \<open>What the search for the first handle returns, and that it frees its buffer.\<close>

lemma first_handle_outcome:
  assumes c: "handle_contract st pv v" and a: "alive st w"
  shows "\<exists>r w'. first_handle g cl nh w = Some (r, w') \<and> moved st v w w' \<and>
    tv_opened v (fw_state w') = tv_opened v (fw_state w) \<and> tv_pools v (fw_state w') = tv_pools v (fw_state w) \<and>
    (case tv_handles v (fw_state w) g of
       [] \<Rightarrow> r = Err (cl \<lparr>err_status = NOT_FOUND, err_data = ()\<rparr>)
     | h # _ \<Rightarrow> r = Ok h \<or> \<not> tv_enough v (fw_state w) \<and> r = Err (cl \<lparr>err_status = OUT_OF_RESOURCES, err_data = ()\<rparr>))"
proof -
  obtain r n b s where call: "ps_locate_handle_buffer (fw_proto st) (fw_state w) 2 g 0 = ((r, n, b), s)" by (metis surj_pair)
  note C = handle_contract_locate [OF c call]
  let ?w = "w\<lparr>fw_state := s\<rparr>" and ?hs = "tv_handles v (fw_state w) g"
  have mv: "moved st v w ?w" using C moved_step [OF a] by blast
  have loc: "locate_handle_buffer (ByProtocol g) w = (if r = SUCCESS then do { require (b \<noteq> 0); Some (Ok \<lparr>hb_count = n, hb_buffer = b\<rparr>, ?w) }
      else Some (Err \<lparr>err_status = r, err_data = ()\<rparr>, ?w))"
    using alive_raw [OF a] call by (simp add: locate_handle_buffer_def require_def)
  show ?thesis
  proof (cases "r = SUCCESS")
    case False
    then have "first_handle g cl nh w = Some (Err (cl \<lparr>err_status = r, err_data = ()\<rparr>), ?w)" using loc by (simp add: first_handle_def)
    then show ?thesis using C mv False by (cases ?hs) auto
  next
    case True
    then obtain h hs where hs: "?hs = h # hs" using C by (cases ?hs) (auto simp: status_success_neq)
    then have b: "b \<noteq> 0" "b \<notin> tv_pools v (fw_state w)" "tv_pools v s = insert b (tv_pools v (fw_state w))" "n = Suc (length hs)"
      "ps_handle_at (fw_proto st) s b 0 = h" using C True by auto
    have "alive st ?w" "b \<in> tv_pools v (fw_state ?w)" using mv b(3) by (simp_all add: moved_def)
    from free_pool_moves [OF c this] obtain w2 where w2: "free_pool b ?w = Some (Ok (), w2)" "moved st v ?w w2"
      "tv_opened v (fw_state w2) = tv_opened v s" "tv_pools v (fw_state w2) = tv_pools v s - {b}"
      by auto
    have "system_table ?w = Some st" using a by (simp add: alive_def)
    then have "first_handle g cl nh w = Some (Ok h, w2)"
      using True loc b w2(1) by (simp add: first_handle_def handle_buffer_deref_def handle_buffer_drop_def require_def upt_rec)
    then show ?thesis using C b w2 hs moved_trans [OF mv w2(2)] by simp
  qed
qed

lemma open_get_outcome:
  assumes o: "open_contract st (tv_opened v)" and c: "handle_contract st pv v" and a: "alive st w"
  shows "\<exists>r w'. open_get_protocol g co h w = Some (r, w') \<and> moved st v w w' \<and> tv_pools v (fw_state w') = tv_pools v (fw_state w) \<and>
    (if h \<in> set (tv_handles v (fw_state w) g)
     then \<exists>sp. r = Ok sp \<and> sp_interface sp \<noteq> None \<and> tv_opened v (fw_state w') = add_mset (open_key_of sp) (tv_opened v (fw_state w))
     else r = Err (co \<lparr>err_status = UNSUPPORTED, err_data = ()\<rparr>) \<and> tv_opened v (fw_state w') = tv_opened v (fw_state w))"
proof -
  obtain r i s where call: "ps_open_protocol (fw_proto st) (fw_state w) h g (image_handle_ptr w) 0 0x02 = ((r, i), s)" by (metis surj_pair)
  note C = handle_contract_open [OF c call]
  have "(0x02 :: u32) \<noteq> 0x04" by simp
  from o [unfolded open_contract_def, THEN conjunct1, rule_format, OF this call]
  have O: "r = SUCCESS \<Longrightarrow> i \<noteq> 0 \<and> tv_opened v s = add_mset (h, g, image_handle_ptr w, 0) (tv_opened v (fw_state w))"
    "r \<noteq> SUCCESS \<Longrightarrow> tv_opened v s = tv_opened v (fw_state w)" by auto
  have "image_handle w = Some (image_handle_ptr w)" using a by (simp add: image_handle_def alive_def)
  then have "open_get_protocol g co h w = (let sp = \<lparr>sp_interface = (if i = 0 then None else Some i),
        sp_open_params = \<lparr>op_handle = h, op_agent = image_handle_ptr w, op_controller = None\<rparr>, sp_guid = g\<rparr> in
      if r = SUCCESS then Some (Ok sp, w\<lparr>fw_state := s\<rparr>) else Some (Err (co \<lparr>err_status = r, err_data = ()\<rparr>), w\<lparr>fw_state := s\<rparr>))"
    using alive_raw [OF a] call by (simp add: open_get_protocol_def open_protocol_def opt_to_ptr_def)
  then show ?thesis using C O moved_step [OF a C(1)]
    by (auto simp: Let_def open_key_of_def opt_to_ptr_def status_success_neq)
qed

lemma drop_moves:
  assumes o: "open_contract st (tv_opened v)" and c: "handle_contract st pv v" and a: "alive st w"
    and k: "open_key_of sp \<in># tv_opened v (fw_state w)"
  obtains w' where "scoped_protocol_drop sp w = Some w'" "moved st v w w'" "tv_pools v (fw_state w') = tv_pools v (fw_state w)"
    "pv_bytes pv (fw_state w') = pv_bytes pv (fw_state w)" "tv_opened v (fw_state w') = tv_opened v (fw_state w) - {#open_key_of sp#}"
proof -
  obtain r f where call: "ps_close_protocol (fw_proto st) (fw_state w) (op_handle (sp_open_params sp)) (sp_guid sp)
      (op_agent (sp_open_params sp)) (opt_to_ptr (op_controller (sp_open_params sp))) = (r, f)" by (metis surj_pair)
  note C = handle_contract_close [OF c call] and O = open_contract_close [OF o call]
  then have "r = SUCCESS" "tv_opened v f = tv_opened v (fw_state w) - {#open_key_of sp#}" using k by (simp_all add: open_key_of_def)
  then show ?thesis using that [of "w\<lparr>fw_state := f\<rparr>"] alive_raw [OF a] call moved_step [OF a C(1)] C
    by (simp add: scoped_protocol_drop_def)
qed

text \<open>The two ways to open a protocol, seen from outside: the handle comes from the handles of \<open>g\<close>, the protocol is \<open>g'\<close>.\<close>

lemma open_first_outcome:
  assumes o: "open_contract st (tv_opened v)" and c: "handle_contract st pv v" and a: "alive st w"
  shows "\<exists>r w'. try_res (first_handle g cl nh w) (open_get_protocol g' co) = Some (r, w') \<and> moved st v w w' \<and>
    tv_pools v (fw_state w') = tv_pools v (fw_state w) \<and>
    (case r of
       Ok sp \<Rightarrow> (\<exists>h hs. tv_handles v (fw_state w) g = h # hs \<and> h \<in> set (tv_handles v (fw_state w) g')) \<and> sp_interface sp \<noteq> None \<and>
         tv_opened v (fw_state w') = add_mset (open_key_of sp) (tv_opened v (fw_state w))
     | Err e \<Rightarrow> tv_opened v (fw_state w') = tv_opened v (fw_state w) \<and>
         (case tv_handles v (fw_state w) g of
            [] \<Rightarrow> e = cl \<lparr>err_status = NOT_FOUND, err_data = ()\<rparr>
          | h # _ \<Rightarrow> (h \<notin> set (tv_handles v (fw_state w) g') \<and> e = co \<lparr>err_status = UNSUPPORTED, err_data = ()\<rparr>) \<or>
              (\<not> tv_enough v (fw_state w) \<and> e = cl \<lparr>err_status = OUT_OF_RESOURCES, err_data = ()\<rparr>)))"
proof -
  obtain r w1 where F: "first_handle g cl nh w = Some (r, w1)" "moved st v w w1"
    "tv_opened v (fw_state w1) = tv_opened v (fw_state w)" "tv_pools v (fw_state w1) = tv_pools v (fw_state w)"
    "case tv_handles v (fw_state w) g of
       [] \<Rightarrow> r = Err (cl \<lparr>err_status = NOT_FOUND, err_data = ()\<rparr>)
     | h # _ \<Rightarrow> r = Ok h \<or> \<not> tv_enough v (fw_state w) \<and> r = Err (cl \<lparr>err_status = OUT_OF_RESOURCES, err_data = ()\<rparr>)"
    using first_handle_outcome [OF c a, of g cl nh] by blast
  show ?thesis
  proof (cases r)
    case (Err e)
    then show ?thesis using F by (cases "tv_handles v (fw_state w) g") (simp_all add: try_res_def)
  next
    case (Ok h)
    then obtain hs where hs: "tv_handles v (fw_state w) g = h # hs" using F(5) by (cases "tv_handles v (fw_state w) g") auto
    have w1: "alive st w1" "tv_handles v (fw_state w1) = tv_handles v (fw_state w)" using F(2) by (simp_all add: moved_def steady_def)
    obtain r2 w2 where G: "open_get_protocol g' co h w1 = Some (r2, w2)" "moved st v w1 w2" "tv_pools v (fw_state w2) = tv_pools v (fw_state w1)"
      "if h \<in> set (tv_handles v (fw_state w1) g')
       then \<exists>sp. r2 = Ok sp \<and> sp_interface sp \<noteq> None \<and> tv_opened v (fw_state w2) = add_mset (open_key_of sp) (tv_opened v (fw_state w1))
       else r2 = Err (co \<lparr>err_status = UNSUPPORTED, err_data = ()\<rparr>) \<and> tv_opened v (fw_state w2) = tv_opened v (fw_state w1)"
      using open_get_outcome [OF o c w1(1), of g' co h] by blast
    have tr: "try_res (first_handle g cl nh w) (open_get_protocol g' co) = Some (r2, w2)" using F(1) Ok G(1) by (simp add: try_res_def)
    note eqs = F(3,4) G(3) w1(2) hs moved_trans [OF F(2) G(2)]
    show ?thesis
    proof (cases "h \<in> set (tv_handles v (fw_state w) g')")
      case True
      then obtain sp where "r2 = Ok sp" "sp_interface sp \<noteq> None"
        "tv_opened v (fw_state w2) = add_mset (open_key_of sp) (tv_opened v (fw_state w1))" using G(4) w1(2) by auto
      then show ?thesis unfolding tr using eqs True by simp
    next
      case False
      then have "r2 = Err (co \<lparr>err_status = UNSUPPORTED, err_data = ()\<rparr>)" "tv_opened v (fw_state w2) = tv_opened v (fw_state w1)"
        using G(4) w1(2) by auto
      then show ?thesis unfolding tr using eqs False by simp
    qed
  qed
qed

lemma pool_call_outcome:
  assumes "alive st w" "allocates st v (fw_state w) p s"
  shows "pool_call (p, s) w = Some (if p = 0 then Err \<lparr>err_status = OUT_OF_RESOURCES, err_data = ()\<rparr> else Ok p, w\<lparr>fw_state := s\<rparr>)"
    and "moved st v w (w\<lparr>fw_state := s\<rparr>)"
  using assms moved_step [OF assms(1)] by (auto simp: pool_call_def pool_new_def allocates_def status_success_neq)

lemma cstr16_from_ptr_append:
  "NUL_16 \<notin> set xs \<Longrightarrow> cstr16_from_ptr (xs @ NUL_16 # rest) = Some (xs @ [NUL_16])"
proof -
  assume "NUL_16 \<notin> set xs"
  then have "ptr_strlen NUL_16 (xs @ NUL_16 # rest) = Some (length xs)" by (induction xs) auto
  then show ?thesis by (simp add: cstr16_from_ptr_def)
qed

lemma with_text_outcome:
  assumes o: "open_contract st (tv_opened v)" and c: "handle_contract st pv v" and t: "text_contract st tt pv v render"
    and a: "alive st w" and sp: "open_key_of sp \<in># tv_opened v (fw_state w)" "sp_interface sp \<noteq> None"
  shows "\<exists>r w'. with_text pv (\<lambda>p. convert_device_path_to_text (tt p) path d b) sp w = Some (r, w') \<and> moved st v w w' \<and>
    tv_pools v (fw_state w') = tv_pools v (fw_state w) \<and>
    tv_opened v (fw_state w') = tv_opened v (fw_state w) - {#open_key_of sp#} \<and>
    (case r of Ok s \<Rightarrow> s = render path d b @ [NUL_16] | Err e \<Rightarrow> \<not> tv_enough v (fw_state w) \<and> e = TextOutOfMemory)"
proof -
  obtain i where i: "sp_interface sp = Some i" using sp(2) by blast
  obtain p s where call: "tt_convert_device_path_to_text (tt i) (fw_state w) path d b = (p, s)" by (metis surj_pair)
  have T: "allocates st v (fw_state w) p s" "NUL_16 \<notin> set (render path d b)"
    "p \<noteq> 0 \<Longrightarrow> \<exists>rest. pv_units pv s p = render path d b @ NUL_16 # rest"
    using t [unfolded text_contract_def, rule_format, OF call] by blast+
  let ?w = "w\<lparr>fw_state := s\<rparr>"
  note pc = pool_call_outcome [OF a T(1)]
  have w1: "alive st ?w" "open_key_of sp \<in># tv_opened v (fw_state ?w)" using pc(2) sp(1) T(1) by (simp_all add: moved_def allocates_def)
  show ?thesis
  proof (cases "p = 0")
    case True
    obtain w2 where w2: "scoped_protocol_drop sp ?w = Some w2" "moved st v ?w w2" "tv_pools v (fw_state w2) = tv_pools v s"
      "tv_opened v (fw_state w2) = tv_opened v s - {#open_key_of sp#}" using drop_moves [OF o c w1] by auto
    then show ?thesis using True pc(1) moved_trans [OF pc(2)] T(1) call i
      by (simp add: with_text_def scoped_protocol_deref_def convert_device_path_to_text_def allocates_def)
  next
    case False
    then have "p \<in> tv_pools v (fw_state ?w)" using T(1) by (simp add: allocates_def)
    from free_pool_moves [OF c w1(1) this] obtain w2 where w2: "free_pool p ?w = Some (Ok (), w2)" "moved st v ?w w2"
      "tv_opened v (fw_state w2) = tv_opened v s" "tv_pools v (fw_state w2) = tv_pools v s - {p}" by auto
    then have "alive st w2" "open_key_of sp \<in># tv_opened v (fw_state w2)" using w1(2) by (simp_all add: moved_def)
    from drop_moves [OF o c this] obtain w3 where w3: "scoped_protocol_drop sp w2 = Some w3" "moved st v w2 w3"
      "tv_pools v (fw_state w3) = tv_pools v (fw_state w2)" "tv_opened v (fw_state w3) = tv_opened v (fw_state w2) - {#open_key_of sp#}" by auto
    have "pool_string_deref pv p ?w = Some (render path d b @ [NUL_16])"
      using T(2,3) False by (auto simp: pool_string_deref_def cstr16_from_ptr_append)
    then show ?thesis using False pc(1) moved_trans [OF pc(2) moved_trans [OF w2(2) w3(2)]] T(1) call i w2 w3
      by (simp add: with_text_def scoped_protocol_deref_def convert_device_path_to_text_def pool_allocation_drop_def allocates_def)
  qed
qed

lemma pool_path_deref_path_of:
  assumes "pv_bytes pv (fw_state w) p = path_of ns @ rest" "inner_nodes ns" "length (path_of ns) < usize_limit"
  shows "pool_path_deref pv p w = Some (path_of ns)"
  using path_from_ffi_ptr_end [of ns "end_node END_ENTIRE" rest] assms by (simp add: pool_path_deref_def path_of_def)

lemma with_utilities_outcome:
  assumes o: "open_contract st (tv_opened v)" and c: "handle_contract st pv v" and u: "utilities_contract st du pv v"
    and a: "alive st w" and sp: "open_key_of sp \<in># tv_opened v (fw_state w)" "sp_interface sp \<noteq> None"
    and ok: "inner_nodes (ns @ ms)" "length (path_of (ns @ ms)) < usize_limit"
  shows "\<exists>r w'. with_utilities (\<lambda>p. util_append_path (du p) (path_of ns) (path_of ms)) sp w = Some (r, w') \<and> moved st v w w' \<and>
    tv_opened v (fw_state w') = tv_opened v (fw_state w) - {#open_key_of sp#} \<and>
    (case r of
       Ok q \<Rightarrow> q \<notin> tv_pools v (fw_state w) \<and> tv_pools v (fw_state w') = insert q (tv_pools v (fw_state w)) \<and>
         pool_path_deref pv q w' = Some (path_of (ns @ ms))
     | Err e \<Rightarrow> \<not> tv_enough v (fw_state w) \<and> tv_pools v (fw_state w') = tv_pools v (fw_state w))"
proof -
  obtain i where i: "sp_interface sp = Some i" using sp(2) by blast
  obtain p s where call: "du_append_device_path (du i) (fw_state w) (path_of ns) (path_of ms) = (p, s)" by (metis surj_pair)
  have T: "allocates st v (fw_state w) p s" "p \<noteq> 0 \<Longrightarrow> \<exists>rest. pv_bytes pv s p = path_of (ns @ ms) @ rest"
    using u [unfolded utilities_contract_def, rule_format, OF call] by blast+
  let ?w = "w\<lparr>fw_state := s\<rparr>"
  note pc = pool_call_outcome [OF a T(1)]
  have w1: "alive st ?w" "open_key_of sp \<in># tv_opened v (fw_state ?w)" using pc(2) sp(1) T(1) by (simp_all add: moved_def allocates_def)
  obtain w2 where w2: "scoped_protocol_drop sp ?w = Some w2" "moved st v ?w w2" "tv_pools v (fw_state w2) = tv_pools v s"
    "pv_bytes pv (fw_state w2) = pv_bytes pv s" "tv_opened v (fw_state w2) = tv_opened v s - {#open_key_of sp#}"
    using drop_moves [OF o c w1] by auto
  have "p \<noteq> 0 \<Longrightarrow> pool_path_deref pv p w2 = Some (path_of (ns @ ms))"
    using T(2) w2(4) pool_path_deref_path_of [OF _ ok] by metis
  then show ?thesis using pc(1) moved_trans [OF pc(2) w2(2)] T(1) call i w2
    by (cases "p = 0") (simp_all add: with_utilities_def scoped_protocol_deref_def util_append_path_def allocates_def)
qed

section \<open>Properties\<close>

text \<open>C27: \<open>DevicePath::to_string\<close> never panics, and it leaks neither the handle buffer, nor the pool string, nor the protocol it
  opened, on any path. Without a handle that supports the text protocol it reports that it cannot locate one; otherwise the
  only errors are for a lack of memory, and with enough memory the result is the text of the path, with its terminator.\<close>

theorem path_to_string_outcome:
  assumes "open_contract st (tv_opened v)" and "handle_contract st pv v" and "text_contract st tt pv v render" and "alive st w"
  shows "\<exists>r w'. path_to_string tt pv path d b w = Some (r, w') \<and> alive st w' \<and>
    tv_opened v (fw_state w') = tv_opened v (fw_state w) \<and> tv_pools v (fw_state w') = tv_pools v (fw_state w) \<and>
    (case r of
       Ok s \<Rightarrow> tv_handles v (fw_state w) DEVICE_PATH_TO_TEXT_GUID \<noteq> [] \<and> s = render path d b @ [NUL_16]
     | Err e \<Rightarrow>
         if tv_handles v (fw_state w) DEVICE_PATH_TO_TEXT_GUID = []
         then e = TextCantLocateHandleBuffer \<lparr>err_status = NOT_FOUND, err_data = ()\<rparr>
         else \<not> tv_enough v (fw_state w) \<and>
           (e = TextOutOfMemory \<or> e = TextCantLocateHandleBuffer \<lparr>err_status = OUT_OF_RESOURCES, err_data = ()\<rparr>))"
proof -
  let ?hs = "tv_handles v (fw_state w) DEVICE_PATH_TO_TEXT_GUID"
  from open_first_outcome [OF assms(1,2,4), of DEVICE_PATH_TO_TEXT_GUID TextCantLocateHandleBuffer TextNoHandle
      DEVICE_PATH_TO_TEXT_GUID TextCantOpenProtocol, folded open_text_protocol_def]
  obtain r w1 where O: "open_text_protocol w = Some (r, w1)" "moved st v w w1" "tv_pools v (fw_state w1) = tv_pools v (fw_state w)"
    "case r of
       Ok sp \<Rightarrow> (\<exists>h hs. ?hs = h # hs \<and> h \<in> set ?hs) \<and> sp_interface sp \<noteq> None \<and>
         tv_opened v (fw_state w1) = add_mset (open_key_of sp) (tv_opened v (fw_state w))
     | Err e \<Rightarrow> tv_opened v (fw_state w1) = tv_opened v (fw_state w) \<and>
         (case ?hs of
            [] \<Rightarrow> e = TextCantLocateHandleBuffer \<lparr>err_status = NOT_FOUND, err_data = ()\<rparr>
          | h # _ \<Rightarrow> (h \<notin> set ?hs \<and> e = TextCantOpenProtocol \<lparr>err_status = UNSUPPORTED, err_data = ()\<rparr>) \<or>
              (\<not> tv_enough v (fw_state w) \<and> e = TextCantLocateHandleBuffer \<lparr>err_status = OUT_OF_RESOURCES, err_data = ()\<rparr>))" by blast
  have w1: "alive st w1" "tv_enough v (fw_state w1) = tv_enough v (fw_state w)" using O(2) by (simp_all add: moved_def steady_def)
  show ?thesis
  proof (cases r)
    case (Err e)
    then show ?thesis using O w1(1) by (cases ?hs) (auto simp: path_to_string_def try_res_def)
  next
    case (Ok sp)
    then have sp: "open_key_of sp \<in># tv_opened v (fw_state w1)" "sp_interface sp \<noteq> None" "?hs \<noteq> []"
      "tv_opened v (fw_state w1) - {#open_key_of sp#} = tv_opened v (fw_state w)" using O(4) by auto
    from with_text_outcome [OF assms(1,2,3) w1(1) sp(1,2)] obtain r2 w2 where
      W: "with_text pv (\<lambda>p. convert_device_path_to_text (tt p) path d b) sp w1 = Some (r2, w2)" "moved st v w1 w2"
      "tv_pools v (fw_state w2) = tv_pools v (fw_state w1)" "tv_opened v (fw_state w2) = tv_opened v (fw_state w1) - {#open_key_of sp#}"
      "case r2 of Ok s \<Rightarrow> s = render path d b @ [NUL_16] | Err e \<Rightarrow> \<not> tv_enough v (fw_state w1) \<and> e = TextOutOfMemory" by blast
    then show ?thesis using O Ok sp w1(2) by (cases r2) (simp_all add: path_to_string_def try_res_def moved_def)
  qed
qed

text \<open>C16: \<open>DevicePath::append_path\<close> never panics, leaves no protocol open, and allocates at most its result, which is then the
  two paths joined. With enough memory its outcome is decided by the first handle that supports the \<^emph>\<open>text\<close> protocol: the call
  succeeds if that handle also supports the utility protocol, and fails otherwise, whatever other handles support it.\<close>

theorem append_path_outcome:
  assumes "open_contract st (tv_opened v)" and "handle_contract st pv v" and "utilities_contract st du pv v" and "alive st w"
    and "inner_nodes (ns @ ms)" and "length (path_of (ns @ ms)) < usize_limit"
  shows "\<exists>r w'. path_append_path du (path_of ns) (path_of ms) w = Some (r, w') \<and> alive st w' \<and>
    tv_opened v (fw_state w') = tv_opened v (fw_state w) \<and>
    (case r of
       Ok q \<Rightarrow> q \<notin> tv_pools v (fw_state w) \<and> tv_pools v (fw_state w') = insert q (tv_pools v (fw_state w)) \<and>
         pool_path_deref pv q w' = Some (path_of (ns @ ms))
     | Err e \<Rightarrow> tv_pools v (fw_state w') = tv_pools v (fw_state w)) \<and>
    (tv_enough v (fw_state w) \<longrightarrow>
      (case tv_handles v (fw_state w) DEVICE_PATH_TO_TEXT_GUID of
         [] \<Rightarrow> r = Err (UtilCantLocateHandleBuffer \<lparr>err_status = NOT_FOUND, err_data = ()\<rparr>)
       | h # _ \<Rightarrow>
           if h \<in> set (tv_handles v (fw_state w) DEVICE_PATH_UTILITIES_GUID) then \<exists>q. r = Ok q
           else r = Err (UtilCantOpenProtocol \<lparr>err_status = UNSUPPORTED, err_data = ()\<rparr>)))"
proof -
  let ?hs = "tv_handles v (fw_state w) DEVICE_PATH_TO_TEXT_GUID" and ?us = "tv_handles v (fw_state w) DEVICE_PATH_UTILITIES_GUID"
  from open_first_outcome [OF assms(1,2,4), of DEVICE_PATH_TO_TEXT_GUID UtilCantLocateHandleBuffer UtilNoHandle
      DEVICE_PATH_UTILITIES_GUID UtilCantOpenProtocol, folded open_utility_protocol_def]
  obtain r w1 where O: "open_utility_protocol w = Some (r, w1)" "moved st v w w1" "tv_pools v (fw_state w1) = tv_pools v (fw_state w)"
    "case r of
       Ok sp \<Rightarrow> (\<exists>h hs. ?hs = h # hs \<and> h \<in> set ?us) \<and> sp_interface sp \<noteq> None \<and>
         tv_opened v (fw_state w1) = add_mset (open_key_of sp) (tv_opened v (fw_state w))
     | Err e \<Rightarrow> tv_opened v (fw_state w1) = tv_opened v (fw_state w) \<and>
         (case ?hs of
            [] \<Rightarrow> e = UtilCantLocateHandleBuffer \<lparr>err_status = NOT_FOUND, err_data = ()\<rparr>
          | h # _ \<Rightarrow> (h \<notin> set ?us \<and> e = UtilCantOpenProtocol \<lparr>err_status = UNSUPPORTED, err_data = ()\<rparr>) \<or>
              (\<not> tv_enough v (fw_state w) \<and> e = UtilCantLocateHandleBuffer \<lparr>err_status = OUT_OF_RESOURCES, err_data = ()\<rparr>))" by blast
  have w1: "alive st w1" "tv_enough v (fw_state w1) = tv_enough v (fw_state w)" using O(2) by (simp_all add: moved_def steady_def)
  show ?thesis
  proof (cases r)
    case (Err e)
    then show ?thesis using O w1(1) by (cases ?hs) (auto simp: path_append_path_def try_res_def)
  next
    case (Ok sp)
    then obtain h hs where sp: "open_key_of sp \<in># tv_opened v (fw_state w1)" "sp_interface sp \<noteq> None" "?hs = h # hs" "h \<in> set ?us"
      "tv_opened v (fw_state w1) - {#open_key_of sp#} = tv_opened v (fw_state w)" using O(4) by auto
    from with_utilities_outcome [OF assms(1,2,3) w1(1) sp(1,2) assms(5,6)] obtain r2 w2 where
      W: "with_utilities (\<lambda>p. util_append_path (du p) (path_of ns) (path_of ms)) sp w1 = Some (r2, w2)" "moved st v w1 w2"
      "tv_opened v (fw_state w2) = tv_opened v (fw_state w1) - {#open_key_of sp#}"
      "case r2 of
         Ok q \<Rightarrow> q \<notin> tv_pools v (fw_state w1) \<and> tv_pools v (fw_state w2) = insert q (tv_pools v (fw_state w1)) \<and>
           pool_path_deref pv q w2 = Some (path_of (ns @ ms))
       | Err e \<Rightarrow> \<not> tv_enough v (fw_state w1) \<and> tv_pools v (fw_state w2) = tv_pools v (fw_state w1)" by blast
    then show ?thesis using O(1,3) Ok sp w1(2) by (cases r2) (simp_all add: path_append_path_def try_res_def moved_def)
  qed
qed

text \<open>A firmware with the text protocol on the handles \<open>ts\<close> and the utility protocol on the handles \<open>us\<close>. Its state is the
  list of open protocols and the pool allocations, each with the protocol it lists handles of, or the path it holds.\<close>

type_synonym pool_state = "open_key list \<times> (nat \<times> nat \<times> bytes) list"

definition pool_handles :: "nat list \<Rightarrow> nat list \<Rightarrow> nat \<Rightarrow> nat list" where
  "pool_handles ts us g =
    (if g = DEVICE_PATH_TO_TEXT_GUID then ts else if g = DEVICE_PATH_UTILITIES_GUID then us else [])"

definition fresh_pool :: "nat \<Rightarrow> bytes \<Rightarrow> pool_state \<Rightarrow> nat \<times> pool_state" where
  "fresh_pool g bs s = (let p = Suc (sum_list (map fst (snd s))) in (p, (fst s, (p, g, bs) # snd s)))"

definition pool_firmware :: "nat list \<Rightarrow> nat list \<Rightarrow> pool_state firmware" where
  "pool_firmware ts us = idle_firmware \<lparr>
     fw_mem := (fw_mem idle_firmware)\<lparr>
       ms_free_pool := (\<lambda>s p. (SUCCESS, (fst s, filter (\<lambda>x. fst x \<noteq> p) (snd s))))\<rparr>,
     fw_proto := (fw_proto idle_firmware)\<lparr>
       ps_open_protocol := (\<lambda>s h g a c t. if h \<in> set (pool_handles ts us g) then ((SUCCESS, 16), ((h, g, a, c) # fst s, snd s))
         else ((UNSUPPORTED, 0), s)),
       ps_close_protocol := (\<lambda>s h g a c.
         if (h, g, a, c) \<in> set (fst s) then (SUCCESS, (remove1 (h, g, a, c) (fst s), snd s)) else (NOT_FOUND, s)),
       ps_locate_handle_buffer := (\<lambda>s ty g k. if pool_handles ts us g = [] then ((NOT_FOUND, 0, 0), s)
         else let (p, s') = fresh_pool g [] s in ((SUCCESS, length (pool_handles ts us g), p), s')),
       ps_handle_at := (\<lambda>s b i. case map_of (snd s) b of Some (g, _) \<Rightarrow> pool_handles ts us g ! i | None \<Rightarrow> 0)\<rparr>\<rparr>"

definition sample_view :: "nat list \<Rightarrow> nat list \<Rightarrow> pool_state text_view" where
  "sample_view ts us = \<lparr>tv_opened = \<lambda>s. mset (fst s), tv_pools = \<lambda>s. fst ` set (snd s),
     tv_handles = \<lambda>_. pool_handles ts us, tv_enough = \<lambda>_. True\<rparr>"

definition sample_pools :: "pool_state pool_view" where
  "sample_pools = \<lparr>pv_units = \<lambda>_ _. [0x50, NUL_16],
     pv_bytes = \<lambda>s p. case map_of (snd s) p of Some (_, bs) \<Rightarrow> bs | None \<Rightarrow> []\<rparr>"

definition sample_text :: "pool_state to_text_services" where
  "sample_text = \<lparr>tt_convert_device_node_to_text = \<lambda>s _ _ _. fresh_pool 0 [] s,
     tt_convert_device_path_to_text = \<lambda>s _ _ _. fresh_pool 0 [] s\<rparr>"

definition sample_utilities :: "pool_state utilities_services" where
  "sample_utilities = \<lparr>du_get_device_path_size = \<lambda>_ bs. length bs,
     du_append_device_path = \<lambda>s l r. fresh_pool 0 (take (length l - 4) l @ r) s,
     du_append_device_node = \<lambda>s l r. fresh_pool 0 (take (length l - 4) l @ r @ drop (length l - 4) l) s,
     du_append_device_path_instance = \<lambda>s l r. fresh_pool 0 (l @ r) s\<rparr>"

definition pool_world :: "nat list \<Rightarrow> nat list \<Rightarrow> pool_state world" where
  "pool_world ts us = \<lparr>system_table = Some (pool_firmware ts us), fw_state = ([], []), image_handle_ptr = 5,
     memory_type_cache = 0, ram = (\<lambda>_. 0)\<rparr>"

lemma fresh_pool_new: "Suc (sum_list (map fst ps)) \<notin> fst ` set ps"
proof
  assume "Suc (sum_list (map fst ps)) \<in> fst ` set ps"
  then have "Suc (sum_list (map fst ps)) \<in> set (map fst ps)" by simp
  from member_le_sum_list [OF this] show False by simp
qed

lemma fresh_pool_allocates:
  assumes "fresh_pool g bs s = (p, s')"
  shows "allocates (pool_firmware ts us) (sample_view ts us) s p s'" "p \<noteq> 0" "map_of (snd s') p = Some (g, bs)"
  using assms fresh_pool_new [of "snd s"]
  by (auto simp: fresh_pool_def Let_def allocates_def steady_def sample_view_def pool_firmware_def idle_firmware_def)

lemma pool_world_alive: "alive (pool_firmware ts us) (pool_world ts us)"
  by (simp add: alive_def pool_world_def pool_firmware_def idle_firmware_def)

lemma pool_open_contract: "open_contract (pool_firmware ts us) (tv_opened (sample_view ts us))"
  by (auto simp: open_contract_def pool_firmware_def idle_firmware_def sample_view_def status_success_neq split: if_splits)

lemma pool_locate:
  assumes "ps_locate_handle_buffer (fw_proto (pool_firmware ts us)) s 2 g 0 = ((r, n, b), s')"
  shows "steady (pool_firmware ts us) (sample_view ts us) s s' \<and> mset (fst s') = mset (fst s) \<and>
    (if pool_handles ts us g = [] then r = NOT_FOUND \<and> fst ` set (snd s') = fst ` set (snd s)
     else r = SUCCESS \<and> b \<noteq> 0 \<and> b \<notin> fst ` set (snd s) \<and> fst ` set (snd s') = insert b (fst ` set (snd s)) \<and>
       n = length (pool_handles ts us g) \<and> (\<forall>i < n. ps_handle_at (fw_proto (pool_firmware ts us)) s' b i = pool_handles ts us g ! i))"
proof -
  obtain p t where f: "fresh_pool g [] s = (p, t)" by (metis surj_pair)
  note F = fresh_pool_allocates(1) [OF f, of ts us] fresh_pool_allocates(2,3) [OF f]
  show ?thesis using assms f F by (auto simp: pool_firmware_def allocates_def sample_view_def steady_def split: if_splits)
qed

lemma pool_handle_contract: "handle_contract (pool_firmware ts us) sample_pools (sample_view ts us)"
  unfolding handle_contract_def
proof (intro conjI, goal_cases)
  case 1
  show ?case
  proof (intro allI impI)
    fix s g r n b s' assume "ps_locate_handle_buffer (fw_proto (pool_firmware ts us)) s 2 g 0 = ((r, n, b), s')"
    from pool_locate [OF this] show "steady (pool_firmware ts us) (sample_view ts us) s s' \<and>
        tv_opened (sample_view ts us) s' = tv_opened (sample_view ts us) s \<and>
        (if tv_handles (sample_view ts us) s g = [] then r = NOT_FOUND \<and> tv_pools (sample_view ts us) s' = tv_pools (sample_view ts us) s
         else if r = SUCCESS then b \<noteq> 0 \<and> b \<notin> tv_pools (sample_view ts us) s \<and>
           tv_pools (sample_view ts us) s' = insert b (tv_pools (sample_view ts us) s) \<and> n = length (tv_handles (sample_view ts us) s g) \<and>
           (\<forall>i < n. ps_handle_at (fw_proto (pool_firmware ts us)) s' b i = tv_handles (sample_view ts us) s g ! i)
         else r = OUT_OF_RESOURCES \<and> \<not> tv_enough (sample_view ts us) s \<and> tv_pools (sample_view ts us) s' = tv_pools (sample_view ts us) s)"
      by (simp add: sample_view_def split: if_splits)
  qed
qed (auto simp: pool_firmware_def idle_firmware_def sample_view_def steady_def sample_pools_def split: if_splits)

lemma pool_text_contract:
  "text_contract (pool_firmware ts us) (\<lambda>_. sample_text) sample_pools (sample_view ts us) (\<lambda>_ _ _. [0x50])"
  using fresh_pool_allocates(1) by (auto simp: text_contract_def sample_text_def sample_pools_def NUL_16_def)

lemma pool_utilities_contract: "utilities_contract (pool_firmware ts us) (\<lambda>_. sample_utilities) sample_pools (sample_view ts us)"
proof -
  have "length (path_of ns) - 4 = length (nodes_bytes ns)" "take (length (nodes_bytes ns)) (path_of ns) = nodes_bytes ns" for ns
    using length_node_bytes [OF wf_end_node [of END_ENTIRE]] by (simp_all add: path_of_def end_node_def node_length_def)
  then show ?thesis using fresh_pool_allocates
    by (fastforce simp: utilities_contract_def sample_utilities_def sample_pools_def path_of_def)
qed

theorem path_to_string_outcome_witness:
  "\<exists>w'. path_to_string (\<lambda>_. sample_text) sample_pools (path_of []) True True (pool_world [1] []) = Some (Ok [0x50, NUL_16], w') \<and>
    fst ` set (snd (fw_state w')) = {}"
proof -
  from path_to_string_outcome [OF pool_open_contract pool_handle_contract pool_text_contract pool_world_alive, of "path_of []" True True "[1]" "[]"]
  obtain r w' where "path_to_string (\<lambda>_. sample_text) sample_pools (path_of []) True True (pool_world [1] []) = Some (r, w')"
    "tv_pools (sample_view [1] []) (fw_state w') = tv_pools (sample_view [1] []) (fw_state (pool_world [1] []))"
    "case r of
       Ok s \<Rightarrow> tv_handles (sample_view [1] []) (fw_state (pool_world [1] [])) DEVICE_PATH_TO_TEXT_GUID \<noteq> [] \<and> s = [0x50] @ [NUL_16]
     | Err e \<Rightarrow>
         if tv_handles (sample_view [1] []) (fw_state (pool_world [1] [])) DEVICE_PATH_TO_TEXT_GUID = []
         then e = TextCantLocateHandleBuffer \<lparr>err_status = NOT_FOUND, err_data = ()\<rparr>
         else \<not> tv_enough (sample_view [1] []) (fw_state (pool_world [1] [])) \<and>
           (e = TextOutOfMemory \<or> e = TextCantLocateHandleBuffer \<lparr>err_status = OUT_OF_RESOURCES, err_data = ()\<rparr>)" by blast
  then show ?thesis by (cases r) (auto simp: sample_view_def pool_world_def pool_handles_def)
qed

theorem append_path_outcome_witness:
  "\<exists>w'. path_append_path (\<lambda>_. sample_utilities) (path_of []) (path_of []) (pool_world [1] [2]) =
      Some (Err (UtilCantOpenProtocol \<lparr>err_status = UNSUPPORTED, err_data = ()\<rparr>), w') \<and> fst (fw_state w') = []"
proof -
  have "length (path_of ([] @ [])) < usize_limit"
    using length_node_bytes [OF wf_end_node [of END_ENTIRE]] by (simp add: path_of_def end_node_def node_length_def usize_limit_def)
  from append_path_outcome [OF pool_open_contract pool_handle_contract pool_utilities_contract pool_world_alive _ this, of "[1]" "[2]"]
  show ?thesis by (auto simp: sample_view_def pool_world_def pool_handles_def DEVICE_PATH_TO_TEXT_GUID_def DEVICE_PATH_UTILITIES_GUID_def)
qed

end
