(* ===== verification/Console.thy ===== *)
theory Console
  imports Strings_Props "HOL-Library.Sublist"
begin

text \<open>
  The text console and the serial device: \<open>proto/console/text/output.rs\<close>, \<open>proto/console/text/input.rs\<close> and
  \<open>proto/console/serial.rs\<close>. The drivers are parameters; a protocol is the address it was found at. Writing a Rust string
  goes through a buffer on the stack that is handed to the driver whenever it is full. The encoder \<open>ucs2::encode_with\<close> is
  a parameter: the units it passes to its callback, and whether it stops with an error behind them.
\<close>

section \<open>Text output\<close>

text \<open>A signed integer is its bit pattern, read by \<open>sint\<close>.\<close>

type_synonym i32 = "32 word"

record output_data =
  od_max_mode :: i32
  od_mode :: i32
  od_attribute :: i32
  od_cursor_column :: i32
  od_cursor_row :: i32
  od_cursor_visible :: bool

record 's output_services =
  os_reset :: "'s \<Rightarrow> nat \<Rightarrow> bool \<Rightarrow> status \<times> 's"
  os_output_string :: "'s \<Rightarrow> nat \<Rightarrow> char16 list \<Rightarrow> status \<times> 's"
  os_test_string :: "'s \<Rightarrow> nat \<Rightarrow> char16 list \<Rightarrow> status \<times> 's"
  os_query_mode :: "'s \<Rightarrow> nat \<Rightarrow> usize \<Rightarrow> (status \<times> usize \<times> usize) \<times> 's"
  os_set_mode :: "'s \<Rightarrow> nat \<Rightarrow> usize \<Rightarrow> status \<times> 's"
  os_set_attribute :: "'s \<Rightarrow> nat \<Rightarrow> usize \<Rightarrow> status \<times> 's"
  os_clear_screen :: "'s \<Rightarrow> nat \<Rightarrow> status \<times> 's"
  os_set_cursor_position :: "'s \<Rightarrow> nat \<Rightarrow> usize \<Rightarrow> usize \<Rightarrow> status \<times> 's"
  os_enable_cursor :: "'s \<Rightarrow> nat \<Rightarrow> bool \<Rightarrow> status \<times> 's"
  os_data :: "'s \<Rightarrow> nat \<Rightarrow> output_data"

definition plain_call :: "status \<times> 's \<Rightarrow> (unit uefi_result \<times> 's) option" where
  "plain_call c = do { r \<leftarrow> to_result (fst c); Some (r, snd c) }"

definition output_reset :: "'s output_services \<Rightarrow> nat \<Rightarrow> bool \<Rightarrow> 's \<Rightarrow> (unit uefi_result \<times> 's) option" where
  "output_reset os this extended s = plain_call (os_reset os s this extended)"

definition output_clear :: "'s output_services \<Rightarrow> nat \<Rightarrow> 's \<Rightarrow> (unit uefi_result \<times> 's) option" where
  "output_clear os this s = plain_call (os_clear_screen os s this)"

definition output_string :: "'s output_services \<Rightarrow> nat \<Rightarrow> char16 list \<Rightarrow> 's \<Rightarrow> (unit uefi_result \<times> 's) option" where
  "output_string os this string s = plain_call (os_output_string os s this string)"

definition output_string_lossy :: "'s output_services \<Rightarrow> nat \<Rightarrow> char16 list \<Rightarrow> 's \<Rightarrow> (unit uefi_result \<times> 's) option" where
  "output_string_lossy os this string s = do {
     (r, s') \<leftarrow> output_string os this string s;
     Some (handle_warning r (\<lambda>err. if err_status err = WARN_UNKNOWN_GLYPH then Ok () else Err err), s')
   }"

definition test_string :: "'s output_services \<Rightarrow> nat \<Rightarrow> char16 list \<Rightarrow> 's \<Rightarrow> (bool uefi_result \<times> 's) option" where
  "test_string os this string s =
    (let (st, s') = os_test_string os s this string
     in if st = UNSUPPORTED then Some (Ok False, s')
        else do { r \<leftarrow> to_result_with_val st (Some True); Some (r, s') })"

definition output_query_mode :: "'s output_services \<Rightarrow> nat \<Rightarrow> usize \<Rightarrow> 's \<Rightarrow> ((usize \<times> usize) uefi_result \<times> 's) option" where
  "output_query_mode os this index s =
    (let ((st, columns, rows), s') = os_query_mode os s this index
     in do { r \<leftarrow> to_result_with_val st (Some (columns, rows)); Some (r, s') })"

record output_mode =
  om_index :: usize
  om_dims :: "usize \<times> usize"

text \<open>The cast of an \<open>i32\<close> to \<open>usize\<close> extends the sign.\<close>

definition usize_of_i32 :: "i32 \<Rightarrow> usize" where
  "usize_of_i32 n = unat (scast n :: u64)"

definition output_current_mode :: "'s output_services \<Rightarrow> nat \<Rightarrow> 's \<Rightarrow> (output_mode option uefi_result \<times> 's) option" where
  "output_current_mode os this s =
    (let mode = od_mode (os_data os s this) in
     if mode = - 1 then Some (Ok None, s)
     else do {
       require (0 \<le> sint mode);
       let index = usize_of_i32 mode;
       (r, s') \<leftarrow> output_query_mode os this index s;
       Some (map_ok (\<lambda>dims. Some \<lparr>om_index = index, om_dims = dims\<rparr>) r, s')
     })"

definition output_set_mode :: "'s output_services \<Rightarrow> nat \<Rightarrow> output_mode \<Rightarrow> 's \<Rightarrow> (unit uefi_result \<times> 's) option" where
  "output_set_mode os this mode s = plain_call (os_set_mode os s this (om_index mode))"

definition cursor_visible :: "'s output_services \<Rightarrow> nat \<Rightarrow> 's \<Rightarrow> bool" where
  "cursor_visible os this s = od_cursor_visible (os_data os s this)"

definition enable_cursor :: "'s output_services \<Rightarrow> nat \<Rightarrow> bool \<Rightarrow> 's \<Rightarrow> (unit uefi_result \<times> 's) option" where
  "enable_cursor os this visible s = plain_call (os_enable_cursor os s this visible)"

definition cursor_position :: "'s output_services \<Rightarrow> nat \<Rightarrow> 's \<Rightarrow> usize \<times> usize" where
  "cursor_position os this s =
    (let d = os_data os s this in (usize_of_i32 (od_cursor_column d), usize_of_i32 (od_cursor_row d)))"

definition set_cursor_position :: "'s output_services \<Rightarrow> nat \<Rightarrow> usize \<Rightarrow> usize \<Rightarrow> 's \<Rightarrow> (unit uefi_result \<times> 's) option" where
  "set_cursor_position os this column row s = plain_call (os_set_cursor_position os s this column row)"

datatype color =
  Black | Blue | Green | Cyan | Red | Magenta | Brown | LightGray
| DarkGray | LightBlue | LightGreen | LightCyan | LightRed | LightMagenta | Yellow | White

fun color_value :: "color \<Rightarrow> u64" where
  "color_value Black = 0" | "color_value Blue = 1" | "color_value Green = 2" | "color_value Cyan = 3"
| "color_value Red = 4" | "color_value Magenta = 5" | "color_value Brown = 6" | "color_value LightGray = 7"
| "color_value DarkGray = 8" | "color_value LightBlue = 9" | "color_value LightGreen = 10" | "color_value LightCyan = 11"
| "color_value LightRed = 12" | "color_value LightMagenta = 13" | "color_value Yellow = 14" | "color_value White = 15"

definition set_color :: "'s output_services \<Rightarrow> nat \<Rightarrow> color \<Rightarrow> color \<Rightarrow> 's \<Rightarrow> (unit uefi_result \<times> 's) option" where
  "set_color os this foreground background s =
    (let fgc = color_value foreground; bgc = color_value background in do {
       require (bgc < 8);
       let attr = or (push_bit 4 (and bgc 7)) (and fgc 15);
       plain_call (os_set_attribute os s this (unat attr))
     })"

section \<open>The modes\<close>

record output_mode_iter =
  omi_current :: usize
  omi_max :: usize

definition output_modes :: "'s output_services \<Rightarrow> nat \<Rightarrow> 's \<Rightarrow> output_mode_iter" where
  "output_modes os this s = \<lparr>omi_current = 0, omi_max = usize_of_i32 (od_max_mode (os_data os s this))\<rparr>"

text \<open>A mode that cannot be queried is skipped.\<close>

function output_mode_next ::
  "'s output_services \<Rightarrow> nat \<Rightarrow> output_mode_iter \<Rightarrow> 's \<Rightarrow> ((output_mode option \<times> output_mode_iter) \<times> 's) option" where
  "output_mode_next os this it s =
    (let index = omi_current it in
     if index < omi_max it then do {
       let it' = it\<lparr>omi_current := index + 1\<rparr>;
       (r, s') \<leftarrow> output_query_mode os this index s;
       case r of
         Ok dims \<Rightarrow> Some ((Some \<lparr>om_index = index, om_dims = dims\<rparr>, it'), s')
       | Err _ \<Rightarrow> output_mode_next os this it' s'
     }
     else Some ((None, it), s))"
  by pat_completeness auto
termination by (relation "measure (\<lambda>(_, _, it, _). omi_max it - omi_current it)") auto

section \<open>Writing a Rust string\<close>

datatype fmt_error = FmtError

datatype ucs2_error = BufferOverflow | MultiByte

type_synonym ucs2_encoder = "rstr \<Rightarrow> u16 list \<times> bool"

text \<open>The buffer, the number of units in it, and the state of the driver.\<close>

type_synonym 's write_state = "u16 list \<times> usize \<times> 's"

definition BUF_SIZE :: usize where "BUF_SIZE = 128"

definition put_at :: "'a list \<Rightarrow> usize \<Rightarrow> 'a \<Rightarrow> 'a list option" where
  "put_at xs i x = do { require (i < length xs); Some (xs[i := x]) }"

fun flush_buffer :: "'s output_services \<Rightarrow> nat \<Rightarrow> 's write_state \<Rightarrow> ((unit, fmt_error) result \<times> 's write_state) option" where
  "flush_buffer os this (buf, i, s) = do {
     buf' \<leftarrow> put_at buf i 0;
     codes \<leftarrow> get_range buf' 0 (i + 1);
     case from_u16_with_nul codes of
       Err _ \<Rightarrow> Some (Err FmtError, (buf', 0, s))
     | Ok text \<Rightarrow> do {
         (r, s') \<leftarrow> output_string os this text s;
         Some (map_err (\<lambda>_. FmtError) r, (buf', 0, s'))
       }
   }"

fun add_char :: "'s output_services \<Rightarrow> nat \<Rightarrow> u16 \<Rightarrow> 's write_state \<Rightarrow> ((unit, ucs2_error) result \<times> 's write_state) option" where
  "add_char os this ch (buf, i, s) = do {
     buf' \<leftarrow> put_at buf i ch;
     if i + 1 = BUF_SIZE then do {
       (r, st) \<leftarrow> flush_buffer os this (buf', i + 1, s);
       Some (map_err (\<lambda>_. BufferOverflow) r, st)
     }
     else Some (Ok (), (buf', i + 1, s))
   }"

definition add_ch :: "'s output_services \<Rightarrow> nat \<Rightarrow> u16 \<Rightarrow> 's write_state \<Rightarrow> ((unit, ucs2_error) result \<times> 's write_state) option" where
  "add_ch os this ch st =
    (if ch = 0x0A then do {
       (r, st') \<leftarrow> add_char os this 0x0D st;
       case r of Err e \<Rightarrow> Some (Err e, st') | Ok _ \<Rightarrow> add_char os this ch st'
     }
     else add_char os this ch st)"

fun encode_units :: "('w \<Rightarrow> 't \<Rightarrow> ((unit, ucs2_error) result \<times> 't) option) \<Rightarrow> 'w list \<Rightarrow> 't \<Rightarrow> ((unit, ucs2_error) result \<times> 't) option" where
  "encode_units f [] st = Some (Ok (), st)"
| "encode_units f (c # cs) st = do {
     (r, st') \<leftarrow> f c st;
     case r of Err e \<Rightarrow> Some (Err e, st') | Ok _ \<Rightarrow> encode_units f cs st'
   }"

definition encode_with ::
  "ucs2_encoder \<Rightarrow> rstr \<Rightarrow> (u16 \<Rightarrow> 't \<Rightarrow> ((unit, ucs2_error) result \<times> 't) option) \<Rightarrow> 't \<Rightarrow> ((unit, ucs2_error) result \<times> 't) option" where
  "encode_with enc str f st = do {
     (r, st') \<leftarrow> encode_units f (fst (enc str)) st;
     Some (case r of Err e \<Rightarrow> Err e | Ok _ \<Rightarrow> if snd (enc str) then Err MultiByte else Ok (), st')
   }"

definition output_write_str :: "ucs2_encoder \<Rightarrow> 's output_services \<Rightarrow> nat \<Rightarrow> rstr \<Rightarrow> 's \<Rightarrow> ((unit, fmt_error) result \<times> 's) option" where
  "output_write_str enc os this str s = do {
     (r, st) \<leftarrow> encode_with enc str (add_ch os this) (replicate (BUF_SIZE + 1) 0, 0, s);
     case r of
       Err _ \<Rightarrow> Some (Err FmtError, snd (snd st))
     | Ok _ \<Rightarrow> do {
         (r, st) \<leftarrow> flush_buffer os this st;
         Some (r, snd (snd st))
       }
   }"

section \<open>Text input\<close>

record input_key =
  ik_scan_code :: u16
  ik_unicode_char :: u16

record 's input_services =
  in_reset :: "'s \<Rightarrow> nat \<Rightarrow> bool \<Rightarrow> status \<times> 's"
  in_read_key_stroke :: "'s \<Rightarrow> nat \<Rightarrow> (status \<times> input_key) \<times> 's"
  in_wait_for_key :: "'s \<Rightarrow> nat \<Rightarrow> nat"

datatype input_key_value = Printable char16 | Special u16

definition SCAN_CODE_NULL :: u16 where "SCAN_CODE_NULL = 0"

definition key_from_input_key :: "input_key \<Rightarrow> input_key_value option" where
  "key_from_input_key k =
    (if ik_scan_code k = SCAN_CODE_NULL
     then case char16_try_from_u16 (ik_unicode_char k) of Ok c \<Rightarrow> Some (Printable c) | Err _ \<Rightarrow> None
     else Some (Special (ik_scan_code k)))"

definition input_reset :: "'s input_services \<Rightarrow> nat \<Rightarrow> bool \<Rightarrow> 's \<Rightarrow> (unit uefi_result \<times> 's) option" where
  "input_reset ins this extended_verification s = plain_call (in_reset ins s this extended_verification)"

definition read_key :: "'s input_services \<Rightarrow> nat \<Rightarrow> 's \<Rightarrow> (input_key_value option uefi_result \<times> 's) option" where
  "read_key ins this s =
    (let ((st, key), s') = in_read_key_stroke ins s this
     in if st = NOT_READY then Some (Ok None, s')
        else do { r \<leftarrow> to_result_with_val st (map_option Some (key_from_input_key key)); Some (r, s') })"

definition wait_for_key_event :: "'s input_services \<Rightarrow> nat \<Rightarrow> 's \<Rightarrow> nat option" where
  "wait_for_key_event ins this s = (let p = in_wait_for_key ins s this in if p = 0 then None else Some p)"

section \<open>Serial devices\<close>

record serial_io_mode =
  sm_control_mask :: u32
  sm_timeout :: u32
  sm_baud_rate :: u64
  sm_receive_fifo_depth :: u32
  sm_data_bits :: u32
  sm_parity :: u32
  sm_stop_bits :: u32

record 's serial_services =
  ser_reset :: "'s \<Rightarrow> nat \<Rightarrow> status \<times> 's"
  ser_set_attributes :: "'s \<Rightarrow> nat \<Rightarrow> u64 \<Rightarrow> u32 \<Rightarrow> u32 \<Rightarrow> u32 \<Rightarrow> u8 \<Rightarrow> u32 \<Rightarrow> status \<times> 's"
  ser_set_control_bits :: "'s \<Rightarrow> nat \<Rightarrow> u32 \<Rightarrow> status \<times> 's"
  ser_get_control_bits :: "'s \<Rightarrow> nat \<Rightarrow> (status \<times> u32) \<times> 's"
  ser_write :: "'s \<Rightarrow> nat \<Rightarrow> bytes \<Rightarrow> (status \<times> usize) \<times> 's"
  ser_read :: "'s \<Rightarrow> nat \<Rightarrow> usize \<Rightarrow> (status \<times> usize \<times> bytes) \<times> 's"
  ser_mode :: "'s \<Rightarrow> nat \<Rightarrow> serial_io_mode"

definition serial_reset :: "'s serial_services \<Rightarrow> nat \<Rightarrow> 's \<Rightarrow> (unit uefi_result \<times> 's) option" where
  "serial_reset ss this s = plain_call (ser_reset ss s this)"

definition serial_io_mode_of :: "'s serial_services \<Rightarrow> nat \<Rightarrow> 's \<Rightarrow> serial_io_mode" where
  "serial_io_mode_of ss this s = ser_mode ss s this"

definition serial_set_attributes :: "'s serial_services \<Rightarrow> nat \<Rightarrow> serial_io_mode \<Rightarrow> 's \<Rightarrow> (unit uefi_result \<times> 's) option" where
  "serial_set_attributes ss this mode s =
    plain_call (ser_set_attributes ss s this (sm_baud_rate mode) (sm_receive_fifo_depth mode) (sm_timeout mode) (sm_parity mode)
      (ucast (sm_data_bits mode)) (sm_stop_bits mode))"

definition get_control_bits :: "'s serial_services \<Rightarrow> nat \<Rightarrow> 's \<Rightarrow> (u32 uefi_result \<times> 's) option" where
  "get_control_bits ss this s =
    (let ((st, bits), s') = ser_get_control_bits ss s this
     in do { r \<leftarrow> to_result_with_val st (Some bits); Some (r, s') })"

definition set_control_bits :: "'s serial_services \<Rightarrow> nat \<Rightarrow> u32 \<Rightarrow> 's \<Rightarrow> (unit uefi_result \<times> 's) option" where
  "set_control_bits ss this bits s = plain_call (ser_set_control_bits ss s this bits)"

text \<open>The driver stores a prefix of the caller's buffer; the rest keeps its contents. The debug assertion compares the sizes.\<close>

definition serial_read ::
  "'s serial_services \<Rightarrow> nat \<Rightarrow> bytes \<Rightarrow> 's \<Rightarrow> ((unit, usize) uefi_result_with \<times> bytes \<times> 's) option" where
  "serial_read ss this dat s =
    (let ((st, buffer_size, stored), s') = ser_read ss s this (length dat);
         dat' = take (length dat) stored @ drop (length stored) dat
     in do {
       r \<leftarrow> to_result_with st (require (buffer_size = length dat)) (\<lambda>_. buffer_size);
       Some (r, dat', s')
     })"

definition serial_write :: "'s serial_services \<Rightarrow> nat \<Rightarrow> bytes \<Rightarrow> 's \<Rightarrow> ((unit, usize) uefi_result_with \<times> 's) option" where
  "serial_write ss this dat s =
    (let ((st, buffer_size), s') = ser_write ss s this dat
     in do {
       r \<leftarrow> to_result_with st (require (buffer_size = length dat)) (\<lambda>_. buffer_size);
       Some (r, s')
     })"

definition serial_write_str :: "'s serial_services \<Rightarrow> nat \<Rightarrow> rstr \<Rightarrow> 's \<Rightarrow> ((unit, fmt_error) result \<times> 's) option" where
  "serial_write_str ss this str s = do {
     (r, s') \<leftarrow> serial_write ss this (encode_utf8 str) s;
     Some (map_err (\<lambda>_. FmtError) r, s')
   }"

end
