(* ===== verification/Console_Props.thy ===== *)
theory Console_Props
  imports Console
begin

text \<open>
  What writing a Rust string to the text console does: the units that reach the driver, in which pieces, and when it fails.
\<close>

section \<open>The documented behaviour of the encoder and of the driver\<close>

text \<open>The encoder passes on the characters of the basic plane and stops at the first other one.\<close>

definition ucs2_contract :: "ucs2_encoder \<Rightarrow> bool" where
  "ucs2_contract enc \<longleftrightarrow>
    (\<forall>str. enc str = (map of_nat (takeWhile (\<lambda>c. c < 0x10000) str), \<not> (\<forall>c \<in> set str. c < 0x10000)))"

text \<open>\<open>shown\<close> is the list of the strings a console was given.\<close>

definition console_contract :: "'s output_services \<Rightarrow> nat \<Rightarrow> ('s \<Rightarrow> char16 list list) \<Rightarrow> bool" where
  "console_contract os this shown \<longleftrightarrow>
    (\<forall>s t st s'. os_output_string os s this t = (st, s') \<longrightarrow> st = SUCCESS \<and> shown s' = shown s @ [t])"

text \<open>Line feeds become the pair the console expects.\<close>

definition crlf :: "u16 list \<Rightarrow> u16 list" where
  "crlf us = concat (map (\<lambda>u. if u = 0x0A then [0x0D, 0x0A] else [u]) us)"

section \<open>The buffer\<close>

definition chunk_ok :: "char16 list \<Rightarrow> bool" where
  "chunk_ok t \<longleftrightarrow> cstr16_inv t \<and> length t \<le> BUF_SIZE + 1"

text \<open>Between two units the buffer is not full, and the strings shown since \<open>s0\<close> followed by the buffered units are the
  units \<open>us\<close> added so far.\<close>

definition buffered :: "('s \<Rightarrow> char16 list list) \<Rightarrow> 's \<Rightarrow> u16 list \<Rightarrow> char16 list list \<Rightarrow> 's write_state \<Rightarrow> bool" where
  "buffered shown s0 us chunks st \<longleftrightarrow>
    (case st of (buf, i, s) \<Rightarrow> length buf = BUF_SIZE + 1 \<and> i < BUF_SIZE \<and> shown s = shown s0 @ chunks \<and>
       list_all chunk_ok chunks \<and> concat (map butlast chunks) @ take i buf = us)"

definition good_unit :: "u16 \<Rightarrow> bool" where
  "good_unit u \<longleftrightarrow> ucs2 u \<and> u \<noteq> 0"

lemma chunk_ok_good: "chunk_ok t \<Longrightarrow> list_all good_unit (butlast t)"
  by (cases t rule: rev_cases) (auto simp: chunk_ok_def cstr16_inv_def nul_terminated_snoc list_all_iff good_unit_def)

lemma chunks_good: "list_all chunk_ok chunks \<Longrightarrow> list_all good_unit (concat (map butlast chunks))"
  using chunk_ok_good by (fastforce simp: list_all_iff)

lemma take_put: "i < length xs \<Longrightarrow> take (Suc i) (xs[i := x]) = take i xs @ [x]"
  by (simp add: take_Suc_conv_app_nth)

lemma flush_buffer_cases:
  assumes c: "console_contract os this shown" and len: "length buf = BUF_SIZE + 1" "i \<le> BUF_SIZE"
  shows "if list_all good_unit (take i buf)
    then \<exists>s'. flush_buffer os this (buf, i, s) = Some (Ok (), (buf[i := 0], 0, s')) \<and> shown s' = shown s @ [take i buf @ [0]] \<and>
      chunk_ok (take i buf @ [0])
    else flush_buffer os this (buf, i, s) = Some (Err FmtError, (buf[i := 0], 0, s))"
proof -
  have fl: "flush_buffer os this (buf, i, s) = (case from_u16_with_nul (take i buf @ [0]) of
      Err _ \<Rightarrow> Some (Err FmtError, (buf[i := 0], 0, s))
    | Ok text \<Rightarrow> do { (r, s') \<leftarrow> output_string os this text s; Some (map_err (\<lambda>_. FmtError) r, (buf[i := 0], 0, s')) })"
    using len by (simp add: put_at_def get_range_def take_put)
  have nt: "nul_terminated ucs2 (take i buf @ [0]) \<longleftrightarrow> list_all good_unit (take i buf)"
    by (auto simp: nul_terminated_snoc list_all_iff good_unit_def)
  show ?thesis
  proof (cases "list_all good_unit (take i buf)")
    case True
    then have "from_u16_with_nul (take i buf @ [0]) = Ok (take i buf @ [0])" using nt u16_nul.construct_ok by blast
    moreover obtain st s' where "os_output_string os s this (take i buf @ [0]) = (st, s')" by (metis surj_pair)
    moreover from this have "st = SUCCESS" "shown s' = shown s @ [take i buf @ [0]]" using c unfolding console_contract_def by blast+
    ultimately show ?thesis unfolding fl using True nt len
      by (auto simp: output_string_def plain_call_def chunk_ok_def cstr16_inv_def)
  next
    case False
    then obtain e where "from_u16_with_nul (take i buf @ [0]) = Err e" using nt u16_nul.construct_fails by blast
    then show ?thesis unfolding fl using False by simp
  qed
qed

declare flush_buffer.simps [simp del]

lemma add_char_buffered:
  assumes c: "console_contract os this shown" and b: "buffered shown s0 us chunks st"
  shows "\<exists>r st'. add_char os this u st = Some (r, st') \<and>
    (case r of
       Ok _ \<Rightarrow> \<exists>chunks'. buffered shown s0 (us @ [u]) chunks' st'
     | Err _ \<Rightarrow> \<not> list_all good_unit (us @ [u]) \<and> shown (snd (snd st')) = shown s0 @ chunks)"
proof -
  obtain buf i s where st: "st = (buf, i, s)" by (cases st)
  have B: "length buf = BUF_SIZE + 1" "i < BUF_SIZE" "shown s = shown s0 @ chunks" "list_all chunk_ok chunks"
    "concat (map butlast chunks) @ take i buf = us" using b by (simp_all add: buffered_def st)
  let ?buf = "buf[i := u]"
  have put: "put_at buf i u = Some ?buf" "take (i + 1) ?buf = take i buf @ [u]" using B by (simp_all add: put_at_def take_put)
  show ?thesis
  proof (cases "i + 1 = BUF_SIZE")
    case False
    then have "buffered shown s0 (us @ [u]) chunks (?buf, i + 1, s)" using B put by (simp add: buffered_def)
    then show ?thesis using False put by (auto simp: st)
  next
    case True
    have "length ?buf = BUF_SIZE + 1" "i + 1 \<le> BUF_SIZE" using B True by simp_all
    note F = flush_buffer_cases [OF c this, of s, unfolded put(2)]
    show ?thesis
    proof (cases "list_all good_unit (take i buf @ [u])")
      case False
      then have "\<not> list_all good_unit (us @ [u])" using B(5) by auto
      then show ?thesis using F False True put B(3) by (simp add: st del: list_all_append)
    next
      case good: True
      then obtain s' where f: "flush_buffer os this (?buf, i + 1, s) = Some (Ok (), (?buf[i + 1 := 0], 0, s'))"
        "shown s' = shown s @ [(take i buf @ [u]) @ [0]]" "chunk_ok ((take i buf @ [u]) @ [0])" using F by auto
      then have "buffered shown s0 (us @ [u]) (chunks @ [(take i buf @ [u]) @ [0]]) (?buf[i + 1 := 0], 0, s')"
        using B by (auto simp: buffered_def BUF_SIZE_def butlast_append)
      moreover have "add_char os this u st = Some (Ok (), (?buf[i + 1 := 0], 0, s'))" using f(1) put True by (simp add: st)
      ultimately show ?thesis by auto
    qed
  qed
qed

text \<open>The same for a character, and for the units of a string: the units added are those with line feeds expanded.\<close>

definition adds :: "'s output_services \<Rightarrow> nat \<Rightarrow> ('s \<Rightarrow> char16 list list) \<Rightarrow> 's \<Rightarrow> u16 list \<Rightarrow> u16 list \<Rightarrow>
    ((unit, ucs2_error) result \<times> 's write_state) option \<Rightarrow> bool" where
  "adds os this shown s0 us vs res \<longleftrightarrow>
    (\<exists>r st'. res = Some (r, st') \<and>
      (case r of
         Ok _ \<Rightarrow> \<exists>chunks. buffered shown s0 (us @ vs) chunks st'
       | Err _ \<Rightarrow> \<not> list_all good_unit (us @ vs) \<and>
           (\<exists>chunks. shown (snd (snd st')) = shown s0 @ chunks \<and> list_all chunk_ok chunks \<and> prefix (concat (map butlast chunks)) (us @ vs))))"

lemma add_char_adds:
  assumes "console_contract os this shown" "buffered shown s0 us chunks st"
  shows "adds os this shown s0 us [u] (add_char os this u st)"
proof -
  obtain r st' where a: "add_char os this u st = Some (r, st')"
    "case r of
       Ok _ \<Rightarrow> \<exists>chunks'. buffered shown s0 (us @ [u]) chunks' st'
     | Err _ \<Rightarrow> \<not> list_all good_unit (us @ [u]) \<and> shown (snd (snd st')) = shown s0 @ chunks"
    using add_char_buffered [OF assms] by blast
  have "list_all chunk_ok chunks" "prefix (concat (map butlast chunks)) (us @ [u])"
    using assms(2) by (auto simp: buffered_def split: prod.splits)
  then show ?thesis using a by (cases r) (auto simp: adds_def)
qed

lemma adds_bind:
  assumes "adds os this shown s0 us vs res"
    and "\<And>st chunks. buffered shown s0 (us @ vs) chunks st \<Longrightarrow> adds os this shown s0 (us @ vs) ws (k st)"
  shows "adds os this shown s0 us (vs @ ws) (do { (r, st) \<leftarrow> res; case r of Err e \<Rightarrow> Some (Err e, st) | Ok _ \<Rightarrow> k st })"
proof -
  obtain r st' where res: "res = Some (r, st')" using assms(1) by (auto simp: adds_def)
  show ?thesis
  proof (cases r)
    case (Ok x)
    then obtain chunks where "buffered shown s0 (us @ vs) chunks st'" using assms(1) res by (auto simp: adds_def)
    from assms(2) [OF this, unfolded adds_def append_assoc] show ?thesis using Ok res by (simp add: adds_def)
  next
    case (Err e)
    then obtain chunks where "\<not> list_all good_unit (us @ vs)" "shown (snd (snd st')) = shown s0 @ chunks"
      "list_all chunk_ok chunks" "prefix (concat (map butlast chunks)) (us @ vs)" using assms(1) res by (auto simp: adds_def)
    moreover from this(4) have "prefix (concat (map butlast chunks)) (us @ vs @ ws)" by (metis append.assoc prefix_prefix)
    ultimately show ?thesis using Err res by (auto simp: adds_def)
  qed
qed

lemma add_ch_adds:
  assumes "console_contract os this shown" "buffered shown s0 us chunks st"
  shows "adds os this shown s0 us (crlf [u]) (add_ch os this u st)"
proof (cases "u = 0x0A")
  case True
  then show ?thesis
    using adds_bind [OF add_char_adds [OF assms, of "0x0D"], of "[0x0A]" "add_char os this 0x0A", OF add_char_adds [OF assms(1)]]
    by (simp add: add_ch_def crlf_def)
next
  case False
  then show ?thesis using add_char_adds [OF assms] by (simp add: add_ch_def crlf_def)
qed

lemma encode_units_adds:
  assumes "console_contract os this shown"
  shows "buffered shown s0 us chunks st \<Longrightarrow> adds os this shown s0 us (crlf vs) (encode_units (add_ch os this) vs st)"
proof (induction vs arbitrary: us chunks st)
  case Nil
  then show ?case by (auto simp: adds_def crlf_def)
next
  case (Cons v vs)
  have "crlf (v # vs) = crlf [v] @ crlf vs" by (simp add: crlf_def)
  then show ?case using adds_bind [OF add_ch_adds [OF assms Cons.prems] Cons.IH] by simp
qed

lemma good_crlf:
  assumes "\<forall>c \<in> set cs. is_rchar c \<and> c < 0x10000"
  shows "list_all good_unit (crlf (map of_nat cs)) \<longleftrightarrow> (\<forall>c \<in> set cs. 0 < c)"
  using assms
proof (induction cs)
  case (Cons c cs)
  have "unat (of_nat c :: u16) = c" using Cons.prems by (simp add: unat_of_nat)
  then have "good_unit (of_nat c) \<longleftrightarrow> 0 < c" using Cons.prems
    by (auto simp: good_unit_def ucs2_def unat_eq_zero [symmetric] simp del: unat_eq_zero)
  moreover have "list_all good_unit (crlf (map of_nat (c # cs))) \<longleftrightarrow> good_unit (of_nat c) \<and> list_all good_unit (crlf (map of_nat cs))"
    by (auto simp: crlf_def good_unit_def ucs2_def is_rchar_def)
  ultimately show ?case using Cons by simp
qed (simp add: crlf_def)

text \<open>The last flush.\<close>

lemma flush_rest:
  assumes "console_contract os this shown" and b: "buffered shown s0 us chunks st"
  shows "\<exists>r st' chunks'. flush_buffer os this st = Some (r, st') \<and> shown (snd (snd st')) = shown s0 @ chunks' \<and> list_all chunk_ok chunks' \<and>
    (r = Ok () \<longleftrightarrow> list_all good_unit us) \<and>
    (if r = Ok () then concat (map butlast chunks') = us else prefix (concat (map butlast chunks')) us)"
proof -
  obtain buf i s where st: "st = (buf, i, s)" by (cases st)
  have B: "length buf = BUF_SIZE + 1" "i \<le> BUF_SIZE" "shown s = shown s0 @ chunks" "list_all chunk_ok chunks"
    "concat (map butlast chunks) @ take i buf = us" using b by (simp_all add: buffered_def st)
  have us: "list_all good_unit us \<longleftrightarrow> list_all good_unit (take i buf)" using chunks_good [OF B(4)] B(5) by auto
  note F = flush_buffer_cases [OF assms(1) B(1,2), of s]
  show ?thesis
  proof (cases "list_all good_unit (take i buf)")
    case True
    then obtain s' where "flush_buffer os this st = Some (Ok (), (buf[i := 0], 0, s'))" "shown s' = shown s @ [take i buf @ [0]]"
      "chunk_ok (take i buf @ [0])" using F by (auto simp: st)
    then show ?thesis using B us True by (intro exI [of _ "Ok ()"] exI [of _ "(buf[i := 0], 0, s')"] exI [of _ "chunks @ [take i buf @ [0]]"]) auto
  next
    case False
    then have "flush_buffer os this st = Some (Err FmtError, (buf[i := 0], 0, s))" using F by (simp add: st)
    then show ?thesis using B us False by (intro exI [of _ "Err FmtError"] exI [of _ "(buf[i := 0], 0, s)"] exI [of _ chunks]) auto
  qed
qed

lemma write_str_chunks:
  assumes "ucs2_contract enc" and "console_contract os this shown" and "\<forall>c \<in> set str. is_rchar c"
  shows "\<exists>r s' chunks. output_write_str enc os this str s = Some (r, s') \<and> shown s' = shown s @ chunks \<and>
    (\<forall>t \<in> set chunks. cstr16_inv t \<and> length t \<le> 129) \<and>
    (r = Ok () \<longleftrightarrow> (\<forall>c \<in> set str. 0 < c \<and> c < 0x10000)) \<and>
    (if r = Ok () then concat (map butlast chunks) = crlf (map of_nat str)
     else prefix (concat (map butlast chunks)) (crlf (map of_nat (takeWhile (\<lambda>c. c < 0x10000) str))))"
proof -
  let ?vs = "map of_nat (takeWhile (\<lambda>c. c < 0x10000) str) :: u16 list"
  have enc: "enc str = (?vs, \<not> (\<forall>c \<in> set str. c < 0x10000))" using assms(1) by (simp add: ucs2_contract_def)
  have good: "list_all good_unit (crlf ?vs) \<longleftrightarrow> (\<forall>c \<in> set (takeWhile (\<lambda>c. c < 0x10000) str). 0 < c)"
    using assms(3) by (intro good_crlf) (auto dest: set_takeWhileD)
  have ok: "list_all chunk_ok chunks \<Longrightarrow> \<forall>t \<in> set chunks. cstr16_inv t \<and> length t \<le> 129" for chunks
    by (simp add: list_all_iff chunk_ok_def BUF_SIZE_def)
  have "buffered shown s [] [] (replicate (BUF_SIZE + 1) 0, 0, s)" by (simp add: buffered_def BUF_SIZE_def)
  from encode_units_adds [OF assms(2) this, of ?vs, unfolded adds_def append_Nil] obtain r1 st1 where
    E: "encode_units (add_ch os this) ?vs (replicate (BUF_SIZE + 1) 0, 0, s) = Some (r1, st1)"
    "case r1 of
       Ok _ \<Rightarrow> \<exists>chunks. buffered shown s (crlf ?vs) chunks st1
     | Err _ \<Rightarrow> \<not> list_all good_unit (crlf ?vs) \<and>
         (\<exists>chunks. shown (snd (snd st1)) = shown s @ chunks \<and> list_all chunk_ok chunks \<and> prefix (concat (map butlast chunks)) (crlf ?vs))"
    by blast
  show ?thesis
  proof (cases r1)
    case (Err e)
    then obtain chunks where "\<not> list_all good_unit (crlf ?vs)" "shown (snd (snd st1)) = shown s @ chunks" "list_all chunk_ok chunks"
      "prefix (concat (map butlast chunks)) (crlf ?vs)" using E(2) by auto
    moreover have "output_write_str enc os this str s = Some (Err FmtError, snd (snd st1))"
      using E(1) Err by (simp add: output_write_str_def encode_with_def enc)
    ultimately show ?thesis using ok good by (auto dest!: set_takeWhileD)
  next
    case (Ok x)
    then obtain chunks where b: "buffered shown s (crlf ?vs) chunks st1" using E(2) by auto
    show ?thesis
    proof (cases "\<forall>c \<in> set str. c < 0x10000")
      case False
      have "shown (snd (snd st1)) = shown s @ chunks" "list_all chunk_ok chunks" "prefix (concat (map butlast chunks)) (crlf ?vs)"
        using b by (auto simp: buffered_def intro: prefixI [OF sym] split: prod.splits)
      moreover have "output_write_str enc os this str s = Some (Err FmtError, snd (snd st1))"
        using E(1) Ok False by (simp add: output_write_str_def encode_with_def enc)
      ultimately show ?thesis using ok False by auto
    next
      case True
      then have tw: "takeWhile (\<lambda>c. c < 0x10000) str = str" by (simp add: takeWhile_eq_all_conv)
      have "output_write_str enc os this str s = do { (r, st) \<leftarrow> flush_buffer os this st1; Some (r, snd (snd st)) }"
        using E(1) Ok True by (simp add: output_write_str_def encode_with_def enc)
      then show ?thesis using flush_rest [OF assms(2) b] ok good True by (fastforce simp: tw)
    qed
  qed
qed

section \<open>Property\<close>

text \<open>C15: Writing a Rust string to the console never panics: the buffer is never written out of bounds. Whatever is shown comes
  in null-terminated strings of at most 128 units. The call succeeds exactly if every character is in the basic plane
  and none is null; what was shown is then the whole string, with each line feed preceded by a carriage return, and otherwise
  a prefix of it.\<close>

theorem write_str_shows:
  assumes "ucs2_contract enc" and "console_contract os this shown" and "\<forall>c \<in> set str. is_rchar c"
  shows "\<exists>r s' chunks. output_write_str enc os this str s = Some (r, s') \<and> shown s' = shown s @ chunks \<and>
    (\<forall>t \<in> set chunks. cstr16_inv t \<and> length t \<le> 129) \<and>
    (r = Ok () \<longleftrightarrow> (\<forall>c \<in> set str. 0 < c \<and> c < 0x10000)) \<and>
    (if r = Ok () then concat (map butlast chunks) = crlf (map of_nat str)
     else prefix (concat (map butlast chunks)) (crlf (map of_nat (takeWhile (\<lambda>c. c < 0x10000) str))))"
  by (rule write_str_chunks [OF assms])

text \<open>A console that keeps what it shows.\<close>

definition list_console :: "char16 list list output_services" where
  "list_console = \<lparr>os_reset = \<lambda>s _ _. (SUCCESS, []), os_output_string = \<lambda>s _ t. (SUCCESS, s @ [t]), os_test_string = \<lambda>s _ _. (SUCCESS, s),
     os_query_mode = \<lambda>s _ _. ((SUCCESS, 80, 25), s), os_set_mode = \<lambda>s _ _. (SUCCESS, s), os_set_attribute = \<lambda>s _ _. (SUCCESS, s),
     os_clear_screen = \<lambda>s _. (SUCCESS, s), os_set_cursor_position = \<lambda>s _ _ _. (SUCCESS, s), os_enable_cursor = \<lambda>s _ _. (SUCCESS, s),
     os_data = \<lambda>_ _. \<lparr>od_max_mode = 1, od_mode = 0, od_attribute = 0, od_cursor_column = 0, od_cursor_row = 0, od_cursor_visible = False\<rparr>\<rparr>"

definition plane_encoder :: ucs2_encoder where
  "plane_encoder str = (map of_nat (takeWhile (\<lambda>c. c < 0x10000) str), \<not> (\<forall>c \<in> set str. c < 0x10000))"

theorem write_str_shows_witness:
  "\<exists>s'. output_write_str plane_encoder list_console 1 [0x48, 0x0A] [] = Some (Ok (), s') \<and>
    concat (map butlast s') = [0x48, 0x0D, 0x0A]"
proof -
  have "ucs2_contract plane_encoder" "console_contract list_console 1 (\<lambda>s. s)"
    by (auto simp: ucs2_contract_def plane_encoder_def console_contract_def list_console_def)
  from write_str_shows [OF this, of "[0x48, 0x0A]" "[]"] show ?thesis by (auto simp: is_rchar_def crlf_def)
qed

end
