(* ===== verification/Logger.thy ===== *)
theory Logger
  imports Console_Props Boot_Services Text_Parse
begin

text \<open>
  The helpers that print: \<open>helpers/logger.rs\<close>, \<open>helpers/println.rs\<close>, \<open>helpers/mod.rs\<close>, and the access to the system table in
  \<open>system.rs\<close>. The text of a message is the list of pieces that the formatting machinery passes to \<open>write_str\<close>; a \<open>write!\<close> of
  the logger itself is one call with the formatted text. The variant of the logger for the debug port of a virtual
  machine is left out.
\<close>

section \<open>The system table\<close>

record 'fw system_fields =
  sf_firmware_vendor :: "'fw \<Rightarrow> char16 list"
  sf_firmware_revision :: "'fw \<Rightarrow> u32"
  sf_uefi_revision :: "'fw \<Rightarrow> u32"
  sf_stdin :: "'fw \<Rightarrow> nat"
  sf_stdout :: "'fw \<Rightarrow> nat"
  sf_stderr :: "'fw \<Rightarrow> nat"
  sf_configuration_table :: "'fw \<Rightarrow> nat"
  sf_number_of_configuration_table_entries :: "'fw \<Rightarrow> usize"
  sf_config_entry_at :: "'fw \<Rightarrow> nat \<Rightarrow> nat \<times> nat"

definition firmware_vendor :: "'fw system_fields \<Rightarrow> 'fw world \<Rightarrow> char16 list option" where
  "firmware_vendor sf w = do { st \<leftarrow> system_table w; cstr16_from_ptr (sf_firmware_vendor sf (fw_state w)) }"

definition firmware_revision :: "'fw system_fields \<Rightarrow> 'fw world \<Rightarrow> u32 option" where
  "firmware_revision sf w = do { st \<leftarrow> system_table w; Some (sf_firmware_revision sf (fw_state w)) }"

definition uefi_revision :: "'fw system_fields \<Rightarrow> 'fw world \<Rightarrow> u32 option" where
  "uefi_revision sf w = do { st \<leftarrow> system_table w; Some (sf_uefi_revision sf (fw_state w)) }"

definition with_config_table :: "'fw system_fields \<Rightarrow> ((nat \<times> nat) list \<Rightarrow> 'fw world \<Rightarrow> 'r option) \<Rightarrow> 'fw world \<Rightarrow> 'r option" where
  "with_config_table sf f w = do {
     st \<leftarrow> system_table w;
     let ptr = sf_configuration_table sf (fw_state w);
     let len = sf_number_of_configuration_table_entries sf (fw_state w);
     f (if ptr = 0 then [] else map (sf_config_entry_at sf (fw_state w)) [0..<len]) w
   }"

definition with_stdin :: "'fw system_fields \<Rightarrow> (nat \<Rightarrow> 'fw world \<Rightarrow> 'r option) \<Rightarrow> 'fw world \<Rightarrow> 'r option" where
  "with_stdin sf f w = do {
     st \<leftarrow> system_table w;
     require (\<not> fw_boot_services_null st (fw_state w));
     require (sf_stdin sf (fw_state w) \<noteq> 0);
     f (sf_stdin sf (fw_state w)) w
   }"

definition with_stdout :: "'fw system_fields \<Rightarrow> (nat \<Rightarrow> 'fw world \<Rightarrow> 'r option) \<Rightarrow> 'fw world \<Rightarrow> 'r option" where
  "with_stdout sf f w = do {
     st \<leftarrow> system_table w;
     require (\<not> fw_boot_services_null st (fw_state w));
     require (sf_stdout sf (fw_state w) \<noteq> 0);
     f (sf_stdout sf (fw_state w)) w
   }"

definition with_stderr :: "'fw system_fields \<Rightarrow> (nat \<Rightarrow> 'fw world \<Rightarrow> 'r option) \<Rightarrow> 'fw world \<Rightarrow> 'r option" where
  "with_stderr sf f w = do {
     st \<leftarrow> system_table w;
     require (\<not> fw_boot_services_null st (fw_state w));
     require (sf_stderr sf (fw_state w) \<noteq> 0);
     f (sf_stderr sf (fw_state w)) w
   }"

section \<open>Decorated output\<close>

type_synonym 's writer = "rstr \<Rightarrow> 's \<Rightarrow> ((unit, fmt_error) result \<times> 's) option"

text \<open>Formatted output passes on the pieces and stops at the first error.\<close>

fun write_pieces :: "'s writer \<Rightarrow> rstr list \<Rightarrow> 's \<Rightarrow> ((unit, fmt_error) result \<times> 's) option" where
  "write_pieces wr [] s = Some (Ok (), s)"
| "write_pieces wr (p # ps) s = try_res (wr p s) (\<lambda>_. write_pieces wr ps)"

definition NEWLINE :: rchar where "NEWLINE = 0x0A"
definition CARRIAGE_RETURN :: rchar where "CARRIAGE_RETURN = 0x0D"

text \<open>\<open>str::lines\<close>: a line loses its line feed, and the carriage return in front of it.\<close>

definition strip_line :: "rstr \<Rightarrow> rstr" where
  "strip_line l =
    (if l \<noteq> [] \<and> last l = NEWLINE
     then let k = butlast l in if k \<noteq> [] \<and> last k = CARRIAGE_RETURN then butlast k else k
     else l)"

definition str_lines :: "rstr \<Rightarrow> rstr list" where
  "str_lines s = map strip_line (split_inclusive (\<lambda>c. c = NEWLINE) s)"

definition pad_left :: "rchar \<Rightarrow> nat \<Rightarrow> rstr \<Rightarrow> rstr" where
  "pad_left c n s = replicate (n - length s) c @ s"

record decorated_log =
  dl_log_level :: rstr
  dl_at_line_start :: bool
  dl_file :: rstr
  dl_line :: nat

definition log_header :: "decorated_log \<Rightarrow> rstr" where
  "log_header d = [0x5B] @ pad_left 0x20 5 (dl_log_level d) @ [0x5D, 0x3A, 0x20] @ pad_left 0x20 12 (dl_file d) @ [0x40] @
     pad_left 0x30 3 (show_nat (dl_line d)) @ [0x3A, 0x20]"

definition log_continuation :: "decorated_log \<Rightarrow> rstr" where
  "log_continuation d = dl_log_level d @ [0x3A, 0x20]"

definition decorated_write_str :: "'s writer \<Rightarrow> rstr \<Rightarrow> decorated_log \<times> 's \<Rightarrow> ((unit, fmt_error) result \<times> decorated_log \<times> 's) option" where
  "decorated_write_str wr str = (\<lambda>(d, s).
    (let lines = str_lines str;
         first = (case lines of [] \<Rightarrow> [] | l # _ \<Rightarrow> l);
         on = (\<lambda>d r. map_option (\<lambda>(r, s). (r, d, s)) r)
     in try_res
          (if dl_at_line_start d then try_res (on d (wr (log_header d) s)) (\<lambda>_ (d, s). Some (Ok (), d\<lparr>dl_at_line_start := False\<rparr>, s))
           else Some (Ok (), d, s))
          (\<lambda>_ (d, s). try_res (on d (wr first s))
          (\<lambda>_ (d, s). try_res (on d (write_pieces wr (map (\<lambda>l. NEWLINE # log_continuation d @ l) (drop 1 lines)) s))
          (\<lambda>_ (d, s). if str \<noteq> [] \<and> last str = NEWLINE
             then try_res (on d (wr [NEWLINE] s)) (\<lambda>_ (d, s). Some (Ok (), d\<lparr>dl_at_line_start := True\<rparr>, s))
             else Some (Ok (), d, s))))))"

definition decorated_write :: "'s writer \<Rightarrow> rstr \<Rightarrow> rstr list \<Rightarrow> rstr \<Rightarrow> nat \<Rightarrow> 's \<Rightarrow> ((unit, fmt_error) result \<times> 's) option" where
  "decorated_write wr log_level args file line s = do {
     (r, _, s') \<leftarrow> write_pieces (decorated_write_str wr) (args @ [[NEWLINE]])
       (\<lparr>dl_log_level = log_level, dl_at_line_start = True, dl_file = file, dl_line = line\<rparr>, s);
     Some (r, s')
   }"

section \<open>The logger\<close>

text \<open>The static \<open>LOGGER\<close> is the address of its output, null if it has none; \<open>hw_logger_set\<close> is the one-time registration of the
  \<open>log\<close> crate.\<close>

record 'fw helper_world =
  hw_world :: "'fw world"
  hw_writer :: nat
  hw_logger_set :: bool

record log_record =
  lr_level :: rstr
  lr_args :: "rstr list"
  lr_file :: "rstr option"
  lr_line :: "nat option"

definition logger_set_output :: "nat \<Rightarrow> 'fw helper_world \<Rightarrow> 'fw helper_world" where
  "logger_set_output out hw = hw\<lparr>hw_writer := out\<rparr>"

definition logger_disable :: "'fw helper_world \<Rightarrow> 'fw helper_world" where
  "logger_disable hw = logger_set_output 0 hw"

definition UNKNOWN_FILE :: rstr where
  "UNKNOWN_FILE = [0x3C, 0x75, 0x6E, 0x6B, 0x6E, 0x6F, 0x77, 0x6E, 0x20, 0x66, 0x69, 0x6C, 0x65, 0x3E]"

definition logger_log ::
  "ucs2_encoder \<Rightarrow> 'fw output_services \<Rightarrow> log_record \<Rightarrow> 'fw helper_world \<Rightarrow> 'fw helper_world option" where
  "logger_log enc os lr hw =
    (if hw_writer hw = 0 then Some hw
     else do {
       (_, f) \<leftarrow> decorated_write (output_write_str enc os (hw_writer hw)) (lr_level lr) (lr_args lr)
         (case lr_file lr of Some p \<Rightarrow> p | None \<Rightarrow> UNKNOWN_FILE) (case lr_line lr of Some n \<Rightarrow> n | None \<Rightarrow> 0) (fw_state (hw_world hw));
       Some (hw\<lparr>hw_world := (hw_world hw)\<lparr>fw_state := f\<rparr>\<rparr>)
     })"

definition logger_init :: "'fw system_fields \<Rightarrow> 'fw helper_world \<Rightarrow> 'fw helper_world option" where
  "logger_init sf hw = do {
     hw1 \<leftarrow> with_stdout sf (\<lambda>stdout _. Some (logger_set_output stdout hw)) (hw_world hw);
     require (\<not> hw_logger_set hw1);
     Some (hw1\<lparr>hw_logger_set := True\<rparr>)
   }"

definition helpers_init :: "'fw system_fields \<Rightarrow> 'fw helper_world \<Rightarrow> (unit uefi_result \<times> 'fw helper_world) option" where
  "helpers_init sf hw = do { hw1 \<leftarrow> logger_init sf hw; Some (Ok (), hw1) }"

definition helpers_exit :: "'fw helper_world \<Rightarrow> 'fw helper_world" where
  "helpers_exit hw = logger_disable hw"

text \<open>The record that \<open>log::debug!\<close> passes to a registered logger when the boot services are gone is \<open>late\<close>.\<close>

definition helpers_print ::
  "ucs2_encoder \<Rightarrow> 'fw output_services \<Rightarrow> 'fw system_fields \<Rightarrow> log_record \<Rightarrow> rstr list \<Rightarrow> 'fw helper_world \<Rightarrow> 'fw helper_world option" where
  "helpers_print enc os sf late args hw =
    (if are_boot_services_active (hw_world hw)
     then with_stdout sf (\<lambda>stdout w. do {
       (r, f) \<leftarrow> write_pieces (output_write_str enc os stdout) args (fw_state w);
       require (r = Ok ());
       Some (hw\<lparr>hw_world := w\<lparr>fw_state := f\<rparr>\<rparr>)
     }) (hw_world hw)
     else if hw_logger_set hw then logger_log enc os late hw else Some hw)"

definition helpers_println ::
  "ucs2_encoder \<Rightarrow> 'fw output_services \<Rightarrow> 'fw system_fields \<Rightarrow> log_record \<Rightarrow> rstr list \<Rightarrow> 'fw helper_world \<Rightarrow> 'fw helper_world option" where
  "helpers_println enc os sf late args hw = helpers_print enc os sf late (args @ [[NEWLINE]]) hw"

section \<open>Leaving the boot services\<close>

text \<open>\<open>exit_boot_services\<close> with its first step: the helpers are told first, so that the errors it logs are not printed.\<close>

definition leave_boot_services :: "u32 option \<Rightarrow> 'fw helper_world \<Rightarrow> (exit_outcome \<times> 'fw helper_world) option" where
  "leave_boot_services custom_memory_type hw = do {
     let hw1 = helpers_exit hw;
     (out, w) \<leftarrow> exit_boot_services custom_memory_type (hw_world hw1);
     Some (out, hw1\<lparr>hw_world := w\<rparr>)
   }"

text \<open>\<open>boot::exit\<close> passes its arguments to the firmware and does not come back.\<close>

record exit_request =
  eq_image_handle :: nat
  eq_status :: status
  eq_data_size :: usize
  eq_data :: nat

definition boot_exit :: "nat \<Rightarrow> status \<Rightarrow> usize \<Rightarrow> nat \<Rightarrow> 'fw world \<Rightarrow> exit_request option" where
  "boot_exit handle exit_status exit_data_size exit_data w = do {
     st \<leftarrow> boot_services_raw_panicking w;
     Some \<lparr>eq_image_handle = handle, eq_status = exit_status, eq_data_size = exit_data_size, eq_data = exit_data\<rparr>
   }"

end
