(* ===== verification/Logger_Props.thy ===== *)
theory Logger_Props
  imports Logger
begin

text \<open>
  What the logger prints: every line of the message, once and in order, behind a header or a continuation mark.
\<close>

section \<open>Pieces that end with a line feed\<close>

abbreviation pieces :: "rstr \<Rightarrow> rstr list" where
  "pieces \<equiv> split_inclusive (\<lambda>c. c = NEWLINE)"

definition closed :: "rstr \<Rightarrow> bool" where
  "closed p \<longleftrightarrow> p = [] \<or> last p = NEWLINE"

lemma pieces_Nil_iff [simp]: "pieces p = [] \<longleftrightarrow> p = []"
  by (cases p) (auto split: list.splits)

lemma concat_pieces [simp]: "concat (pieces p) = p"
  by (induction p) (auto split: list.splits)

lemma pieces_append_closed: "closed p \<Longrightarrow> pieces (p @ q) = pieces p @ pieces q"
proof (induction p)
  case (Cons c p)
  show ?case
  proof (cases "p = []")
    case True
    then show ?thesis using Cons.prems by (simp add: closed_def)
  next
    case False
    then have "closed p" using Cons.prems by (simp add: closed_def)
    then show ?thesis using Cons.IH False by (auto split: list.splits)
  qed
qed simp

text \<open>An open last line is continued by the first piece of what follows.\<close>

lemma pieces_append_open:
  assumes "\<not> closed p"
  shows "pieces (p @ q) = butlast (pieces p) @ (case pieces q of [] \<Rightarrow> [last (pieces p)] | r # rs \<Rightarrow> (last (pieces p) @ r) # rs)"
  using assms
proof (induction p)
  case (Cons c p)
  show ?case
  proof (cases "p = []")
    case True
    then show ?thesis using Cons.prems by (auto simp: closed_def split: list.splits)
  next
    case False
    then have "\<not> closed p" using Cons.prems by (simp add: closed_def)
    then show ?thesis using Cons.IH False by (auto split: list.splits)
  qed
qed (simp add: closed_def)

section \<open>The text of one call\<close>

text \<open>The pieces of a string with the mark \<open>k\<close> between them.\<close>

definition joined :: "rstr \<Rightarrow> rstr list \<Rightarrow> rstr" where
  "joined k ms = (case ms of [] \<Rightarrow> [] | m # ms' \<Rightarrow> m @ concat (map (\<lambda>q. k @ q) ms'))"

definition line_text :: "rstr \<Rightarrow> rstr \<Rightarrow> rstr" where
  "line_text k str =
    (case str_lines str of [] \<Rightarrow> [] | l # _ \<Rightarrow> l) @ concat (map (\<lambda>l. NEWLINE # k @ l) (drop 1 (str_lines str))) @
    (if str \<noteq> [] \<and> last str = NEWLINE then [NEWLINE] else [])"

lemma strip_line_piece:
  assumes "CARRIAGE_RETURN \<notin> set a" "NEWLINE \<notin> set a"
  shows "strip_line (a @ [NEWLINE]) = a" "strip_line a = a"
  using assms last_in_set by (fastforce simp: strip_line_def)+

lemma pieces_single: "NEWLINE \<notin> set p \<Longrightarrow> p \<noteq> [] \<Longrightarrow> pieces p = [p]"
proof (induction p)
  case (Cons c p)
  then show ?case by (cases "p = []") auto
qed simp

lemma line_text_joined: "CARRIAGE_RETURN \<notin> set str \<Longrightarrow> line_text k str = joined k (pieces str)"
proof (induction str rule: length_induct)
  case (1 str)
  show ?case
  proof (cases "NEWLINE \<in> set str")
    case False
    then have "str \<noteq> [] \<Longrightarrow> pieces str = [str]" by (rule pieces_single)
    moreover have "\<not> (str \<noteq> [] \<and> last str = NEWLINE)" using False last_in_set by metis
    ultimately show ?thesis using False 1(2) strip_line_piece(2) [of str]
      by (cases "str = []") (auto simp: line_text_def joined_def str_lines_def)
  next
    case True
    then obtain a b where str: "str = a @ NEWLINE # b" "NEWLINE \<notin> set a" by (metis split_list_first)
    then have p: "pieces str = (a @ [NEWLINE]) # pieces b" using split_inclusive_piece [of "\<lambda>c. c = NEWLINE" a NEWLINE b] by (auto simp: list_all_iff)
    have ls: "str_lines str = a # str_lines b" using strip_line_piece(1) [of a] str 1(2) p by (simp add: str_lines_def)
    show ?thesis
    proof (cases "b = []")
      case True
      then show ?thesis using ls p by (simp add: line_text_def joined_def str str_lines_def)
    next
      case False
      then obtain q qs where q: "pieces b = q # qs" by (cases "pieces b") auto
      have "line_text k b = joined k (pieces b)" using 1 str by simp
      then show ?thesis using ls p q False by (simp add: line_text_def joined_def str str_lines_def)
    qed
  qed
qed

section \<open>Writers\<close>

text \<open>Characters that reach the console unchanged.\<close>

definition plain :: "rstr \<Rightarrow> bool" where
  "plain p \<longleftrightarrow> (\<forall>c \<in> set p. is_rchar c \<and> 0 < c \<and> c < 0x10000)"

definition writer_ok :: "'s writer \<Rightarrow> ('s \<Rightarrow> u16 list) \<Rightarrow> bool" where
  "writer_ok wr text \<longleftrightarrow> (\<forall>p s. plain p \<longrightarrow> (\<exists>s'. wr p s = Some (Ok (), s') \<and> text s' = text s @ crlf (map of_nat p)))"

lemma plain_append [simp]: "plain (p @ q) \<longleftrightarrow> plain p \<and> plain q"
  by (auto simp: plain_def)

lemma plain_Nil [simp]: "plain []"
  by (simp add: plain_def)

lemma plain_Cons [simp]: "plain (c # p) \<longleftrightarrow> is_rchar c \<and> 0 < c \<and> c < 0x10000 \<and> plain p"
  by (auto simp: plain_def)

lemma crlf_append [simp]: "crlf (a @ b) = crlf a @ crlf b"
  by (simp add: crlf_def)

lemma crlf_Nil [simp]: "crlf [] = []"
  by (simp add: crlf_def)

lemma writer_okD:
  assumes "writer_ok wr text" "plain p"
  obtains s' where "wr p s = Some (Ok (), s')" "text s' = text s @ crlf (map of_nat p)"
  using assms unfolding writer_ok_def by blast

lemma writer_ok_if:
  assumes "writer_ok wr text" "plain p"
  shows "\<exists>s'. (if b then wr p s = Some (Ok (), s') else s' = s) \<and> text s' = text s @ crlf (map of_nat (if b then p else []))"
  using assms unfolding writer_ok_def by (cases b) auto

lemma write_pieces_text:
  assumes "writer_ok wr text"
  shows "list_all plain ps \<Longrightarrow> \<exists>s'. write_pieces wr ps s = Some (Ok (), s') \<and> text s' = text s @ crlf (map of_nat (concat ps))"
proof (induction ps arbitrary: s)
  case (Cons p ps)
  then have "plain p" by simp
  from writer_okD [OF assms this] obtain s1 where s1: "wr p s = Some (Ok (), s1)" "text s1 = text s @ crlf (map of_nat p)" by blast
  moreover obtain s2 where "write_pieces wr ps s1 = Some (Ok (), s2)" "text s2 = text s1 @ crlf (map of_nat (concat ps))"
    using Cons by force
  ultimately show ?case by (simp add: try_res_def)
qed simp

section \<open>The invariant of a message\<close>

text \<open>The text that \<open>decorated_write_str\<close> adds.\<close>

definition decoration :: "decorated_log \<Rightarrow> rstr \<Rightarrow> rstr" where
  "decoration d str = (if dl_at_line_start d then log_header d else []) @ line_text (log_continuation d) str"

lemma plain_lines: "plain str \<Longrightarrow> list_all plain (str_lines str)"
proof -
  assume "plain str"
  then have "plain m" if "m \<in> set (pieces str)" for m
    using that concat_pieces [of str] by (metis UnCI plain_def set_concat UN_iff)
  moreover have "plain m \<Longrightarrow> plain (strip_line m)" for m
    by (auto simp: strip_line_def plain_def Let_def dest: in_set_butlastD)
  ultimately show ?thesis by (simp add: str_lines_def list_all_iff)
qed

lemma decorated_write_str_text:
  assumes wr: "writer_ok wr text" and ok: "plain str" "plain (log_header d)" "plain (dl_log_level d)"
  shows "\<exists>s'. decorated_write_str wr str (d, s) = Some (Ok (), d\<lparr>dl_at_line_start := (str \<noteq> [] \<and> last str = NEWLINE)\<rparr>, s') \<and>
    text s' = text s @ crlf (map of_nat (decoration d str))"
proof -
  let ?ls = "str_lines str" and ?first = "case str_lines str of [] \<Rightarrow> [] | l # _ \<Rightarrow> l" and ?ends = "str \<noteq> [] \<and> last str = NEWLINE"
  have nl: "plain [NEWLINE]" by (simp add: NEWLINE_def is_rchar_def)
  have first: "plain ?first" using plain_lines [OF ok(1)] by (cases ?ls) auto
  have rest: "list_all plain (map (\<lambda>l. NEWLINE # log_continuation d @ l) (drop 1 ?ls))"
    using plain_lines [OF ok(1)] ok(3) nl by (auto simp: list_all_iff log_continuation_def is_rchar_def dest: in_set_dropD)
  obtain s1 where s1: "if dl_at_line_start d then wr (log_header d) s = Some (Ok (), s1) else s1 = s"
    "text s1 = text s @ crlf (map of_nat (if dl_at_line_start d then log_header d else []))"
    using writer_ok_if [OF wr ok(2)] by blast
  obtain s2 where s2: "wr ?first s1 = Some (Ok (), s2)" "text s2 = text s1 @ crlf (map of_nat ?first)" using writer_okD [OF wr first] by blast
  obtain s3 where s3: "write_pieces wr (map (\<lambda>l. NEWLINE # log_continuation d @ l) (drop 1 ?ls)) s2 = Some (Ok (), s3)"
    "text s3 = text s2 @ crlf (map of_nat (concat (map (\<lambda>l. NEWLINE # log_continuation d @ l) (drop 1 ?ls))))"
    using write_pieces_text [OF wr rest] by blast
  obtain s4 where s4: "if ?ends then wr [NEWLINE] s3 = Some (Ok (), s4) else s4 = s3"
    "text s4 = text s3 @ crlf (map of_nat (if ?ends then [NEWLINE] else []))"
    using writer_ok_if [OF wr nl] by blast
  have "text s4 = text s @ crlf (map of_nat (decoration d str))"
    using s1(2) s2(2) s3(2) s4(2) by (simp add: decoration_def line_text_def)
  moreover have "decorated_write_str wr str (d, s) = Some (Ok (), d\<lparr>dl_at_line_start := ?ends\<rparr>, s4)"
    using s1(1) s2(1) s3(1) s4(1)
    by (cases "dl_at_line_start d"; cases ?ends) (auto simp: decorated_write_str_def try_res_def log_continuation_def Let_def)
  ultimately show ?thesis by blast
qed

text \<open>The text printed for a message so far: each piece of the message behind a header or a continuation mark, the first behind a
  header, and possibly a header for a line without text yet.\<close>

definition marked :: "rstr \<Rightarrow> rstr \<Rightarrow> rstr list \<Rightarrow> rstr list \<Rightarrow> bool" where
  "marked hdr cont ts ms \<longleftrightarrow> list_all2 (\<lambda>t m. t = hdr @ m \<or> t = cont @ m) ts ms \<and> (ts \<noteq> [] \<longrightarrow> hd ts = hdr @ hd ms)"

definition printed :: "rstr \<Rightarrow> rstr \<Rightarrow> rstr \<Rightarrow> rstr \<Rightarrow> bool \<Rightarrow> bool" where
  "printed hdr cont p t at \<longleftrightarrow> (at \<longrightarrow> closed p) \<and>
    (\<exists>ts. marked hdr cont ts (pieces p) \<and> t = concat ts @ (if \<not> at \<and> closed p then hdr else []))"

lemma marked_append:
  "marked hdr cont ts ms \<Longrightarrow> marked hdr cont us (n # ns) \<Longrightarrow> marked hdr cont (ts @ us) (ms @ n # ns)"
  by (cases ts; cases ms; cases us) (auto simp: marked_def intro: list_all2_appendI)

lemma marked_Cons: "marked hdr cont ((hdr @ m) # map (\<lambda>q. cont @ q) ms) (m # ms)"
  by (auto simp: marked_def list_all2_map1 list.rel_refl)

lemma marked_extend:
  assumes "marked hdr cont ts ms" "ms \<noteq> []"
  shows "marked hdr cont (butlast ts @ (last ts @ m) # map (\<lambda>q. cont @ q) ns) (butlast ms @ (last ms @ m) # ns)"
proof -
  have ts: "ts \<noteq> []" "length ts = length ms" using assms by (auto simp: marked_def dest: list_all2_lengthD)
  obtain ts' t ms' n where eq: "ts = ts' @ [t]" "ms = ms' @ [n]" using ts(1) assms(2) by (metis append_butlast_last_id)
  have "list_all2 (\<lambda>t m. t = hdr @ m \<or> t = cont @ m) ts' ms'" "t = hdr @ n \<or> t = cont @ n" "length ts' = length ms'"
    using assms(1) ts(2) by (auto simp: marked_def eq list_all2_append)
  moreover have "list_all2 (\<lambda>t m. t = hdr @ m \<or> t = cont @ m) (map (\<lambda>q. cont @ q) ns) ns" by (simp add: list_all2_conv_all_nth)
  moreover have "hd (ts' @ [t]) = hdr @ hd (ms' @ [n])" using assms(1) by (simp add: marked_def eq)
  ultimately show ?thesis by (cases ts'; cases ms') (auto simp: marked_def eq list_all2_append)
qed

lemma closed_append: "closed (p @ q) \<longleftrightarrow> (if q = [] then closed p else last q = NEWLINE)"
  by (simp add: closed_def)

lemma printed_step:
  assumes "printed hdr cont p t at"
  shows "printed hdr cont (p @ q) (t @ (if at then hdr else []) @ joined cont (pieces q)) (q \<noteq> [] \<and> last q = NEWLINE)"
proof -
  obtain ts where ts: "marked hdr cont ts (pieces p)" "t = concat ts @ (if \<not> at \<and> closed p then hdr else [])" and at: "at \<longrightarrow> closed p"
    using assms by (auto simp: printed_def)
  show ?thesis
  proof (cases "pieces q")
    case Nil
    then show ?thesis using ts at by (auto simp: printed_def joined_def intro!: exI [of _ ts])
  next
    case (Cons m ms)
    then have q: "q \<noteq> []" by auto
    show ?thesis
    proof (cases "closed p")
      case True
      then have "pieces (p @ q) = pieces p @ m # ms" using Cons by (simp add: pieces_append_closed)
      moreover have "marked hdr cont (ts @ (hdr @ m) # map (\<lambda>q. cont @ q) ms) (pieces p @ m # ms)"
        using marked_append [OF ts(1) marked_Cons] .
      ultimately show ?thesis using ts at True q Cons
        by (auto simp: printed_def joined_def closed_append intro!: exI [of _ "ts @ (hdr @ m) # map (\<lambda>q. cont @ q) ms"])
    next
      case False
      then have p: "pieces p \<noteq> []" by (auto simp: closed_def)
      then have "ts \<noteq> []" using ts(1) by (auto simp: marked_def)
      then have "concat ts = concat (butlast ts) @ last ts" by (metis append_butlast_last_id concat.simps concat_append append_Nil2)
      moreover have "pieces (p @ q) = butlast (pieces p) @ (last (pieces p) @ m) # ms" using pieces_append_open [OF False, of q] Cons by simp
      ultimately show ?thesis using ts at False q Cons marked_extend [OF ts(1) p, of m ms]
        by (auto simp: printed_def joined_def closed_append intro!: exI [of _ "butlast ts @ (last ts @ m) # map (\<lambda>q. cont @ q) ms"])
    qed
  qed
qed

lemma decoration_marks [simp]:
  "log_header (d\<lparr>dl_at_line_start := b\<rparr>) = log_header d" "log_continuation (d\<lparr>dl_at_line_start := b\<rparr>) = log_continuation d"
  by (simp_all add: log_header_def log_continuation_def)

lemma decorated_pieces:
  assumes wr: "writer_ok wr text"
  shows "list_all (\<lambda>q. plain q \<and> CARRIAGE_RETURN \<notin> set q) qs \<Longrightarrow> plain (log_header d) \<Longrightarrow> plain (dl_log_level d) \<Longrightarrow>
    printed (log_header d) (log_continuation d) p t (dl_at_line_start d) \<Longrightarrow>
    \<exists>d' s' u. write_pieces (decorated_write_str wr) qs (d, s) = Some (Ok (), d', s') \<and> text s' = text s @ crlf (map of_nat u) \<and>
      printed (log_header d) (log_continuation d) (p @ concat qs) (t @ u) (dl_at_line_start d') \<and>
      (qs \<noteq> [] \<longrightarrow> dl_at_line_start d' = (last qs \<noteq> [] \<and> last (last qs) = NEWLINE))"
proof (induction qs arbitrary: d s p t)
  case Nil
  then show ?case by (auto intro!: exI [of _ "[]"])
next
  case (Cons q qs)
  let ?d = "d\<lparr>dl_at_line_start := (q \<noteq> [] \<and> last q = NEWLINE)\<rparr>" and ?v = "decoration d q"
  have q: "plain q" "CARRIAGE_RETURN \<notin> set q" using Cons.prems(1) by simp_all
  obtain s1 where s1: "decorated_write_str wr q (d, s) = Some (Ok (), ?d, s1)" "text s1 = text s @ crlf (map of_nat ?v)"
    using decorated_write_str_text [OF wr q(1) Cons.prems(2,3)] by blast
  have "printed (log_header d) (log_continuation d) (p @ q) (t @ ?v) (dl_at_line_start ?d)"
    using printed_step [OF Cons.prems(4), of q] by (simp add: decoration_def line_text_joined [OF q(2)])
  then obtain d' s' u where "write_pieces (decorated_write_str wr) qs (?d, s1) = Some (Ok (), d', s')" "text s' = text s1 @ crlf (map of_nat u)"
    "printed (log_header d) (log_continuation d) ((p @ q) @ concat qs) ((t @ ?v) @ u) (dl_at_line_start d')"
    "qs \<noteq> [] \<longrightarrow> dl_at_line_start d' = (last qs \<noteq> [] \<and> last (last qs) = NEWLINE)"
    using Cons.IH [of ?d "p @ q" "t @ ?v" s1] Cons.prems(1-3) by auto
  then show ?case using s1 by (intro exI [of _ d'] exI [of _ s'] exI [of _ "?v @ u"]) (auto simp: try_res_def)
qed

text \<open>The console as a writer.\<close>

definition console_text :: "('s \<Rightarrow> char16 list list) \<Rightarrow> 's \<Rightarrow> u16 list" where
  "console_text shown s = concat (map butlast (shown s))"

lemma output_writer_ok:
  assumes "ucs2_contract enc" "console_contract os this shown"
  shows "writer_ok (output_write_str enc os this) (console_text shown)"
  unfolding writer_ok_def
proof (intro allI impI)
  fix p :: rstr and s :: 'a
  assume p: "plain p"
  then obtain r s' chunks where "output_write_str enc os this p s = Some (r, s')" "shown s' = shown s @ chunks"
    "r = Ok () \<longleftrightarrow> (\<forall>c \<in> set p. 0 < c \<and> c < 0x10000)" "r = Ok () \<Longrightarrow> concat (map butlast chunks) = crlf (map of_nat p)"
    using write_str_chunks [OF assms, of p s] by (auto simp: plain_def)
  then show "\<exists>s'. output_write_str enc os this p s = Some (Ok (), s') \<and> console_text shown s' = console_text shown s @ crlf (map of_nat p)"
    using p by (auto simp: plain_def console_text_def)
qed

section \<open>Property\<close>


definition sample_record :: log_record where
  "sample_record = \<lparr>lr_level = [0x49, 0x4E, 0x46, 0x4F], lr_args = [[0x48], [0x69]], lr_file = Some [0x61], lr_line = Some 7\<rparr>"

definition sample_helpers :: "char16 list list helper_world" where
  "sample_helpers = \<lparr>hw_world = \<lparr>system_table = None, fw_state = [], image_handle_ptr = 5, memory_type_cache = 0, ram = (\<lambda>_. 0)\<rparr>,
     hw_writer = 1, hw_logger_set = True\<rparr>"


section \<open>Leaving the boot services\<close>

lemma helpers_exit_silent: "logger_log enc os lr (helpers_exit hw) = Some (helpers_exit hw)"
  by (simp add: logger_log_def helpers_exit_def logger_disable_def logger_set_output_def)

text \<open>Behind \<open>exit_boot_services\<close> neither logging nor printing reaches the firmware.\<close>

lemma leave_boot_services_silent:
  assumes "leave_boot_services ty hw = Some (out, hw')"
  shows "logger_log enc os lr hw' = Some hw'"
    and "\<not> are_boot_services_active (hw_world hw') \<Longrightarrow> helpers_print enc os sf late args hw' = Some hw'"
proof -
  have "hw_writer hw' = 0"
    using assms by (auto simp: leave_boot_services_def helpers_exit_def logger_disable_def logger_set_output_def bind_eq_Some_conv)
  then show silent: "logger_log enc os lr hw' = Some hw'" for lr by (simp add: logger_log_def)
  show "\<not> are_boot_services_active (hw_world hw') \<Longrightarrow> helpers_print enc os sf late args hw' = Some hw'"
    by (simp add: helpers_print_def silent)
qed

end
