(* ===== verification/Loaded_Image.thy ===== *)
theory Loaded_Image
  imports Strings_Props Device_Path_Props
begin

text \<open>
  The \<open>LoadedImage\<close> protocol of \<open>proto/loaded_image.rs\<close>. Memory is a function from addresses to bytes; a pointer is an address, null if it
  is zero, and the memory from an address on is what a device path is read from.
\<close>

record loaded_image =
  li_parent_handle :: nat
  li_device_handle :: nat
  li_file_path :: nat
  li_load_options_size :: u32
  li_load_options :: nat
  li_image_base :: nat
  li_image_size :: u64
  li_image_code_type :: u32
  li_image_data_type :: u32
  li_unload :: "nat option"

datatype load_options_error = NotSet | NotAligned | InvalidString from_slice_with_nul_error

definition li_device :: "loaded_image \<Rightarrow> nat option" where
  "li_device li = (if li_device_handle li = 0 then None else Some (li_device_handle li))"

text \<open>\<open>mem\<close> gives the bytes from an address on, as far as they can be read.\<close>

definition file_path_of :: "(nat \<Rightarrow> bytes) \<Rightarrow> loaded_image \<Rightarrow> bytes option option" where
  "file_path_of mem li =
    (if li_file_path li = 0 then Some None
     else do { p \<leftarrow> path_from_ffi_ptr (mem (li_file_path li)); Some (Some p) })"

definition units_at :: "(nat \<Rightarrow> u8) \<Rightarrow> nat \<Rightarrow> nat \<Rightarrow> u16 list" where
  "units_at m p n = map (\<lambda>i. u16_from_le (mem_read m (p + 2 * i) 2)) [0..<n]"

definition load_options_as_cstr16 :: "(nat \<Rightarrow> u8) \<Rightarrow> loaded_image \<Rightarrow> (char16 list, load_options_error) result" where
  "load_options_as_cstr16 m li =
    (let load_options_size = unat (li_load_options_size li) in
     if li_load_options li = 0 then Err NotSet
     else if load_options_size mod 2 \<noteq> 0 \<or> li_load_options li mod 2 \<noteq> 0 then Err NotAligned
     else map_err InvalidString (from_u16_with_nul (units_at m (li_load_options li) (load_options_size div 2))))"

definition load_options_as_bytes :: "(nat \<Rightarrow> u8) \<Rightarrow> loaded_image \<Rightarrow> bytes option" where
  "load_options_as_bytes m li =
    (if li_load_options li = 0 then None
     else Some (mem_read m (li_load_options li) (unat (li_load_options_size li))))"

definition set_image :: "nat \<Rightarrow> u64 \<Rightarrow> loaded_image \<Rightarrow> loaded_image" where
  "set_image dat sz li = li\<lparr>li_image_base := dat, li_image_size := sz\<rparr>"

definition set_unload :: "nat \<Rightarrow> loaded_image \<Rightarrow> loaded_image" where
  "set_unload unload li = li\<lparr>li_unload := Some unload\<rparr>"

definition set_load_options :: "nat \<Rightarrow> u32 \<Rightarrow> loaded_image \<Rightarrow> loaded_image" where
  "set_load_options options sz li = li\<lparr>li_load_options := options, li_load_options_size := sz\<rparr>"

definition image_info :: "loaded_image \<Rightarrow> nat \<times> u64" where
  "image_info li = (li_image_base li, li_image_size li)"

definition image_code_type :: "loaded_image \<Rightarrow> u32" where
  "image_code_type li = li_image_code_type li"

definition image_data_type :: "loaded_image \<Rightarrow> u32" where
  "image_data_type li = li_image_data_type li"

section \<open>Properties\<close>

text \<open>The bytes of a string of 16-bit units.\<close>

definition units_bytes :: "u16 list \<Rightarrow> bytes" where
  "units_bytes us = concat (map u16_to_le us)"

lemma units_at_holds: "holds m p (units_bytes us) \<Longrightarrow> units_at m p (length us) = us"
proof (induction us arbitrary: p)
  case (Cons u us)
  have h: "holds m p (u16_to_le u)" "holds m (p + 2) (units_bytes us)"
    using Cons.prems by (simp_all add: units_bytes_def u16c.encode_length)
  have "units_at m p (length (u # us)) = u16_from_le (mem_read m p 2) # units_at m (p + 2) (length us)"
    by (simp add: units_at_def upt_conv_Cons map_Suc_upt [symmetric] del: upt_Suc)
  then show ?case using Cons.IH [OF h(2)] holds_read [OF h(1), of 2] by (simp add: u16c.encode_length u16c.decode_encode)
qed (simp add: units_at_def)

lemma length_units_bytes: "length (units_bytes us) = 2 * length us"
  by (induction us) (simp_all add: units_bytes_def u16c.encode_length)

text \<open>Load options that were set to a null-terminated string are read back, as a string and as bytes.\<close>

lemma load_options_roundtrip:
  fixes li :: loaded_image
  assumes "cstr16_inv s" "holds m p (units_bytes s)" "p \<noteq> 0" "p mod 2 = 0" "2 * length s < 2 ^ 32"
  defines "li' \<equiv> set_load_options p (of_nat (2 * length s)) li"
  shows "load_options_as_cstr16 m li' = Ok s" "load_options_as_bytes m li' = Some (units_bytes s)"
proof -
  have n: "unat (of_nat (2 * length s) :: u32) = 2 * length s" using assms(5) by (subst unat_of_nat) simp
  then show "load_options_as_bytes m li' = Some (units_bytes s)"
    using assms(3) holds_read [OF assms(2) length_units_bytes] by (simp add: li'_def load_options_as_bytes_def set_load_options_def)
  have "from_u16_with_nul s = Ok s" using assms(1) u16_nul.construct_ok by (simp add: cstr16_inv_def)
  then show "load_options_as_cstr16 m li' = Ok s"
    using assms(3,4) n units_at_holds [OF assms(2)] by (simp add: li'_def load_options_as_cstr16_def set_load_options_def)
qed

text \<open>Options without a terminator, or not aligned, are refused and never read as a string.\<close>

lemma load_options_rejected:
  assumes "li_load_options li \<noteq> 0" "unat (li_load_options_size li) mod 2 \<noteq> 0 \<or> li_load_options li mod 2 \<noteq> 0 \<or>
    \<not> cstr16_inv (units_at m (li_load_options li) (unat (li_load_options_size li) div 2))"
  shows "\<exists>e. load_options_as_cstr16 m li = Err e"
  using assms u16_nul.construct_fails [of "units_at m (li_load_options li) (unat (li_load_options_size li) div 2)"]
  by (auto simp: load_options_as_cstr16_def cstr16_inv_def Let_def)

end
