(* ===== verification/Spec2Isabelle.thy ===== *)
theory Spec2Isabelle
  imports Memory_Map_Sort Fs_Path Allocator Boot_Exit Device_Path_Props Mem_Util Tcg_Props Uefi_Time Boot_Images Variable_Keys Fs_Volume Gop
    Device_Nodes_Props Tcg_Protocol Http_Props Pxe_Props Device_Path_Text Logger_Props Loaded_Image
begin

text \<open>
  A verification library for the \<open>uefi-rs\<close> crates (\<open>uefi-raw\<close>, \<open>uefi\<close>).

  \<^bold>\<open>Plan.\<close> One theory per component, in the order of the code's own dependencies:
  \<^item> \<open>Prelude\<close>: machine integers, panics, slices, little-endian fields.
  \<^item> \<open>Status_Result\<close>: status codes, errors, results.
  \<^item> \<open>Memory_Map\<close>: memory map views, iteration, quicksort.
  \<^item> \<open>Strings\<close>: Char8/Char16, CStr8/CStr16/CString16, Latin-1 conversion.
  \<^item> \<open>Mem_Util\<close>: alignment, aligned buffers, \<open>make_boxed\<close>.
  \<^item> \<open>Fs_Path\<close>, \<open>File_Proto\<close>, \<open>File_System\<close>: paths and files.
  \<^item> \<open>Device_Path\<close>: parsing, iteration, building.
  \<^item> \<open>Boot_Alloc\<close>, \<open>Runtime\<close>: boot services, allocator, variables, time.
  \<^item> \<open>Tcg_Log\<close>, \<open>Gop\<close>: event logs, graphics output.
\<close>

text \<open>every 64-bit status value is exactly one of success, warning and error, whether or not it
  is one of the named constants.\<close>

theorem status_trichotomy:
  "[is_success s, is_warning s, is_error s] \<in>
    {[True, False, False], [False, True, False], [False, False, True]}"
  by (auto simp: warning_iff)

end
